(* ===== verification/Prelude.thy ===== *)
theory Prelude
  imports Complex_Main "HOL-Library.Word" "HOL-Library.Product_Lexorder" "HOL-Library.Sublist"
begin

text \<open>
  Shared vocabulary of the development: the Rust types that every component uses and the
  parts of the Rust standard library the sources call on them.
  A \<open>str\<close> or \<open>String\<close> is its UTF-8 byte sequence, an Isabelle \<open>string\<close> (one \<open>char\<close> per
  byte), so \<open>len()\<close> is \<open>length\<close> and byte indices are list indices; \<open>chars()\<close> decodes.
  A \<open>Uuid\<close> is a 128-bit word, a \<open>Duration\<close> a number of nanoseconds, a timestamp a number of
  microseconds (the resolution of the Postgres type \<open>timestamptz\<close>).
\<close>

named_theorems record_frames
  \<open>which fields of a record an update leaves alone\<close>

named_theorems effect_simps
  \<open>evaluation rules of the effect combinators\<close>

section \<open>Basic types\<close>

type_synonym uuid = "128 word"
type_synonym time = int
type_synonym duration = nat

definition micros_per_sec :: int where
  "micros_per_sec = 1000000"

definition nanos_per_sec :: nat where
  "nanos_per_sec = 1000000000"

definition nanos_per_milli :: nat where
  "nanos_per_milli = 1000000"

text \<open>\<open>Duration\<close> holds a 64-bit number of seconds and less than a second of nanoseconds.\<close>

definition duration_max :: duration where
  "duration_max = (2 ^ 64 - 1) * nanos_per_sec + (nanos_per_sec - 1)"

definition from_secs :: "nat \<Rightarrow> duration" where
  "from_secs s = s * nanos_per_sec"

definition from_millis :: "nat \<Rightarrow> duration" where
  "from_millis ms = ms * nanos_per_milli"

definition as_secs :: "duration \<Rightarrow> nat" where
  "as_secs d = d div nanos_per_sec"

definition as_millis :: "duration \<Rightarrow> nat" where
  "as_millis d = d div nanos_per_milli"

definition as_secs_f64 :: "duration \<Rightarrow> rat" where
  "as_secs_f64 d = of_nat d / 1000000000"

definition duration_saturating_mul :: "duration \<Rightarrow> nat \<Rightarrow> duration" where
  "duration_saturating_mul d k = min (d * k) duration_max"

definition duration_saturating_add :: "duration \<Rightarrow> duration \<Rightarrow> duration" where
  "duration_saturating_add a b = min (a + b) duration_max"

text \<open>On \<open>nat\<close>, subtraction already stops at zero, as \<open>saturating_sub\<close> does.\<close>

definition duration_saturating_sub :: "duration \<Rightarrow> duration \<Rightarrow> duration" where
  "duration_saturating_sub a b = a - b"

text \<open>The ranges of the fixed-width integers the sources and the table columns use.\<close>

definition i16_range :: "int \<Rightarrow> bool" where
  "i16_range i \<longleftrightarrow> - (2 ^ 15) \<le> i \<and> i < 2 ^ 15"

definition i32_range :: "int \<Rightarrow> bool" where
  "i32_range i \<longleftrightarrow> - (2 ^ 31) \<le> i \<and> i < 2 ^ 31"

definition u32_max :: nat where
  "u32_max = 2 ^ 32 - 1"

definition u64_max :: nat where
  "u64_max = 2 ^ 64 - 1"

section \<open>UTF-8\<close>

text \<open>One byte, as a number below 256.\<close>

definition byte :: "char \<Rightarrow> nat" where
  "byte c = of_char c"

definition is_cont :: "nat \<Rightarrow> bool" where
  "is_cont b \<longleftrightarrow> 128 \<le> b \<and> b < 192"

text \<open>
  The well-formed sequence at the front of a byte string: the code point and its length.
  The first byte gives the width (0 for a byte that starts none); overlong forms and
  surrogates are excluded by the range of the second byte, as in every Rust \<open>str\<close>.
\<close>

definition utf8_width :: "nat \<Rightarrow> nat" where
  "utf8_width b =
     (if b < 128 then 1 else if b < 194 then 0 else if b < 224 then 2
      else if b < 240 then 3 else if b < 245 then 4 else 0)"

definition utf8_second_ok :: "nat \<Rightarrow> nat \<Rightarrow> bool" where
  "utf8_second_ok b c \<longleftrightarrow> (b = 224 \<longrightarrow> 160 \<le> c) \<and> (b = 237 \<longrightarrow> c < 160)
     \<and> (b = 240 \<longrightarrow> 144 \<le> c) \<and> (b = 244 \<longrightarrow> c < 144)"

fun utf8_code :: "nat list \<Rightarrow> nat" where
  "utf8_code [b] = b"
| "utf8_code [b, c] = (b - 192) * 64 + (c - 128)"
| "utf8_code [b, c, d] = (b - 224) * 4096 + (c - 128) * 64 + (d - 128)"
| "utf8_code [b, c, d, f] =
     (b - 240) * 262144 + (c - 128) * 4096 + (d - 128) * 64 + (f - 128)"
| "utf8_code _ = 0"

definition utf8_next :: "string \<Rightarrow> (nat \<times> nat) option" where
  "utf8_next s = (case s of [] \<Rightarrow> None | a # _ \<Rightarrow>
     (let k = utf8_width (byte a); bs = map byte (take k s) in
        if 0 < k \<and> k \<le> length s \<and> list_all is_cont (tl bs)
          \<and> (1 < k \<longrightarrow> utf8_second_ok (bs ! 0) (bs ! 1))
        then Some (utf8_code bs, k) else None))"

lemma utf8_next_bounds: "utf8_next s = Some (c, k) \<Longrightarrow> 0 < k \<and> k \<le> length s"
  by (auto simp: utf8_next_def Let_def split: list.splits if_splits)

function utf8_decode :: "string \<Rightarrow> nat list option" where
  "utf8_decode s = (if s = [] then Some [] else
     (case utf8_next s of
        None \<Rightarrow> None
      | Some (c, k) \<Rightarrow> map_option ((#) c) (utf8_decode (drop k s))))"
  by pat_completeness auto
termination
  by (relation "measure length") (auto dest: utf8_next_bounds)

declare utf8_decode.simps [simp del]

definition utf8_valid :: "string \<Rightarrow> bool" where
  "utf8_valid s \<longleftrightarrow> utf8_decode s \<noteq> None"

text \<open>\<open>str::chars\<close>: the code points. A byte string that is no \<open>str\<close> has none here.\<close>

definition chars :: "string \<Rightarrow> nat list" where
  "chars s = (case utf8_decode s of Some cs \<Rightarrow> cs | None \<Rightarrow> [])"

text \<open>\<open>str::is_char_boundary\<close> and \<open>str::floor_char_boundary\<close>.\<close>

definition is_char_boundary :: "string \<Rightarrow> nat \<Rightarrow> bool" where
  "is_char_boundary s i \<longleftrightarrow>
     i = 0 \<or> i = length s \<or> i < length s \<and> \<not> is_cont (byte (s ! i))"

fun floor_boundary_from :: "string \<Rightarrow> nat \<Rightarrow> nat" where
  "floor_boundary_from s 0 = 0"
| "floor_boundary_from s (Suc i) =
     (if is_char_boundary s (Suc i) then Suc i else floor_boundary_from s i)"

definition floor_char_boundary :: "string \<Rightarrow> nat \<Rightarrow> nat" where
  "floor_char_boundary s i = (if length s \<le> i then length s else floor_boundary_from s i)"


lemma is_char_boundary_0 [simp]: "is_char_boundary s 0"
  and is_char_boundary_length [simp]: "is_char_boundary s (length s)"
  by (simp_all add: is_char_boundary_def)

lemma floor_boundary_from_le: "floor_boundary_from s i \<le> i"
  by (induction i) auto

lemma floor_boundary_from_boundary: "is_char_boundary s (floor_boundary_from s i)"
  by (induction i) auto

lemma floor_boundary_from_fix: "is_char_boundary s i \<Longrightarrow> floor_boundary_from s i = i"
  by (cases i) auto

lemma floor_boundary_from_greatest:
  "is_char_boundary s j \<Longrightarrow> j \<le> i \<Longrightarrow> j \<le> floor_boundary_from s i"
  by (induction i) (auto simp: le_Suc_eq)

lemma floor_char_boundary_le: "floor_char_boundary s i \<le> i"
  by (simp add: floor_char_boundary_def floor_boundary_from_le)

lemma floor_char_boundary_le_length: "floor_char_boundary s i \<le> length s"
  using floor_boundary_from_le [of s i] by (auto simp: floor_char_boundary_def)

lemma floor_char_boundary_boundary: "is_char_boundary s (floor_char_boundary s i)"
  by (simp add: floor_char_boundary_def floor_boundary_from_boundary)

lemma floor_char_boundary_greatest:
  "is_char_boundary s j \<Longrightarrow> j \<le> i \<Longrightarrow> j \<le> length s \<Longrightarrow> j \<le> floor_char_boundary s i"
  by (auto simp: floor_char_boundary_def intro: floor_boundary_from_greatest)

text \<open>Decoding looks only at the bytes it consumes, so a cut behind them does not matter.\<close>

lemma utf8_next_take:
  assumes "utf8_next s = Some (c, k)" and "k \<le> i"
  shows "utf8_next (take i s) = Some (c, k)"
proof (cases s)
  case Nil
  with assms show ?thesis by (simp add: utf8_next_def)
next
  case (Cons a t)
  with assms(1) have k: "k = utf8_width (byte a)" and "0 < k" and "k \<le> length s"
    by (auto simp: utf8_next_def Let_def split: if_splits)
  moreover have "take k (take i s) = take k s" using assms(2) by (simp add: min_def)
  moreover obtain u where u: "take i s = a # u" using Cons \<open>0 < k\<close> assms(2) by (cases i) auto
  moreover have "k \<le> length (a # u)" using u \<open>k \<le> length s\<close> assms(2) by (metis length_take min.bounded_iff)
  ultimately show ?thesis using assms Cons
    by (auto simp: utf8_next_def Let_def simp del: take_take split: if_splits)
qed

text \<open>The bytes of a sequence behind its first one are continuation bytes.\<close>

lemma utf8_next_cont:
  assumes "utf8_next s = Some (c, k)" and "0 < i" and "i < k"
  shows "is_cont (byte (s ! i))"
proof -
  from assms(1) have "list_all is_cont (tl (map byte (take k s)))" and k: "k \<le> length s"
    by (auto simp: utf8_next_def Let_def split: list.splits if_splits)
  then have "is_cont (tl (map byte (take k s)) ! (i - 1))"
    using assms(2,3) by (auto simp: list_all_length)
  with assms(2,3) k show ?thesis by (simp add: nth_tl)
qed

lemma is_char_boundary_drop:
  "is_char_boundary s i \<Longrightarrow> k \<le> i \<Longrightarrow> i \<le> length s \<Longrightarrow> is_char_boundary (drop k s) (i - k)"
  by (auto simp: is_char_boundary_def)

text \<open>Cutting a string at a character boundary leaves a string.\<close>

lemma utf8_valid_take:
  "utf8_valid s \<Longrightarrow> is_char_boundary s i \<Longrightarrow> i \<le> length s \<Longrightarrow> utf8_valid (take i s)"
proof (induction s arbitrary: i rule: utf8_decode.induct)
  case (1 s)
  show ?case
  proof (cases "i = 0 \<or> s = []")
    case True
    then show ?thesis by (auto simp: utf8_valid_def utf8_decode.simps)
  next
    case False
    with "1.prems"(1) obtain c k where n: "utf8_next s = Some (c, k)"
      and v: "utf8_valid (drop k s)"
      by (auto simp: utf8_valid_def utf8_decode.simps [of s] split: option.splits)
    have k: "k \<le> i"
    proof (rule ccontr)
      assume "\<not> k \<le> i"
      with False n have "is_cont (byte (s ! i))" by (auto intro: utf8_next_cont)
      moreover have "i < length s"
        using \<open>\<not> k \<le> i\<close> utf8_next_bounds [OF n] by auto
      ultimately show False using "1.prems"(2) False by (simp add: is_char_boundary_def)
    qed
    have "is_char_boundary (drop k s) (i - k)"
      using "1.prems" k by (auto intro: is_char_boundary_drop)
    with "1.IH" False n v "1.prems"(3) have "utf8_valid (take (i - k) (drop k s))" by auto
    with utf8_next_take [OF n k] False show ?thesis
      by (auto simp: utf8_valid_def utf8_decode.simps [of "take i s"] drop_take)
  qed
qed

section \<open>ASCII case folding\<close>

definition ascii_lower :: "char \<Rightarrow> char" where
  "ascii_lower c = (if 65 \<le> byte c \<and> byte c \<le> 90 then char_of (byte c + 32) else c)"

text \<open>\<open>str::to_ascii_lowercase\<close>.\<close>

definition to_ascii_lowercase :: "string \<Rightarrow> string" where
  "to_ascii_lowercase s = map ascii_lower s"

definition is_ascii_lowercase :: "char \<Rightarrow> bool" where
  "is_ascii_lowercase c \<longleftrightarrow> 97 \<le> byte c \<and> byte c \<le> 122"

definition is_ascii_digit :: "char \<Rightarrow> bool" where
  "is_ascii_digit c \<longleftrightarrow> 48 \<le> byte c \<and> byte c \<le> 57"

definition is_ascii_hexdigit :: "char \<Rightarrow> bool" where
  "is_ascii_hexdigit c \<longleftrightarrow> is_ascii_digit c \<or> 97 \<le> byte c \<and> byte c \<le> 102
     \<or> 65 \<le> byte c \<and> byte c \<le> 70"

lemma byte_char_of: "n < 256 \<Longrightarrow> byte (char_of n) = n"
  by (simp add: byte_def)

lemma ascii_lower_idem [simp]: "ascii_lower (ascii_lower c) = ascii_lower c"
  by (auto simp: ascii_lower_def byte_char_of)

lemma to_ascii_lowercase_idem [simp]:
  "to_ascii_lowercase (to_ascii_lowercase s) = to_ascii_lowercase s"
  by (simp add: to_ascii_lowercase_def)

section \<open>Unicode character classes\<close>

text \<open>\<open>char::is_whitespace\<close> (the property \<open>White_Space\<close>) and \<open>char::is_control\<close> (category Cc).\<close>

definition is_whitespace :: "nat \<Rightarrow> bool" where
  "is_whitespace c \<longleftrightarrow> 9 \<le> c \<and> c \<le> 13 \<or> c = 32 \<or> c = 133 \<or> c = 160 \<or> c = 5760
     \<or> 8192 \<le> c \<and> c \<le> 8202 \<or> c = 8232 \<or> c = 8233 \<or> c = 8239 \<or> c = 8287 \<or> c = 12288"

definition is_control :: "nat \<Rightarrow> bool" where
  "is_control c \<longleftrightarrow> c < 32 \<or> 127 \<le> c \<and> c < 160"

section \<open>Formatted messages\<close>

text \<open>
  A \<open>format!\<close> string is the list of its literal pieces and its arguments, each argument with
  the kind of formatting asked for. Rendering is decimal for integers and the text itself for
  a string; \<open>Debug\<close> of strings and durations and \<open>Display\<close> of a \<open>Uuid\<close> belong to libraries
  and are the three parameters of a \<open>formats\<close> record.
\<close>

datatype piece =
    Lit string
  | Str string
  | Dbg string
  | DbgList "string list"
  | Num int
  | Id uuid
  | Dur duration

type_synonym message = "piece list"

record formats =
  fmt_dbg :: "string \<Rightarrow> string"
  fmt_dbg_list :: "string list \<Rightarrow> string"
  fmt_uuid :: "uuid \<Rightarrow> string"
  fmt_dur :: "duration \<Rightarrow> string"

fun dec_nat :: "nat \<Rightarrow> string" where
  "dec_nat n = (if n < 10 then [char_of (48 + n)] else dec_nat (n div 10) @ [char_of (48 + n mod 10)])"

declare dec_nat.simps [simp del]

definition dec_int :: "int \<Rightarrow> string" where
  "dec_int i = (if i < 0 then CHR ''-'' # dec_nat (nat (- i)) else dec_nat (nat i))"

fun render_piece :: "formats \<Rightarrow> piece \<Rightarrow> string" where
  "render_piece f (Lit s) = s"
| "render_piece f (Str s) = s"
| "render_piece f (Dbg s) = fmt_dbg f s"
| "render_piece f (DbgList ss) = fmt_dbg_list f ss"
| "render_piece f (Num i) = dec_int i"
| "render_piece f (Id u) = fmt_uuid f u"
| "render_piece f (Dur d) = fmt_dur f d"

definition render :: "formats \<Rightarrow> message \<Rightarrow> string" where
  "render f m = concat (map (render_piece f) m)"

section \<open>Fallible computations over a state\<close>

text \<open>
  An operation of the code takes the state and returns a result and the state it leaves
  behind. The state is returned on the error side too: what was committed before an error
  stays committed.
\<close>

type_synonym ('s, 'e, 'a) act = "'s \<Rightarrow> ('e + 'a) \<times> 's"

definition return :: "'a \<Rightarrow> ('s, 'e, 'a) act" where
  "return x s = (Inr x, s)"

definition raise :: "'e \<Rightarrow> ('s, 'e, 'a) act" where
  "raise e s = (Inl e, s)"

text \<open>\<open>lift r\<close> is \<open>r?\<close>: a result computed without touching the state.\<close>

definition lift :: "'e + 'a \<Rightarrow> ('s, 'e, 'a) act" where
  "lift r s = (r, s)"

definition andthen :: "('s, 'e, 'a) act \<Rightarrow> ('a \<Rightarrow> ('s, 'e, 'b) act) \<Rightarrow> ('s, 'e, 'b) act" where
  "andthen m k s = (case m s of (Inl e, t) \<Rightarrow> (Inl e, t) | (Inr x, t) \<Rightarrow> k x t)"

definition reading :: "('s \<Rightarrow> ('s, 'e, 'a) act) \<Rightarrow> ('s, 'e, 'a) act" where
  "reading k s = k s s"

definition writing :: "('s \<Rightarrow> 'a \<times> 's) \<Rightarrow> ('s, 'e, 'a) act" where
  "writing f s = (let (x, t) = f s in (Inr x, t))"

text \<open>A loop of fallible steps over a list, stopping at the first error.\<close>

fun each :: "('x \<Rightarrow> ('s, 'e, unit) act) \<Rightarrow> 'x list \<Rightarrow> ('s, 'e, unit) act" where
  "each f [] = return ()"
| "each f (x # xs) = andthen (f x) (\<lambda>_. each f xs)"

text \<open>Results without a state: \<open>and_then\<close>, \<open>Option::transpose\<close>, \<open>collect::<Result<Vec<_>>>\<close>.\<close>

definition and_then :: "'e + 'a \<Rightarrow> ('a \<Rightarrow> 'e + 'b) \<Rightarrow> 'e + 'b" where
  "and_then r k = (case r of Inl e \<Rightarrow> Inl e | Inr x \<Rightarrow> k x)"

definition map_err :: "('e \<Rightarrow> 'f) \<Rightarrow> 'e + 'a \<Rightarrow> 'f + 'a" where
  "map_err f r = (case r of Inl e \<Rightarrow> Inl (f e) | Inr x \<Rightarrow> Inr x)"

definition transpose :: "('e + 'a) option \<Rightarrow> 'e + 'a option" where
  "transpose o_r = (case o_r of None \<Rightarrow> Inr None | Some r \<Rightarrow> and_then r (\<lambda>x. Inr (Some x)))"

fun collect_results :: "('e + 'a) list \<Rightarrow> 'e + 'a list" where
  "collect_results [] = Inr []"
| "collect_results (r # rs) = and_then r (\<lambda>x. and_then (collect_results rs) (\<lambda>xs. Inr (x # xs)))"

lemma return_apply [effect_simps]: "return x s = (Inr x, s)"
  and raise_apply [effect_simps]: "raise e s = (Inl e, s)"
  and lift_apply [effect_simps]: "lift r s = (r, s)"
  and reading_apply [effect_simps]: "reading k s = k s s"
  and writing_apply [effect_simps]: "writing f s = (let (x, t) = f s in (Inr x, t))"
  by (simp_all add: return_def raise_def lift_def reading_def writing_def)

lemma andthen_Inl [effect_simps]: "m s = (Inl e, t) \<Longrightarrow> andthen m k s = (Inl e, t)"
  and andthen_Inr [effect_simps]: "m s = (Inr x, t) \<Longrightarrow> andthen m k s = k x t"
  by (simp_all add: andthen_def)

lemma andthen_Inr_iff:
  "andthen m k s = (Inr y, u) \<longleftrightarrow> (\<exists>x t. m s = (Inr x, t) \<and> k x t = (Inr y, u))"
  by (auto simp: andthen_def split: prod.splits sum.splits)

lemma andthen_InrE:
  assumes "andthen m k s = (Inr y, u)"
  obtains x t where "m s = (Inr x, t)" "k x t = (Inr y, u)"
  using assms unfolding andthen_Inr_iff by blast

lemma and_then_simps [simp]:
  "and_then (Inl e) k = Inl e" "and_then (Inr x) k = k x"
  by (simp_all add: and_then_def)

lemma map_err_simps [simp]:
  "map_err f (Inl e) = Inl (f e)" "map_err f (Inr x) = Inr x"
  by (simp_all add: map_err_def)

lemma map_err_Inr: "map_err f r = Inr x \<longleftrightarrow> r = Inr x"
  by (cases r) simp_all

lemma transpose_simps [simp]:
  "transpose None = Inr None" "transpose (Some (Inr x)) = Inr (Some x)"
  "transpose (Some (Inl e)) = Inl e"
  by (simp_all add: transpose_def)

lemma and_then_Inr_iff: "and_then r k = Inr y \<longleftrightarrow> (\<exists>x. r = Inr x \<and> k x = Inr y)"
  by (cases r) auto

lemma collect_results_Inr:
  "collect_results rs = Inr xs \<longleftrightarrow> rs = map Inr xs"
proof (induction rs arbitrary: xs)
  case Nil
  then show ?case by auto
next
  case (Cons r rs)
  show ?case by (auto simp: and_then_Inr_iff Cons.IH map_eq_Cons_conv Cons_eq_map_conv)
qed

lemma collect_results_Inl:
  "(\<exists>e. collect_results rs = Inl e) \<longleftrightarrow> (\<exists>r \<in> set rs. \<exists>e. r = Inl e)"
proof (induction rs)
  case Nil
  then show ?case by simp
next
  case (Cons r rs)
  then show ?case by (cases r; cases "collect_results rs") auto
qed

section \<open>Actions that stay within a relation\<close>

text \<open>Every run of the action, whatever its result, leads to a related state.\<close>

definition inside :: "('s \<Rightarrow> 's \<Rightarrow> bool) \<Rightarrow> ('s, 'e, 'a) act \<Rightarrow> bool" where
  "inside R m \<longleftrightarrow> (\<forall>s r s'. m s = (r, s') \<longrightarrow> R s s')"

named_theorems inside_intros \<open>what the combinators preserve\<close>

lemma insideI: "(\<And>s r s'. m s = (r, s') \<Longrightarrow> R s s') \<Longrightarrow> inside R m"
  by (simp add: inside_def)

lemma insideD: "inside R m \<Longrightarrow> m s = (r, s') \<Longrightarrow> R s s'"
  by (simp add: inside_def)

lemma inside_pure:
  assumes "reflp R"
  shows inside_return: "inside R (return x)" and inside_raise: "inside R (raise e)"
    and inside_lift: "inside R (lift r)"
  using assms by (auto simp: inside_def effect_simps dest: reflpD)

lemma inside_andthen:
  assumes "transp R" and "inside R m" and "\<And>x. inside R (k x)"
  shows "inside R (andthen m k)"
proof (rule insideI)
  fix s r s'
  assume run: "andthen m k s = (r, s')"
  obtain y t where m: "m s = (y, t)" by fastforce
  with assms(2) have st: "R s t" by (rule insideD)
  show "R s s'"
  proof (cases y)
    case (Inl f)
    with run m st show ?thesis by (simp add: andthen_def)
  next
    case (Inr x)
    with run m have "k x t = (r, s')" by (simp add: andthen_def)
    with assms(3) have "R t s'" by (rule insideD)
    with st show ?thesis using assms(1) by (meson transpD)
  qed
qed

lemma inside_reading [inside_intros]: "(\<And>s. inside R (k s)) \<Longrightarrow> inside R (reading k)"
  by (simp add: inside_def reading_def)

lemma inside_case_sum [inside_intros]:
  "(\<And>x. inside R (f x)) \<Longrightarrow> (\<And>y. inside R (g y)) \<Longrightarrow>
     inside R (case r of Inl x \<Rightarrow> f x | Inr y \<Rightarrow> g y)"
  by (cases r) simp_all

lemma inside_case_option [inside_intros]:
  "inside R f \<Longrightarrow> (\<And>y. inside R (g y)) \<Longrightarrow>
     inside R (case r of None \<Rightarrow> f | Some y \<Rightarrow> g y)"
  by (cases r) simp_all

lemma inside_if [inside_intros]:
  "inside R m \<Longrightarrow> inside R n \<Longrightarrow> inside R (if b then m else n)"
  by simp

text \<open>What is appended to a list.\<close>

definition extends_by :: "('a \<Rightarrow> bool) \<Rightarrow> 'a list \<Rightarrow> 'a list \<Rightarrow> bool" where
  "extends_by P xs ys \<longleftrightarrow> (\<exists>new. ys = xs @ new \<and> list_all P new)"

lemma extends_by_refl [simp]: "extends_by P xs xs"
  by (simp add: extends_by_def)

lemma extends_by_append [simp]: "extends_by P xs (xs @ new) \<longleftrightarrow> list_all P new"
  by (simp add: extends_by_def)

lemma extends_by_trans: "extends_by P xs ys \<Longrightarrow> extends_by P ys zs \<Longrightarrow> extends_by P xs zs"
  by (auto simp: extends_by_def)

end
