(* ===== verification/Errors.thy ===== *)
theory Errors
  imports Prelude
begin

text \<open>
  The error values of the program: the typed domain errors of \<open>crates/domain/src/error.rs\<close>,
  the adapter errors of \<open>crates/infrastructure/src/error.rs\<close> they box, and the identifiers
  they carry (\<open>model/task.rs\<close>, \<open>model/worker.rs\<close>). Every \<open>#[error("...")]\<close> attribute is a
  \<open>display\<close> function. A panic is a second kind of failure, beside an error that is returned.
\<close>

section \<open>Identifiers\<close>

datatype task_id = TaskId (task_uuid: uuid)

datatype worker_id = WorkerId (worker_uuid: uuid)

section \<open>Adapter errors\<close>

text \<open>
  \<open>sqlx::Error\<close> is a library type: these are the variants the sources tell apart, the
  message, the optional detail and the optional SQLSTATE of a database error, and one
  constructor for all the others, with their text.
\<close>

datatype sqlx_error =
    PoolTimedOut
  | PoolClosed
  | IoError string
  | WorkerCrashed
  | SqlxConfiguration string
  | Database string "string option" "string option"
  | OtherSqlx string

datatype adapter_error =
    Query sqlx_error
  | Configuration string
  | DatabaseScrubbed string "string option"
  | Mapping message

text \<open>What the sources put into a \<open>Box<dyn Error>\<close>.\<close>

datatype error_source =
    Adapter adapter_error
  | Text message
  | Foreign string

section \<open>Domain errors\<close>

datatype payload_error_kind =
    Deserialization message
  | Serialization message
  | Validation message
  | AlreadyStarted

datatype execution_error_kind =
    HandlerFailed error_source
  | HandlerPanicked message
  | MissingHandler string

datatype task_error =
    NotFound task_id
  | AlreadyClaimed task_id worker_id
  | NotInExpectedState task_id string
  | InvalidPayload payload_error_kind
  | ExecutionFailed execution_error_kind
  | Storage error_source
  | Migration error_source
  | SuspendRequested

datatype claim_error =
    NoneAvailable string
  | ClaimStorage string

fun task_error_of_claim :: "claim_error \<Rightarrow> task_error" where
  "task_error_of_claim (NoneAvailable queue) =
     InvalidPayload (Validation [Lit ''no eligible task to claim in queue '', Str queue])"
| "task_error_of_claim (ClaimStorage reason) = Storage (Text [Str reason])"

datatype validation_error =
    EmptyQueueName
  | QueueNameWhitespace string
  | QueueNameForbiddenChar string
  | QueueNameTooLong nat nat
  | EmptyTaskKind
  | NegativeAttemptCount int
  | InvalidMaxAttempts int
  | PayloadTooLarge nat nat

fun display_validation_error :: "validation_error \<Rightarrow> message" where
  "display_validation_error EmptyQueueName = [Lit ''queue name must not be empty'']"
| "display_validation_error (QueueNameWhitespace v) =
     [Lit ''queue name must not contain whitespace: '', Dbg v]"
| "display_validation_error (QueueNameForbiddenChar v) =
     [Lit ''queue name must not contain control or zero-width characters: '', Dbg v]"
| "display_validation_error (QueueNameTooLong l m) =
     [Lit ''queue name length '', Num (int l), Lit '' exceeds maximum '', Num (int m)]"
| "display_validation_error EmptyTaskKind = [Lit ''task kind must not be empty'']"
| "display_validation_error (NegativeAttemptCount v) =
     [Lit ''attempt count must be >= 0, got '', Num v]"
| "display_validation_error (InvalidMaxAttempts v) =
     [Lit ''max_attempts must be >= 1, got '', Num v]"
| "display_validation_error (PayloadTooLarge m a) =
     [Lit ''payload size '', Num (int a), Lit '' exceeds maximum '', Num (int m),
      Lit '' bytes'']"

text \<open>\<open>Display\<close> of a library error is the parameter \<open>sq\<close>.\<close>

fun display_adapter_error :: "(sqlx_error \<Rightarrow> string) \<Rightarrow> adapter_error \<Rightarrow> message" where
  "display_adapter_error sq (Query e) = [Lit ''database query failed: '', Str (sq e)]"
| "display_adapter_error sq (Configuration m) =
     [Lit ''database configuration error: '', Str m]"
| "display_adapter_error sq (DatabaseScrubbed m c) =
     [Lit ''database error (scrubbed): '', Str m]"
| "display_adapter_error sq (Mapping reason) = Lit ''row mapping failed: '' # reason"

fun display_source :: "(sqlx_error \<Rightarrow> string) \<Rightarrow> error_source \<Rightarrow> message" where
  "display_source sq (Adapter e) = display_adapter_error sq e"
| "display_source sq (Text m) = m"
| "display_source sq (Foreign s) = [Str s]"

fun display_payload_error :: "payload_error_kind \<Rightarrow> message" where
  "display_payload_error (Deserialization m) = Lit ''deserialization failed: '' # m"
| "display_payload_error (Serialization m) = Lit ''serialization failed: '' # m"
| "display_payload_error (Validation m) = m"
| "display_payload_error AlreadyStarted = [Lit ''engine already started'']"

fun display_execution_error ::
  "(sqlx_error \<Rightarrow> string) \<Rightarrow> execution_error_kind \<Rightarrow> message" where
  "display_execution_error sq (HandlerFailed s) = Lit ''handler failed: '' # display_source sq s"
| "display_execution_error sq (HandlerPanicked m) = Lit ''handler panicked: '' # m"
| "display_execution_error sq (MissingHandler k) =
     [Lit ''no handler registered for kind: '', Str k]"

fun display_task_error :: "(sqlx_error \<Rightarrow> string) \<Rightarrow> task_error \<Rightarrow> message" where
  "display_task_error sq (NotFound i) = [Lit ''task not found: '', Id (task_uuid i)]"
| "display_task_error sq (AlreadyClaimed i w) =
     [Lit ''task '', Id (task_uuid i), Lit '' is already claimed by worker '',
      Id (worker_uuid w)]"
| "display_task_error sq (NotInExpectedState i expected) =
     [Lit ''task '', Id (task_uuid i), Lit '' is not in '', Str expected, Lit '' status'']"
| "display_task_error sq (InvalidPayload k) =
     Lit ''task payload is invalid: '' # display_payload_error k"
| "display_task_error sq (ExecutionFailed k) =
     Lit ''task execution failed: '' # display_execution_error sq k"
| "display_task_error sq (Storage s) = Lit ''task storage error: '' # display_source sq s"
| "display_task_error sq (Migration s) =
     Lit ''database migration failed: '' # display_source sq s"
| "display_task_error sq SuspendRequested = [Lit ''task suspend requested'']"

section \<open>Failures\<close>

datatype failure = Error task_error | Panic message

type_synonym 'a res = "failure + 'a"

type_synonym ('s, 'a) op = "('s, failure, 'a) act"

text \<open>\<open>From<PostgresAdapterError> for TaskError\<close>: every adapter error is a storage error.\<close>

definition task_error_of_adapter :: "adapter_error \<Rightarrow> task_error" where
  "task_error_of_adapter e = Storage (Adapter e)"

definition adapter_failure :: "adapter_error \<Rightarrow> failure" where
  "adapter_failure e = Error (task_error_of_adapter e)"

text \<open>\<open>debug_assert!\<close> panics in builds with debug assertions and is nothing in the others.\<close>

definition debug_assert :: "bool \<Rightarrow> bool \<Rightarrow> message \<Rightarrow> unit res" where
  "debug_assert debug_assertions holds m =
     (if debug_assertions \<and> \<not> holds then Inl (Panic m) else Inr ())"

end
