(* ===== verification/Domain_Model.thy ===== *)
theory Domain_Model
  imports Errors
begin

text \<open>
  The domain crate: the status enum, the validated newtypes, the persistence shape of a task
  and the execution context (\<open>crates/domain/src/model/\<close>). A newtype is a one-constructor
  datatype; what its smart constructor checks is stated by the \<open>valid\<close> predicates. JSON
  values are library values with the constructors the sources build or match; serializing one
  is the parameter \<open>ser\<close> of the definitions that do it (an error text or the bytes).
\<close>

datatype json =
    JNull
  | JBool bool
  | JInt int
  | JFloat string
  | JStr string
  | JArr "json list"
  | JObj "(string \<times> json) list"

type_synonym serializer = "json \<Rightarrow> string + string"

section \<open>Task status\<close>

datatype task_status = Pending | Running | Completed | Failed | Cancelled | Suspended

fun as_str :: "task_status \<Rightarrow> string" where
  "as_str Pending = ''pending''"
| "as_str Running = ''running''"
| "as_str Completed = ''completed''"
| "as_str Failed = ''failed''"
| "as_str Cancelled = ''cancelled''"
| "as_str Suspended = ''suspended''"

lemma as_str_inject [simp]: "as_str a = as_str b \<longleftrightarrow> a = b"
  by (cases a; cases b) simp_all

definition terminal :: "task_status \<Rightarrow> bool" where
  "terminal st \<longleftrightarrow> st = Completed \<or> st = Failed \<or> st = Cancelled"

section \<open>Attempts and priority\<close>

datatype attempt_count = AttemptCount (attempt_get: int)

definition attempt_zero :: attempt_count where
  "attempt_zero = AttemptCount 0"

definition attempt_new :: "int \<Rightarrow> validation_error + attempt_count" where
  "attempt_new v = (if v < 0 then Inl (NegativeAttemptCount v) else Inr (AttemptCount v))"

datatype max_attempts = MaxAttempts (max_get: int)

definition max_attempts_default :: max_attempts where
  "max_attempts_default = MaxAttempts 3"

definition max_new :: "int \<Rightarrow> validation_error + max_attempts" where
  "max_new v = (if v < 1 then Inl (InvalidMaxAttempts v) else Inr (MaxAttempts v))"

datatype priority = Priority (priority_get: int)

definition priority_default :: priority where
  "priority_default = Priority 0"

lemma attempt_new_Inr: "attempt_new v = Inr a \<longleftrightarrow> 0 \<le> v \<and> a = AttemptCount v"
  by (auto simp: attempt_new_def)

lemma max_new_Inr: "max_new v = Inr m \<longleftrightarrow> 1 \<le> v \<and> m = MaxAttempts v"
  by (auto simp: max_new_def)

section \<open>Task kind\<close>

datatype task_kind = TaskKind (kind_str: string)

definition task_kind_try_from :: "string \<Rightarrow> validation_error + task_kind" where
  "task_kind_try_from v = (if v = [] then Inl EmptyTaskKind else Inr (TaskKind v))"

lemma task_kind_try_from_Inr: "task_kind_try_from v = Inr k \<longleftrightarrow> v \<noteq> [] \<and> k = TaskKind v"
  by (auto simp: task_kind_try_from_def)

section \<open>Queue name\<close>

datatype queue_name = QueueName (queue_str: string)

definition queue_name_max_len :: nat where
  "queue_name_max_len = 128"

text \<open>NUL, control characters, zero-width and bidirectional format characters.\<close>

definition forbidden_char :: "nat \<Rightarrow> bool" where
  "forbidden_char c \<longleftrightarrow> c = 0 \<or> is_control c
     \<or> c = 8203 \<or> c = 8204 \<or> c = 8205 \<or> c = 8288 \<or> c = 65279 \<or> c = 173
     \<or> 8234 \<le> c \<and> c \<le> 8238 \<or> 8294 \<le> c \<and> c \<le> 8297"

text \<open>The loop over the characters: the first offending one decides the error.\<close>

fun validate_chars :: "string \<Rightarrow> nat list \<Rightarrow> validation_error + unit" where
  "validate_chars v [] = Inr ()"
| "validate_chars v (c # cs) =
     (if is_whitespace c then Inl (QueueNameWhitespace v)
      else if forbidden_char c then Inl (QueueNameForbiddenChar v)
      else validate_chars v cs)"

definition queue_validate :: "string \<Rightarrow> validation_error + unit" where
  "queue_validate v =
     (if v = [] then Inl EmptyQueueName
      else if queue_name_max_len < length v
        then Inl (QueueNameTooLong (length v) queue_name_max_len)
      else validate_chars v (chars v))"

definition queue_try_from :: "string \<Rightarrow> validation_error + queue_name" where
  "queue_try_from v = and_then (queue_validate v) (\<lambda>_. Inr (QueueName v))"

definition queue_valid :: "string \<Rightarrow> bool" where
  "queue_valid v \<longleftrightarrow> v \<noteq> [] \<and> length v \<le> queue_name_max_len
     \<and> list_all (\<lambda>c. \<not> is_whitespace c \<and> \<not> forbidden_char c) (chars v)"

lemma validate_chars_Inr:
  "validate_chars v cs = Inr () \<longleftrightarrow> list_all (\<lambda>c. \<not> is_whitespace c \<and> \<not> forbidden_char c) cs"
  by (induction cs) auto

lemma queue_validate_Inr: "queue_validate v = Inr () \<longleftrightarrow> queue_valid v"
  by (auto simp: queue_validate_def queue_valid_def validate_chars_Inr)

lemma queue_try_from_Inr: "queue_try_from v = Inr q \<longleftrightarrow> queue_valid v \<and> q = QueueName v"
  by (auto simp: queue_try_from_def and_then_Inr_iff queue_validate_Inr [symmetric])

lemma queue_try_from_valid [simp]: "queue_valid v \<Longrightarrow> queue_try_from v = Inr (QueueName v)"
  by (simp add: queue_try_from_Inr)

section \<open>Task record\<close>

record task_record =
  rec_id :: task_id
  rec_queue :: queue_name
  rec_kind :: task_kind
  rec_payload :: json
  rec_status :: task_status
  rec_priority :: priority
  rec_attempts :: attempt_count
  rec_max_attempts :: max_attempts
  rec_last_error :: "string option"
  rec_scheduled_at :: time
  rec_claimed_by :: "worker_id option"
  rec_claimed_until :: "time option"
  rec_created_at :: time
  rec_updated_at :: time
  rec_idempotency_key :: "string option"
  rec_idempotency_expires_at :: "time option"
  rec_trace_id :: "string option"
  rec_checkpoint :: "json option"
  rec_suspended_at :: "time option"
  rec_signal_payload :: "json option"
  rec_region :: "string option"

definition CHECKPOINT_MAX_BYTES :: nat where
  "CHECKPOINT_MAX_BYTES = 1048576"

definition SIGNAL_PAYLOAD_MAX_BYTES :: nat where
  "SIGNAL_PAYLOAD_MAX_BYTES = 1048576"

definition REGION_MAX_LEN :: nat where
  "REGION_MAX_LEN = 63"

definition IDEMPOTENCY_KEY_MAX_LEN :: nat where
  "IDEMPOTENCY_KEY_MAX_LEN = 250"

text \<open>The debug assertions on a record, in the order of the source; \<open>dbg\<close> is the build mode.\<close>

definition validate_invariants :: "bool \<Rightarrow> task_record \<Rightarrow> unit res" where
  "validate_invariants dbg t =
     and_then (debug_assert dbg (rec_created_at t \<le> rec_updated_at t)
       [Lit ''created_at must not be after updated_at'']) (\<lambda>_.
     and_then (debug_assert dbg
       ((rec_claimed_by t \<noteq> None) = (rec_claimed_until t \<noteq> None))
       [Lit ''claimed_by and claimed_until must be set/unset together'']) (\<lambda>_.
     and_then (case rec_idempotency_key t of
         None \<Rightarrow> Inr ()
       | Some key \<Rightarrow> debug_assert dbg (length key \<le> IDEMPOTENCY_KEY_MAX_LEN)
           [Lit ''idempotency key length '', Num (int (length key)),
            Lit '' exceeds maximum of '', Num (int IDEMPOTENCY_KEY_MAX_LEN)]) (\<lambda>_.
     (case rec_region t of
         None \<Rightarrow> Inr ()
       | Some region \<Rightarrow> debug_assert dbg (length region \<le> REGION_MAX_LEN)
           [Lit ''region length '', Num (int (length region)),
            Lit '' exceeds maximum of '', Num (int REGION_MAX_LEN)]))))"

definition record_invariants :: "task_record \<Rightarrow> bool" where
  "record_invariants t \<longleftrightarrow> rec_created_at t \<le> rec_updated_at t
     \<and> ((rec_claimed_by t \<noteq> None) = (rec_claimed_until t \<noteq> None))
     \<and> pred_option (\<lambda>k. length k \<le> IDEMPOTENCY_KEY_MAX_LEN) (rec_idempotency_key t)
     \<and> pred_option (\<lambda>r. length r \<le> REGION_MAX_LEN) (rec_region t)"

lemma validate_invariants_Inr:
  "validate_invariants dbg t = Inr () \<longleftrightarrow> (dbg \<longrightarrow> record_invariants t)"
  by (auto simp: validate_invariants_def record_invariants_def debug_assert_def and_then_def
      split: option.splits)

text \<open>\<open>take_payload\<close> leaves \<open>null\<close> behind, the other two leave nothing.\<close>

definition take_payload :: "task_record \<Rightarrow> json \<times> task_record" where
  "take_payload t = (rec_payload t, t\<lparr>rec_payload := JNull\<rparr>)"

definition take_checkpoint :: "task_record \<Rightarrow> json option \<times> task_record" where
  "take_checkpoint t = (rec_checkpoint t, t\<lparr>rec_checkpoint := None\<rparr>)"

definition take_signal_payload :: "task_record \<Rightarrow> json option \<times> task_record" where
  "take_signal_payload t = (rec_signal_payload t, t\<lparr>rec_signal_payload := None\<rparr>)"

definition with_status :: "task_status \<Rightarrow> task_record \<Rightarrow> task_record" where
  "with_status st t = t\<lparr>rec_status := st\<rparr>"

definition with_payload :: "json \<Rightarrow> task_record \<Rightarrow> task_record" where
  "with_payload p t = t\<lparr>rec_payload := p\<rparr>"

section \<open>Results and filters\<close>

datatype cancel_result =
    CancelledTask task_record
  | CancelNotFound
  | NotCancellable task_status

record list_tasks_filter =
  flt_queue :: "queue_name option"
  flt_status :: "task_status option"
  flt_limit :: nat
  flt_offset :: nat

record list_tasks_result =
  lr_tasks :: "task_record list"
  lr_total :: nat

record queue_stats =
  qs_queue :: queue_name
  qs_region :: "string option"
  qs_pending :: nat
  qs_running :: nat
  qs_suspended :: nat
  qs_active_workers :: nat

record worker_status =
  ws_worker_id :: worker_id
  ws_queue :: queue_name
  ws_tasks_in_flight :: nat

record audit_log_entry =
  ent_id :: int
  ent_task_id :: task_id
  ent_from_status :: "task_status option"
  ent_to_status :: task_status
  ent_timestamp :: time
  ent_worker_id :: "worker_id option"
  ent_trace_id :: "string option"
  ent_metadata :: "json option"

record list_audit_log_result =
  al_entries :: "audit_log_entry list"
  al_total :: nat

datatype recovery_outcome = Recovered | RecoveryFailed

type_synonym recovered_task =
  "task_id \<times> queue_name \<times> task_kind \<times> string option \<times> recovery_outcome"

section \<open>Execution context\<close>

text \<open>The writer is a trait object over the state \<open>'s\<close> of the backend it writes to.\<close>

type_synonym 's checkpoint_writer = "task_id \<Rightarrow> worker_id \<Rightarrow> json \<Rightarrow> ('s, unit) op"

record 's task_context =
  ctx_task_id :: task_id
  ctx_worker_id :: worker_id
  ctx_attempt :: attempt_count
  ctx_last_checkpoint :: "json option"
  ctx_checkpoint_writer :: "'s checkpoint_writer option"
  ctx_signal_payload :: "json option"

definition context_new :: "task_id \<Rightarrow> worker_id \<Rightarrow> attempt_count \<Rightarrow> 's task_context" where
  "context_new t w a = \<lparr>ctx_task_id = t, ctx_worker_id = w, ctx_attempt = a,
     ctx_last_checkpoint = None, ctx_checkpoint_writer = None, ctx_signal_payload = None\<rparr>"

definition with_checkpoint ::
  "json option \<Rightarrow> 's checkpoint_writer \<Rightarrow> 's task_context \<Rightarrow> 's task_context" where
  "with_checkpoint prev writer c =
     c\<lparr>ctx_last_checkpoint := prev, ctx_checkpoint_writer := Some writer\<rparr>"

definition with_signal_payload :: "json option \<Rightarrow> 's task_context \<Rightarrow> 's task_context" where
  "with_signal_payload p c = c\<lparr>ctx_signal_payload := p\<rparr>"

definition checkpoint :: "serializer \<Rightarrow> 's task_context \<Rightarrow> json \<Rightarrow> ('s, unit) op" where
  "checkpoint ser c data = (case ser data of
      Inl e \<Rightarrow> raise (Error (InvalidPayload (Serialization
        [Lit ''failed to serialize checkpoint data: '', Str e])))
    | Inr serialized \<Rightarrow>
        if CHECKPOINT_MAX_BYTES < length serialized then
          raise (Error (InvalidPayload (Validation
            [Lit ''checkpoint data size ('', Num (int (length serialized)),
             Lit '' bytes) exceeds 1 MiB limit''])))
        else (case ctx_checkpoint_writer c of
            None \<Rightarrow> raise (Error (ExecutionFailed (HandlerFailed
              (Text [Lit ''checkpoint writer not available'']))))
          | Some writer \<Rightarrow> writer (ctx_task_id c) (ctx_worker_id c) data))"

text \<open>\<open>suspend\<close> never returns normally: it ends in the control-flow error, or in the error of
  the checkpoint.\<close>

definition suspend_ctx ::
  "serializer \<Rightarrow> 's task_context \<Rightarrow> json option \<Rightarrow> ('s, unit) op" where
  "suspend_ctx ser c checkpoint_data =
     andthen (case checkpoint_data of
         None \<Rightarrow> return ()
       | Some data \<Rightarrow> checkpoint ser c data)
     (\<lambda>_. raise (Error SuspendRequested))"

end
