(* ===== verification/Pg_Error.thy ===== *)
theory Pg_Error
  imports Errors
begin

text \<open>
  The conversion of library errors into adapter errors and the scrubbing it does on the way
  (\<open>crates/infrastructure/src/error.rs\<close>, \<open>observability/tracing.rs\<close>), and the test for
  saturation of the connection pool (\<open>db.rs\<close>). Searches for ASCII patterns run on bytes, which
  is where the standard library finds them in a UTF-8 string. \<open>str::to_lowercase\<close> is the
  Unicode table of the standard library and stays the parameter \<open>lower\<close>.
\<close>

section \<open>Searching and slicing\<close>

fun find_str :: "string \<Rightarrow> string \<Rightarrow> nat option" where
  "find_str pat [] = (if pat = [] then Some 0 else None)"
| "find_str pat (c # s) =
     (if prefix pat (c # s) then Some 0 else map_option Suc (find_str pat s))"

definition find_byte :: "char \<Rightarrow> string \<Rightarrow> nat option" where
  "find_byte c s = find_str [c] s"

text \<open>\<open>str::rfind\<close> of one ASCII character.\<close>

fun rfind_byte :: "char \<Rightarrow> string \<Rightarrow> nat option" where
  "rfind_byte c [] = None"
| "rfind_byte c (x # s) =
     (case rfind_byte c s of
        Some i \<Rightarrow> Some (Suc i)
      | None \<Rightarrow> if x = c then Some 0 else None)"

text \<open>The byte index of the first character with a property.\<close>

function find_char :: "(nat \<Rightarrow> bool) \<Rightarrow> string \<Rightarrow> nat option" where
  "find_char P s = (case utf8_next s of
      None \<Rightarrow> None
    | Some (c, k) \<Rightarrow> if P c then Some 0 else map_option ((+) k) (find_char P (drop k s)))"
  by pat_completeness auto
termination
  by (relation "measure (\<lambda>(P, s). length s)") (auto dest: utf8_next_bounds)

declare find_char.simps [simp del]

text \<open>\<open>&s[a..b]\<close> panics when an end is out of range or inside a character.\<close>

definition slice :: "string \<Rightarrow> nat \<Rightarrow> nat \<Rightarrow> message + string" where
  "slice s a b =
     (if a \<le> b \<and> b \<le> length s \<and> is_char_boundary s a \<and> is_char_boundary s b
      then Inr (take (b - a) (drop a s))
      else Inl [Lit ''byte index out of range or not a char boundary''])"

section \<open>Scrubbing URLs\<close>

definition split_once :: "string \<Rightarrow> string \<Rightarrow> (string \<times> string) option" where
  "split_once pat s =
     map_option (\<lambda>i. (take i s, drop (i + length pat) s)) (find_str pat s)"

definition find_either :: "char \<Rightarrow> char \<Rightarrow> string \<Rightarrow> nat option" where
  "find_either c d s = (case (find_byte c s, find_byte d s) of
      (Some a, Some b) \<Rightarrow> Some (min a b)
    | (Some a, None) \<Rightarrow> Some a
    | (None, r) \<Rightarrow> r)"

definition scrub_url :: "string \<Rightarrow> string" where
  "scrub_url s = (case split_once ''://'' s of
      None \<Rightarrow> s
    | Some (scheme, rest) \<Rightarrow> (case rfind_byte CHR ''@'' rest of
        None \<Rightarrow> s
      | Some at_pos \<Rightarrow>
          (let userinfo = take at_pos rest; after_at = drop at_pos rest;
               host_end = (case find_either CHR ''?'' CHR ''#'' after_at of
                   Some i \<Rightarrow> i | None \<Rightarrow> length after_at);
               host_onwards = take host_end after_at; trailing = drop host_end after_at in
           (case find_byte CHR '':'' userinfo of
              None \<Rightarrow> s
            | Some colon_pos \<Rightarrow>
                if colon_pos + 1 = length userinfo then s
                else scheme @ ''://'' @ take colon_pos userinfo @ '':***'' @ host_onwards
                  @ trailing))))"

definition find_pg_scheme :: "string \<Rightarrow> nat option" where
  "find_pg_scheme s = (case (find_str ''postgres://'' s, find_str ''postgresql://'' s) of
      (Some a, Some b) \<Rightarrow> Some (min a b)
    | (Some a, None) \<Rightarrow> Some a
    | (None, Some a) \<Rightarrow> Some a
    | (None, None) \<Rightarrow> None)"

lemma find_str_bound: "find_str pat s = Some i \<Longrightarrow> i + length pat \<le> length s"
  by (induction s arbitrary: i) (auto split: if_splits dest: prefix_length_le)

lemma find_str_prefix: "find_str pat s = Some i \<Longrightarrow> prefix pat (drop i s)"
  by (induction s arbitrary: i) (auto split: if_splits)

lemma find_pg_scheme_prefix:
  "find_pg_scheme s = Some i \<Longrightarrow>
     i < length s \<and> (prefix ''postgres://'' (drop i s) \<or> prefix ''postgresql://'' (drop i s))"
  using find_str_prefix [of "''postgres://''" s] find_str_prefix [of "''postgresql://''" s]
    find_str_bound [of "''postgres://''" s] find_str_bound [of "''postgresql://''" s]
  by (auto simp: find_pg_scheme_def min_def split: option.splits if_splits)

text \<open>A URL candidate starts with a letter, so its end is behind its start.\<close>

lemma find_char_whitespace_pos:
  assumes "find_char is_whitespace (c # s) = Some n" and "97 \<le> byte c" and "byte c < 128"
  shows "0 < n"
proof -
  have "utf8_width (byte c) = 1" using assms(3) by (simp add: utf8_width_def)
  then have "utf8_next (c # s) = Some (byte c, 1)" by (auto simp: utf8_next_def Let_def)
  moreover have "\<not> is_whitespace (byte c)" using assms(2,3) by (auto simp: is_whitespace_def)
  ultimately show ?thesis
    using assms(1) by (auto simp: find_char.simps [of _ "c # s"] split: option.splits)
qed

lemma url_end_pos:
  assumes "find_pg_scheme s = Some i"
    and "find_char is_whitespace (drop i s) = Some n"
  shows "0 < n"
proof -
  obtain u where "drop i s = CHR ''p'' # u"
    using find_pg_scheme_prefix [OF assms(1)] by (auto simp: prefix_def)
  with assms(2) show ?thesis
    using find_char_whitespace_pos [of "CHR ''p''" u n] by (simp add: byte_def)
qed

definition url_end :: "string \<Rightarrow> nat" where
  "url_end u = (case find_char is_whitespace u of Some n \<Rightarrow> n | None \<Rightarrow> length u)"

lemma url_end_bound: "find_pg_scheme s = Some i \<Longrightarrow> 0 < url_end (drop i s) \<and> i < length s"
  using url_end_pos [of s i] find_pg_scheme_prefix [of s i]
  by (auto simp: url_end_def split: option.splits)

function scrub_message :: "string \<Rightarrow> string" where
  "scrub_message msg = (case find_pg_scheme msg of
      None \<Rightarrow> msg
    | Some idx \<Rightarrow>
        (let url_candidate = drop idx msg; end_pos = url_end url_candidate in
           take idx msg @ scrub_url (take end_pos url_candidate)
             @ scrub_message (drop end_pos url_candidate)))"
  by pat_completeness auto
termination
  by (relation "measure length") (auto dest!: url_end_bound)

declare scrub_message.simps [simp del]

section \<open>Scrubbing database messages\<close>

text \<open>The inner loop of \<open>scrub_database_message\<close>: what is left behind the bracketed block.\<close>

fun skip_block :: "char \<Rightarrow> char \<Rightarrow> nat \<Rightarrow> bool \<Rightarrow> bool \<Rightarrow> string \<Rightarrow> string" where
  "skip_block op cl depth in_string escaped [] = []"
| "skip_block op cl depth in_string escaped (x # xs) =
     (if escaped then skip_block op cl depth in_string False xs
      else if x = CHR 0x5C then skip_block op cl depth in_string True xs
      else if x = CHR 0x22 then skip_block op cl depth (\<not> in_string) False xs
      else if in_string then skip_block op cl depth in_string False xs
      else if x = op then skip_block op cl (depth + 1) in_string False xs
      else if x = cl then
        (if depth - 1 = 0 then xs else skip_block op cl (depth - 1) in_string False xs)
      else skip_block op cl depth in_string False xs)"

lemma skip_block_length: "length (skip_block op cl d q e xs) \<le> length xs"
  by (induction xs arbitrary: d q e) (auto simp: le_Suc_eq)

function scrub_database_message :: "string \<Rightarrow> string" where
  "scrub_database_message [] = []"
| "scrub_database_message (c # cs) =
     (if c = CHR ''{'' \<or> c = CHR ''['' then
        ''<scrubbed-json>'' @ scrub_database_message
          (skip_block c (if c = CHR ''{'' then CHR ''}'' else CHR '']'') 1 False False cs)
      else c # scrub_database_message cs)"
  by pat_completeness auto
termination
  by (relation "measure length") (auto simp: le_imp_less_Suc skip_block_length)

text \<open>
  \<open>scrub_detail\<close> finds its patterns in the lowercase copy and cuts the original at the same
  byte positions. The \<open>format!\<close> of the pieces is concatenation.
\<close>

definition find_from :: "string \<Rightarrow> nat \<Rightarrow> string \<Rightarrow> message + nat option" where
  "find_from s a pat = and_then (slice s a (length s)) (\<lambda>u. Inr (find_str pat u))"

function scrub_parenthesized :: "string \<Rightarrow> string" where
  "scrub_parenthesized s = (case find_byte CHR ''('' s of
      None \<Rightarrow> s
    | Some op \<Rightarrow>
        (let inner = drop (op + 1) s in
         take (op + 1) s @ ''<scrubbed>'' @
           (case find_byte CHR '')'' inner of
              None \<Rightarrow> []
            | Some close \<Rightarrow> scrub_parenthesized (drop close inner))))"
  by pat_completeness auto
termination
  by (relation "measure length") (auto simp: find_byte_def dest!: find_str_bound)

declare scrub_parenthesized.simps [simp del]

definition scrub_detail :: "(string \<Rightarrow> string) \<Rightarrow> string \<Rightarrow> message + string" where
  "scrub_detail lower detail =
     (let low = lower detail;
          cut = (\<lambda>a k. and_then (slice detail 0 a) (\<lambda>pre.
                 and_then (find_from low a '')'') (\<lambda>r. (case r of
                     None \<Rightarrow> k
                   | Some n \<Rightarrow> and_then (slice detail (a + n) (length detail)) (\<lambda>suf.
                       Inr (pre @ ''<scrubbed>'' @ suf))))));
          unparen = Inr (scrub_parenthesized detail);
          key = (case find_str ''key ('' low of
              None \<Rightarrow> unparen
            | Some start \<Rightarrow> and_then (find_from low start '')=('') (\<lambda>r. (case r of
                  None \<Rightarrow> unparen
                | Some eq_pos \<Rightarrow> cut (start + eq_pos + length '')=('') unparen))) in
      (case find_str ''contains ('' low of
         None \<Rightarrow> key
       | Some start \<Rightarrow> cut (start + length ''contains ('') key))"

section \<open>Adapter errors from library errors\<close>

definition merge_detail :: "(string \<Rightarrow> string) \<Rightarrow> string \<Rightarrow> string option \<Rightarrow> string" where
  "merge_detail lower full_msg scrubbed = (case scrubbed of
      None \<Rightarrow> full_msg
    | Some detail \<Rightarrow>
        if find_str detail full_msg \<noteq> None then full_msg
        else if find_str ''detail:'' (lower full_msg) \<noteq> None
          then full_msg @ '' '' @ detail
        else full_msg @ '' DETAIL: '' @ detail)"

fun adapter_of_sqlx :: "(string \<Rightarrow> string) \<Rightarrow> sqlx_error \<Rightarrow> message + adapter_error" where
  "adapter_of_sqlx lower (SqlxConfiguration inner) = Inr (Configuration (scrub_message inner))"
| "adapter_of_sqlx lower (Database m detail code) =
     and_then (transpose (map_option (scrub_detail lower) detail)) (\<lambda>scrubbed.
       Inr (DatabaseScrubbed
         (scrub_message (merge_detail lower (scrub_database_message m) scrubbed)) code))"
| "adapter_of_sqlx lower err = Inr (Query err)"

text \<open>\<open>.map_err(PostgresAdapterError::from)?\<close> in a function that returns a \<open>TaskError\<close>.\<close>

definition sqlx_failure :: "(string \<Rightarrow> string) \<Rightarrow> sqlx_error \<Rightarrow> failure" where
  "sqlx_failure lower e = (case adapter_of_sqlx lower e of
      Inl m \<Rightarrow> Panic m
    | Inr a \<Rightarrow> adapter_failure a)"

section \<open>Pool saturation\<close>

text \<open>
  The chain of \<open>source()\<close> from an error: the two storage variants have one, the payload and
  execution variants format their \<open>kind\<close> and have none. A library error at the end of the
  chain decides; a text has no type the test looks for.
\<close>

definition class_08 :: "string option \<Rightarrow> bool" where
  "class_08 code = (case code of None \<Rightarrow> False | Some c \<Rightarrow> prefix ''08'' c)"

fun sqlx_saturated :: "sqlx_error \<Rightarrow> bool" where
  "sqlx_saturated PoolTimedOut = True"
| "sqlx_saturated PoolClosed = True"
| "sqlx_saturated (IoError _) = True"
| "sqlx_saturated WorkerCrashed = True"
| "sqlx_saturated (Database _ _ code) = class_08 code"
| "sqlx_saturated _ = False"

datatype chain_node = TaskNode task_error | AdapterNode adapter_error | SqlxNode sqlx_error | OpaqueNode

fun node_of_source :: "error_source \<Rightarrow> chain_node" where
  "node_of_source (Adapter a) = AdapterNode a"
| "node_of_source (Text _) = OpaqueNode"
| "node_of_source (Foreign _) = OpaqueNode"

fun node_source :: "chain_node \<Rightarrow> chain_node option" where
  "node_source (TaskNode (Storage s)) = Some (node_of_source s)"
| "node_source (TaskNode (Migration s)) = Some (node_of_source s)"
| "node_source (TaskNode _) = None"
| "node_source (AdapterNode (Query e)) = Some (SqlxNode e)"
| "node_source (AdapterNode _) = None"
| "node_source (SqlxNode _) = None"
| "node_source OpaqueNode = None"

definition MAX_ERROR_CHAIN_DEPTH :: nat where
  "MAX_ERROR_CHAIN_DEPTH = 16"

fun chain_saturated :: "nat \<Rightarrow> chain_node \<Rightarrow> bool" where
  "chain_saturated 0 current = False"
| "chain_saturated (Suc n) current = (case current of
      AdapterNode (DatabaseScrubbed _ code) \<Rightarrow> class_08 code
    | SqlxNode e \<Rightarrow> sqlx_saturated e
    | _ \<Rightarrow> (case node_source current of
        Some nxt \<Rightarrow> chain_saturated n nxt
      | None \<Rightarrow> False))"

definition is_pool_timeout :: "task_error \<Rightarrow> bool" where
  "is_pool_timeout err = chain_saturated MAX_ERROR_CHAIN_DEPTH (TaskNode err)"

end
