(* ===== verification/Pg_Row.thy ===== *)
theory Pg_Row
  imports Domain_Model Pg_Error
begin

text \<open>
  The database row of a task and its mapping to the domain record
  (\<open>adapters/postgres_task_repository.rs\<close>, \<open>TaskRow\<close> to \<open>status_to_str\<close>). The mapping checks
  in the order of the source and stops at the first violation.
\<close>

section \<open>The cap on error texts\<close>

definition LAST_ERROR_MAX_BYTES :: nat where
  "LAST_ERROR_MAX_BYTES = 4096"

definition truncate_last_error :: "string \<Rightarrow> string" where
  "truncate_last_error s =
     (if length s \<le> LAST_ERROR_MAX_BYTES then s
      else take (floor_char_boundary s LAST_ERROR_MAX_BYTES) s)"

definition truncate_last_error_borrow :: "string \<Rightarrow> string" where
  "truncate_last_error_borrow s =
     (if length s \<le> LAST_ERROR_MAX_BYTES then s
      else take (floor_char_boundary s LAST_ERROR_MAX_BYTES) s)"

lemma truncate_last_error_length: "length (truncate_last_error s) \<le> LAST_ERROR_MAX_BYTES"
  by (simp add: truncate_last_error_def min.coboundedI2 floor_char_boundary_le)

lemma truncate_last_error_short [simp]:
  "length s \<le> LAST_ERROR_MAX_BYTES \<Longrightarrow> truncate_last_error s = s"
  by (simp add: truncate_last_error_def)

lemma truncate_last_error_idem [simp]:
  "truncate_last_error (truncate_last_error s) = truncate_last_error s"
  by (simp add: truncate_last_error_length)

lemma truncate_last_error_borrow_eq: "truncate_last_error_borrow = truncate_last_error"
  by (rule ext) (simp add: truncate_last_error_borrow_def truncate_last_error_def)

section \<open>Rows\<close>

record task_row =
  row_id :: uuid
  row_queue :: string
  row_kind :: string
  row_payload :: json
  row_status :: string
  row_priority :: int
  row_attempts :: int
  row_max_attempts :: int
  row_last_error :: "string option"
  row_scheduled_at :: time
  row_claimed_by :: "uuid option"
  row_claimed_until :: "time option"
  row_created_at :: time
  row_updated_at :: time
  row_idempotency_key :: "string option"
  row_idempotency_expires_at :: "time option"
  row_trace_id :: "string option"
  row_checkpoint :: "json option"
  row_suspended_at :: "time option"
  row_signal_payload :: "json option"
  row_region :: "string option"

record task_row_with_count = task_row +
  total_count :: "int option"

text \<open>\<open>From<TaskRowWithCount> for TaskRow\<close> drops the count.\<close>

definition row_of_counted :: "task_row_with_count \<Rightarrow> task_row" where
  "row_of_counted r = task_row.truncate r"

section \<open>Status text\<close>

definition mapping_error :: "message \<Rightarrow> adapter_error + 'a" where
  "mapping_error reason = Inl (Mapping reason)"

definition parse_status :: "string \<Rightarrow> adapter_error + task_status" where
  "parse_status s = (let l = to_ascii_lowercase s in
     if l = ''pending'' then Inr Pending
     else if l = ''running'' then Inr Running
     else if l = ''completed'' then Inr Completed
     else if l = ''failed'' then Inr Failed
     else if l = ''cancelled'' then Inr Cancelled
     else if l = ''suspended'' then Inr Suspended
     else mapping_error [Lit ''unknown task status: '', Dbg l])"

fun status_to_str :: "task_status \<Rightarrow> string" where
  "status_to_str Pending = ''pending''"
| "status_to_str Running = ''running''"
| "status_to_str Completed = ''completed''"
| "status_to_str Failed = ''failed''"
| "status_to_str Cancelled = ''cancelled''"
| "status_to_str Suspended = ''suspended''"

lemma status_to_str_as_str [simp]: "status_to_str st = as_str st"
  by (cases st) simp_all

lemma lowercase_status [simp]: "to_ascii_lowercase (as_str st) = as_str st"
  by (cases st) (simp_all add: to_ascii_lowercase_def ascii_lower_def byte_def)

lemma parse_status_Inr: "parse_status s = Inr st \<longleftrightarrow> to_ascii_lowercase s = as_str st"
  by (cases st) (auto simp: parse_status_def Let_def mapping_error_def)

lemma parse_as_str [simp]: "parse_status (as_str st) = Inr st"
  by (simp add: parse_status_Inr)

lemma parse_literals [simp]:
  "parse_status ''pending'' = Inr Pending" "parse_status ''running'' = Inr Running"
  "parse_status ''completed'' = Inr Completed" "parse_status ''failed'' = Inr Failed"
  "parse_status ''cancelled'' = Inr Cancelled" "parse_status ''suspended'' = Inr Suspended"
  using parse_as_str [of Pending] parse_as_str [of Running] parse_as_str [of Completed]
    parse_as_str [of Failed] parse_as_str [of Cancelled] parse_as_str [of Suspended]
  by simp_all

section \<open>Row to record\<close>

definition map_row :: "(validation_error \<Rightarrow> message) \<Rightarrow> validation_error + 'a \<Rightarrow> adapter_error + 'a"
  where "map_row reason r = map_err (\<lambda>e. Mapping (reason e)) r"

definition record_of_row :: "task_row \<Rightarrow> adapter_error + task_record" where
  "record_of_row row =
     and_then (map_row (\<lambda>e. Lit ''invalid task kind: '' # display_validation_error e)
       (task_kind_try_from (row_kind row))) (\<lambda>kind.
     and_then (map_row (\<lambda>e. Lit ''task.attempts: '' # display_validation_error e)
       (attempt_new (row_attempts row))) (\<lambda>attempts.
     and_then (map_row (\<lambda>e. Lit ''task.max_attempts: '' # display_validation_error e)
       (max_new (row_max_attempts row))) (\<lambda>max_attempts.
     if max_get max_attempts < attempt_get attempts then
       mapping_error [Lit ''attempts ('', Num (attempt_get attempts),
         Lit '') exceeds max_attempts ('', Num (max_get max_attempts),
         Lit '') for task '', Id (row_id row)]
     else
     and_then (map_row (\<lambda>e. Lit ''invalid queue name: '' # display_validation_error e)
       (queue_try_from (row_queue row))) (\<lambda>queue.
     and_then (parse_status (row_status row)) (\<lambda>status.
     Inr \<lparr>rec_id = TaskId (row_id row), rec_queue = queue, rec_kind = kind,
       rec_payload = row_payload row, rec_status = status,
       rec_priority = Priority (row_priority row), rec_attempts = attempts,
       rec_max_attempts = max_attempts,
       rec_last_error = map_option truncate_last_error (row_last_error row),
       rec_scheduled_at = row_scheduled_at row,
       rec_claimed_by = map_option WorkerId (row_claimed_by row),
       rec_claimed_until = row_claimed_until row, rec_created_at = row_created_at row,
       rec_updated_at = row_updated_at row,
       rec_idempotency_key = row_idempotency_key row,
       rec_idempotency_expires_at = row_idempotency_expires_at row,
       rec_trace_id = row_trace_id row, rec_checkpoint = row_checkpoint row,
       rec_suspended_at = row_suspended_at row,
       rec_signal_payload = row_signal_payload row, rec_region = row_region row\<rparr>)))))"

text \<open>The rows the mapping accepts.\<close>

definition row_valid :: "task_row \<Rightarrow> bool" where
  "row_valid row \<longleftrightarrow> row_kind row \<noteq> [] \<and> 0 \<le> row_attempts row \<and> 1 \<le> row_max_attempts row
     \<and> row_attempts row \<le> row_max_attempts row \<and> queue_valid (row_queue row)
     \<and> (\<exists>st. parse_status (row_status row) = Inr st)"

lemma map_row_Inr [simp]: "map_row f r = Inr x \<longleftrightarrow> r = Inr x"
  by (cases r) (simp_all add: map_row_def)

lemma record_of_row_valid: "(\<exists>t. record_of_row row = Inr t) \<longleftrightarrow> row_valid row"
  by (auto simp: record_of_row_def row_valid_def and_then_Inr_iff task_kind_try_from_Inr
      attempt_new_Inr max_new_Inr queue_try_from_Inr mapping_error_def)

lemma record_of_row_fields:
  assumes "record_of_row row = Inr t"
  shows "rec_id t = TaskId (row_id row)" "rec_queue t = QueueName (row_queue row)"
    "rec_kind t = TaskKind (row_kind row)" "rec_payload t = row_payload row"
    "to_ascii_lowercase (row_status row) = as_str (rec_status t)"
    "rec_priority t = Priority (row_priority row)"
    "rec_attempts t = AttemptCount (row_attempts row)"
    "rec_max_attempts t = MaxAttempts (row_max_attempts row)"
    "rec_scheduled_at t = row_scheduled_at row"
    "rec_claimed_by t = map_option WorkerId (row_claimed_by row)"
    "rec_claimed_until t = row_claimed_until row"
    "rec_idempotency_key t = row_idempotency_key row"
    "rec_region t = row_region row" "rec_trace_id t = row_trace_id row"
    "rec_checkpoint t = row_checkpoint row"
    "rec_signal_payload t = row_signal_payload row"
    "rec_last_error t = map_option truncate_last_error (row_last_error row)"
  using assms
  by (auto simp: record_of_row_def and_then_Inr_iff task_kind_try_from_Inr attempt_new_Inr
      max_new_Inr queue_try_from_Inr parse_status_Inr mapping_error_def split: if_splits)

text \<open>\<open>row.map(TaskRecord::try_from)\<close> in a function that returns a \<open>TaskError\<close>.\<close>

definition record_res :: "task_row \<Rightarrow> task_record res" where
  "record_res row = map_err adapter_failure (record_of_row row)"

lemma record_res_Inr: "record_res row = Inr t \<longleftrightarrow> record_of_row row = Inr t"
  by (cases "record_of_row row") (simp_all add: record_res_def)

end
