(* ===== verification/Pg_Db.thy ===== *)
theory Pg_Db
  imports Pg_Row
begin

text \<open>
  The database the repository talks to (\<open>migrations/*.sql\<close>): the tables \<open>tasks\<close> and
  \<open>task_audit_log\<close> with their constraints, the shapes of statement the repository issues, and
  transactions. A table is the list of its rows in heap order, which the theorems leave
  arbitrary. What the database decides by itself is in a record \<open>env\<close>, one per call: the
  transaction timestamp \<open>now()\<close>, the value of \<open>random()\<close>, the rows other transactions have
  locked, and a library error for each point at which a call can fail, also the one where the
  commit took effect and only its acknowledgement was lost.
\<close>

section \<open>Tables\<close>

record audit_row =
  aud_id :: int
  aud_task_id :: uuid
  aud_from :: "string option"
  aud_to :: string
  aud_timestamp :: time
  aud_worker :: "uuid option"
  aud_trace_id :: "string option"
  aud_metadata :: "json option"
  aud_region :: "string option"

record db =
  db_tasks :: "task_row list"
  db_audit :: "audit_row list"
  db_seq :: int

definition empty_db :: db where
  "empty_db = \<lparr>db_tasks = [], db_audit = [], db_seq = 0\<rparr>"

datatype violation =
    StatusCheck
  | KindCheck
  | ClaimFieldsCheck
  | PrimaryKey
  | IdempotencyIndex
  | AuditTaskMissing
  | IntegerOverflow
  | FloatOverflow

datatype point = AtBegin | AtStmt nat | AtAudit uuid | AtCommit | AtCommitAck

record env =
  e_now :: time
  e_utc_now :: time
  e_random :: rat
  e_locked :: "uuid \<Rightarrow> bool"
  e_fault :: "point \<Rightarrow> sqlx_error option"
  e_violation :: "violation \<Rightarrow> sqlx_error"
  e_json :: serializer
  e_lower :: "string \<Rightarrow> string"
  e_dbg :: bool

text \<open>An environment in which nothing fails, for concrete runs.\<close>

definition quiet_env :: "time \<Rightarrow> env" where
  "quiet_env t = \<lparr>e_now = t, e_utc_now = t, e_random = 1 / 2, e_locked = (\<lambda>_. False),
     e_fault = (\<lambda>_. None), e_violation = (\<lambda>_. OtherSqlx ''constraint''),
     e_json = (\<lambda>_. Inr ''{}''), e_lower = to_ascii_lowercase, e_dbg = True\<rparr>"

section \<open>Constraints\<close>

definition terminal_str :: "string \<Rightarrow> bool" where
  "terminal_str s \<longleftrightarrow> s = ''completed'' \<or> s = ''failed'' \<or> s = ''cancelled''"

definition status_strings :: "string list" where
  "status_strings =
     [''pending'', ''running'', ''completed'', ''failed'', ''cancelled'', ''suspended'']"

definition row_check :: "task_row \<Rightarrow> violation option" where
  "row_check r =
     (if row_status r \<notin> set status_strings then Some StatusCheck
      else if row_kind r = [] then Some KindCheck
      else if (row_claimed_by r = None) \<noteq> (row_claimed_until r = None)
        then Some ClaimFieldsCheck
      else None)"

text \<open>The key of the partial unique index \<open>idx_tasks_idempotency\<close>, for a row it covers.\<close>

definition idem_slot :: "task_row \<Rightarrow> (string \<times> string) option" where
  "idem_slot r = (case row_idempotency_key r of
      None \<Rightarrow> None
    | Some k \<Rightarrow> if terminal_str (row_status r) then None else Some (row_queue r, k))"

definition idem_slots :: "task_row list \<Rightarrow> (string \<times> string) list" where
  "idem_slots rs = List.map_filter idem_slot rs"

definition table_check :: "task_row list \<Rightarrow> violation option" where
  "table_check rs = (case List.map_filter row_check rs of
      v # _ \<Rightarrow> Some v
    | [] \<Rightarrow> if \<not> distinct (map row_id rs) then Some PrimaryKey
           else if \<not> distinct (idem_slots rs) then Some IdempotencyIndex
           else None)"

definition table_ok :: "task_row list \<Rightarrow> bool" where
  "table_ok rs \<longleftrightarrow> (\<forall>r \<in> set rs. row_check r = None) \<and> distinct (map row_id rs)
     \<and> distinct (idem_slots rs)"

lemma map_filter_Nil: "List.map_filter f xs = [] \<longleftrightarrow> (\<forall>x \<in> set xs. f x = None)"
  by (induction xs) (auto simp: List.map_filter_def)

lemma map_filter_inj:
  "distinct (List.map_filter f xs) \<Longrightarrow> x \<in> set xs \<Longrightarrow> y \<in> set xs \<Longrightarrow> f x = Some k \<Longrightarrow> f y = Some k
     \<Longrightarrow> x = y"
proof (induction xs)
  case (Cons z zs)
  have "k \<in> set (List.map_filter f zs)" if "u \<in> set zs" "f u = Some k" for u
    using that by (force simp: List.map_filter_def)
  with Cons show ?case by (auto simp: List.map_filter_def split: option.splits if_splits)
qed simp

lemma table_check_None: "table_check rs = None \<longleftrightarrow> table_ok rs"
  by (auto simp: table_check_def table_ok_def map_filter_Nil [symmetric] split: list.splits)

lemma table_ok_distinct: "table_ok rs \<Longrightarrow> distinct (map row_id rs)"
  and table_ok_slots: "table_ok rs \<Longrightarrow> distinct (idem_slots rs)"
  and table_ok_row: "table_ok rs \<Longrightarrow> r \<in> set rs \<Longrightarrow> row_check r = None"
  by (simp_all add: table_ok_def)

text \<open>A change row by row that keeps ids, satisfies the checks and takes no new index entry
  cannot be rejected.\<close>

lemma idem_slots_Cons:
  "idem_slots (r # rs) = (case idem_slot r of None \<Rightarrow> idem_slots rs | Some k \<Rightarrow> k # idem_slots rs)"
  by (simp add: idem_slots_def List.map_filter_def split: option.splits)

lemma idem_slots_Nil [simp]: "idem_slots [] = []"
  by (simp add: idem_slots_def List.map_filter_def)

lemma idem_slots_map:
  assumes "\<forall>r \<in> set rs. idem_slot (g r) = idem_slot r \<or> idem_slot (g r) = None"
  shows "subseq (idem_slots (map g rs)) (idem_slots rs)"
  using assms by (induction rs) (auto simp: idem_slots_Cons split: option.splits)

lemma table_ok_map:
  assumes "table_ok rs"
    and "\<And>r. r \<in> set rs \<Longrightarrow> row_id (g r) = row_id r \<and> row_check (g r) = None
      \<and> (idem_slot (g r) = idem_slot r \<or> idem_slot (g r) = None)"
  shows "table_ok (map g rs)"
proof -
  have "map row_id (map g rs) = map row_id rs" using assms(2) by simp
  moreover have "subseq (idem_slots (map g rs)) (idem_slots rs)"
    using assms(2) by (intro idem_slots_map) auto
  ultimately show ?thesis
    using assms by (auto simp: table_ok_def subseq_conv_nths distinct_nthsI simp del: map_map)
qed

lemma table_ok_update:
  assumes "table_ok rs"
    and "\<And>r. r \<in> set rs \<Longrightarrow> p r \<Longrightarrow> row_check r = None \<Longrightarrow> row_id (f r) = row_id r
      \<and> row_check (f r) = None \<and> (idem_slot (f r) = idem_slot r \<or> idem_slot (f r) = None)"
  shows "table_ok (map (\<lambda>r. if p r then f r else r) rs)"
proof (rule table_ok_map [OF assms(1)])
  fix r
  assume r: "r \<in> set rs"
  with assms(1) have "row_check r = None" by (rule table_ok_row)
  with assms(2) [OF r] show "row_id (if p r then f r else r) = row_id r
      \<and> row_check (if p r then f r else r) = None
      \<and> (idem_slot (if p r then f r else r) = idem_slot r
         \<or> idem_slot (if p r then f r else r) = None)" by auto
qed

section \<open>Statements\<close>

type_synonym 'a stmt = "(db, sqlx_error, 'a) act"

definition update_where ::
  "env \<Rightarrow> (task_row \<Rightarrow> bool) \<Rightarrow> (task_row \<Rightarrow> violation option) \<Rightarrow> (task_row \<Rightarrow> task_row)
     \<Rightarrow> task_row list stmt" where
  "update_where e p chk f d =
     (let rows = map (\<lambda>r. if p r then f r else r) (db_tasks d) in
      case List.map_filter chk (filter p (db_tasks d)) of
        v # _ \<Rightarrow> (Inl (e_violation e v), d)
      | [] \<Rightarrow> (case table_check rows of
          Some v \<Rightarrow> (Inl (e_violation e v), d)
        | None \<Rightarrow> (Inr (map f (filter p (db_tasks d))), d\<lparr>db_tasks := rows\<rparr>)))"

definition no_chk :: "task_row \<Rightarrow> violation option" where
  "no_chk r = None"

definition insert_row :: "env \<Rightarrow> task_row \<Rightarrow> task_row stmt" where
  "insert_row e r d = (case table_check (db_tasks d @ [r]) of
      Some v \<Rightarrow> (Inl (e_violation e v), d)
    | None \<Rightarrow> (Inr r, d\<lparr>db_tasks := db_tasks d @ [r]\<rparr>))"

text \<open>\<open>ON CONFLICT (queue, idempotency_key) ... DO NOTHING\<close>: no row on a conflict.\<close>

definition insert_or_nothing :: "env \<Rightarrow> task_row \<Rightarrow> task_row option stmt" where
  "insert_or_nothing e r d = (case row_check r of
      Some v \<Rightarrow> (Inl (e_violation e v), d)
    | None \<Rightarrow>
        if idem_slot r \<noteq> None \<and> the (idem_slot r) \<in> set (idem_slots (db_tasks d))
        then (Inr None, d)
        else (case insert_row e r d of
            (Inl x, t) \<Rightarrow> (Inl x, t)
          | (Inr r', t) \<Rightarrow> (Inr (Some r'), t)))"

definition select_where :: "(task_row \<Rightarrow> bool) \<Rightarrow> task_row list stmt" where
  "select_where p d = (Inr (filter p (db_tasks d)), d)"

text \<open>\<open>fetch_optional\<close>: the first row.\<close>

fun first_row :: "'a list \<Rightarrow> 'a option" where
  "first_row [] = None"
| "first_row (x # _) = Some x"

text \<open>One statement of a call: it fails with the library's error at its point, or with the
  error of the constraint it violates.\<close>

definition sql :: "env \<Rightarrow> point \<Rightarrow> 'a stmt \<Rightarrow> (db, 'a) op" where
  "sql e pt stm d = (case e_fault e pt of
      Some x \<Rightarrow> (Inl (sqlx_failure (e_lower e) x), d)
    | None \<Rightarrow> (case stm d of
        (Inl x, t) \<Rightarrow> (Inl (sqlx_failure (e_lower e) x), t)
      | (Inr y, t) \<Rightarrow> (Inr y, t)))"

section \<open>Transactions\<close>

text \<open>A rollback undoes the rows; a sequence does not go back.\<close>

definition rollback :: "db \<Rightarrow> db \<Rightarrow> db" where
  "rollback d t = d\<lparr>db_seq := db_seq t\<rparr>"

definition transact :: "env \<Rightarrow> (db, 'a) op \<Rightarrow> (db, 'a) op" where
  "transact e body d = (case e_fault e AtBegin of
      Some x \<Rightarrow> (Inl (sqlx_failure (e_lower e) x), d)
    | None \<Rightarrow> (case body d of
        (Inl f, t) \<Rightarrow> (Inl f, rollback d t)
      | (Inr y, t) \<Rightarrow> (case e_fault e AtCommit of
          Some x \<Rightarrow> (Inl (sqlx_failure (e_lower e) x), rollback d t)
        | None \<Rightarrow> (case e_fault e AtCommitAck of
            Some x \<Rightarrow> (Inl (sqlx_failure (e_lower e) x), t)
          | None \<Rightarrow> (Inr y, t)))))"

text \<open>A statement on the pool is a transaction of its own.\<close>

definition on_pool :: "env \<Rightarrow> 'a stmt \<Rightarrow> (db, 'a) op" where
  "on_pool e stm = transact e (sql e (AtStmt 0) stm)"

lemma rollback_frames [simp]:
  "db_tasks (rollback d t) = db_tasks d" "db_audit (rollback d t) = db_audit d"
  by (simp_all add: rollback_def)

lemma transact_cases:
  assumes "transact e body d = (res, d')"
  obtains (aborted) t f where "res = Inl f" "d' = rollback d t"
  | (committed) x where "body d = (Inr x, d')" "res = Inr x"
  | (unacknowledged) x f where "body d = (Inr x, d')" "res = Inl f"
proof -
  have self: "rollback d d = d" by (simp add: rollback_def)
  from assms show thesis
    using that(1) [where t = d] that(1) that(2) that(3)
    by (fastforce simp: transact_def self split: option.splits prod.splits sum.splits)
qed

lemma sql_Inr: "sql e pt stm d = (Inr y, t) \<longleftrightarrow> e_fault e pt = None \<and> stm d = (Inr y, t)"
  by (auto simp: sql_def split: option.splits prod.splits sum.splits)

lemma update_where_Inr:
  "update_where e p chk f d = (Inr rows, t) \<longleftrightarrow>
     (\<forall>r \<in> set (db_tasks d). p r \<longrightarrow> chk r = None)
     \<and> table_ok (map (\<lambda>r. if p r then f r else r) (db_tasks d))
     \<and> rows = map f (filter p (db_tasks d))
     \<and> t = d\<lparr>db_tasks := map (\<lambda>r. if p r then f r else r) (db_tasks d)\<rparr>"
proof -
  have "List.map_filter chk (filter p (db_tasks d)) = []
      \<longleftrightarrow> (\<forall>r \<in> set (db_tasks d). p r \<longrightarrow> chk r = None)"
    by (auto simp: map_filter_Nil)
  then show ?thesis
    by (auto simp: update_where_def Let_def table_check_None [symmetric] split: list.splits
        option.splits)
qed

lemma insert_row_Inr:
  "insert_row e r d = (Inr r', t) \<longleftrightarrow>
     table_ok (db_tasks d @ [r]) \<and> r' = r \<and> t = d\<lparr>db_tasks := db_tasks d @ [r]\<rparr>"
  by (auto simp: insert_row_def table_check_None [symmetric] split: option.splits)

lemma select_where_Inr:
  "select_where p d = (Inr rows, t) \<longleftrightarrow> rows = filter p (db_tasks d) \<and> t = d"
  by (auto simp: select_where_def)

lemma first_row_None [simp]: "first_row xs = None \<longleftrightarrow> xs = []"
  by (cases xs) simp_all

lemma first_row_in: "first_row xs = Some x \<Longrightarrow> x \<in> set xs"
  by (cases xs) simp_all

section \<open>The audit log\<close>

definition AUDIT_TRACE_MAX :: nat where
  "AUDIT_TRACE_MAX = 255"

definition AUDIT_METADATA_MAX :: nat where
  "AUDIT_METADATA_MAX = 10240"

definition cap_trace :: "string option \<Rightarrow> message + string option" where
  "cap_trace trace_id = transpose (map_option (\<lambda>t.
     if AUDIT_TRACE_MAX < length t then slice t 0 AUDIT_TRACE_MAX else Inr t) trace_id)"

definition cap_metadata :: "serializer \<Rightarrow> json option \<Rightarrow> json option" where
  "cap_metadata ser metadata = map_option (\<lambda>m.
     (let s = (case ser m of Inl _ \<Rightarrow> [] | Inr s \<Rightarrow> s) in
      if AUDIT_METADATA_MAX < length s then
        JObj [(''warning'', JStr ''metadata truncated: exceeded 10KB limit''),
              (''original_size'', JInt (int (length s)))]
      else m)) metadata"

definition insert_audit :: "env \<Rightarrow> audit_row \<Rightarrow> unit stmt" where
  "insert_audit e a d =
     (if aud_task_id a \<in> set (map row_id (db_tasks d))
      then (Inr (), d\<lparr>db_audit := db_audit d @ [a\<lparr>aud_id := db_seq d + 1\<rparr>],
                      db_seq := db_seq d + 1\<rparr>)
      else (Inl (e_violation e AuditTaskMissing), d\<lparr>db_seq := db_seq d + 1\<rparr>))"

definition insert_audit_row ::
  "env \<Rightarrow> bool \<Rightarrow> uuid \<Rightarrow> string option \<Rightarrow> string \<Rightarrow> uuid option \<Rightarrow> string option
     \<Rightarrow> json option \<Rightarrow> string option \<Rightarrow> (db, unit) op" where
  "insert_audit_row e audit_log task_id from_status to_status worker_id trace_id metadata region =
     (if \<not> audit_log then return ()
      else andthen (lift (map_err Panic (cap_trace trace_id))) (\<lambda>capped_trace_id.
        let capped_metadata = cap_metadata (e_json e) metadata in
        sql e (AtAudit task_id) (insert_audit e
          \<lparr>aud_id = 0, aud_task_id = task_id, aud_from = from_status, aud_to = to_status,
            aud_timestamp = e_now e, aud_worker = worker_id, aud_trace_id = capped_trace_id,
            aud_metadata = capped_metadata, aud_region = region\<rparr>)))"


text \<open>Where nothing fails and the trace id fits, the audit row is written.\<close>

definition trace_fits :: "string option \<Rightarrow> bool" where
  "trace_fits tr \<longleftrightarrow> pred_option (\<lambda>t. length t \<le> AUDIT_TRACE_MAX) tr"

lemma insert_audit_row_quiet:
  assumes "\<forall>pt. e_fault e pt = None" and "trace_fits tr" and "i \<in> set (map row_id (db_tasks d))"
  shows "\<exists>d'. insert_audit_row e al i fr to w tr m g d = (Inr (), d') \<and> db_tasks d' = db_tasks d"
  using assms
  by (cases tr) (auto simp: insert_audit_row_def insert_audit_def cap_trace_def trace_fits_def
      andthen_def effect_simps sql_def Let_def)

end
