(* ===== verification/Repo_Write.thy ===== *)
theory Repo_Write
  imports Pg_Db
begin

text \<open>
  The operations of \<open>PostgresTaskRepository\<close> that change the database, and the checkpoint
  writer (\<open>adapters/postgres_task_repository.rs\<close>). Each takes the environment of the call, the
  flag \<open>audit_log\<close> and its arguments, and is composed of the transaction, the statements and
  the audit rows in the order of the source. Checks behind the commit come after \<open>transact\<close>:
  an error there leaves the committed change in place.
\<close>

section \<open>SQL arithmetic\<close>

text \<open>\<open>make_interval(secs => x)\<close> in microseconds: the nearest integer, ties to even.\<close>

definition rint :: "rat \<Rightarrow> int" where
  "rint x = (let n = \<lfloor>x\<rfloor>; d = x - of_int n in
     if d < 1 / 2 then n else if 1 / 2 < d then n + 1 else if even n then n else n + 1)"

definition interval_of_secs :: "rat \<Rightarrow> time" where
  "interval_of_secs s = rint (s * 1000000)"

text \<open>\<open>power(2, k)\<close> in double precision, an error from the first overflow on.\<close>

definition pow2 :: "int \<Rightarrow> rat" where
  "pow2 k = (if 0 \<le> k then 2 ^ nat k else 1 / 2 ^ nat (- k))"

definition float_limit :: rat where
  "float_limit = 2 ^ 1024 - 2 ^ 970"

definition backoff_overflow :: "rat \<Rightarrow> int \<Rightarrow> bool" where
  "backoff_overflow base attempts \<longleftrightarrow> 1024 \<le> attempts - 1 \<or> float_limit \<le> base * pow2 (attempts - 1)"

definition backoff_secs :: "rat \<Rightarrow> rat \<Rightarrow> int \<Rightarrow> rat \<Rightarrow> rat" where
  "backoff_secs base mx attempts rnd =
     min (base * pow2 (attempts - 1)) mx * (3 / 4 + rnd * (1 / 2))"

section \<open>Saving\<close>

text \<open>The \<open>VALUES\<close> of the insert, with the column defaults for the two timestamps.\<close>

definition insert_values :: "env \<Rightarrow> task_record \<Rightarrow> task_row" where
  "insert_values e t =
     \<lparr>row_id = task_uuid (rec_id t), row_queue = queue_str (rec_queue t),
      row_kind = kind_str (rec_kind t), row_payload = rec_payload t,
      row_status = status_to_str (rec_status t), row_priority = priority_get (rec_priority t),
      row_attempts = attempt_get (rec_attempts t),
      row_max_attempts = max_get (rec_max_attempts t),
      row_last_error = map_option truncate_last_error_borrow (rec_last_error t),
      row_scheduled_at = rec_scheduled_at t,
      row_claimed_by = map_option worker_uuid (rec_claimed_by t),
      row_claimed_until = rec_claimed_until t, row_created_at = e_now e,
      row_updated_at = e_now e, row_idempotency_key = rec_idempotency_key t,
      row_idempotency_expires_at = rec_idempotency_expires_at t,
      row_trace_id = rec_trace_id t, row_checkpoint = rec_checkpoint t,
      row_suspended_at = rec_suspended_at t, row_signal_payload = rec_signal_payload t,
      row_region = rec_region t\<rparr>"

text \<open>The audit row of a new task.\<close>

definition audit_created :: "env \<Rightarrow> bool \<Rightarrow> task_row \<Rightarrow> (db, unit) op" where
  "audit_created e al row =
     insert_audit_row e al (row_id row) None ''pending'' None (row_trace_id row) None
       (row_region row)"

definition save_body :: "env \<Rightarrow> bool \<Rightarrow> task_record \<Rightarrow> (db, task_row) op" where
  "save_body e al t =
     andthen (sql e (AtStmt 0) (insert_row e (insert_values e t))) (\<lambda>row.
     andthen (audit_created e al row) (\<lambda>_. return row))"

definition save :: "env \<Rightarrow> bool \<Rightarrow> task_record \<Rightarrow> (db, task_record) op" where
  "save e al t = andthen (transact e (save_body e al t)) (\<lambda>row. lift (record_res row))"

text \<open>The row found by \<open>queue = $1 AND idempotency_key = $2\<close> among the non-terminal ones.\<close>

definition holds_key :: "task_record \<Rightarrow> task_row \<Rightarrow> bool" where
  "holds_key t r \<longleftrightarrow> rec_idempotency_key t \<noteq> None
     \<and> row_queue r = queue_str (rec_queue t)
     \<and> row_idempotency_key r = rec_idempotency_key t
     \<and> \<not> terminal_str (row_status r)"

text \<open>The inserted row and \<open>True\<close>, or the row already there and \<open>False\<close>.\<close>

definition save_idempotent_body ::
  "env \<Rightarrow> bool \<Rightarrow> task_record \<Rightarrow> (db, task_row option \<times> bool) op" where
  "save_idempotent_body e al t =
     andthen (sql e (AtStmt 0) (insert_or_nothing e (insert_values e t))) (\<lambda>inserted_row.
     (case inserted_row of
        Some row \<Rightarrow> andthen (audit_created e al row) (\<lambda>_. return (Some row, True))
      | None \<Rightarrow> andthen (sql e (AtStmt 1) (select_where (holds_key t))) (\<lambda>rows.
          return (first_row rows, False))))"

definition save_idempotent :: "env \<Rightarrow> bool \<Rightarrow> task_record \<Rightarrow> (db, task_record \<times> bool) op" where
  "save_idempotent e al t =
     andthen (transact e (save_idempotent_body e al t)) (\<lambda>(row, created).
     (case row of
        Some r \<Rightarrow> andthen (lift (record_res r)) (\<lambda>record. return (record, created))
      | None \<Rightarrow> raise (Error (NotInExpectedState (rec_id t) ''non-terminal''))))"

text \<open>The two operations inside a transaction of the caller: no \<open>transact\<close> of their own.\<close>

definition save_in_tx :: "env \<Rightarrow> bool \<Rightarrow> task_record \<Rightarrow> (db, task_record) op" where
  "save_in_tx e al t = andthen (save_body e al t) (\<lambda>row. lift (record_res row))"

definition save_idempotent_in_tx ::
  "env \<Rightarrow> bool \<Rightarrow> task_record \<Rightarrow> (db, task_record \<times> bool) op" where
  "save_idempotent_in_tx e al t =
     andthen (save_idempotent_body e al t) (\<lambda>(row, created).
     (case row of
        Some r \<Rightarrow> andthen (lift (record_res r)) (\<lambda>record. return (record, created))
      | None \<Rightarrow> raise (Error (Storage (Text
          [Lit ''idempotency conflict detected for queue='', Str (queue_str (rec_queue t)),
           Lit '' key='', Str (case rec_idempotency_key t of Some k \<Rightarrow> k | None \<Rightarrow> ''none''),
           Lit '', but no non-terminal task found (likely transitioned to terminal state during race)''])))))"

definition cleanup_expired_idempotency_keys :: "env \<Rightarrow> (db, nat) op" where
  "cleanup_expired_idempotency_keys e =
     andthen (on_pool e (update_where e
       (\<lambda>r. (case row_idempotency_expires_at r of None \<Rightarrow> False | Some x \<Rightarrow> x < e_utc_now e)
         \<and> terminal_str (row_status r) \<and> row_idempotency_key r \<noteq> None) no_chk
       (\<lambda>r. r\<lparr>row_idempotency_key := None, row_idempotency_expires_at := None,
              row_updated_at := e_now e\<rparr>)))
     (\<lambda>rows. return (length rows))"

section \<open>Claiming\<close>

text \<open>\<open>region = None\<close> is a worker without a region.\<close>

definition claimable :: "env \<Rightarrow> string \<Rightarrow> string option \<Rightarrow> task_row \<Rightarrow> bool" where
  "claimable e queue region r \<longleftrightarrow> row_queue r = queue \<and> row_status r = ''pending''
     \<and> row_scheduled_at r \<le> e_now e
     \<and> (case region of
          Some g \<Rightarrow> row_region r = None \<or> row_region r = Some g
        | None \<Rightarrow> row_region r = None)"

definition claim_key :: "task_row \<Rightarrow> int \<times> time" where
  "claim_key r = (- row_priority r, row_scheduled_at r)"

text \<open>The subquery: \<open>ORDER BY priority DESC, scheduled_at ASC FOR UPDATE SKIP LOCKED LIMIT 1\<close>.\<close>

definition claim_candidate ::
  "env \<Rightarrow> string \<Rightarrow> string option \<Rightarrow> task_row list \<Rightarrow> task_row option" where
  "claim_candidate e queue region rows =
     first_row (filter (\<lambda>r. \<not> e_locked e (row_id r))
       (sort_key claim_key (filter (claimable e queue region) rows)))"

definition attempts_chk :: "task_row \<Rightarrow> violation option" where
  "attempts_chk r = (if i32_range (row_attempts r + 1) then None else Some IntegerOverflow)"

definition claim_update :: "env \<Rightarrow> uuid \<Rightarrow> rat \<Rightarrow> task_row \<Rightarrow> task_row" where
  "claim_update e worker lease_secs r =
     r\<lparr>row_status := ''running'', row_claimed_by := Some worker,
       row_claimed_until := Some (e_now e + interval_of_secs lease_secs),
       row_attempts := row_attempts r + 1, row_updated_at := e_now e\<rparr>"

definition claim_stmt ::
  "env \<Rightarrow> string \<Rightarrow> uuid \<Rightarrow> rat \<Rightarrow> string option \<Rightarrow> task_row list stmt" where
  "claim_stmt e queue worker lease_secs region d =
     (case claim_candidate e queue region (db_tasks d) of
        None \<Rightarrow> (Inr [], d)
      | Some c \<Rightarrow> update_where e (\<lambda>r. row_id r = row_id c) attempts_chk
          (claim_update e worker lease_secs) d)"

definition claim_next ::
  "env \<Rightarrow> bool \<Rightarrow> queue_name \<Rightarrow> worker_id \<Rightarrow> duration \<Rightarrow> string option
     \<Rightarrow> (db, task_record option) op" where
  "claim_next e al queue worker lease region =
     andthen (transact e (
       andthen (sql e (AtStmt 0) (claim_stmt e (queue_str queue) (worker_uuid worker)
         (as_secs_f64 lease) region)) (\<lambda>rows.
       let row = first_row rows in
       andthen (case row of
           None \<Rightarrow> return ()
         | Some r \<Rightarrow> insert_audit_row e al (row_id r) (Some ''pending'') ''running''
             (Some (worker_uuid worker)) (row_trace_id r) None (row_region r)) (\<lambda>_.
       return row))))
     (\<lambda>row. lift (transpose (map_option record_res row)))"


section \<open>Ending a claim\<close>

text \<open>
  The match the operations on one task share: update by id, \<open>fetch_optional\<close>, then the audit
  row of the row returned, or what happens when there was none.
\<close>

definition fetch_one ::
  "env \<Rightarrow> (task_row \<Rightarrow> bool) \<Rightarrow> (task_row \<Rightarrow> violation option) \<Rightarrow> (task_row \<Rightarrow> task_row)
     \<Rightarrow> (task_row \<Rightarrow> (db, unit) op) \<Rightarrow> (task_row \<Rightarrow> 'a) \<Rightarrow> (db, 'a) op \<Rightarrow> (db, 'a) op" where
  "fetch_one e p chk f audit ret miss =
     andthen (sql e (AtStmt 0) (update_where e p chk f)) (\<lambda>rows.
     (case first_row rows of
        Some r \<Rightarrow> andthen (audit r) (\<lambda>_. return (ret r))
      | None \<Rightarrow> miss))"

definition is_running :: "uuid \<Rightarrow> task_row \<Rightarrow> bool" where
  "is_running i r \<longleftrightarrow> row_id r = i \<and> row_status r = ''running''"

definition complete_update :: "env \<Rightarrow> task_row \<Rightarrow> task_row" where
  "complete_update e r =
     r\<lparr>row_status := ''completed'', row_checkpoint := None, row_updated_at := e_now e\<rparr>"

definition complete :: "env \<Rightarrow> bool \<Rightarrow> task_id \<Rightarrow> (db, task_record) op" where
  "complete e al task_id =
     andthen (transact e (
       fetch_one e (is_running (task_uuid task_id)) no_chk (complete_update e)
         (\<lambda>r. insert_audit_row e al (row_id r) (Some ''running'') ''completed''
           (row_claimed_by r) (row_trace_id r) None (row_region r))
         (\<lambda>r. r)
         (raise (Error (NotInExpectedState task_id ''Running'')))))
     (\<lambda>r. lift (record_res r))"

definition fail_update :: "env \<Rightarrow> string \<Rightarrow> rat \<Rightarrow> rat \<Rightarrow> task_row \<Rightarrow> task_row" where
  "fail_update e err base mx r =
     (let retry = row_attempts r < row_max_attempts r in
      r\<lparr>row_status := (if retry then ''pending'' else ''failed''),
        row_claimed_by := (if retry then None else row_claimed_by r),
        row_claimed_until := (if retry then None else row_claimed_until r),
        row_last_error := Some err,
        row_scheduled_at := (if retry
          then e_now e + interval_of_secs (backoff_secs base mx (row_attempts r) (e_random e))
          else row_scheduled_at r),
        row_updated_at := e_now e\<rparr>)"

definition fail_chk :: "rat \<Rightarrow> task_row \<Rightarrow> violation option" where
  "fail_chk base r =
     (if row_attempts r < row_max_attempts r \<and> backoff_overflow base (row_attempts r)
      then Some FloatOverflow else None)"

text \<open>The three debug assertions; a rational is always finite.\<close>

definition fail_asserts :: "bool \<Rightarrow> rat \<Rightarrow> rat \<Rightarrow> unit res" where
  "fail_asserts dbg base mx =
     and_then (debug_assert dbg (0 < base)
       [Lit ''base_delay_secs must be finite and positive'']) (\<lambda>_.
     and_then (debug_assert dbg (0 < mx)
       [Lit ''max_delay_secs must be finite and positive'']) (\<lambda>_.
     debug_assert dbg (base \<le> mx) [Lit ''max_delay_secs must be >= base_delay_secs'']))"

definition fail ::
  "env \<Rightarrow> bool \<Rightarrow> task_id \<Rightarrow> string \<Rightarrow> rat \<Rightarrow> rat \<Rightarrow> (db, task_record) op" where
  "fail e al task_id error_message base mx =
     (let truncated_error = truncate_last_error error_message in
      andthen (lift (fail_asserts (e_dbg e) base mx)) (\<lambda>_.
      andthen (transact e (
        fetch_one e (is_running (task_uuid task_id)) (fail_chk base)
          (fail_update e truncated_error base mx)
          (\<lambda>r. insert_audit_row e al (row_id r) (Some ''running'') (row_status r)
            (row_claimed_by r) (row_trace_id r)
            (Some (JObj [(''error'', JStr truncated_error)])) (row_region r))
          (\<lambda>r. r)
          (raise (Error (NotInExpectedState task_id ''Running'')))))
      (\<lambda>r. lift (record_res r))))"

definition suspend_update :: "env \<Rightarrow> task_row \<Rightarrow> task_row" where
  "suspend_update e r =
     r\<lparr>row_status := ''suspended'', row_claimed_by := None, row_claimed_until := None,
       row_suspended_at := Some (e_now e), row_updated_at := e_now e\<rparr>"

definition suspend :: "env \<Rightarrow> bool \<Rightarrow> task_id \<Rightarrow> (db, task_record) op" where
  "suspend e al task_id =
     andthen (transact e (
       fetch_one e (is_running (task_uuid task_id)) no_chk (suspend_update e)
         (\<lambda>r. insert_audit_row e al (row_id r) (Some ''running'') ''suspended''
           (row_claimed_by r) (row_trace_id r) None (row_region r))
         (\<lambda>r. r)
         (raise (Error (NotInExpectedState task_id ''Running'')))))
     (\<lambda>r. lift (record_res r))"

section \<open>Releasing leases\<close>

definition release_update :: "env \<Rightarrow> task_row \<Rightarrow> task_row" where
  "release_update e r =
     r\<lparr>row_status := ''pending'', row_claimed_by := None, row_claimed_until := None,
       row_scheduled_at := e_now e, row_updated_at := e_now e,
       row_attempts := row_attempts r + 1\<rparr>"

definition shutdown_metadata :: json where
  "shutdown_metadata = JObj [(''reason'', JStr ''lease released: graceful shutdown'')]"

definition release_leases_for_worker ::
  "env \<Rightarrow> bool \<Rightarrow> worker_id \<Rightarrow> (db, (task_id \<times> string option) list) op" where
  "release_leases_for_worker e al worker =
     andthen (transact e (
       andthen (sql e (AtStmt 0) (update_where e
         (\<lambda>r. row_claimed_by r = Some (worker_uuid worker) \<and> row_status r = ''running'')
         attempts_chk (release_update e))) (\<lambda>rows.
       andthen (each (\<lambda>row. insert_audit_row e al (row_id row) (Some ''running'') ''pending''
         (Some (worker_uuid worker)) (row_trace_id row) (Some shutdown_metadata) None) rows) (\<lambda>_.
       return rows))))
     (\<lambda>rows. return (map (\<lambda>r. (TaskId (row_id r), row_trace_id r)) rows))"

definition release_lease_for_task :: "env \<Rightarrow> bool \<Rightarrow> task_id \<Rightarrow> (db, string option) op" where
  "release_lease_for_task e al task_id =
     transact e (
       fetch_one e (is_running (task_uuid task_id)) attempts_chk (release_update e)
         (\<lambda>r. insert_audit_row e al (task_uuid task_id) (Some ''running'') ''pending'' None
           (row_trace_id r) (Some shutdown_metadata) None)
         (\<lambda>r. row_trace_id r)
         (raise (Error (NotInExpectedState task_id ''Running''))))"

section \<open>Signals and cancellation\<close>

definition signal_payload_ok :: "serializer \<Rightarrow> json option \<Rightarrow> unit res" where
  "signal_payload_ok ser payload = (case payload of
      None \<Rightarrow> Inr ()
    | Some p \<Rightarrow> (case ser p of
        Inl m \<Rightarrow> Inl (Error (InvalidPayload (Serialization [Str m])))
      | Inr bytes \<Rightarrow>
          if SIGNAL_PAYLOAD_MAX_BYTES < length bytes then
            Inl (Error (InvalidPayload (Validation
              [Lit ''signal payload size '', Num (int (length bytes)),
               Lit '' exceeds maximum '', Num (int SIGNAL_PAYLOAD_MAX_BYTES), Lit '' bytes''])))
          else Inr ()))"

definition signal_update :: "env \<Rightarrow> json option \<Rightarrow> task_row \<Rightarrow> task_row" where
  "signal_update e payload r =
     r\<lparr>row_status := ''pending'', row_signal_payload := payload, row_suspended_at := None,
       row_updated_at := e_now e\<rparr>"

definition signal :: "env \<Rightarrow> bool \<Rightarrow> task_id \<Rightarrow> json option \<Rightarrow> (db, task_record) op" where
  "signal e al task_id payload =
     andthen (lift (signal_payload_ok (e_json e) payload)) (\<lambda>_.
     andthen (transact e (
       fetch_one e (\<lambda>r. row_id r = task_uuid task_id \<and> row_status r = ''suspended'') no_chk
         (signal_update e payload)
         (\<lambda>r. insert_audit_row e al (row_id r) (Some ''suspended'') ''pending'' None
           (row_trace_id r) None (row_region r))
         (\<lambda>r. r)
         (andthen (sql e (AtStmt 1) (select_where (\<lambda>r. row_id r = task_uuid task_id))) (\<lambda>found.
            if found = [] then raise (Error (NotFound task_id))
            else raise (Error (NotInExpectedState task_id ''Suspended''))))))
     (\<lambda>r. lift (record_res r)))"

definition cancel_update :: "env \<Rightarrow> task_row \<Rightarrow> task_row" where
  "cancel_update e r = r\<lparr>row_status := ''cancelled'', row_updated_at := e_now e\<rparr>"

definition cancellable :: "uuid \<Rightarrow> task_row \<Rightarrow> bool" where
  "cancellable i r \<longleftrightarrow>
     row_id r = i \<and> (row_status r = ''pending'' \<or> row_status r = ''suspended'')"

text \<open>
  The one statement of \<open>cancel\<close>: the cancelled row, or the status the row has in the snapshot
  the statement started from, or neither. A cancelled row has its \<open>NOT NULL\<close> columns, so the
  \<open>expect\<close> calls of the source have nothing to fail on.
\<close>

datatype cancel_row = CancelHit task_row | CancelMiss string | CancelNone

definition cancel_stmt :: "env \<Rightarrow> uuid \<Rightarrow> cancel_row stmt" where
  "cancel_stmt e i d = (case update_where e (cancellable i) no_chk (cancel_update e) d of
      (Inl x, t) \<Rightarrow> (Inl x, t)
    | (Inr rows, t) \<Rightarrow> (case first_row rows of
        Some r \<Rightarrow> (Inr (CancelHit r), t)
      | None \<Rightarrow> (case first_row (filter (\<lambda>r. row_id r = i) (db_tasks d)) of
          Some r \<Rightarrow> (Inr (CancelMiss (row_status r)), t)
        | None \<Rightarrow> (Inr CancelNone, t))))"

definition cancel_origin :: "task_row \<Rightarrow> string" where
  "cancel_origin r = (if row_suspended_at r \<noteq> None then ''suspended'' else ''pending'')"

definition cancel :: "env \<Rightarrow> bool \<Rightarrow> task_id \<Rightarrow> (db, cancel_result) op" where
  "cancel e al task_id =
     andthen (transact e (
       andthen (sql e (AtStmt 0) (cancel_stmt e (task_uuid task_id))) (\<lambda>row.
       (case row of
          CancelHit r \<Rightarrow> andthen (insert_audit_row e al (row_id r) (Some (cancel_origin r))
              ''cancelled'' None (row_trace_id r) None (row_region r)) (\<lambda>_. return row)
        | _ \<Rightarrow> return row))))
     (\<lambda>row. (case row of
        CancelHit r \<Rightarrow> andthen (lift (record_res r)) (\<lambda>record. return (CancelledTask record))
      | CancelMiss st \<Rightarrow> andthen (lift (map_err adapter_failure (parse_status st)))
          (\<lambda>status. return (NotCancellable status))
      | CancelNone \<Rightarrow> return CancelNotFound))"


section \<open>Recovery\<close>

definition lease_expired :: "env \<Rightarrow> task_row \<Rightarrow> bool" where
  "lease_expired e r \<longleftrightarrow> row_status r = ''running''
     \<and> (case row_claimed_until r of None \<Rightarrow> False | Some u \<Rightarrow> u < e_now e)"

definition retry_update :: "env \<Rightarrow> task_row \<Rightarrow> task_row" where
  "retry_update e r =
     r\<lparr>row_status := ''pending'', row_claimed_by := None, row_claimed_until := None,
       row_scheduled_at := e_now e, row_updated_at := e_now e\<rparr>"

definition exhaust_update :: "env \<Rightarrow> task_row \<Rightarrow> task_row" where
  "exhaust_update e r =
     r\<lparr>row_status := ''failed'', row_last_error := Some ''lease expired: max attempts exhausted'',
       row_updated_at := e_now e\<rparr>"

text \<open>One entry of the result; \<open>word\<close> is \<open>recovered\<close> or \<open>exhausted\<close>.\<close>

definition recovered_entry ::
  "string \<Rightarrow> recovery_outcome \<Rightarrow> task_row \<Rightarrow> adapter_error + recovered_task" where
  "recovered_entry word outcome row =
     and_then (map_row (\<lambda>e. [Lit ''invalid queue name in '', Lit word, Lit '' task '',
         Id (row_id row), Lit '': ''] @ display_validation_error e)
       (queue_try_from (row_queue row))) (\<lambda>queue.
     and_then (map_row (\<lambda>e. [Lit ''invalid kind in '', Lit word, Lit '' task '',
         Id (row_id row), Lit '': ''] @ display_validation_error e)
       (task_kind_try_from (row_kind row))) (\<lambda>kind.
     Inr (TaskId (row_id row), queue, kind, row_trace_id row, outcome)))"

definition recover_body :: "env \<Rightarrow> bool \<Rightarrow> (db, recovered_task list) op" where
  "recover_body e al =
       andthen (sql e (AtStmt 0) (update_where e
         (\<lambda>r. lease_expired e r \<and> row_attempts r < row_max_attempts r) no_chk
         (retry_update e))) (\<lambda>retryable_rows.
       andthen (sql e (AtStmt 1) (update_where e
         (\<lambda>r. lease_expired e r \<and> row_max_attempts r \<le> row_attempts r) no_chk
         (exhaust_update e))) (\<lambda>exhausted_rows.
       andthen (each (\<lambda>row. insert_audit_row e al (row_id row) (Some ''running'') ''pending''
         None (row_trace_id row) None (row_region row)) retryable_rows) (\<lambda>_.
       andthen (each (\<lambda>row. insert_audit_row e al (row_id row) (Some ''running'') ''failed''
         None (row_trace_id row)
         (Some (JObj [(''error'', JStr ''lease expired: max attempts exhausted'')]))
         (row_region row)) exhausted_rows) (\<lambda>_.
       lift (map_err adapter_failure
         (and_then (collect_results (map (recovered_entry ''recovered'' Recovered) retryable_rows))
           (\<lambda>xs. and_then
             (collect_results (map (recovered_entry ''exhausted'' RecoveryFailed) exhausted_rows))
             (\<lambda>ys. Inr (xs @ ys)))))))))"

definition recover_zombie_tasks :: "env \<Rightarrow> bool \<Rightarrow> (db, recovered_task list) op" where
  "recover_zombie_tasks e al = transact e (recover_body e al)"

definition suspend_expired :: "env \<Rightarrow> nat \<Rightarrow> task_row \<Rightarrow> bool" where
  "suspend_expired e timeout_secs r \<longleftrightarrow> row_status r = ''suspended''
     \<and> (case row_suspended_at r of Some t \<Rightarrow> t | None \<Rightarrow> row_updated_at r)
         < e_now e - interval_of_secs (of_nat timeout_secs)"

definition expire_update :: "env \<Rightarrow> task_row \<Rightarrow> task_row" where
  "expire_update e r =
     r\<lparr>row_status := ''failed'', row_last_error := Some ''suspend timeout exceeded'',
       row_updated_at := e_now e\<rparr>"

definition expired_entry :: "task_row \<Rightarrow> adapter_error + task_id \<times> queue_name" where
  "expired_entry r =
     and_then (map_row (\<lambda>e. [Lit ''invalid queue name in expired task '', Id (row_id r),
         Lit '': ''] @ display_validation_error e) (queue_try_from (row_queue r))) (\<lambda>queue.
     Inr (TaskId (row_id r), queue))"

definition expire_suspended_tasks ::
  "env \<Rightarrow> bool \<Rightarrow> duration \<Rightarrow> (db, (task_id \<times> queue_name) list) op" where
  "expire_suspended_tasks e al suspend_timeout =
     (let timeout_secs = as_secs suspend_timeout in
      andthen (transact e (
        andthen (sql e (AtStmt 0) (update_where e (suspend_expired e timeout_secs) no_chk
          (expire_update e))) (\<lambda>rows.
        andthen (each (\<lambda>row. insert_audit_row e al (row_id row) (Some ''suspended'') ''failed''
          None (row_trace_id row) (Some (JObj [(''error'', JStr ''suspend timeout exceeded'')]))
          None) rows) (\<lambda>_.
        return rows))))
      (\<lambda>rows. lift (map_err adapter_failure (collect_results (map expired_entry rows)))))"

section \<open>Checkpoints\<close>

definition write_checkpoint :: "env \<Rightarrow> task_id \<Rightarrow> worker_id \<Rightarrow> json \<Rightarrow> (db, unit) op" where
  "write_checkpoint e task_id worker data =
     andthen (on_pool e (update_where e
       (\<lambda>r. row_id r = task_uuid task_id \<and> row_claimed_by r = Some (worker_uuid worker)
         \<and> row_status r = ''running'') no_chk
       (\<lambda>r. r\<lparr>row_checkpoint := Some data, row_updated_at := e_now e\<rparr>)))
     (\<lambda>rows. if rows = [] then
         raise (Error (NotInExpectedState task_id ''Running and claimed by current worker''))
       else return ())"

end
