(* ===== verification/Lifecycle.thy ===== *)
theory Lifecycle
  imports Repo_Write
begin

text \<open>
  What the repository promises, independent of its statements: the life cycle of a task as a
  step relation on its status, the audit trail as a path of that relation, the invariant of
  the database, and the contract of one operation (\<open>good\<close>): the invariant holds again, every
  task is still there with its submission data, and the audit rows appended are exactly the
  steps its status took.
\<close>

section \<open>The life cycle\<close>

inductive lifecycle :: "task_status option \<Rightarrow> task_status \<Rightarrow> bool" where
  submit: "lifecycle None Pending"
| claim: "lifecycle (Some Pending) Running"
| finish: "lifecycle (Some Running) Completed"
| retry: "lifecycle (Some Running) Pending"
| give_up: "lifecycle (Some Running) Failed"
| park: "lifecycle (Some Running) Suspended"
| wake: "lifecycle (Some Suspended) Pending"
| expire: "lifecycle (Some Suspended) Failed"
| withdraw: "lifecycle (Some Pending) Cancelled"
| abandon: "lifecycle (Some Suspended) Cancelled"

inductive_cases lifecycle_from_pending: "lifecycle (Some Pending) b"
inductive_cases lifecycle_from_running: "lifecycle (Some Running) b"
inductive_cases lifecycle_from_suspended: "lifecycle (Some Suspended) b"
inductive_cases lifecycle_from_none: "lifecycle None b"

inductive_simps lifecycle_simps [simp]:
  "lifecycle None b" "lifecycle (Some Pending) b" "lifecycle (Some Running) b"
  "lifecycle (Some Suspended) b" "lifecycle (Some Completed) b" "lifecycle (Some Failed) b"
  "lifecycle (Some Cancelled) b"

code_pred lifecycle .

lemma lifecycle_no_loop: "lifecycle (Some a) b \<Longrightarrow> a \<noteq> b"
  by (cases a) auto

lemma lifecycle_terminal: "terminal a \<Longrightarrow> \<not> lifecycle (Some a) b"
  by (auto simp: terminal_def)

section \<open>Paths\<close>

text \<open>Edges as the database spells them.\<close>

definition edge :: "string option \<Rightarrow> string \<Rightarrow> bool" where
  "edge a b \<longleftrightarrow> (\<exists>x y. map_option as_str x = a \<and> b = as_str y \<and> lifecycle x y)"

fun path :: "string option \<Rightarrow> (string option \<times> string) list \<Rightarrow> string option \<Rightarrow> bool" where
  "path s [] t \<longleftrightarrow> s = t"
| "path s ((a, b) # es) t \<longleftrightarrow> a = s \<and> edge a b \<and> path (Some b) es t"

lemma edge_as_str [simp]: "edge (Some (as_str a)) (as_str b) \<longleftrightarrow> lifecycle (Some a) b"
  by (auto simp: edge_def)

lemma edge_literals [simp]:
  "edge None ''pending''" "edge (Some ''pending'') ''running''"
  "edge (Some ''running'') ''completed''" "edge (Some ''running'') ''pending''"
  "edge (Some ''running'') ''failed''" "edge (Some ''running'') ''suspended''"
  "edge (Some ''suspended'') ''pending''" "edge (Some ''suspended'') ''failed''"
  "edge (Some ''pending'') ''cancelled''" "edge (Some ''suspended'') ''cancelled''"
  using edge_as_str [of Pending Running] edge_as_str [of Running Completed]
    edge_as_str [of Running Pending] edge_as_str [of Running Failed]
    edge_as_str [of Running Suspended] edge_as_str [of Suspended Pending]
    edge_as_str [of Suspended Failed] edge_as_str [of Pending Cancelled]
    edge_as_str [of Suspended Cancelled]
  by (simp_all del: edge_as_str) (auto simp: edge_def intro: exI [of _ Pending])

lemma edge_no_loop: "edge (Some a) b \<Longrightarrow> a \<noteq> b"
  by (auto simp: edge_def dest: lifecycle_no_loop)

lemma edge_terminal: "terminal_str a \<Longrightarrow> \<not> edge (Some a) b"
proof
  assume t: "terminal_str a" and "edge (Some a) b"
  then obtain x y where "a = as_str x" "lifecycle (Some x) y" by (auto simp: edge_def)
  with t show False by (cases x) (auto simp: terminal_str_def)
qed

lemma path_append: "path s (es @ fs) u \<longleftrightarrow> (\<exists>t. path s es t \<and> path t fs u)"
  by (induction s es u rule: path.induct) auto

lemma path_terminal: "terminal_str a \<Longrightarrow> path (Some a) es t \<Longrightarrow> es = [] \<and> t = Some a"
  by (cases es) (auto dest: edge_terminal)

lemma path_from_Some: "path (Some a) es t \<Longrightarrow> t \<noteq> None"
  by (induction "Some a" es t arbitrary: a rule: path.induct) auto

section \<open>Looking at a database\<close>

definition row_at :: "db \<Rightarrow> uuid \<Rightarrow> task_row option" where
  "row_at d i = map_of (map (\<lambda>r. (row_id r, r)) (db_tasks d)) i"

definition status_of :: "db \<Rightarrow> uuid \<Rightarrow> string option" where
  "status_of d i = map_option row_status (row_at d i)"

definition shape :: "audit_row \<Rightarrow> uuid \<times> string option \<times> string" where
  "shape a = (aud_task_id a, aud_from a, aud_to a)"

definition trail :: "uuid \<Rightarrow> audit_row list \<Rightarrow> (string option \<times> string) list" where
  "trail i as = map snd (filter (\<lambda>x. fst x = i) (map shape as))"

lemma trail_append [simp]: "trail i (as @ bs) = trail i as @ trail i bs"
  and trail_Nil [simp]: "trail i [] = []"
  by (simp_all add: trail_def)

lemma row_at_Some: "row_at d i = Some r \<Longrightarrow> r \<in> set (db_tasks d) \<and> row_id r = i"
  by (auto simp: row_at_def dest: map_of_SomeD)

lemma row_at_None: "row_at d i = None \<longleftrightarrow> i \<notin> set (map row_id (db_tasks d))"
  by (auto simp: row_at_def map_of_eq_None_iff image_image)

lemma row_at_mem:
  "distinct (map row_id (db_tasks d)) \<Longrightarrow> r \<in> set (db_tasks d) \<Longrightarrow> row_at d (row_id r) = Some r"
  by (auto simp: row_at_def comp_def intro: map_of_is_SomeI)

lemma row_at_cong: "db_tasks d = db_tasks d' \<Longrightarrow> row_at d = row_at d'"
  by (auto simp: row_at_def)

lemma status_of_cong: "db_tasks d = db_tasks d' \<Longrightarrow> status_of d = status_of d'"
  by (auto simp: status_of_def row_at_def)

lemma map_of_map_snd:
  "(\<And>r. r \<in> set rs \<Longrightarrow> k (g r) = k r) \<Longrightarrow>
     map_of (map (\<lambda>r. (k r, r)) (map g rs)) i
       = map_option g (map_of (map (\<lambda>r. (k r, r)) rs) i)"
  by (induction rs) auto

lemma row_at_update:
  assumes "\<And>r. r \<in> set (db_tasks d) \<Longrightarrow> row_id (g r) = row_id r"
    and "db_tasks d' = map g (db_tasks d)"
  shows "row_at d' i = map_option g (row_at d i)"
  unfolding row_at_def assms(2) by (rule map_of_map_snd) (rule assms(1))

lemma row_at_insert:
  assumes "db_tasks d' = db_tasks d @ [r]" and "row_id r \<notin> set (map row_id (db_tasks d))"
  shows "row_at d' i = (if i = row_id r then Some r else row_at d i)"
proof -
  from assms(2) have "map_of (map (\<lambda>r. (row_id r, r)) (db_tasks d)) (row_id r) = None"
    by (auto simp: map_of_eq_None_iff image_image)
  with assms(1) show ?thesis by (auto simp: row_at_def map_add_def split: option.splits)
qed

section \<open>The invariant\<close>

text \<open>One row: what its status says about its other columns.\<close>

definition row_inv :: "task_row \<Rightarrow> bool" where
  "row_inv r \<longleftrightarrow> 0 \<le> row_attempts r \<and> 1 \<le> row_max_attempts r \<and> queue_valid (row_queue r)
     \<and> (row_status r = ''running'' \<longrightarrow> row_claimed_by r \<noteq> None)
     \<and> (row_status r = ''pending'' \<or> row_status r = ''suspended'' \<longrightarrow> row_claimed_by r = None)
     \<and> (row_status r = ''suspended'' \<longrightarrow> row_suspended_at r \<noteq> None)
     \<and> (row_suspended_at r \<noteq> None \<longrightarrow>
          row_status r = ''suspended'' \<or> row_status r = ''cancelled'' \<or> row_status r = ''failed'')
     \<and> (row_status r = ''completed'' \<longrightarrow> row_checkpoint r = None)"

definition db_inv :: "db \<Rightarrow> bool" where
  "db_inv d \<longleftrightarrow> table_ok (db_tasks d) \<and> (\<forall>r \<in> set (db_tasks d). row_inv r)
     \<and> sorted_wrt (<) (map aud_id (db_audit d)) \<and> (\<forall>a \<in> set (db_audit d). aud_id a \<le> db_seq d)
     \<and> (\<forall>a \<in> set (db_audit d). row_at d (aud_task_id a) \<noteq> None)"

text \<open>The columns of a row that no operation writes after the insert.\<close>

definition same_task :: "task_row \<Rightarrow> task_row \<Rightarrow> bool" where
  "same_task r r' \<longleftrightarrow> row_id r' = row_id r \<and> row_queue r' = row_queue r
     \<and> row_kind r' = row_kind r \<and> row_payload r' = row_payload r
     \<and> row_priority r' = row_priority r \<and> row_max_attempts r' = row_max_attempts r
     \<and> row_created_at r' = row_created_at r \<and> row_trace_id r' = row_trace_id r
     \<and> row_region r' = row_region r \<and> row_attempts r \<le> row_attempts r'"

definition evolves :: "db \<Rightarrow> db \<Rightarrow> bool" where
  "evolves d d' \<longleftrightarrow>
     (\<forall>i r. row_at d i = Some r \<longrightarrow> (\<exists>r'. row_at d' i = Some r' \<and> same_task r r'))"

text \<open>The rows appended to the log are a path from the old status of every task to its new one.
  Without an audit log, the path is not recorded but exists.\<close>

definition logged :: "bool \<Rightarrow> db \<Rightarrow> db \<Rightarrow> bool" where
  "logged al d d' \<longleftrightarrow> (\<exists>news. db_audit d' = db_audit d @ news \<and>
     (if al then \<forall>i. path (status_of d i) (trail i news) (status_of d' i)
      else news = [] \<and> (\<forall>i. \<exists>es. path (status_of d i) es (status_of d' i))))"

definition good :: "bool \<Rightarrow> db \<Rightarrow> db \<Rightarrow> bool" where
  "good al d d' \<longleftrightarrow> db_inv d' \<and> evolves d d' \<and> logged al d d' \<and> db_seq d \<le> db_seq d'"

text \<open>The log of a database that was audited from its beginning.\<close>

definition audited :: "db \<Rightarrow> bool" where
  "audited d \<longleftrightarrow> (\<forall>i. path None (trail i (db_audit d)) (status_of d i))"

text \<open>The contract of an operation.\<close>

definition keeps :: "bool \<Rightarrow> (db, 'a) op \<Rightarrow> bool" where
  "keeps al m \<longleftrightarrow> (\<forall>d. db_inv d \<longrightarrow> good al d (snd (m d)))"

lemma same_task_refl [simp]: "same_task r r"
  by (simp add: same_task_def)

lemma same_task_trans: "same_task a b \<Longrightarrow> same_task b c \<Longrightarrow> same_task a c"
  by (auto simp: same_task_def)

lemma evolves_trans:
  assumes "evolves d d'" and "evolves d' d''"
  shows "evolves d d''"
  unfolding evolves_def
proof (intro allI impI)
  fix i r
  assume "row_at d i = Some r"
  with assms(1) obtain r1 where "row_at d' i = Some r1" "same_task r r1"
    unfolding evolves_def by blast
  moreover from this assms(2) obtain r2 where "row_at d'' i = Some r2" "same_task r1 r2"
    unfolding evolves_def by blast
  ultimately show "\<exists>r'. row_at d'' i = Some r' \<and> same_task r r'"
    by (blast intro: same_task_trans)
qed

lemma good_refl: "db_inv d \<Longrightarrow> good al d d"
  by (auto simp: good_def evolves_def logged_def intro: exI [of _ "[]"])

lemma logged_trans:
  assumes "logged al d d'" and "logged al d' d''"
  shows "logged al d d''"
proof -
  obtain ns ms where a: "db_audit d' = db_audit d @ ns" "db_audit d'' = db_audit d' @ ms"
    and p: "if al then \<forall>i. path (status_of d i) (trail i ns) (status_of d' i)
      else ns = [] \<and> (\<forall>i. \<exists>es. path (status_of d i) es (status_of d' i))"
    and q: "if al then \<forall>i. path (status_of d' i) (trail i ms) (status_of d'' i)
      else ms = [] \<and> (\<forall>i. \<exists>es. path (status_of d' i) es (status_of d'' i))"
    using assms unfolding logged_def by blast
  show ?thesis unfolding logged_def
  proof (intro exI [of _ "ns @ ms"] conjI)
    show "if al then \<forall>i. path (status_of d i) (trail i (ns @ ms)) (status_of d'' i)
      else ns @ ms = [] \<and> (\<forall>i. \<exists>es. path (status_of d i) es (status_of d'' i))"
      using p q by (cases al) (auto simp: path_append, metis path_append)
  qed (simp add: a)
qed

lemma good_trans: "good al d d' \<Longrightarrow> good al d' d'' \<Longrightarrow> good al d d''"
  by (auto simp: good_def intro: evolves_trans logged_trans)

lemma audited_good:
  assumes "audited d" and "good True d d'"
  shows "audited d'"
proof -
  from assms(2) obtain ns where "db_audit d' = db_audit d @ ns"
    and "\<forall>i. path (status_of d i) (trail i ns) (status_of d' i)"
    by (auto simp: good_def logged_def)
  with assms(1) show ?thesis by (auto simp: audited_def path_append)
qed

lemma good_path: "good al d d' \<Longrightarrow> \<exists>es. path (status_of d i) es (status_of d' i)"
  by (cases al) (auto simp: good_def logged_def)

lemma good_terminal:
  assumes "good al d d'" and "status_of d i = Some s" and "terminal_str s"
  shows "status_of d' i = Some s"
  using good_path [OF assms(1), of i] path_terminal [OF assms(3)] assms(2) by auto

end
