(* ===== verification/Repo_Frames.thy ===== *)
theory Repo_Frames
  imports Lifecycle
begin

text \<open>
  How the statements of the repository move a database: an update or an insert of rows
  (\<open>tracks\<close>), the audit rows written behind it (\<open>appends\<close>), and the rules that put the two
  and the transaction together to the contract of an operation.
\<close>

named_theorems seq_intros
  \<open>operations that do not move the audit sequence back\<close>

named_theorems pure_intros
  \<open>operations that leave the state alone\<close>

section \<open>The sequence only grows\<close>

definition seq_grows :: "(db, 'e, 'a) act \<Rightarrow> bool" where
  "seq_grows m \<longleftrightarrow> (\<forall>d. db_seq d \<le> db_seq (snd (m d)))"

lemma seq_growsD: "seq_grows m \<Longrightarrow> m d = (r, t) \<Longrightarrow> db_seq d \<le> db_seq t"
  by (metis seq_grows_def snd_conv)

lemma seq_grows_pure [seq_intros]:
  "seq_grows (return x)" "seq_grows (raise e)" "seq_grows (lift r)"
  by (simp_all add: seq_grows_def effect_simps)

lemma seq_grows_andthen [seq_intros]:
  assumes "seq_grows m" and "\<And>x. seq_grows (k x)"
  shows "seq_grows (andthen m k)"
  unfolding seq_grows_def
proof
  fix d
  obtain r t where m: "m d = (r, t)" by fastforce
  then have "db_seq d \<le> db_seq t" using assms(1) by (simp add: seq_growsD)
  moreover have "db_seq t \<le> db_seq (snd (k x t))" for x
    using assms(2) by (simp add: seq_grows_def)
  ultimately show "db_seq d \<le> db_seq (snd (andthen m k d))"
    using m by (cases r) (auto simp: andthen_def intro: order_trans)
qed

lemma seq_grows_each [seq_intros]:
  "(\<And>x. seq_grows (f x)) \<Longrightarrow> seq_grows (each f xs)"
  by (induction xs) (auto intro: seq_intros)

lemma seq_grows_sql [seq_intros]:
  assumes "seq_grows stm"
  shows "seq_grows (sql e pt stm)"
  unfolding seq_grows_def
proof
  fix d
  show "db_seq d \<le> db_seq (snd (sql e pt stm d))"
    using assms
    by (auto simp: sql_def split: option.splits prod.splits sum.splits dest: seq_growsD)
qed

lemma seq_grows_update [seq_intros]: "seq_grows (update_where e p chk f)"
  by (auto simp: seq_grows_def update_where_def Let_def split: list.splits option.splits)

lemma seq_grows_insert [seq_intros]: "seq_grows (insert_row e r)"
  by (auto simp: seq_grows_def insert_row_def split: option.splits)

lemma seq_grows_insert_or_nothing [seq_intros]: "seq_grows (insert_or_nothing e r)"
  by (auto simp: seq_grows_def insert_or_nothing_def insert_row_def split: option.splits)

lemma seq_grows_select [seq_intros]: "seq_grows (select_where p)"
  by (simp add: seq_grows_def select_where_def)

lemma seq_grows_insert_audit [seq_intros]: "seq_grows (insert_audit e a)"
  by (simp add: seq_grows_def insert_audit_def)

lemma seq_grows_insert_audit_row [seq_intros]: "seq_grows (insert_audit_row e al i fr to w tr m g)"
  by (auto simp: insert_audit_row_def Let_def intro!: seq_intros)

lemma seq_grows_claim_stmt [seq_intros]: "seq_grows (claim_stmt e q w l g)"
  unfolding seq_grows_def claim_stmt_def
  using seq_grows_update by (auto simp: seq_grows_def split: option.splits)

lemma seq_grows_cancel_stmt [seq_intros]: "seq_grows (cancel_stmt e i)"
  unfolding seq_grows_def
proof
  fix d
  obtain r t where "update_where e (cancellable i) no_chk (cancel_update e) d = (r, t)"
    by fastforce
  moreover from this have "db_seq d \<le> db_seq t" by (rule seq_growsD [OF seq_grows_update])
  ultimately show "db_seq d \<le> db_seq (snd (cancel_stmt e i d))"
    by (auto simp: cancel_stmt_def split: sum.splits option.splits)
qed

section \<open>Audit rows\<close>

definition appends :: "bool \<Rightarrow> (uuid \<times> string option \<times> string) list \<Rightarrow> db \<Rightarrow> db \<Rightarrow> bool" where
  "appends al sh d d' \<longleftrightarrow> db_tasks d' = db_tasks d \<and> db_seq d \<le> db_seq d' \<and>
     (\<exists>news. db_audit d' = db_audit d @ news \<and> map shape news = (if al then sh else [])
        \<and> sorted_wrt (<) (map aud_id news)
        \<and> (\<forall>a \<in> set news. db_seq d < aud_id a \<and> aud_id a \<le> db_seq d'
              \<and> aud_task_id a \<in> set (map row_id (db_tasks d))))"

lemma appends_refl [simp]: "appends al [] d d"
  by (auto simp: appends_def)

lemma appends_trans:
  assumes "appends al sh d d'" and "appends al sh' d' d''"
  shows "appends al (sh @ sh') d d''"
proof -
  obtain ns ms where "db_audit d' = db_audit d @ ns" "map shape ns = (if al then sh else [])"
    "sorted_wrt (<) (map aud_id ns)" "\<forall>a \<in> set ns. db_seq d < aud_id a \<and> aud_id a \<le> db_seq d'
       \<and> aud_task_id a \<in> set (map row_id (db_tasks d))"
    "db_audit d'' = db_audit d' @ ms" "map shape ms = (if al then sh' else [])"
    "sorted_wrt (<) (map aud_id ms)" "\<forall>a \<in> set ms. db_seq d' < aud_id a \<and> aud_id a \<le> db_seq d''
       \<and> aud_task_id a \<in> set (map row_id (db_tasks d'))"
    "db_tasks d' = db_tasks d" "db_seq d \<le> db_seq d'" "db_tasks d'' = db_tasks d'"
    "db_seq d' \<le> db_seq d''"
    using assms unfolding appends_def by blast
  then show ?thesis unfolding appends_def
    by (intro conjI exI [of _ "ns @ ms"]) (fastforce simp: sorted_wrt_append)+
qed

lemma insert_audit_row_Inr:
  assumes "insert_audit_row e al i fr to w tr m g d = (Inr u, d')"
  shows "appends al [(i, fr, to)] d d'"
proof (cases al)
  case False
  with assms show ?thesis by (simp add: insert_audit_row_def effect_simps appends_def)
next
  case True
  with assms show ?thesis
    by (auto simp: insert_audit_row_def andthen_Inr_iff lift_apply Let_def sql_Inr
        insert_audit_def appends_def shape_def split: if_splits)
qed

lemma each_audit_Inr:
  assumes "\<And>r d d' u. r \<in> set rs \<Longrightarrow> F r d = (Inr u, d') \<Longrightarrow> appends al [sh r] d d'"
  shows "each F rs d = (Inr u, d') \<Longrightarrow> appends al (map sh rs) d d'"
  using assms
proof (induction rs arbitrary: d)
  case Nil
  then show ?case by (simp add: return_apply)
next
  case (Cons r rs)
  then obtain v t where "F r d = (Inr v, t)" and "each F rs t = (Inr u, d')"
    by (auto simp: andthen_Inr_iff)
  with Cons have "appends al [sh r] d t" and "appends al (map sh rs) t d'" by auto
  then show ?case using appends_trans by fastforce
qed

section \<open>Moving rows\<close>

definition steps_of :: "uuid \<Rightarrow> (uuid \<times> string option \<times> string) list \<Rightarrow> (string option \<times> string) list"
  where "steps_of i sh = map snd (filter (\<lambda>x. fst x = i) sh)"

definition tracks :: "(uuid \<times> string option \<times> string) list \<Rightarrow> db \<Rightarrow> db \<Rightarrow> bool" where
  "tracks sh d d' \<longleftrightarrow> table_ok (db_tasks d') \<and> (\<forall>r \<in> set (db_tasks d'). row_inv r)
     \<and> evolves d d' \<and> db_audit d' = db_audit d \<and> db_seq d' = db_seq d
     \<and> (\<forall>i. path (status_of d i) (steps_of i sh) (status_of d' i))"

lemma db_inv_rows:
  "db_inv d \<Longrightarrow> table_ok (db_tasks d)" "db_inv d \<Longrightarrow> r \<in> set (db_tasks d) \<Longrightarrow> row_inv r"
  "db_inv d \<Longrightarrow> distinct (map row_id (db_tasks d))"
  by (simp_all add: db_inv_def table_ok_def)

lemma evolves_ids:
  "evolves d d' \<Longrightarrow> row_at d i \<noteq> None \<Longrightarrow> row_at d' i \<noteq> None"
  by (fastforce simp: evolves_def)

lemma good_tracks_appends:
  assumes inv: "db_inv d" and tr: "tracks sh d d1" and ap: "appends al sh d1 d2"
  shows "good al d d2"
proof -
  obtain ns where a: "db_audit d2 = db_audit d @ ns" "map shape ns = (if al then sh else [])"
    and s: "sorted_wrt (<) (map aud_id ns)"
    and b: "\<forall>a \<in> set ns. db_seq d < aud_id a \<and> aud_id a \<le> db_seq d2
       \<and> aud_task_id a \<in> set (map row_id (db_tasks d1))"
    and t: "db_tasks d2 = db_tasks d1" and q: "db_seq d \<le> db_seq d2"
    using tr ap unfolding tracks_def appends_def by auto
  have st: "row_at d2 = row_at d1" "status_of d2 = status_of d1"
    using row_at_cong [OF t] status_of_cong [OF t] by simp_all
  have ev: "evolves d d2" using tr st by (simp add: tracks_def evolves_def)
  have "db_inv d2"
    unfolding db_inv_def
  proof (intro conjI)
    show "table_ok (db_tasks d2)" "\<forall>r\<in>set (db_tasks d2). row_inv r"
      using tr t by (simp_all add: tracks_def)
    show "sorted_wrt (<) (map aud_id (db_audit d2))"
      using inv s b by (fastforce simp: a db_inv_def sorted_wrt_append)
    show "\<forall>a\<in>set (db_audit d2). aud_id a \<le> db_seq d2"
      using inv b q by (fastforce simp: a db_inv_def)
    show "\<forall>a\<in>set (db_audit d2). row_at d2 (aud_task_id a) \<noteq> None"
    proof
      fix a assume "a \<in> set (db_audit d2)"
      with a(1) consider "a \<in> set (db_audit d)" | "a \<in> set ns" by auto
      then show "row_at d2 (aud_task_id a) \<noteq> None"
      proof cases
        case 1
        with inv have "row_at d (aud_task_id a) \<noteq> None" by (simp add: db_inv_def)
        with ev show ?thesis by (rule evolves_ids)
      next
        case 2
        with b st show ?thesis by (auto simp: row_at_None)
      qed
    qed
  qed
  moreover have "logged al d d2"
    unfolding logged_def
  proof (intro exI [of _ ns] conjI a(1))
    have "path (status_of d i) (steps_of i sh) (status_of d2 i)" for i
      using tr st by (simp add: tracks_def)
    then show "if al then \<forall>i. path (status_of d i) (trail i ns) (status_of d2 i)
      else ns = [] \<and> (\<forall>i. \<exists>es. path (status_of d i) es (status_of d2 i))"
      using a(2) by (auto simp: trail_def steps_of_def)
  qed
  ultimately show ?thesis using ev q by (simp add: good_def)
qed

lemma tracks_trans:
  assumes "tracks sh d d'" and "tracks sh' d' d''"
  shows "tracks (sh @ sh') d d''"
proof -
  have "path (status_of d i) (steps_of i (sh @ sh')) (status_of d'' i)" for i
    using assms by (auto simp: tracks_def steps_of_def path_append)
  with assms show ?thesis by (auto simp: tracks_def intro: evolves_trans)
qed

definition moved :: "(task_row \<Rightarrow> bool) \<Rightarrow> (task_row \<Rightarrow> task_row) \<Rightarrow> task_row list
    \<Rightarrow> (uuid \<times> string option \<times> string) list" where
  "moved p f rs = map (\<lambda>r. (row_id r, Some (row_status r), row_status (f r))) (filter p rs)"

lemma steps_of_moved:
  assumes "distinct (map row_id rs)"
  shows "steps_of i (moved p f rs) = (case map_of (map (\<lambda>r. (row_id r, r)) rs) i of
      None \<Rightarrow> [] | Some r \<Rightarrow> if p r then [(Some (row_status r), row_status (f r))] else [])"
  using assms
proof (induction rs)
  case Nil
  then show ?case by (simp add: steps_of_def moved_def)
next
  case (Cons x rs)
  have "map_of (map (\<lambda>r. (row_id r, r)) rs) (row_id x) = None"
    using Cons.prems by (auto simp: map_of_eq_None_iff image_image)
  with Cons show ?case by (auto simp: steps_of_def moved_def split: option.splits)
qed

text \<open>An update that is a step of the life cycle for each row it changes.\<close>

lemma tracks_update:
  assumes inv: "db_inv d"
    and ok: "table_ok (map (\<lambda>r. if p r then f r else r) (db_tasks d))"
    and d1: "d1 = d\<lparr>db_tasks := map (\<lambda>r. if p r then f r else r) (db_tasks d)\<rparr>"
    and row: "\<And>r. r \<in> set (db_tasks d) \<Longrightarrow> p r \<Longrightarrow> row_inv r \<Longrightarrow>
      row_inv (f r) \<and> same_task r (f r) \<and> edge (Some (row_status r)) (row_status (f r))"
  shows "tracks (moved p f (db_tasks d)) d d1"
proof -
  let ?g = "\<lambda>r. if p r then f r else r"
  have at1: "row_at d1 i = map_option ?g (row_at d i)" for i
    using row db_inv_rows(2) [OF inv]
    by (intro row_at_update) (auto simp: d1 same_task_def)
  have g: "row_inv (?g r) \<and> same_task r (?g r)" if "r \<in> set (db_tasks d)" for r
    using row [OF that] db_inv_rows(2) [OF inv that] by auto
  have "path (status_of d i) (steps_of i (moved p f (db_tasks d))) (status_of d1 i)" for i
  proof (cases "row_at d i")
    case None
    then show ?thesis
      using steps_of_moved [OF db_inv_rows(3) [OF inv]] at1 [of i]
      by (simp add: status_of_def row_at_def)
  next
    case (Some r)
    then have "r \<in> set (db_tasks d)" by (auto dest: row_at_Some)
    with row [OF this] db_inv_rows(2) [OF inv this] Some at1 [of i]
      steps_of_moved [OF db_inv_rows(3) [OF inv]] show ?thesis
      by (auto simp: status_of_def row_at_def)
  qed
  moreover have "evolves d d1"
    unfolding evolves_def
  proof (intro allI impI)
    fix i r
    assume r: "row_at d i = Some r"
    then have "same_task r (?g r)" using g row_at_Some by blast
    with r at1 [of i] show "\<exists>r'. row_at d1 i = Some r' \<and> same_task r r'" by simp
  qed
  moreover have "\<forall>r \<in> set (db_tasks d1). row_inv r"
  proof
    fix r
    assume "r \<in> set (db_tasks d1)"
    then have "r \<in> ?g ` set (db_tasks d)" by (simp add: d1)
    then obtain x where "r = ?g x" "x \<in> set (db_tasks d)" by (rule imageE)
    with g [of x] show "row_inv r" by simp
  qed
  ultimately show ?thesis using ok by (simp add: tracks_def d1)
qed


text \<open>An update that leaves every status as it is.\<close>

lemma tracks_quiet_update:
  assumes inv: "db_inv d"
    and ok: "table_ok (map (\<lambda>r. if p r then f r else r) (db_tasks d))"
    and d1: "d1 = d\<lparr>db_tasks := map (\<lambda>r. if p r then f r else r) (db_tasks d)\<rparr>"
    and row: "\<And>r. r \<in> set (db_tasks d) \<Longrightarrow> p r \<Longrightarrow> row_inv r \<Longrightarrow>
      row_inv (f r) \<and> same_task r (f r) \<and> row_status (f r) = row_status r"
  shows "tracks [] d d1"
proof -
  let ?g = "\<lambda>r. if p r then f r else r"
  have at1: "row_at d1 i = map_option ?g (row_at d i)" for i
    using row db_inv_rows(2) [OF inv]
    by (intro row_at_update) (auto simp: d1 same_task_def)
  have g: "row_inv (?g r) \<and> same_task r (?g r) \<and> row_status (?g r) = row_status r"
    if "r \<in> set (db_tasks d)" for r
    using row [OF that] db_inv_rows(2) [OF inv that] by auto
  have look: "\<exists>r'. row_at d1 i = Some r' \<and> same_task r r' \<and> row_status r' = row_status r"
    if "row_at d i = Some r" for i r
    using that g [of r] row_at_Some [OF that] at1 [of i] by simp
  have "status_of d i = status_of d1 i" for i
    using look [of i] at1 [of i] by (cases "row_at d i") (auto simp: status_of_def)
  moreover have "evolves d d1" using look by (fastforce simp: evolves_def)
  moreover have "\<forall>r \<in> set (db_tasks d1). row_inv r"
  proof
    fix r
    assume "r \<in> set (db_tasks d1)"
    then have "r \<in> ?g ` set (db_tasks d)" by (simp add: d1)
    then obtain x where "r = ?g x" "x \<in> set (db_tasks d)" by (rule imageE)
    with g [of x] show "row_inv r" by simp
  qed
  ultimately show ?thesis using ok by (simp add: tracks_def d1 steps_of_def)
qed

lemma tracks_refl: "db_inv d \<Longrightarrow> tracks [] d d"
  by (auto simp: tracks_def evolves_def steps_of_def db_inv_def)

lemma tracks_insert:
  assumes inv: "db_inv d" and ok: "table_ok (db_tasks d @ [r])" and "row_inv r"
    and st: "row_status r = ''pending''" and d1: "d1 = d\<lparr>db_tasks := db_tasks d @ [r]\<rparr>"
  shows "tracks [(row_id r, None, ''pending'')] d d1"
proof -
  have new: "row_id r \<notin> set (map row_id (db_tasks d))"
    using table_ok_distinct [OF ok] by auto
  then have at1: "row_at d1 i = (if i = row_id r then Some r else row_at d i)" for i
    by (intro row_at_insert) (simp_all add: d1)
  have "row_at d (row_id r) = None" using new by (simp add: row_at_None)
  then show ?thesis
    using assms at1 by (auto simp: tracks_def evolves_def status_of_def steps_of_def db_inv_def)
qed

section \<open>Rules for the contract\<close>

lemma keepsI:
  assumes "\<And>d res d'. db_inv d \<Longrightarrow> m d = (res, d') \<Longrightarrow> good al d d'"
  shows "keeps al m"
  unfolding keeps_def
proof (intro allI impI)
  fix d
  assume "db_inv d"
  then show "good al d (snd (m d))" using assms [of d "fst (m d)" "snd (m d)"] by simp
qed

lemma keepsD: "keeps al m \<Longrightarrow> db_inv d \<Longrightarrow> m d = (res, d') \<Longrightarrow> good al d d'"
  by (metis keeps_def snd_conv)

lemma good_rollback: "db_inv d \<Longrightarrow> db_seq d \<le> db_seq t \<Longrightarrow> good al d (rollback d t)"
proof -
  assume inv: "db_inv d" and s: "db_seq d \<le> db_seq t"
  have "appends al [] d (rollback d t)" using s by (auto simp: appends_def rollback_def)
  with inv show ?thesis by (blast intro: good_tracks_appends tracks_refl)
qed

lemma keeps_transact:
  assumes "seq_grows body"
    and body: "\<And>d x d'. db_inv d \<Longrightarrow> body d = (Inr x, d') \<Longrightarrow> good al d d'"
  shows "keeps al (transact e body)"
proof (rule keepsI)
  fix d res d'
  assume inv: "db_inv d" and run: "transact e body d = (res, d')"
  have roll: "good al d (rollback d t)" if "body d = (r, t)" for r t
    using inv that by (rule good_rollback [OF _ seq_growsD [OF assms(1)]])
  show "good al d d'"
    using run inv body [OF inv] roll good_refl [OF inv]
    by (auto simp: transact_def split: option.splits prod.splits sum.splits)
qed

text \<open>What follows the commit only computes a result.\<close>

definition pure_op :: "('s, 'e, 'a) act \<Rightarrow> bool" where
  "pure_op m \<longleftrightarrow> (\<exists>g. \<forall>d. m d = (g, d))"

lemma pure_basic [pure_intros]: "pure_op (lift r)" "pure_op (return y)" "pure_op (raise f)"
  by (auto simp: pure_op_def effect_simps)

lemma pure_opD: "pure_op m \<Longrightarrow> m d = (r, d') \<Longrightarrow> d' = d"
  by (metis pure_op_def prod.inject)

lemma pure_andthen [pure_intros]:
  assumes "pure_op m" and "\<And>x. pure_op (k x)"
  shows "pure_op (andthen m k)"
proof -
  obtain g where g: "\<And>d. m d = (g, d)" using assms(1) by (auto simp: pure_op_def)
  show ?thesis
  proof (cases g)
    case (Inl f)
    with g show ?thesis by (auto simp: pure_op_def andthen_def)
  next
    case (Inr x)
    obtain h where "\<And>d. k x d = (h, d)" using assms(2) by (auto simp: pure_op_def)
    with g Inr show ?thesis by (auto simp: pure_op_def andthen_def)
  qed
qed

lemma keeps_andthen_lift:
  assumes "keeps al m" and "\<And>x. pure_op (k x)"
  shows "keeps al (andthen m k)"
proof (rule keepsI)
  fix d res d'
  assume inv: "db_inv d" and run: "andthen m k d = (res, d')"
  obtain r t where m: "m d = (r, t)" by fastforce
  have "good al d t" using keepsD [OF assms(1) inv m] .
  moreover have "t = d'"
  proof (cases r)
    case (Inr x)
    with run m have "k x t = (res, d')" by (simp add: andthen_def)
    with assms(2) show ?thesis by (metis pure_opD)
  qed (use run m in \<open>simp add: andthen_def\<close>)
  ultimately show "good al d d'" by simp
qed

lemma keeps_lift_andthen:
  assumes "keeps al m"
  shows "keeps al (andthen (lift r) (\<lambda>x. m))"
proof (rule keepsI)
  fix d res d'
  assume inv: "db_inv d" and run: "andthen (lift r) (\<lambda>x. m) d = (res, d')"
  then show "good al d d'"
    using keepsD [OF assms inv] good_refl [OF inv]
    by (cases r) (auto simp: andthen_def lift_apply)
qed

text \<open>The rows an update by id returns: none, or the one row changed.\<close>

lemma filter_one:
  assumes "distinct (map row_id rs)" and "\<And>r. p r \<Longrightarrow> row_id r = i"
  shows "filter p rs = [] \<or> (\<exists>r \<in> set rs. p r \<and> filter p rs = [r])"
  using assms(1)
proof (induction rs)
  case (Cons x rs)
  show ?case
  proof (cases "p x")
    case True
    have "filter p rs = []"
    proof (rule ccontr)
      assume "filter p rs \<noteq> []"
      with Cons obtain r where "r \<in> set rs" "p r" by auto
      with assms(2) True have "row_id r = row_id x" by simp
      with \<open>r \<in> set rs\<close> Cons.prems show False by (metis distinct.simps(2) image_eqI list.map(2) list.set_map)
    qed
    with True show ?thesis by simp
  next
    case False
    with Cons show ?thesis by auto
  qed
qed simp

end
