(* ===== verification/Repo_Contract.thy ===== *)
theory Repo_Contract
  imports Repo_Frames
begin

text \<open>
  Every writing operation of the repository keeps the contract of theory \<open>Lifecycle\<close>, in
  every environment: whatever fails and wherever, the invariant holds afterwards and the rows
  in the audit log are the status changes that were committed.
\<close>

lemmas stmt_Inr = sql_Inr update_where_Inr insert_row_Inr select_where_Inr

text \<open>What an update has to keep on a row, for the obligations below.\<close>

lemmas row_goal = row_inv_def same_task_def row_check_def

lemma one_row_update:
  assumes inv: "db_inv d"
    and up: "update_where e p chk f d = (Inr rows, d1)"
    and hit: "first_row rows = Some r'"
    and key: "\<And>r. p r \<Longrightarrow> row_id r = i"
    and row: "\<And>r. r \<in> set (db_tasks d) \<Longrightarrow> p r \<Longrightarrow> row_inv r \<Longrightarrow>
      row_inv (f r) \<and> same_task r (f r) \<and> edge (Some (row_status r)) (row_status (f r))"
  obtains r where "r \<in> set (db_tasks d)" "p r" "row_inv r" "r' = f r" "rows = [f r]"
    "row_id r = i" "tracks [(i, Some (row_status r), row_status (f r))] d d1"
proof -
  from up have rows: "rows = map f (filter p (db_tasks d))"
    and ok: "table_ok (map (\<lambda>r. if p r then f r else r) (db_tasks d))"
    and d1: "d1 = d\<lparr>db_tasks := map (\<lambda>r. if p r then f r else r) (db_tasks d)\<rparr>"
    by (simp_all add: update_where_Inr)
  from hit rows have "filter p (db_tasks d) \<noteq> []" by (auto simp del: filter_empty_conv)
  then obtain r where r: "r \<in> set (db_tasks d)" "p r" "filter p (db_tasks d) = [r]"
    using filter_one [OF db_inv_rows(3) [OF inv], of p i] key by blast
  have "tracks (moved p f (db_tasks d)) d d1" using tracks_update [OF inv ok d1 row] .
  with r key have "tracks [(i, Some (row_status r), row_status (f r))] d d1"
    by (simp add: moved_def)
  with r rows hit key db_inv_rows(2) [OF inv r(1)] show thesis by (intro that) auto
qed

definition never_returns :: "(db, 'a) op \<Rightarrow> bool" where
  "never_returns m \<longleftrightarrow> (\<forall>d. \<exists>f t. m d = (Inl f, t))"

lemma never_returns_raise [simp]: "never_returns (raise f)"
  by (simp add: never_returns_def raise_apply)

lemma never_returnsD: "never_returns m \<Longrightarrow> m d \<noteq> (Inr x, t)"
  by (metis never_returns_def old.sum.distinct(1) prod.inject)

lemma never_returns_andthen: "(\<And>x. never_returns (k x)) \<Longrightarrow> never_returns (andthen m k)"
  by (fastforce simp: never_returns_def andthen_def split: prod.split sum.split)

lemma fetch_one_Inr:
  assumes "fetch_one e p chk f audit ret miss d = (Inr x, d')" and "never_returns miss"
  obtains rows d1 r u where "update_where e p chk f d = (Inr rows, d1)"
    "first_row rows = Some r" "audit r d1 = (Inr u, d')" "x = ret r"
proof -
  from assms(1) obtain rows d1 where up: "sql e (AtStmt 0) (update_where e p chk f) d = (Inr rows, d1)"
    and k: "(case first_row rows of Some r \<Rightarrow> andthen (audit r) (\<lambda>_. return (ret r))
       | None \<Rightarrow> miss) d1 = (Inr x, d')"
    unfolding fetch_one_def andthen_Inr_iff by (elim exE conjE)
  obtain r where r: "first_row rows = Some r"
    using k never_returnsD [OF assms(2)] by (cases "first_row rows") auto
  with k obtain u where "audit r d1 = (Inr u, d')" "x = ret r"
    by (auto simp: andthen_Inr_iff return_apply)
  with up r show thesis by (intro that) (auto simp: sql_Inr)
qed

lemma seq_grows_fetch_one [seq_intros]:
  "(\<And>r. seq_grows (audit r)) \<Longrightarrow> seq_grows miss \<Longrightarrow>
     seq_grows (fetch_one e p chk f audit ret miss)"
  unfolding fetch_one_def by (intro seq_intros) (auto split: option.split intro: seq_intros)

lemma fetch_one_keeps:
  assumes key: "\<And>r. p r \<Longrightarrow> row_id r = i"
    and row: "\<And>r. p r \<Longrightarrow> row_inv r \<Longrightarrow>
      row_inv (f r) \<and> same_task r (f r) \<and> edge (Some (row_status r)) (row_status (f r))"
    and labels: "\<And>r. p r \<Longrightarrow> row_inv r \<Longrightarrow>
      aid (f r) = i \<and> fr (f r) = row_status r \<and> to (f r) = row_status (f r)"
    and miss: "never_returns miss" "seq_grows miss"
  shows "keeps al (transact e (fetch_one e p chk f
    (\<lambda>r. insert_audit_row e al (aid r) (Some (fr r)) (to r) (w r) (tr r) (m r) (g r)) ret miss))"
proof (rule keeps_transact)
  show "seq_grows (fetch_one e p chk f
    (\<lambda>r. insert_audit_row e al (aid r) (Some (fr r)) (to r) (w r) (tr r) (m r) (g r)) ret miss)"
    by (intro seq_intros miss(2))
  fix d x d'
  assume inv: "db_inv d" and run: "fetch_one e p chk f
    (\<lambda>r. insert_audit_row e al (aid r) (Some (fr r)) (to r) (w r) (tr r) (m r) (g r)) ret miss d
    = (Inr x, d')"
  obtain rows d1 r' u where up: "update_where e p chk f d = (Inr rows, d1)"
    and hit: "first_row rows = Some r'"
    and au: "insert_audit_row e al (aid r') (Some (fr r')) (to r') (w r') (tr r') (m r') (g r') d1
      = (Inr u, d')"
    by (rule fetch_one_Inr [OF run miss(1)])
  obtain r where r: "p r" "row_inv r" "r' = f r"
    and tr: "tracks [(i, Some (row_status r), row_status (f r))] d d1"
    by (rule one_row_update [OF inv up hit key row])
  have "appends al [(aid r', Some (fr r'), to r')] d1 d'" using au by (rule insert_audit_row_Inr)
  with labels [OF r(1,2)] r(3) have "appends al [(i, Some (row_status r), row_status (f r))] d1 d'"
    by simp
  with inv tr show "good al d d'" by (rule good_tracks_appends)
qed

section \<open>Ending a claim\<close>

lemma complete_row:
  "is_running i r \<Longrightarrow> row_inv r \<Longrightarrow> row_inv (complete_update e r)
     \<and> same_task r (complete_update e r)
     \<and> edge (Some (row_status r)) (row_status (complete_update e r))"
  by (auto simp: is_running_def complete_update_def row_goal)

lemma complete_keeps: "keeps al (complete e al i)"
  unfolding complete_def
  by (intro keeps_andthen_lift pure_intros fetch_one_keeps [where i = "task_uuid i"] complete_row
      never_returns_raise seq_intros)
    (auto simp: is_running_def complete_update_def)

lemma fail_row:
  "is_running i r \<Longrightarrow> row_inv r \<Longrightarrow> row_inv (fail_update e m b x r)
     \<and> same_task r (fail_update e m b x r)
     \<and> edge (Some (row_status r)) (row_status (fail_update e m b x r))"
  by (auto simp: is_running_def fail_update_def row_goal Let_def)

lemma fail_keeps: "keeps al (fail e al i m b x)"
  unfolding fail_def Let_def
  by (intro keeps_lift_andthen keeps_andthen_lift pure_intros
      fetch_one_keeps [where i = "task_uuid i"] fail_row never_returns_raise seq_intros)
    (auto simp: is_running_def fail_update_def Let_def)

lemma suspend_row:
  "is_running i r \<Longrightarrow> row_inv r \<Longrightarrow> row_inv (suspend_update e r)
     \<and> same_task r (suspend_update e r)
     \<and> edge (Some (row_status r)) (row_status (suspend_update e r))"
  by (auto simp: is_running_def suspend_update_def row_goal)

lemma suspend_keeps: "keeps al (suspend e al i)"
  unfolding suspend_def
  by (intro keeps_andthen_lift pure_intros fetch_one_keeps [where i = "task_uuid i"] suspend_row
      never_returns_raise seq_intros)
    (auto simp: is_running_def suspend_update_def)

section \<open>Releasing leases and signals\<close>

lemma release_row:
  "row_status r = ''running'' \<Longrightarrow> row_inv r \<Longrightarrow> row_inv (release_update e r)
     \<and> same_task r (release_update e r)
     \<and> edge (Some (row_status r)) (row_status (release_update e r))"
  by (auto simp: release_update_def row_goal)

lemma release_lease_for_task_keeps: "keeps al (release_lease_for_task e al i)"
  unfolding release_lease_for_task_def
  by (intro fetch_one_keeps [where i = "task_uuid i"] release_row never_returns_raise seq_intros)
    (auto simp: is_running_def release_update_def)

lemma signal_row:
  "row_status r = ''suspended'' \<Longrightarrow> row_inv r \<Longrightarrow> row_inv (signal_update e p r)
     \<and> same_task r (signal_update e p r)
     \<and> edge (Some (row_status r)) (row_status (signal_update e p r))"
  by (auto simp: signal_update_def row_goal)

lemma signal_keeps: "keeps al (signal e al i p)"
  unfolding signal_def
  by (intro keeps_lift_andthen keeps_andthen_lift pure_intros
      fetch_one_keeps [where i = "task_uuid i"] signal_row never_returns_andthen seq_intros)
    (auto simp: signal_update_def intro: seq_intros)


section \<open>Several rows at a time\<close>

text \<open>An update of many rows and the loop that writes one audit row for each row returned.\<close>

lemma tracks_stmt:
  assumes inv: "db_inv d" and up: "sql e pt (update_where e p chk f) d = (Inr rows, d1)"
    and row: "\<And>r. r \<in> set (db_tasks d) \<Longrightarrow> p r \<Longrightarrow> row_inv r \<Longrightarrow>
      row_inv (f r) \<and> same_task r (f r) \<and> edge (Some (row_status r)) (row_status (f r))"
  shows "tracks (moved p f (db_tasks d)) d d1" and "rows = map f (filter p (db_tasks d))"
proof -
  show "tracks (moved p f (db_tasks d)) d d1"
    by (rule tracks_update [OF inv _ _ row]) (use up in \<open>simp_all add: stmt_Inr\<close>)
  show "rows = map f (filter p (db_tasks d))" using up by (simp add: stmt_Inr)
qed

lemma each_audit_rows:
  assumes "each (\<lambda>r. insert_audit_row e al (row_id r) (Some fr) to (w r) (tr r) (m r) (g r))
      (map f (filter p rs)) d = (Inr u, d')"
    and "\<And>r. r \<in> set rs \<Longrightarrow> p r \<Longrightarrow> row_id (f r) = row_id r \<and> row_status r = fr \<and> row_status (f r) = to"
  shows "appends al (moved p f rs) d d'"
proof -
  have "appends al (map (\<lambda>r. (row_id r, Some fr, to)) (map f (filter p rs))) d d'"
    by (rule each_audit_Inr [OF _ assms(1)]) (rule insert_audit_row_Inr)
  moreover have "map (\<lambda>r. (row_id r, Some fr, to)) (map f (filter p rs)) = moved p f rs"
    using assms(2) by (auto simp: moved_def)
  ultimately show ?thesis by simp
qed

lemma release_leases_for_worker_keeps: "keeps al (release_leases_for_worker e al w)"
  unfolding release_leases_for_worker_def
proof (intro keeps_andthen_lift pure_intros keeps_transact seq_intros)
  let ?p = "\<lambda>r. row_claimed_by r = Some (worker_uuid w) \<and> row_status r = ''running''"
  let ?au = "\<lambda>row. insert_audit_row e al (row_id row) (Some ''running'') ''pending''
     (Some (worker_uuid w)) (row_trace_id row) (Some shutdown_metadata) None"
  fix d x d'
  assume inv: "db_inv d" and run: "andthen (sql e (AtStmt 0)
      (update_where e ?p attempts_chk (release_update e)))
      (\<lambda>rows. andthen (each ?au rows) (\<lambda>_. return rows)) d = (Inr x, d')"
  then obtain rows d1 u where
    up: "sql e (AtStmt 0) (update_where e ?p attempts_chk (release_update e)) d = (Inr rows, d1)"
    and au: "each ?au rows d1 = (Inr u, d')"
    unfolding andthen_Inr_iff return_apply by blast
  have tr: "tracks (moved ?p (release_update e) (db_tasks d)) d d1"
    and rows: "rows = map (release_update e) (filter ?p (db_tasks d))"
    using tracks_stmt [OF inv up] release_row by (auto simp: suspend_expired_def)
  have "appends al (moved ?p (release_update e) (db_tasks d)) d1 d'"
    by (rule each_audit_rows [OF au [unfolded rows]]) (auto simp: release_update_def)
  with inv tr show "good al d d'" by (rule good_tracks_appends)
qed

lemma expire_row:
  "row_status r = ''suspended'' \<Longrightarrow> row_inv r \<Longrightarrow> row_inv (expire_update e r)
     \<and> same_task r (expire_update e r)
     \<and> edge (Some (row_status r)) (row_status (expire_update e r))"
  by (auto simp: expire_update_def row_goal)

lemma expire_suspended_tasks_keeps: "keeps al (expire_suspended_tasks e al t)"
  unfolding expire_suspended_tasks_def Let_def
proof (intro keeps_andthen_lift pure_intros keeps_transact seq_intros)
  let ?p = "suspend_expired e (as_secs t)"
  let ?au = "\<lambda>row. insert_audit_row e al (row_id row) (Some ''suspended'') ''failed'' None
     (row_trace_id row) (Some (JObj [(''error'', JStr ''suspend timeout exceeded'')])) None"
  fix d x d'
  assume inv: "db_inv d" and run: "andthen (sql e (AtStmt 0)
      (update_where e ?p no_chk (expire_update e)))
      (\<lambda>rows. andthen (each ?au rows) (\<lambda>_. return rows)) d = (Inr x, d')"
  then obtain rows d1 u where
    up: "sql e (AtStmt 0) (update_where e ?p no_chk (expire_update e)) d = (Inr rows, d1)"
    and au: "each ?au rows d1 = (Inr u, d')"
    unfolding andthen_Inr_iff return_apply by blast
  have tr: "tracks (moved ?p (expire_update e) (db_tasks d)) d d1"
    and rows: "rows = map (expire_update e) (filter ?p (db_tasks d))"
    using tracks_stmt [OF inv up] expire_row by (auto simp: suspend_expired_def)
  have "appends al (moved ?p (expire_update e) (db_tasks d)) d1 d'"
    by (rule each_audit_rows [OF au [unfolded rows]]) (auto simp: expire_update_def suspend_expired_def)
  with inv tr show "good al d d'" by (rule good_tracks_appends)
qed

lemma retry_row:
  "lease_expired e r \<Longrightarrow> row_inv r \<Longrightarrow> row_inv (retry_update e r)
     \<and> same_task r (retry_update e r)
     \<and> edge (Some (row_status r)) (row_status (retry_update e r))"
  by (auto simp: retry_update_def lease_expired_def row_goal)

lemma exhaust_row:
  "lease_expired e r \<Longrightarrow> row_inv r \<Longrightarrow> row_inv (exhaust_update e r)
     \<and> same_task r (exhaust_update e r)
     \<and> edge (Some (row_status r)) (row_status (exhaust_update e r))"
  by (auto simp: exhaust_update_def lease_expired_def row_goal)

lemma tracks_inv: "db_inv d \<Longrightarrow> tracks sh d d1 \<Longrightarrow> db_inv d1"
  using good_tracks_appends [of d sh d1 False d1] by (auto simp: good_def appends_def)

lemma recover_zombie_tasks_keeps: "keeps al (recover_zombie_tasks e al)"
  unfolding recover_zombie_tasks_def recover_body_def
proof (intro keeps_transact seq_intros)
  let ?p = "\<lambda>r. lease_expired e r \<and> row_attempts r < row_max_attempts r"
  let ?q = "\<lambda>r. lease_expired e r \<and> row_max_attempts r \<le> row_attempts r"
  let ?a = "\<lambda>row. insert_audit_row e al (row_id row) (Some ''running'') ''pending'' None
     (row_trace_id row) None (row_region row)"
  let ?b = "\<lambda>row. insert_audit_row e al (row_id row) (Some ''running'') ''failed'' None
     (row_trace_id row) (Some (JObj [(''error'', JStr ''lease expired: max attempts exhausted'')]))
     (row_region row)"
  fix d x d'
  assume inv: "db_inv d"
  assume "andthen (sql e (AtStmt 0) (update_where e ?p no_chk (retry_update e))) (\<lambda>retryable_rows.
       andthen (sql e (AtStmt 1) (update_where e ?q no_chk (exhaust_update e))) (\<lambda>exhausted_rows.
       andthen (each ?a retryable_rows) (\<lambda>_. andthen (each ?b exhausted_rows) (\<lambda>_.
       lift (map_err adapter_failure
         (and_then (collect_results (map (recovered_entry ''recovered'' Recovered) retryable_rows))
           (\<lambda>xs. and_then
             (collect_results (map (recovered_entry ''exhausted'' RecoveryFailed) exhausted_rows))
             (\<lambda>ys. Inr (xs @ ys)))))))))  d = (Inr x, d')"
  then obtain rs d1 ss d2 u d3 v where
    up: "sql e (AtStmt 0) (update_where e ?p no_chk (retry_update e)) d = (Inr rs, d1)"
      "sql e (AtStmt 1) (update_where e ?q no_chk (exhaust_update e)) d1 = (Inr ss, d2)"
    and au: "each ?a rs d2 = (Inr u, d3)" "each ?b ss d3 = (Inr v, d')"
    unfolding andthen_Inr_iff lift_apply by blast
  have tr: "tracks (moved ?p (retry_update e) (db_tasks d)) d d1"
    and rs: "rs = map (retry_update e) (filter ?p (db_tasks d))"
    using tracks_stmt [OF inv up(1)] retry_row by auto
  note inv1 = tracks_inv [OF inv tr]
  have tr': "tracks (moved ?q (exhaust_update e) (db_tasks d1)) d1 d2"
    and ss: "ss = map (exhaust_update e) (filter ?q (db_tasks d1))"
    using tracks_stmt [OF inv1 up(2)] exhaust_row by auto
  have "appends al (moved ?p (retry_update e) (db_tasks d)) d2 d3"
    by (rule each_audit_rows [OF au(1) [unfolded rs]]) (auto simp: retry_update_def lease_expired_def)
  moreover have "appends al (moved ?q (exhaust_update e) (db_tasks d1)) d3 d'"
    by (rule each_audit_rows [OF au(2) [unfolded ss]])
      (auto simp: exhaust_update_def lease_expired_def)
  ultimately show "good al d d'"
    by (intro good_tracks_appends [OF inv tracks_trans [OF tr tr']] appends_trans)
qed


section \<open>Claiming\<close>

lemma first_row_sorted:
  assumes "sorted (map k xs)" and "first_row (filter p xs) = Some c" and "x \<in> set xs" and "p x"
  shows "k c \<le> k x"
  using assms
proof (induction xs)
  case (Cons y ys)
  then show ?case by (cases "p y") auto
qed simp

lemma claim_candidate_None:
  "claim_candidate e q g rows = None \<longleftrightarrow>
     (\<forall>r \<in> set rows. claimable e q g r \<longrightarrow> e_locked e (row_id r))"
  by (auto simp: claim_candidate_def filter_empty_conv)

lemma claim_candidate_Some:
  assumes "claim_candidate e q g rows = Some c"
  shows "c \<in> set rows" "claimable e q g c" "\<not> e_locked e (row_id c)"
    "\<And>r. r \<in> set rows \<Longrightarrow> claimable e q g r \<Longrightarrow> \<not> e_locked e (row_id r) \<Longrightarrow> claim_key c \<le> claim_key r"
proof -
  show "c \<in> set rows" "claimable e q g c" "\<not> e_locked e (row_id c)"
    using first_row_in [OF assms [unfolded claim_candidate_def]] by auto
  show "claim_key c \<le> claim_key r"
    if "r \<in> set rows" "claimable e q g r" "\<not> e_locked e (row_id r)" for r
    using that by (intro first_row_sorted [OF sorted_sort_key assms [unfolded claim_candidate_def]]) auto
qed

lemma claim_row:
  "row_status r = ''pending'' \<Longrightarrow> row_inv r \<Longrightarrow> row_inv (claim_update e w l r)
     \<and> same_task r (claim_update e w l r)
     \<and> edge (Some (row_status r)) (row_status (claim_update e w l r))"
  by (auto simp: claim_update_def row_goal)

lemma row_unique:
  "distinct (map row_id rs) \<Longrightarrow> r \<in> set rs \<Longrightarrow> c \<in> set rs \<Longrightarrow> row_id r = row_id c \<Longrightarrow> r = c"
  by (metis distinct_map inj_onD)

text \<open>What the claiming statement does when it returns: nothing, or one step of one candidate.\<close>

lemma claim_stmt_cases:
  assumes inv: "db_inv d" and run: "claim_stmt e q w l g d = (Inr rows, d1)"
  obtains (none) "claim_candidate e q g (db_tasks d) = None" "rows = []" "d1 = d"
  | (one) c where "claim_candidate e q g (db_tasks d) = Some c"
      "rows = [claim_update e w l c]"
      "d1 = d\<lparr>db_tasks :=
         map (\<lambda>r. if row_id r = row_id c then claim_update e w l r else r) (db_tasks d)\<rparr>"
      "tracks [(row_id c, Some ''pending'', ''running'')] d d1"
proof (cases "claim_candidate e q g (db_tasks d)")
  case None
  with run show thesis by (auto simp: claim_stmt_def intro: none)
next
  case (Some c)
  let ?p = "\<lambda>r. row_id r = row_id c"
  note c = claim_candidate_Some(1,2) [OF Some]
  from run Some have up: "update_where e ?p attempts_chk (claim_update e w l) d = (Inr rows, d1)"
    by (simp add: claim_stmt_def)
  have same: "r = c" if "r \<in> set (db_tasks d)" "?p r" for r
    using row_unique [OF db_inv_rows(3) [OF inv] that(1) c(1) that(2)] .
  have "filter ?p (db_tasks d) = [] \<or> (\<exists>r \<in> set (db_tasks d). ?p r \<and> filter ?p (db_tasks d) = [r])"
    by (rule filter_one [OF db_inv_rows(3) [OF inv]]) simp
  moreover have "filter ?p (db_tasks d) \<noteq> []" using c(1) by (auto simp: filter_empty_conv)
  ultimately have "filter ?p (db_tasks d) = [c]" using same by auto
  then have m: "moved ?p (claim_update e w l) (db_tasks d)
      = [(row_id c, Some ''pending'', ''running'')]"
    and rows: "rows = [claim_update e w l c]"
    using up c(2) by (auto simp: moved_def claimable_def claim_update_def update_where_Inr)
  have "row_status r = ''pending''" if "r \<in> set (db_tasks d)" "?p r" for r
    using same [OF that] c(2) by (simp add: claimable_def)
  then have "tracks (moved ?p (claim_update e w l) (db_tasks d)) d d1"
    using up by (intro tracks_update [OF inv] claim_row) (auto simp: update_where_Inr)
  with m rows up Some show thesis by (intro one) (simp_all add: update_where_Inr)
qed

lemma claim_next_keeps: "keeps al (claim_next e al q w l g)"
  unfolding claim_next_def Let_def
proof (intro keeps_andthen_lift pure_intros keeps_transact)
  let ?au = "\<lambda>row. case row of None \<Rightarrow> return ()
     | Some r \<Rightarrow> insert_audit_row e al (row_id r) (Some ''pending'') ''running''
         (Some (worker_uuid w)) (row_trace_id r) None (row_region r)"
  let ?st = "claim_stmt e (queue_str q) (worker_uuid w) (as_secs_f64 l) g"
  show "seq_grows (andthen (sql e (AtStmt 0) ?st)
      (\<lambda>rows. andthen (?au (first_row rows)) (\<lambda>_. return (first_row rows))))"
    by (intro seq_intros) (auto split: option.split intro: seq_intros)
  fix d x d'
  assume inv: "db_inv d"
  assume "andthen (sql e (AtStmt 0) ?st)
      (\<lambda>rows. andthen (?au (first_row rows)) (\<lambda>_. return (first_row rows))) d = (Inr x, d')"
  then obtain rows d1 u where st: "?st d = (Inr rows, d1)"
    and au: "?au (first_row rows) d1 = (Inr u, d')"
    unfolding andthen_Inr_iff return_apply sql_Inr by blast
  from inv st show "good al d d'"
  proof (cases rule: claim_stmt_cases)
    case none
    with au inv show ?thesis by (simp add: return_apply good_refl)
  next
    case (one c)
    have "row_id (claim_update e (worker_uuid w) (as_secs_f64 l) c) = row_id c"
      by (simp add: claim_update_def)
    with au one(2) have "appends al [(row_id c, Some ''pending'', ''running'')] d1 d'"
      by (auto dest: insert_audit_row_Inr)
    with inv one(4) show ?thesis by (rule good_tracks_appends)
  qed
qed

section \<open>Cancelling\<close>

lemma cancel_row:
  "cancellable i r \<Longrightarrow> row_inv r \<Longrightarrow> row_inv (cancel_update e r)
     \<and> same_task r (cancel_update e r)
     \<and> edge (Some (row_status r)) (row_status (cancel_update e r))"
  by (auto simp: cancellable_def cancel_update_def row_goal)

text \<open>The audit row takes its origin from \<open>suspended_at\<close>, which the invariant justifies.\<close>

lemma cancel_origin_status:
  "cancellable i r \<Longrightarrow> row_inv r \<Longrightarrow> cancel_origin (cancel_update e r) = row_status r"
  by (auto simp: cancellable_def cancel_origin_def cancel_update_def row_inv_def)

lemma cancel_stmt_hit:
  assumes "db_inv d" and "cancel_stmt e i d = (Inr (CancelHit r'), d1)"
  obtains r where "r \<in> set (db_tasks d)" "cancellable i r" "r' = cancel_update e r" "row_inv r"
    "tracks [(i, Some (row_status r), ''cancelled'')] d d1"
proof -
  from assms(2) obtain rows where
    up: "update_where e (cancellable i) no_chk (cancel_update e) d = (Inr rows, d1)"
    and hit: "first_row rows = Some r'"
    by (auto simp: cancel_stmt_def split: prod.splits sum.splits option.splits)
  obtain r where r: "r \<in> set (db_tasks d)" "cancellable i r" "row_inv r" "r' = cancel_update e r"
    "tracks [(i, Some (row_status r), row_status (cancel_update e r))] d d1"
    by (rule one_row_update [OF assms(1) up hit, of i])
      (auto simp: cancel_row, simp add: cancellable_def)
  then show thesis by (intro that) (auto simp: cancel_update_def)
qed

lemma cancel_stmt_miss:
  assumes "cancel_stmt e i d = (Inr row, d1)" and "\<And>r. row \<noteq> CancelHit r"
  shows "d1 = d" and "\<forall>r \<in> set (db_tasks d). \<not> cancellable i r"
    and "row = (case first_row (filter (\<lambda>r. row_id r = i) (db_tasks d)) of
      Some r \<Rightarrow> CancelMiss (row_status r) | None \<Rightarrow> CancelNone)"
proof -
  from assms have none: "\<forall>r \<in> set (db_tasks d). \<not> cancellable i r"
    and d1: "d1 = d\<lparr>db_tasks := map (\<lambda>r. if cancellable i r then cancel_update e r else r) (db_tasks d)\<rparr>"
    by (auto simp: cancel_stmt_def update_where_Inr filter_empty_conv
        split: prod.splits sum.splits option.splits)
  show "\<forall>r \<in> set (db_tasks d). \<not> cancellable i r" by (rule none)
  have "map (\<lambda>r. if cancellable i r then cancel_update e r else r) (db_tasks d) = db_tasks d"
    using none by (intro map_idI) auto
  with d1 show "d1 = d" by simp
  show "row = (case first_row (filter (\<lambda>r. row_id r = i) (db_tasks d)) of
      Some r \<Rightarrow> CancelMiss (row_status r) | None \<Rightarrow> CancelNone)"
    using assms by (auto simp: cancel_stmt_def split: prod.splits sum.splits option.splits)
qed

lemma cancel_keeps: "keeps al (cancel e al i)"
  unfolding cancel_def
proof (intro keeps_andthen_lift keeps_transact)
  let ?au = "\<lambda>row. case row of
      CancelHit r \<Rightarrow> andthen (insert_audit_row e al (row_id r) (Some (cancel_origin r))
          ''cancelled'' None (row_trace_id r) None (row_region r)) (\<lambda>_. return row)
    | _ \<Rightarrow> return row"
  let ?st = "cancel_stmt e (task_uuid i)"
  show "seq_grows (andthen (sql e (AtStmt 0) ?st) ?au)"
    by (intro seq_intros) (auto split: cancel_row.split intro!: seq_intros)
  fix d x d'
  assume inv: "db_inv d" and "andthen (sql e (AtStmt 0) ?st) ?au d = (Inr x, d')"
  then obtain row d1 where st: "?st d = (Inr row, d1)" and au: "?au row d1 = (Inr x, d')"
    unfolding andthen_Inr_iff sql_Inr by blast
  show "good al d d'"
  proof (cases row)
    case (CancelHit r')
    then obtain r where r: "cancellable (task_uuid i) r" "r' = cancel_update e r" "row_inv r"
      and tr: "tracks [(task_uuid i, Some (row_status r), ''cancelled'')] d d1"
      using st cancel_stmt_hit [OF inv] by blast
    have "row_id r' = task_uuid i" "cancel_origin r' = row_status r"
      using r cancel_origin_status by (auto simp: cancellable_def cancel_update_def)
    with au CancelHit have "appends al [(task_uuid i, Some (row_status r), ''cancelled'')] d1 d'"
      by (auto simp: andthen_Inr_iff return_apply dest: insert_audit_row_Inr)
    with inv tr show ?thesis by (rule good_tracks_appends)
  qed (use au st inv cancel_stmt_miss(1) [OF st] in \<open>auto simp: return_apply good_refl\<close>)
next
  show "pure_op (case row of
        CancelHit r \<Rightarrow> andthen (lift (record_res r)) (\<lambda>record. return (CancelledTask record))
      | CancelMiss st \<Rightarrow> andthen (lift (map_err adapter_failure (parse_status st)))
          (\<lambda>status. return (NotCancellable status))
      | CancelNone \<Rightarrow> return CancelNotFound)" for row
    by (cases row) (auto intro!: pure_intros)
qed

section \<open>Updates that change no status\<close>

lemma quiet_keeps:
  assumes "\<And>r. p r \<Longrightarrow> row_inv r \<Longrightarrow>
      row_inv (f r) \<and> same_task r (f r) \<and> row_status (f r) = row_status r"
  shows "keeps al (on_pool e (update_where e p chk f))"
  unfolding on_pool_def
proof (intro keeps_transact seq_intros)
  fix d x d'
  assume inv: "db_inv d" and "sql e (AtStmt 0) (update_where e p chk f) d = (Inr x, d')"
  then have "tracks [] d d'"
    by (intro tracks_quiet_update [OF inv _ _ assms]) (simp_all add: stmt_Inr)
  with inv show "good al d d'" by (rule good_tracks_appends) simp
qed

lemma cleanup_keeps: "keeps al (cleanup_expired_idempotency_keys e)"
  unfolding cleanup_expired_idempotency_keys_def
  by (intro keeps_andthen_lift pure_intros quiet_keeps) (auto simp: row_goal)

lemma write_checkpoint_keeps: "keeps al (write_checkpoint e i w data)"
  unfolding write_checkpoint_def
  by (intro keeps_andthen_lift quiet_keeps) (auto simp: row_goal intro: pure_intros)

section \<open>Saving\<close>

text \<open>The records a caller may save: freshly submitted, as the scheduler builds them.\<close>

definition fresh_record :: "task_record \<Rightarrow> bool" where
  "fresh_record t \<longleftrightarrow> rec_status t = Pending \<and> 0 \<le> attempt_get (rec_attempts t)
     \<and> 1 \<le> max_get (rec_max_attempts t) \<and> queue_valid (queue_str (rec_queue t))
     \<and> rec_claimed_by t = None \<and> rec_suspended_at t = None"

lemma insert_values_inv: "fresh_record t \<Longrightarrow> row_inv (insert_values e t)"
  by (auto simp: fresh_record_def insert_values_def row_inv_def)

lemma insert_values_pending: "fresh_record t \<Longrightarrow> row_status (insert_values e t) = ''pending''"
  by (simp add: fresh_record_def insert_values_def)

lemma seq_grows_audit_created [seq_intros]: "seq_grows (audit_created e al r)"
  unfolding audit_created_def by (rule seq_intros)

lemma created_good:
  assumes inv: "db_inv d" and f: "fresh_record t"
    and ins: "insert_row e (insert_values e t) d = (Inr row, d1)"
    and au: "audit_created e al row d1 = (Inr u, d')"
  shows "good al d d'"
proof -
  have "tracks [(row_id row, None, ''pending'')] d d1"
    using tracks_insert [OF inv _ insert_values_inv [OF f] insert_values_pending [OF f], of e d1] ins
    by (auto simp: insert_row_Inr)
  moreover have "appends al [(row_id row, None, ''pending'')] d1 d'"
    using au unfolding audit_created_def by (rule insert_audit_row_Inr)
  ultimately show ?thesis using inv by (blast intro: good_tracks_appends)
qed

lemma save_body_good:
  assumes "db_inv d" "fresh_record t" "save_body e al t d = (Inr x, d')"
  shows "good al d d'"
  using assms(3) created_good [OF assms(1,2)]
  by (auto simp: save_body_def andthen_Inr_iff sql_Inr return_apply)

lemma save_body_seq [seq_intros]: "seq_grows (save_body e al t)"
  unfolding save_body_def by (intro seq_intros)

lemma save_keeps: "fresh_record t \<Longrightarrow> keeps al (save e al t)"
  unfolding save_def
  by (intro keeps_andthen_lift keeps_transact pure_intros seq_intros save_body_good)

lemma insert_or_nothing_Inr:
  "insert_or_nothing e r d = (Inr x, d') \<Longrightarrow>
     x = None \<and> d' = d \<or> x = Some r \<and> insert_row e r d = (Inr r, d')"
  by (auto simp: insert_or_nothing_def insert_row_Inr
      split: option.splits if_splits prod.splits sum.splits)

lemma save_idempotent_body_good:
  assumes "db_inv d" "fresh_record t" "save_idempotent_body e al t d = (Inr x, d')"
  shows "good al d d'"
proof -
  from assms(3) obtain ins d1 where "insert_or_nothing e (insert_values e t) d = (Inr ins, d1)"
    and k: "(case ins of
        Some row \<Rightarrow> andthen (audit_created e al row) (\<lambda>_. return (Some row, True))
      | None \<Rightarrow> andthen (sql e (AtStmt 1) (select_where (holds_key t))) (\<lambda>rows.
          return (first_row rows, False))) d1 = (Inr x, d')"
    unfolding save_idempotent_body_def andthen_Inr_iff sql_Inr by blast
  from insert_or_nothing_Inr [OF this(1)] show ?thesis
  proof (elim disjE conjE)
    assume "ins = None" "d1 = d"
    with k assms(1) show ?thesis
      by (auto simp: andthen_Inr_iff sql_Inr select_where_Inr return_apply good_refl)
  next
    assume "ins = Some (insert_values e t)"
      and "insert_row e (insert_values e t) d = (Inr (insert_values e t), d1)"
    with k created_good [OF assms(1,2)] show ?thesis
      by (auto simp: andthen_Inr_iff return_apply)
  qed
qed

lemma save_idempotent_body_seq [seq_intros]: "seq_grows (save_idempotent_body e al t)"
  unfolding save_idempotent_body_def
  by (intro seq_intros) (auto split: option.split intro!: seq_intros)

lemma save_idempotent_tail: "pure_op (case (x :: task_row option \<times> bool) of (row, created) \<Rightarrow>
     (case row of Some r \<Rightarrow> andthen (lift (record_res r)) (\<lambda>record. return (record, created))
      | None \<Rightarrow> raise f))"
  by (cases x; cases "fst x") (auto intro!: pure_intros)

lemma save_idempotent_keeps: "fresh_record t \<Longrightarrow> keeps al (save_idempotent e al t)"
  unfolding save_idempotent_def
  by (intro keeps_andthen_lift keeps_transact save_idempotent_tail seq_intros
      save_idempotent_body_good)

end
