(* ===== verification/Repo_Query.thy ===== *)
theory Repo_Query
  imports Repo_Write "HOL-Library.List_Lexorder" "HOL-Library.Option_ord" "HOL-Library.Char_ord"
begin

text \<open>
  The operations of \<open>PostgresTaskRepository\<close> that only read
  (\<open>adapters/postgres_task_repository.rs\<close>). An \<open>ORDER BY\<close> is a stable sort by its key. Text is
  compared byte by byte, the order of the \<open>C\<close> collation, and absent values come last.
\<close>

section \<open>Tasks\<close>

definition find_by_id :: "env \<Rightarrow> task_id \<Rightarrow> (db, task_record option) op" where
  "find_by_id e i =
     andthen (on_pool e (select_where (\<lambda>r. row_id r = task_uuid i))) (\<lambda>rows.
     lift (transpose (map_option record_res (first_row rows))))"

definition by_creation :: "task_row \<Rightarrow> time \<times> uuid" where
  "by_creation r = (row_created_at r, row_id r)"

definition list_by_queue :: "env \<Rightarrow> queue_name \<Rightarrow> (db, task_record list) op" where
  "list_by_queue e queue =
     andthen (on_pool e (select_where (\<lambda>r. row_queue r = queue_str queue))) (\<lambda>rows.
     lift (collect_results (map record_res (sort_key by_creation rows))))"

definition MAX_PAGINATION_OFFSET :: nat where
  "MAX_PAGINATION_OFFSET = 10000"

definition where_sql :: "list_tasks_filter \<Rightarrow> task_row \<Rightarrow> bool" where
  "where_sql f r \<longleftrightarrow> (case flt_queue f of None \<Rightarrow> True | Some q \<Rightarrow> row_queue r = queue_str q)
     \<and> (case flt_status f of None \<Rightarrow> True | Some st \<Rightarrow> row_status r = status_to_str st)"

text \<open>\<open>LIMIT\<close> and \<open>OFFSET\<close>; the window count is taken before them.\<close>

definition page :: "nat \<Rightarrow> nat \<Rightarrow> 'a list \<Rightarrow> 'a list" where
  "page limit offset xs = take limit (drop offset xs)"

definition list_tasks :: "env \<Rightarrow> list_tasks_filter \<Rightarrow> (db, list_tasks_result) op" where
  "list_tasks e f =
     (let offset = min (flt_offset f) MAX_PAGINATION_OFFSET in
      andthen (on_pool e (select_where (where_sql f))) (\<lambda>found.
      let rows = page (flt_limit f) offset
        (map (\<lambda>r. task_row.extend r (task_row_with_count.fields (Some (int (length found)))))
          (sort_key by_creation found)) in
      andthen (case first_row rows of
          Some first \<Rightarrow> return (nat (case total_count first of Some n \<Rightarrow> n | None \<Rightarrow> 0))
        | None \<Rightarrow>
            if flt_offset f = 0 then return 0
            else andthen (sql e (AtStmt 1) (select_where (where_sql f))) (\<lambda>counted.
              return (length counted))) (\<lambda>total.
      andthen (lift (collect_results (map (\<lambda>r. record_res (row_of_counted r)) rows))) (\<lambda>tasks.
      return \<lparr>lr_tasks = tasks, lr_total = total\<rparr>))))"

section \<open>Statistics\<close>

definition count_status :: "string \<Rightarrow> task_row list \<Rightarrow> nat" where
  "count_status st rs = length (filter (\<lambda>r. row_status r = st) rs)"

text \<open>\<open>COUNT(DISTINCT claimed_by) FILTER (WHERE status = 'running')\<close>.\<close>

definition count_workers :: "task_row list \<Rightarrow> nat" where
  "count_workers rs =
     length (remdups (List.map_filter row_claimed_by (filter (\<lambda>r. row_status r = ''running'') rs)))"

text \<open>A group key: the queue and, by region, the region; \<open>(False, r)\<close> sorts before \<open>(True, [])\<close>,
  which stands for an absent region.\<close>

definition group_key :: "bool \<Rightarrow> task_row \<Rightarrow> string \<times> bool \<times> string" where
  "group_key by_region r = (row_queue r,
     (if by_region then (case row_region r of Some g \<Rightarrow> (False, g) | None \<Rightarrow> (True, []))
      else (True, [])))"

definition has_live :: "task_row list \<Rightarrow> bool" where
  "has_live rs \<longleftrightarrow>
     0 < count_status ''pending'' rs + count_status ''running'' rs + count_status ''suspended'' rs"

definition stats_groups :: "bool \<Rightarrow> task_row list \<Rightarrow> ((string \<times> bool \<times> string) \<times> task_row list) list"
  where
  "stats_groups by_region rows =
     filter (\<lambda>(k, rs). has_live rs)
       (map (\<lambda>k. (k, filter (\<lambda>r. group_key by_region r = k) rows))
         (sort (remdups (map (group_key by_region) rows))))"

definition stats_entry ::
  "(string \<times> bool \<times> string) \<times> task_row list \<Rightarrow> adapter_error + queue_stats" where
  "stats_entry = (\<lambda>((q, absent, g), rs).
     and_then (map_row (\<lambda>e. Lit ''invalid queue name in stats: '' # display_validation_error e)
       (queue_try_from q)) (\<lambda>queue.
     Inr \<lparr>qs_queue = queue, qs_region = (if absent then None else Some g),
       qs_pending = count_status ''pending'' rs, qs_running = count_status ''running'' rs,
       qs_suspended = count_status ''suspended'' rs, qs_active_workers = count_workers rs\<rparr>))"

definition queue_statistics :: "env \<Rightarrow> bool \<Rightarrow> (db, queue_stats list) op" where
  "queue_statistics e by_region =
     andthen (on_pool e (select_where (\<lambda>_. True))) (\<lambda>rows.
     lift (map_err adapter_failure
       (collect_results (map stats_entry (stats_groups by_region rows)))))"

text \<open>One row per worker and queue with running tasks, in the order of queue and worker.\<close>

definition worker_groups :: "task_row list \<Rightarrow> ((string \<times> uuid) \<times> nat) list" where
  "worker_groups rows =
     (let keys = List.map_filter (\<lambda>r. if row_status r = ''running'' then
          map_option (Pair (row_queue r)) (row_claimed_by r) else None) rows in
      map (\<lambda>k. (k, length (filter ((=) k) keys))) (sort (remdups keys)))"

definition worker_entry :: "(string \<times> uuid) \<times> nat \<Rightarrow> adapter_error + worker_status" where
  "worker_entry = (\<lambda>((q, w), n).
     and_then (map_row
       (\<lambda>e. Lit ''invalid queue name in worker status: '' # display_validation_error e)
       (queue_try_from q)) (\<lambda>queue.
     Inr \<lparr>ws_worker_id = WorkerId w, ws_queue = queue, ws_tasks_in_flight = n\<rparr>))"

definition worker_statuses :: "env \<Rightarrow> (db, worker_status list) op" where
  "worker_statuses e =
     andthen (on_pool e (select_where (\<lambda>_. True))) (\<lambda>rows.
     lift (map_err adapter_failure (collect_results (map worker_entry (worker_groups rows)))))"

section \<open>Audit log\<close>

definition audit_entry :: "audit_row \<Rightarrow> (sqlx_error \<Rightarrow> string) \<Rightarrow> adapter_error + audit_log_entry"
  where
  "audit_entry r sq =
     and_then (map_err
         (\<lambda>e. Mapping (Lit ''invalid from_status in audit log: '' # display_adapter_error sq e))
       (transpose (map_option parse_status (aud_from r)))) (\<lambda>from_status.
     and_then (map_err
         (\<lambda>e. Mapping (Lit ''invalid to_status in audit log: '' # display_adapter_error sq e))
       (parse_status (aud_to r))) (\<lambda>to_status.
     Inr \<lparr>ent_id = aud_id r, ent_task_id = TaskId (aud_task_id r), ent_from_status = from_status,
       ent_to_status = to_status, ent_timestamp = aud_timestamp r,
       ent_worker_id = map_option WorkerId (aud_worker r), ent_trace_id = aud_trace_id r,
       ent_metadata = aud_metadata r\<rparr>))"

text \<open>A negative \<open>LIMIT\<close> or \<open>OFFSET\<close> is an error of the database.\<close>

definition select_audit ::
  "sqlx_error \<Rightarrow> uuid \<Rightarrow> int \<Rightarrow> int \<Rightarrow> (audit_row list \<times> nat) stmt" where
  "select_audit neg i limit offset d =
     (if limit < 0 \<or> offset < 0 then (Inl neg, d)
      else (let found = filter (\<lambda>a. aud_task_id a = i) (db_audit d) in
        (Inr (page (nat limit) (nat offset) (sort_key (\<lambda>a. (aud_timestamp a, aud_id a)) found),
          length found), d)))"

definition audit_log ::
  "env \<Rightarrow> sqlx_error \<Rightarrow> (sqlx_error \<Rightarrow> string) \<Rightarrow> bool \<Rightarrow> task_id \<Rightarrow> int \<Rightarrow> int
     \<Rightarrow> (db, list_audit_log_result) op" where
  "audit_log e neg sq al task_id limit offset =
     (if \<not> al then return \<lparr>al_entries = [], al_total = 0\<rparr>
      else andthen (on_pool e (select_audit neg (task_uuid task_id) limit offset)) (\<lambda>(rows, total_count).
        let total = (if rows = [] then 0 else total_count) in
        andthen (lift (map_err adapter_failure
          (collect_results (map (\<lambda>r. audit_entry r sq) rows)))) (\<lambda>entries.
        return \<lparr>al_entries = entries, al_total = total\<rparr>)))"

end
