(* ===== verification/Repo_System.thy ===== *)
theory Repo_System
  imports Repo_Contract Repo_Query
begin

text \<open>
  The repository as a system: any sequence of its writing operations, each in an environment
  of its own, from the empty database. The properties of this theory hold in every database
  such a sequence can reach, with failures at any point of any operation.
\<close>

section \<open>Operations\<close>

datatype operation =
    Save task_record
  | SaveIdempotent task_record
  | CleanupKeys
  | ClaimNext queue_name worker_id duration "string option"
  | Complete task_id
  | Fail task_id string rat rat
  | RecoverZombies
  | Cancel task_id
  | ReleaseWorker worker_id
  | ReleaseTask task_id
  | Suspend task_id
  | Signal task_id "json option"
  | ExpireSuspended duration
  | WriteCheckpoint task_id worker_id json

fun perform :: "env \<Rightarrow> bool \<Rightarrow> operation \<Rightarrow> db \<Rightarrow> db" where
  "perform e al (Save t) d = snd (save e al t d)"
| "perform e al (SaveIdempotent t) d = snd (save_idempotent e al t d)"
| "perform e al CleanupKeys d = snd (cleanup_expired_idempotency_keys e d)"
| "perform e al (ClaimNext q w l g) d = snd (claim_next e al q w l g d)"
| "perform e al (Complete i) d = snd (complete e al i d)"
| "perform e al (Fail i m b x) d = snd (fail e al i m b x d)"
| "perform e al RecoverZombies d = snd (recover_zombie_tasks e al d)"
| "perform e al (Cancel i) d = snd (cancel e al i d)"
| "perform e al (ReleaseWorker w) d = snd (release_leases_for_worker e al w d)"
| "perform e al (ReleaseTask i) d = snd (release_lease_for_task e al i d)"
| "perform e al (Suspend i) d = snd (suspend e al i d)"
| "perform e al (Signal i p) d = snd (signal e al i p d)"
| "perform e al (ExpireSuspended t) d = snd (expire_suspended_tasks e al t d)"
| "perform e al (WriteCheckpoint i w v) d = snd (write_checkpoint e i w v d)"

text \<open>What the scheduler hands to the repository (see \<open>fresh_record\<close>).\<close>

fun admissible :: "operation \<Rightarrow> bool" where
  "admissible (Save t) = fresh_record t"
| "admissible (SaveIdempotent t) = fresh_record t"
| "admissible _ = True"

lemmas operation_keeps = save_keeps save_idempotent_keeps cleanup_keeps claim_next_keeps
  complete_keeps fail_keeps recover_zombie_tasks_keeps cancel_keeps
  release_leases_for_worker_keeps release_lease_for_task_keeps suspend_keeps signal_keeps
  expire_suspended_tasks_keeps write_checkpoint_keeps

lemma perform_good: "admissible op \<Longrightarrow> db_inv d \<Longrightarrow> good al d (perform e al op d)"
  by (cases op) (simp_all add: operation_keeps [unfolded keeps_def, rule_format])

fun perform_all :: "bool \<Rightarrow> (env \<times> operation) list \<Rightarrow> db \<Rightarrow> db" where
  "perform_all al [] d = d"
| "perform_all al ((e, op) # ops) d = perform_all al ops (perform e al op d)"

lemma perform_all_good:
  "\<forall>(e, op) \<in> set ops. admissible op \<Longrightarrow> db_inv d \<Longrightarrow> good al d (perform_all al ops d)"
proof (induction al ops d rule: perform_all.induct)
  case (1 al d)
  then show ?case by (simp add: good_refl)
next
  case (2 al e op ops d)
  then have g: "good al d (perform e al op d)" by (auto intro: perform_good)
  then have "db_inv (perform e al op d)" by (simp add: good_def)
  with "2.IH" "2.prems"(1) have "good al (perform e al op d) (perform_all al ops (perform e al op d))"
    by auto
  with g show ?case by (auto intro: good_trans)
qed

inductive reachable :: "bool \<Rightarrow> db \<Rightarrow> bool" for al where
  start: "reachable al empty_db"
| step: "reachable al d \<Longrightarrow> admissible op \<Longrightarrow> reachable al (perform e al op d)"

lemma db_inv_empty: "db_inv empty_db"
  by (simp add: db_inv_def empty_db_def table_ok_def idem_slots_def List.map_filter_def)

lemma reachable_inv: "reachable al d \<Longrightarrow> db_inv d"
proof (induction rule: reachable.induct)
  case start
  show ?case by (rule db_inv_empty)
next
  case (step d op e)
  then show ?case using perform_good [of op d al e] by (simp add: good_def)
qed

lemma reachable_audited: "reachable True d \<Longrightarrow> audited d"
proof (induction rule: reachable.induct)
  case start
  show ?case by (simp add: audited_def empty_db_def status_of_def row_at_def)
next
  case (step d op e)
  then show ?case using perform_good [of op d True e] reachable_inv by (blast intro: audited_good)
qed

lemma reachable_perform_all:
  "reachable al d \<Longrightarrow> \<forall>(e, op) \<in> set ops. admissible op \<Longrightarrow> reachable al (perform_all al ops d)"
proof (induction al ops d rule: perform_all.induct)
  case (2 al e op ops d)
  then show ?case by (auto intro: reachable.step)
qed simp

section \<open>Queries leave the database alone\<close>

lemma rollback_self [simp]: "rollback d d = d"
  by (simp add: rollback_def)

lemma transact_reading:
  assumes "\<And>d r t. body d = (r, t) \<Longrightarrow> t = d"
  shows "transact e body d = (r, d') \<Longrightarrow> d' = d"
  using assms by (fastforce simp: transact_def split: option.splits prod.splits sum.splits)

lemma on_pool_select: "on_pool e (select_where p) d = (r, d') \<Longrightarrow> d' = d"
  unfolding on_pool_def
  by (erule transact_reading [rotated])
    (auto simp: sql_def select_where_def split: option.splits)

lemma on_pool_select_Inr:
  "on_pool e (select_where p) d = (Inr rows, d') \<Longrightarrow> rows = filter p (db_tasks d) \<and> d' = d"
  unfolding on_pool_def
  by (auto simp: transact_def sql_def select_where_def split: option.splits)

lemma on_pool_quiet:
  "\<forall>pt. e_fault e pt = None \<Longrightarrow> on_pool e (select_where p) d = (Inr (filter p (db_tasks d)), d)"
  by (simp add: on_pool_def transact_def sql_def select_where_def)

end
