(* ===== verification/Repo_Samples.thy ===== *)
theory Repo_Samples
  imports Repo_System
begin

text \<open>
  Concrete tasks, environments and runs on which the properties of the repository are
  evaluated, and the simplification rules that evaluate a run.
\<close>

definition mail :: queue_name where
  "mail = QueueName ''mail''"

definition sample :: "uuid \<Rightarrow> int \<Rightarrow> task_record" where
  "sample i mx = \<lparr>rec_id = TaskId i, rec_queue = mail, rec_kind = TaskKind ''send'',
     rec_payload = JNull, rec_status = Pending, rec_priority = Priority 0,
     rec_attempts = AttemptCount 0, rec_max_attempts = MaxAttempts mx, rec_last_error = None,
     rec_scheduled_at = 0, rec_claimed_by = None, rec_claimed_until = None,
     rec_created_at = 0, rec_updated_at = 0, rec_idempotency_key = None,
     rec_idempotency_expires_at = None, rec_trace_id = None, rec_checkpoint = None,
     rec_suspended_at = None, rec_signal_payload = None, rec_region = None\<rparr>"

lemma queue_valid_mail [simp]: "queue_valid ''mail''"
  by (simp add: queue_valid_def queue_name_max_len_def chars_def utf8_decode.simps
      utf8_next_def byte_def utf8_width_def is_whitespace_def forbidden_char_def is_control_def)

lemma queue_valid_default [simp]: "queue_valid ''default''"
  by (simp add: queue_valid_def queue_name_max_len_def chars_def utf8_decode.simps
      utf8_next_def byte_def utf8_width_def is_whitespace_def forbidden_char_def is_control_def)

lemma queue_try_from_mail [simp]: "queue_try_from ''mail'' = Inr mail"
  by (simp add: mail_def)

lemma fresh_sample [simp]: "1 \<le> mx \<Longrightarrow> fresh_record (sample i mx)"
  by (simp add: fresh_record_def sample_def mail_def)

text \<open>The statements, then the operations.\<close>

lemmas run_statements = transact_def on_pool_def sql_def fetch_one_def update_where_def
  insert_row_def insert_or_nothing_def select_where_def insert_audit_row_def insert_audit_def
  andthen_def effect_simps Let_def table_check_def row_check_def idem_slots_Cons idem_slot_def
  List.map_filter_def status_strings_def terminal_str_def no_chk_def rollback_def
  quiet_env_def empty_db_def cap_trace_def cap_metadata_def

lemmas run_operations = save_def save_body_def audit_created_def insert_values_def
  save_idempotent_def save_idempotent_body_def holds_key_def
  claim_next_def claim_stmt_def claim_candidate_def claimable_def claim_key_def claim_update_def
  attempts_chk_def i32_range_def complete_def is_running_def complete_update_def
  fail_def fail_asserts_def debug_assert_def fail_chk_def fail_update_def
  suspend_def suspend_update_def signal_def signal_payload_ok_def signal_update_def
  cancel_def cancel_stmt_def cancel_update_def cancellable_def cancel_origin_def
  release_lease_for_task_def release_update_def release_leases_for_worker_def
  recover_zombie_tasks_def recover_body_def lease_expired_def retry_update_def exhaust_update_def
  recovered_entry_def

lemmas run_results = record_res_def record_of_row_def map_row_def task_kind_try_from_def
  attempt_new_def max_new_def parse_status_def to_ascii_lowercase_def ascii_lower_def byte_def
  mapping_error_def adapter_failure_def task_error_of_adapter_def

lemmas run_times = interval_of_secs_def rint_def as_secs_f64_def

text \<open>A worker, and the database with one task submitted, claimed and completed.\<close>

definition worker_seven :: worker_id where
  "worker_seven = WorkerId 7"

definition submit_ops :: "(env \<times> operation) list" where
  "submit_ops = [(quiet_env 0, Save (sample 1 3))]"

definition claim_ops :: "(env \<times> operation) list" where
  "claim_ops = [(quiet_env 0, Save (sample 1 3)),
     (quiet_env 5, ClaimNext mail worker_seven 30 None)]"

definition complete_ops :: "(env \<times> operation) list" where
  "complete_ops = [(quiet_env 0, Save (sample 1 3)),
     (quiet_env 5, ClaimNext mail worker_seven 30 None), (quiet_env 9, Complete (TaskId 1))]"

definition submitted_db :: db where
  "submitted_db = perform_all True submit_ops empty_db"

definition claimed_db :: db where
  "claimed_db = perform_all True claim_ops empty_db"

definition completed_db :: db where
  "completed_db = perform_all True complete_ops empty_db"

definition sample_row :: "uuid \<Rightarrow> int \<Rightarrow> time \<Rightarrow> task_row" where
  "sample_row i mx t = insert_values (quiet_env t) (sample i mx)"

lemma reachable_submitted: "reachable True submitted_db"
  unfolding submitted_db_def
  by (rule reachable_perform_all [OF reachable.start]) (simp add: submit_ops_def)

lemma reachable_claimed: "reachable True claimed_db"
  unfolding claimed_db_def
  by (rule reachable_perform_all [OF reachable.start]) (simp add: claim_ops_def)

lemma reachable_completed: "reachable True completed_db"
  unfolding completed_db_def
  by (rule reachable_perform_all [OF reachable.start]) (simp add: complete_ops_def)

text \<open>The rows in them.\<close>

lemma submitted_tasks: "db_tasks submitted_db = [sample_row 1 3 0]"
  by (simp add: submitted_db_def submit_ops_def sample_row_def run_statements
      run_operations sample_def mail_def)

lemma claimed_tasks:
  "db_tasks claimed_db = [claim_update (quiet_env 5) 7 (as_secs_f64 30) (sample_row 1 3 0)]"
  by (simp add: claimed_db_def claim_ops_def sample_row_def run_statements run_operations
      sample_def mail_def worker_seven_def)

lemma completed_tasks:
  "db_tasks completed_db =
     [complete_update (quiet_env 9) (claim_update (quiet_env 5) 7 (as_secs_f64 30) (sample_row 1 3 0))]"
  by (simp add: completed_db_def complete_ops_def sample_row_def run_statements run_operations
      sample_def mail_def worker_seven_def)

lemma completed_trail:
  "trail 1 (db_audit completed_db) =
     [(None, ''pending''), (Some ''pending'', ''running''), (Some ''running'', ''completed'')]"
  by (simp add: completed_db_def complete_ops_def run_statements run_operations sample_def
      mail_def worker_seven_def trail_def shape_def)

end
