(* ===== verification/Repo_Outcomes.thy ===== *)
theory Repo_Outcomes
  imports Repo_System
begin

text \<open>
  What an operation of the repository did when it returned without an error: the row it found
  and the table it left. The properties and the interpretation of the port rest on these.
\<close>

section \<open>One row at a time\<close>

lemma transact_InrD: "transact e body d = (Inr x, d') \<Longrightarrow> body d = (Inr x, d')"
  by (auto simp: transact_def split: option.splits prod.splits sum.splits)

lemma audit_row_frame:
  "insert_audit_row e al i fr to w tr m g d = (Inr u, d') \<Longrightarrow> db_tasks d' = db_tasks d"
  by (drule insert_audit_row_Inr) (simp add: appends_def)

lemma update_by_id:
  assumes inv: "db_inv d" and up: "update_where e p chk f d = (Inr rows, d1)"
    and hit: "first_row rows = Some r'" and key: "\<And>r. p r \<Longrightarrow> row_id r = i"
  obtains r where "r \<in> set (db_tasks d)" "p r" "row_id r = i" "r' = f r" "chk r = None"
    "db_tasks d1 = map (\<lambda>s. if row_id s = i then f s else s) (db_tasks d)"
proof -
  from hit up obtain r where r: "r \<in> set (db_tasks d)" "p r" "r' = f r" "chk r = None"
    using first_row_in [OF hit] by (auto simp: update_where_Inr)
  have "p s \<longleftrightarrow> row_id s = i" if "s \<in> set (db_tasks d)" for s
    using row_unique [OF db_inv_rows(3) [OF inv] that r(1)] r(2) key by metis
  then have "map (\<lambda>s. if p s then f s else s) (db_tasks d)
      = map (\<lambda>s. if row_id s = i then f s else s) (db_tasks d)" by simp
  with r up key show thesis by (intro that [of r]) (simp_all add: update_where_Inr)
qed

lemma fetch_one_outcome:
  assumes inv: "db_inv d" and run: "transact e (fetch_one e p chk f
      (\<lambda>r. insert_audit_row e al (aid r) (fr r) (to r) (w r) (tr r) (m r) (g r)) ret miss) d
      = (Inr x, d')"
    and miss: "never_returns miss" and key: "\<And>r. p r \<Longrightarrow> row_id r = i"
  obtains r where "r \<in> set (db_tasks d)" "p r" "row_id r = i" "x = ret (f r)" "chk r = None"
    "db_tasks d' = map (\<lambda>s. if row_id s = i then f s else s) (db_tasks d)"
proof -
  obtain rows d1 r' u where up: "update_where e p chk f d = (Inr rows, d1)"
    and hit: "first_row rows = Some r'"
    and au: "insert_audit_row e al (aid r') (fr r') (to r') (w r') (tr r') (m r') (g r') d1 = (Inr u, d')"
    and x: "x = ret r'"
    by (rule fetch_one_Inr [OF transact_InrD [OF run] miss])
  from update_by_id [OF inv up hit key] obtain r where "r \<in> set (db_tasks d)" "p r" "row_id r = i"
    "r' = f r" "chk r = None" "db_tasks d1 = map (\<lambda>s. if row_id s = i then f s else s) (db_tasks d)"
    by blast
  with audit_row_frame [OF au] x show thesis by (intro that [of r]) simp_all
qed

lemma status_of_record: "record_of_row r = Inr t \<Longrightarrow> row_status r = as_str st \<Longrightarrow> rec_status t = st"
  using record_of_row_fields(5) [of r t] by (metis as_str_inject lowercase_status)

lemmas status_literal = as_str.simps [symmetric]

section \<open>Claiming\<close>

lemma transact_quiet:
  "\<forall>pt. e_fault e pt = None \<Longrightarrow> body d = (Inr x, d') \<Longrightarrow> transact e body d = (Inr x, d')"
  by (simp add: transact_def)

lemma claim_next_Inr:
  assumes inv: "db_inv d" and run: "claim_next e al q w l g d = (Inr res, d')"
  obtains (idle) "res = None" "d' = d" "claim_candidate e (queue_str q) g (db_tasks d) = None"
  | (claimed) c t where "res = Some t" "claim_candidate e (queue_str q) g (db_tasks d) = Some c"
      "record_of_row (claim_update e (worker_uuid w) (as_secs_f64 l) c) = Inr t"
      "db_tasks d' = map (\<lambda>r. if row_id r = row_id c
         then claim_update e (worker_uuid w) (as_secs_f64 l) r else r) (db_tasks d)"
proof -
  let ?st = "claim_stmt e (queue_str q) (worker_uuid w) (as_secs_f64 l) g"
  from run obtain row d0 where tx: "transact e (andthen (sql e (AtStmt 0) ?st) (\<lambda>rows.
       andthen (case first_row rows of None \<Rightarrow> return ()
         | Some r \<Rightarrow> insert_audit_row e al (row_id r) (Some ''pending'') ''running''
             (Some (worker_uuid w)) (row_trace_id r) None (row_region r))
         (\<lambda>_. return (first_row rows)))) d = (Inr row, d')"
    and res: "transpose (map_option record_res row) = Inr res"
    unfolding claim_next_def Let_def andthen_Inr_iff lift_apply by auto
  from transact_InrD [OF tx] obtain rows d1 u where st: "?st d = (Inr rows, d1)"
    and au: "(case first_row rows of None \<Rightarrow> return ()
         | Some r \<Rightarrow> insert_audit_row e al (row_id r) (Some ''pending'') ''running''
             (Some (worker_uuid w)) (row_trace_id r) None (row_region r)) d1 = (Inr u, d')"
    and row: "row = first_row rows"
    unfolding andthen_Inr_iff sql_Inr return_apply by auto
  from inv st show thesis
  proof (cases rule: claim_stmt_cases)
    case none
    then have "d' = d" "res = None" using au row res by (auto simp: return_apply)
    with none(1) show thesis by (intro idle) simp_all
  next
    case (one c)
    with row res obtain t where t: "res = Some t"
      "record_of_row (claim_update e (worker_uuid w) (as_secs_f64 l) c) = Inr t"
      by (cases "record_res (claim_update e (worker_uuid w) (as_secs_f64 l) c)")
        (auto simp: record_res_Inr)
    have "db_tasks d' = db_tasks d1" using au one(2) by (auto dest: audit_row_frame)
    with one t show thesis by (intro claimed [of t c]) simp_all
  qed
qed


section \<open>Failing\<close>

lemma fail_Inr:
  assumes inv: "db_inv d" and run: "fail e al i m b x d = (Inr t, d')"
  obtains r where "r \<in> set (db_tasks d)" "is_running (task_uuid i) r"
    "record_of_row (fail_update e (truncate_last_error m) b x r) = Inr t"
    "e_dbg e \<longrightarrow> 0 < b \<and> 0 < x \<and> b \<le> x"
    "db_tasks d' = map (\<lambda>s. if row_id s = task_uuid i
       then fail_update e (truncate_last_error m) b x s else s) (db_tasks d)"
proof -
  let ?f = "fail_update e (truncate_last_error m) b x"
  from run obtain row where asserts: "fail_asserts (e_dbg e) b x = Inr ()"
    and tx: "transact e (fetch_one e (is_running (task_uuid i)) (fail_chk b) ?f
          (\<lambda>r. insert_audit_row e al (row_id r) (Some ''running'') (row_status r)
            (row_claimed_by r) (row_trace_id r)
            (Some (JObj [(''error'', JStr (truncate_last_error m))])) (row_region r))
          (\<lambda>r. r) (raise (Error (NotInExpectedState i ''Running'')))) d = (Inr row, d')"
    and rec: "record_res row = Inr t"
    unfolding fail_def Let_def andthen_Inr_iff lift_apply by auto
  have "is_running (task_uuid i) r \<Longrightarrow> row_id r = task_uuid i" for r by (simp add: is_running_def)
  from fetch_one_outcome [OF inv tx never_returns_raise this]
  obtain r where "r \<in> set (db_tasks d)" "is_running (task_uuid i) r" "row = ?f r"
    "db_tasks d' = map (\<lambda>s. if row_id s = task_uuid i then ?f s else s) (db_tasks d)" by blast
  moreover have "e_dbg e \<longrightarrow> 0 < b \<and> 0 < x \<and> b \<le> x"
    using asserts by (auto simp: fail_asserts_def debug_assert_def split: if_splits)
  ultimately show thesis using rec by (intro that [of r]) (simp_all add: record_res_Inr)
qed

section \<open>Recovery\<close>

definition recovered_row :: "env \<Rightarrow> task_row \<Rightarrow> task_row" where
  "recovered_row e r =
     (if lease_expired e r
      then if row_attempts r < row_max_attempts r then retry_update e r else exhaust_update e r
      else r)"

lemma each_audit_frame:
  "each (\<lambda>r. insert_audit_row e al (i r) (fr r) (to r) (w r) (tr r) (m r) (g r)) rs d = (Inr u, d')
     \<Longrightarrow> db_tasks d' = db_tasks d"
proof (induction rs arbitrary: d)
  case Nil
  then show ?case by (simp add: return_apply)
next
  case (Cons r rs)
  then obtain v t where "insert_audit_row e al (i r) (fr r) (to r) (w r) (tr r) (m r) (g r) d = (Inr v, t)"
    and "each (\<lambda>r. insert_audit_row e al (i r) (fr r) (to r) (w r) (tr r) (m r) (g r)) rs t = (Inr u, d')"
    by (auto simp: andthen_Inr_iff)
  with Cons.IH show ?case by (auto dest: audit_row_frame)
qed

lemma recover_body_Inr:
  assumes "recover_body e al d = (Inr res, d')"
  obtains rs ss where "db_tasks d' = map (recovered_row e) (db_tasks d)"
    "rs = filter (\<lambda>r. lease_expired e r \<and> row_attempts r < row_max_attempts r) (db_tasks d)"
    "ss = filter (\<lambda>r. lease_expired e r \<and> row_max_attempts r \<le> row_attempts r) (db_tasks d)"
    "map (recovered_entry ''recovered'' Recovered) (map (retry_update e) rs)
       @ map (recovered_entry ''exhausted'' RecoveryFailed) (map (exhaust_update e) ss) = map Inr res"
proof -
  let ?p = "\<lambda>r. lease_expired e r \<and> row_attempts r < row_max_attempts r"
  let ?q = "\<lambda>r. lease_expired e r \<and> row_max_attempts r \<le> row_attempts r"
  let ?F = "\<lambda>r. if ?p r then retry_update e r else r"
  from assms obtain rows1 d1 rows2 d2 u d3 v where
    up: "update_where e ?p no_chk (retry_update e) d = (Inr rows1, d1)"
      "update_where e ?q no_chk (exhaust_update e) d1 = (Inr rows2, d2)"
    and au: "each (\<lambda>row. insert_audit_row e al (row_id row) (Some ''running'') ''pending''
         None (row_trace_id row) None (row_region row)) rows1 d2 = (Inr u, d3)"
      "each (\<lambda>row. insert_audit_row e al (row_id row) (Some ''running'') ''failed'' None
         (row_trace_id row)
         (Some (JObj [(''error'', JStr ''lease expired: max attempts exhausted'')]))
         (row_region row)) rows2 d3 = (Inr v, d')"
    and res: "map_err adapter_failure (and_then
        (collect_results (map (recovered_entry ''recovered'' Recovered) rows1)) (\<lambda>xs. and_then
          (collect_results (map (recovered_entry ''exhausted'' RecoveryFailed) rows2))
            (\<lambda>ys. Inr (xs @ ys)))) = Inr res"
    unfolding recover_body_def andthen_Inr_iff lift_apply sql_Inr by auto
  have un: "\<not> lease_expired e (retry_update e r)" for r
    by (simp add: lease_expired_def retry_update_def)
  have d1: "db_tasks d1 = map ?F (db_tasks d)" and r1: "rows1 = map (retry_update e) (filter ?p (db_tasks d))"
    using up(1) by (simp_all add: update_where_Inr)
  have "filter ?q (map ?F xs) = filter ?q xs" for xs
    by (induction xs) (auto simp: un)
  then have r2: "rows2 = map (exhaust_update e) (filter ?q (db_tasks d))"
    using up(2) d1 by (simp add: update_where_Inr)
  have "(if ?q (?F r) then exhaust_update e (?F r) else ?F r) = recovered_row e r" for r
    by (auto simp: recovered_row_def un)
  then have "db_tasks d2 = map (recovered_row e) (db_tasks d)"
    using up(2) d1 by (simp add: update_where_Inr comp_def)
  with each_audit_frame [OF au(1)] each_audit_frame [OF au(2)]
  have tasks: "db_tasks d' = map (recovered_row e) (db_tasks d)" by simp
  from res obtain xs ys where
    "collect_results (map (recovered_entry ''recovered'' Recovered) rows1) = Inr xs"
    "collect_results (map (recovered_entry ''exhausted'' RecoveryFailed) rows2) = Inr ys"
    "res = xs @ ys"
    by (auto simp: and_then_def map_err_def split: sum.splits)
  then have "map (recovered_entry ''recovered'' Recovered) rows1
      @ map (recovered_entry ''exhausted'' RecoveryFailed) rows2 = map Inr res"
    by (simp add: collect_results_Inr)
  with tasks r1 r2 show thesis by (intro that) simp_all
qed

lemmas recover_Inr = recover_body_Inr [OF transact_InrD [of e "recover_body e al" for e al,
  folded recover_zombie_tasks_def]]

lemma recovered_entry_Inr:
  "recovered_entry word oc r = Inr x \<Longrightarrow> fst x = TaskId (row_id r) \<and> snd (snd (snd (snd x))) = oc"
  by (auto simp: recovered_entry_def and_then_Inr_iff)

lemma recover_results:
  assumes "recover_zombie_tasks e al d = (Inr res, d')"
  shows "map (\<lambda>x. (fst x, snd (snd (snd (snd x))))) res
    = map (\<lambda>r. (TaskId (row_id r), Recovered))
        (filter (\<lambda>r. lease_expired e r \<and> row_attempts r < row_max_attempts r) (db_tasks d))
      @ map (\<lambda>r. (TaskId (row_id r), RecoveryFailed))
        (filter (\<lambda>r. lease_expired e r \<and> row_max_attempts r \<le> row_attempts r) (db_tasks d))"
proof -
  let ?k = "\<lambda>x. (fst x, snd (snd (snd (snd x))))"
  have ent: "map ?k ys = map (\<lambda>r. (TaskId (row_id r), oc)) rs"
    if "map (recovered_entry word oc) (map f rs) = map Inr ys" "\<And>r. row_id (f r) = row_id r"
    for word oc f rs ys
    using that
  proof (induction rs arbitrary: ys)
    case (Cons r rs)
    then show ?case by (cases ys) (auto dest: recovered_entry_Inr)
  qed simp
  from assms obtain rs ss where
    rs: "rs = filter (\<lambda>r. lease_expired e r \<and> row_attempts r < row_max_attempts r) (db_tasks d)"
    and ss: "ss = filter (\<lambda>r. lease_expired e r \<and> row_max_attempts r \<le> row_attempts r) (db_tasks d)"
    and m: "map (recovered_entry ''recovered'' Recovered) (map (retry_update e) rs)
       @ map (recovered_entry ''exhausted'' RecoveryFailed) (map (exhaust_update e) ss) = map Inr res"
    by (rule recover_Inr)
  from m obtain xs ys where x: "res = xs @ ys"
    "map (recovered_entry ''recovered'' Recovered) (map (retry_update e) rs) = map Inr xs"
    "map (recovered_entry ''exhausted'' RecoveryFailed) (map (exhaust_update e) ss) = map Inr ys"
    by (auto simp: append_eq_map_conv)
  have "map ?k xs = map (\<lambda>r. (TaskId (row_id r), Recovered)) rs"
    by (rule ent [OF x(2)]) (simp add: retry_update_def)
  moreover have "map ?k ys = map (\<lambda>r. (TaskId (row_id r), RecoveryFailed)) ss"
    by (rule ent [OF x(3)]) (simp add: exhaust_update_def)
  ultimately show ?thesis using x(1) rs ss by simp
qed

section \<open>Cancelling\<close>

lemma cancel_committed:
  assumes "cancel e al i d = (Inr res, d')"
  obtains row d1 where "cancel_stmt e (task_uuid i) d = (Inr row, d1)"
    "(case row of CancelHit r \<Rightarrow> andthen (insert_audit_row e al (row_id r) (Some (cancel_origin r))
          ''cancelled'' None (row_trace_id r) None (row_region r)) (\<lambda>_. return row)
      | _ \<Rightarrow> return row) d1 = (Inr row, d')"
    "(case row of CancelHit r \<Rightarrow> (\<exists>t. record_of_row r = Inr t \<and> res = CancelledTask t)
      | CancelMiss st \<Rightarrow> (\<exists>x. parse_status st = Inr x \<and> res = NotCancellable x)
      | CancelNone \<Rightarrow> res = CancelNotFound)"
proof -
  let ?au = "\<lambda>row. case row of
          CancelHit r \<Rightarrow> andthen (insert_audit_row e al (row_id r) (Some (cancel_origin r))
              ''cancelled'' None (row_trace_id r) None (row_region r)) (\<lambda>_. return row)
        | _ \<Rightarrow> return row"
  from assms [unfolded cancel_def andthen_Inr_iff] obtain row d1 where
    tx: "transact e (andthen (sql e (AtStmt 0) (cancel_stmt e (task_uuid i))) ?au) d = (Inr row, d1)"
    and k: "(case row of
        CancelHit r \<Rightarrow> andthen (lift (record_res r)) (\<lambda>record. return (CancelledTask record))
      | CancelMiss st \<Rightarrow> andthen (lift (map_err adapter_failure (parse_status st)))
          (\<lambda>status. return (NotCancellable status))
      | CancelNone \<Rightarrow> return CancelNotFound) d1 = (Inr res, d')"
    by (elim exE conjE)
  from transact_InrD [OF tx] obtain row' d2 where st: "cancel_stmt e (task_uuid i) d = (Inr row', d2)"
    and au: "?au row' d2 = (Inr row, d1)"
    unfolding andthen_Inr_iff sql_Inr by blast
  have "row' = row" using au by (cases row') (auto simp: andthen_Inr_iff return_apply)
  moreover have "(case row of CancelHit r \<Rightarrow> (\<exists>t. record_of_row r = Inr t \<and> res = CancelledTask t)
      | CancelMiss st \<Rightarrow> (\<exists>x. parse_status st = Inr x \<and> res = NotCancellable x)
      | CancelNone \<Rightarrow> res = CancelNotFound) \<and> d' = d1"
    using k by (cases row) (auto simp: andthen_Inr_iff lift_apply return_apply record_res_Inr
        map_err_def split: sum.splits)
  ultimately show thesis using st au by (intro that [of row d2]) auto
qed

lemma cancel_tx_Inr:
  assumes "cancel e al i d = (Inr res, d')"
  obtains row d1 where "cancel_stmt e (task_uuid i) d = (Inr row, d1)"
    "(case row of CancelHit r \<Rightarrow> db_tasks d' = db_tasks d1 | _ \<Rightarrow> d' = d1)"
    "(case row of CancelHit r \<Rightarrow> (\<exists>t. record_of_row r = Inr t \<and> res = CancelledTask t)
      | CancelMiss st \<Rightarrow> (\<exists>x. parse_status st = Inr x \<and> res = NotCancellable x)
      | CancelNone \<Rightarrow> res = CancelNotFound)"
proof -
  from cancel_committed [OF assms] obtain row d1 where st: "cancel_stmt e (task_uuid i) d = (Inr row, d1)"
    and au: "(case row of CancelHit r \<Rightarrow> andthen (insert_audit_row e al (row_id r) (Some (cancel_origin r))
          ''cancelled'' None (row_trace_id r) None (row_region r)) (\<lambda>_. return row)
      | _ \<Rightarrow> return row) d1 = (Inr row, d')"
    and res: "(case row of CancelHit r \<Rightarrow> (\<exists>t. record_of_row r = Inr t \<and> res = CancelledTask t)
      | CancelMiss st \<Rightarrow> (\<exists>x. parse_status st = Inr x \<and> res = NotCancellable x)
      | CancelNone \<Rightarrow> res = CancelNotFound)"
    by blast
  from au have "case row of CancelHit r \<Rightarrow> db_tasks d' = db_tasks d1 | _ \<Rightarrow> d' = d1"
    by (cases row) (auto simp: andthen_Inr_iff return_apply dest: audit_row_frame)
  from st this res show thesis by (rule that)
qed

lemma status_strings_as_str: "s \<in> set status_strings \<Longrightarrow> \<exists>st. s = as_str st"
  unfolding status_strings_def by (auto simp: status_literal simp del: as_str.simps)

lemma row_status_known: "db_inv d \<Longrightarrow> r \<in> set (db_tasks d) \<Longrightarrow> \<exists>st. row_status r = as_str st"
  using table_ok_row [OF db_inv_rows(1), of d r]
  by (intro status_strings_as_str) (auto simp: row_check_def split: if_splits)


section \<open>The other operations on one row\<close>

lemma complete_Inr:
  assumes inv: "db_inv d" and run: "complete e al i d = (Inr t, d')"
  obtains r where "r \<in> set (db_tasks d)" "is_running (task_uuid i) r"
    "record_of_row (complete_update e r) = Inr t"
    "db_tasks d' = map (\<lambda>s. if row_id s = task_uuid i then complete_update e s else s) (db_tasks d)"
proof -
  from run obtain row where tx: "transact e (fetch_one e (is_running (task_uuid i)) no_chk
          (complete_update e)
          (\<lambda>r. insert_audit_row e al (row_id r) (Some ''running'') ''completed''
            (row_claimed_by r) (row_trace_id r) None (row_region r))
          (\<lambda>r. r) (raise (Error (NotInExpectedState i ''Running'')))) d = (Inr row, d')"
    and rec: "record_res row = Inr t"
    unfolding complete_def andthen_Inr_iff lift_apply by auto
  have "is_running (task_uuid i) r \<Longrightarrow> row_id r = task_uuid i" for r by (simp add: is_running_def)
  from fetch_one_outcome [OF inv tx never_returns_raise this]
  obtain r where "r \<in> set (db_tasks d)" "is_running (task_uuid i) r" "row = complete_update e r"
    "db_tasks d' = map (\<lambda>s. if row_id s = task_uuid i then complete_update e s else s) (db_tasks d)"
    by blast
  with rec show thesis by (intro that [of r]) (simp_all add: record_res_Inr)
qed

lemma suspend_Inr:
  assumes inv: "db_inv d" and run: "suspend e al i d = (Inr t, d')"
  obtains r where "r \<in> set (db_tasks d)" "is_running (task_uuid i) r"
    "record_of_row (suspend_update e r) = Inr t"
    "db_tasks d' = map (\<lambda>s. if row_id s = task_uuid i then suspend_update e s else s) (db_tasks d)"
proof -
  from run obtain row where tx: "transact e (fetch_one e (is_running (task_uuid i)) no_chk
          (suspend_update e)
          (\<lambda>r. insert_audit_row e al (row_id r) (Some ''running'') ''suspended''
            (row_claimed_by r) (row_trace_id r) None (row_region r))
          (\<lambda>r. r) (raise (Error (NotInExpectedState i ''Running'')))) d = (Inr row, d')"
    and rec: "record_res row = Inr t"
    unfolding suspend_def andthen_Inr_iff lift_apply by auto
  have "is_running (task_uuid i) r \<Longrightarrow> row_id r = task_uuid i" for r by (simp add: is_running_def)
  from fetch_one_outcome [OF inv tx never_returns_raise this]
  obtain r where "r \<in> set (db_tasks d)" "is_running (task_uuid i) r" "row = suspend_update e r"
    "db_tasks d' = map (\<lambda>s. if row_id s = task_uuid i then suspend_update e s else s) (db_tasks d)"
    by blast
  with rec show thesis by (intro that [of r]) (simp_all add: record_res_Inr)
qed

lemma release_lease_for_task_Inr:
  assumes inv: "db_inv d" and run: "release_lease_for_task e al i d = (Inr t, d')"
  obtains r where "r \<in> set (db_tasks d)" "is_running (task_uuid i) r"
    "db_tasks d' = map (\<lambda>s. if row_id s = task_uuid i then release_update e s else s) (db_tasks d)"
proof -
  have "is_running (task_uuid i) r \<Longrightarrow> row_id r = task_uuid i" for r by (simp add: is_running_def)
  from fetch_one_outcome [OF inv run [unfolded release_lease_for_task_def] never_returns_raise this]
    that show thesis by blast
qed

lemma expire_Inr:
  assumes "expire_suspended_tasks e al t d = (Inr xs, d')"
  shows "db_tasks d' = map (\<lambda>r. if suspend_expired e (as_secs t) r then expire_update e r else r)
      (db_tasks d)"
    and "map expired_entry (map (expire_update e) (filter (suspend_expired e (as_secs t)) (db_tasks d)))
      = map Inr xs"
proof -
  let ?p = "suspend_expired e (as_secs t)"
  from assms [unfolded expire_suspended_tasks_def Let_def andthen_Inr_iff lift_apply]
  obtain rows d2 where tx: "transact e (andthen (sql e (AtStmt 0) (update_where e ?p no_chk (expire_update e)))
      (\<lambda>rows. andthen (each (\<lambda>row. insert_audit_row e al (row_id row) (Some ''suspended'') ''failed''
          None (row_trace_id row) (Some (JObj [(''error'', JStr ''suspend timeout exceeded'')]))
          None) rows) (\<lambda>_. return rows))) d = (Inr rows, d2)"
    and res: "map_err adapter_failure (collect_results (map expired_entry rows)) = Inr xs" and "d2 = d'"
    by auto
  from transact_InrD [OF tx, unfolded andthen_Inr_iff return_apply sql_Inr]
  obtain d1 u where up: "update_where e ?p no_chk (expire_update e) d = (Inr rows, d1)"
    and au: "each (\<lambda>row. insert_audit_row e al (row_id row) (Some ''suspended'') ''failed'' None
       (row_trace_id row) (Some (JObj [(''error'', JStr ''suspend timeout exceeded'')])) None) rows d1
       = (Inr u, d')"
    using \<open>d2 = d'\<close> by blast
  show "db_tasks d' = map (\<lambda>r. if ?p r then expire_update e r else r) (db_tasks d)"
    using each_audit_frame [OF au] up by (simp add: update_where_Inr)
  have "collect_results (map expired_entry rows) = Inr xs"
    using res by (cases "collect_results (map expired_entry rows)") simp_all
  then show "map expired_entry (map (expire_update e) (filter ?p (db_tasks d))) = map Inr xs"
    using up by (simp add: collect_results_Inr update_where_Inr)
qed

lemma expired_entry_Inr: "expired_entry r = Inr x \<Longrightarrow> fst x = TaskId (row_id r)"
  by (auto simp: expired_entry_def and_then_Inr_iff)

text \<open>How an update of one id moves the statuses.\<close>

lemma status_after_update:
  assumes "db_tasks d' = map (\<lambda>s. if row_id s = i then f s else s) (db_tasks d)"
    and "\<And>s. row_id (f s) = row_id s" and "row_at d i = Some r"
  shows "status_of d' j = (if j = i then Some (row_status (f r)) else status_of d j)"
proof -
  have "row_at d' j = map_option (\<lambda>s. if row_id s = i then f s else s) (row_at d j)"
    by (rule row_at_update [OF _ assms(1)]) (simp add: assms(2))
  then show ?thesis
    using assms(3) row_at_Some [of d j] by (cases "row_at d j") (auto simp: status_of_def)
qed

lemma running_at:
  "db_inv d \<Longrightarrow> r \<in> set (db_tasks d) \<Longrightarrow> is_running i r \<Longrightarrow>
     row_at d i = Some r \<and> status_of d i = Some ''running''"
  using row_at_mem [OF db_inv_rows(3), of d r] by (auto simp: is_running_def status_of_def)

end
