(* ===== verification/Repo_Props.thy ===== *)
theory Repo_Props
  imports Repo_Samples Repo_Outcomes
begin

text \<open>
  What the Postgres repository guarantees in every database a sequence of its operations can
  reach, and what its single operations do.
\<close>

section \<open>Every reachable database\<close>

text \<open>C2: With the audit log on, the log is complete and truthful: the entries of a task, in
  the order of the log, form a path of the life cycle that starts with its submission and ends
  in the status the task has now. No failure at any point of any operation breaks this.\<close>

theorem audit_trail_complete:
  assumes "reachable True d"
  shows "path None (trail i (db_audit d)) (status_of d i)"
  using reachable_audited [OF assms] by (simp add: audited_def)

theorem audit_trail_complete_witness:
  "path None [(None, ''pending''), (Some ''pending'', ''running''), (Some ''running'', ''completed'')]
     (status_of completed_db 1)"
  using audit_trail_complete [OF reachable_completed, of 1] by (simp add: completed_trail)

text \<open>C5: A task that is completed, failed or cancelled stays so, whatever is called
  afterwards and whatever fails on the way.\<close>

theorem terminal_forever:
  assumes "reachable al d" and "\<forall>(e, op) \<in> set ops. admissible op"
    and "status_of d i = Some s" and "terminal_str s"
  shows "status_of (perform_all al ops d) i = Some s"
  using good_terminal [OF perform_all_good [OF assms(2) reachable_inv [OF assms(1)]] assms(3,4)] .

lemma completed_status: "status_of completed_db 1 = Some ''completed''"
  by (simp add: status_of_def row_at_def completed_tasks complete_update_def claim_update_def
      sample_row_def insert_values_def sample_def)

theorem terminal_forever_witness:
  "status_of (perform_all True [(quiet_env 20, Fail (TaskId 1) ''late'' 1 1),
      (quiet_env 21, Cancel (TaskId 1))] completed_db) 1 = Some ''completed''"
  by (rule terminal_forever [OF reachable_completed])
    (simp_all add: completed_status terminal_str_def)



definition keyed :: "uuid \<Rightarrow> task_record" where
  "keyed i = (sample i 3)\<lparr>rec_idempotency_key := Some ''k1''\<rparr>"


lemma fresh_keyed [simp]: "fresh_record (keyed i)"
  using fresh_sample [of 3 i] by (simp add: keyed_def fresh_record_def)




text \<open>C16: What was submitted is never changed: after any run a task is still there, with the
  queue, kind, payload, priority, attempt limit, creation time, trace id and region it had,
  and its number of attempts has not gone down.\<close>

theorem submission_immutable:
  assumes "reachable al d" and "\<forall>(e, op) \<in> set ops. admissible op" and "row_at d i = Some r"
  shows "\<exists>r'. row_at (perform_all al ops d) i = Some r' \<and> same_task r r'"
  using perform_all_good [OF assms(2) reachable_inv [OF assms(1)], of al] assms(3)
  by (simp add: good_def evolves_def)

lemma submitted_at: "row_at submitted_db 1 = Some (sample_row 1 3 0)"
  by (simp add: row_at_def submitted_tasks sample_row_def insert_values_def sample_def)

theorem submission_immutable_witness:
  "\<exists>r'. row_at (perform_all True [(quiet_env 2, ClaimNext mail worker_seven 9 None),
       (quiet_env 3, ReleaseTask (TaskId 1))] submitted_db) 1 = Some r'
     \<and> same_task (sample_row 1 3 0) r'"
  by (rule submission_immutable [OF reachable_submitted]) (simp_all add: submitted_at)

section \<open>Claiming\<close>

text \<open>C6: A claim takes the best task there is: when it returns a task, that task was pending,
  due, in the asked queue, allowed in the region of the worker and not locked, and every other
  such task has lower priority, or the same priority and no earlier schedule. The task is now
  running under this worker with a fresh lease and one more attempt, and nothing else changed.\<close>

theorem claim_next_takes_best:
  assumes "reachable al d" and "claim_next e al q w l g d = (Inr (Some t), d')"
  shows "\<exists>c \<in> set (db_tasks d). claimable e (queue_str q) g c \<and> \<not> e_locked e (row_id c)
    \<and> (\<forall>r \<in> set (db_tasks d). claimable e (queue_str q) g r \<and> \<not> e_locked e (row_id r) \<longrightarrow>
         row_priority r < row_priority c
         \<or> row_priority r = row_priority c \<and> row_scheduled_at c \<le> row_scheduled_at r)
    \<and> rec_id t = TaskId (row_id c) \<and> rec_status t = Running \<and> rec_claimed_by t = Some w
    \<and> rec_claimed_until t = Some (e_now e + interval_of_secs (as_secs_f64 l))
    \<and> rec_attempts t = AttemptCount (row_attempts c + 1)
    \<and> db_tasks d' = map (\<lambda>r. if row_id r = row_id c
        then claim_update e (worker_uuid w) (as_secs_f64 l) r else r) (db_tasks d)"
  using reachable_inv [OF assms(1)] assms(2)
proof (cases rule: claim_next_Inr)
  case (claimed c t')
  let ?r = "claim_update e (worker_uuid w) (as_secs_f64 l) c"
  note cand = claim_candidate_Some [OF claimed(2)]
  have t: "record_of_row ?r = Inr t" using claimed(1,3) by simp
  have "as_str (rec_status t) = as_str Running"
    using record_of_row_fields(5) [OF t] lowercase_status [of Running] by (simp add: claim_update_def)
  then have "rec_status t = Running" by (simp only: as_str_inject)
  moreover have "\<forall>r \<in> set (db_tasks d). claimable e (queue_str q) g r \<and> \<not> e_locked e (row_id r) \<longrightarrow>
      row_priority r < row_priority c
      \<or> row_priority r = row_priority c \<and> row_scheduled_at c \<le> row_scheduled_at r"
    using cand(4) by (force simp: claim_key_def)
  ultimately show ?thesis
    using cand(1-3) claimed(4) record_of_row_fields(1,7,10,11) [OF t]
    by (intro bexI [of _ c]) (simp_all add: claim_update_def)
qed simp

definition claimed_record :: task_record where
  "claimed_record = (sample 1 3)\<lparr>rec_status := Running, rec_attempts := AttemptCount 1,
     rec_claimed_by := Some worker_seven,
     rec_claimed_until := Some (5 + interval_of_secs (as_secs_f64 30)), rec_updated_at := 5\<rparr>"

lemma claim_sample:
  "claim_next (quiet_env 5) True mail worker_seven 30 None submitted_db
     = (Inr (Some claimed_record), claimed_db)"
  by (simp add: submitted_db_def submit_ops_def claimed_db_def claim_ops_def run_statements
      run_operations run_results sample_def claimed_record_def mail_def worker_seven_def)

theorem claim_next_takes_best_witness:
  "\<exists>c \<in> set (db_tasks submitted_db). claimable (quiet_env 5) ''mail'' None c
    \<and> rec_id claimed_record = TaskId (row_id c) \<and> rec_claimed_by claimed_record = Some worker_seven"
  using claim_next_takes_best [OF reachable_submitted claim_sample] by (auto simp: mail_def)

text \<open>No double claim: a task one worker has claimed is not handed out by a second claim,
  of any worker, as long as no other operation comes between the two.\<close>

theorem claim_next_exclusive:
  assumes "reachable al d"
    and "claim_next e al q w l g d = (Inr (Some t), d')"
    and "claim_next e' al q' w' l' g' d' = (Inr (Some t'), d'')"
  shows "rec_id t' \<noteq> rec_id t"
proof -
  have inv': "db_inv d'"
    using keepsD [OF claim_next_keeps reachable_inv [OF assms(1)] assms(2)] by (simp add: good_def)
  from reachable_inv [OF assms(1)] assms(2)
  obtain c :: task_row where c: "rec_id t = TaskId (row_id c)" and tasks: "db_tasks d' = map (\<lambda>r.
      if row_id r = row_id c then claim_update e (worker_uuid w) (as_secs_f64 l) r else r) (db_tasks d)"
  proof (cases rule: claim_next_Inr)
    case (claimed c t0)
    then show thesis
      using record_of_row_fields(1) [OF claimed(3)] by (intro that [of c]) (simp_all add: claim_update_def)
  qed simp
  from inv' assms(3) show ?thesis
  proof (cases rule: claim_next_Inr)
    case (claimed c' t0)
    from claim_candidate_Some(1,2) [OF claimed(2)] have "c' \<in> set (db_tasks d')"
      and "row_status c' = ''pending''" by (simp_all add: claimable_def)
    with tasks have "row_id c' \<noteq> row_id c" by (auto simp: claim_update_def split: if_splits)
    moreover have "rec_id t' = TaskId (row_id c')"
      using claimed(1,3) record_of_row_fields(1) by (auto simp: claim_update_def)
    ultimately show ?thesis by (simp add: c)
  qed simp
qed

definition second :: task_record where
  "second = (sample 2 3)\<lparr>rec_priority := Priority 4\<rparr>"

lemma fresh_second [simp]: "fresh_record second"
  by (simp add: second_def fresh_record_def sample_def mail_def)

definition pair_db :: db where
  "pair_db = perform_all True
     [(quiet_env 0, Save (sample 1 3)), (quiet_env 0, Save second)] empty_db"

lemma reachable_pair: "reachable True pair_db"
  unfolding pair_db_def
  by (rule reachable_perform_all [OF reachable.start])
    simp

definition pair_claim :: "uuid \<Rightarrow> time \<Rightarrow> db \<Rightarrow> (failure + task_record option) \<times> db" where
  "pair_claim w t = claim_next (quiet_env t) True mail (WorkerId w) 30 None"

lemma pair_claims:
  "\<exists>t d' t' d''. pair_claim 7 5 pair_db = (Inr (Some t), d') \<and> rec_id t = TaskId 2
     \<and> pair_claim 8 6 d' = (Inr (Some t'), d'') \<and> rec_id t' = TaskId 1"
  by (simp add: pair_db_def pair_claim_def second_def run_statements run_operations run_results
      sample_def mail_def)

theorem claim_next_exclusive_witness:
  "\<exists>t d' t' d''. pair_claim 7 5 pair_db = (Inr (Some t), d')
     \<and> pair_claim 8 6 d' = (Inr (Some t'), d'') \<and> rec_id t' \<noteq> rec_id t"
  using pair_claims claim_next_exclusive [OF reachable_pair] unfolding pair_claim_def by blast

text \<open>C13: A claim that finds nothing changed nothing, and there was nothing to find: every
  pending task of the queue that is due and allowed in the region is locked by someone else.\<close>

theorem claim_next_none:
  assumes "reachable al d" and "claim_next e al q w l g d = (Inr None, d')"
  shows "d' = d \<and> (\<forall>r \<in> set (db_tasks d). claimable e (queue_str q) g r \<longrightarrow> e_locked e (row_id r))"
  using reachable_inv [OF assms(1)] assms(2)
  by (cases rule: claim_next_Inr) (simp_all add: claim_candidate_None)

definition locked_env :: env where
  "locked_env = (quiet_env 5)\<lparr>e_locked := (\<lambda>_. True)\<rparr>"

lemma claim_locked:
  "claim_next locked_env True mail worker_seven 30 None submitted_db = (Inr None, submitted_db)"
  by (simp add: locked_env_def submitted_db_def submit_ops_def run_statements run_operations
      run_results sample_def mail_def)

theorem claim_next_none_witness:
  "claim_next locked_env True mail worker_seven 30 None submitted_db = (Inr None, submitted_db)
     \<and> e_locked locked_env (row_id (sample_row 1 3 0))"
proof -
  have "claimable locked_env (queue_str mail) None (sample_row 1 3 0)"
    by (simp add: locked_env_def quiet_env_def claimable_def sample_row_def insert_values_def
        sample_def mail_def)
  with claim_next_none [OF reachable_submitted claim_locked] claim_locked show ?thesis
    by (simp add: submitted_tasks)
qed






end
