(* ===== verification/Repo_Ops.thy ===== *)
theory Repo_Ops
  imports Repo_Samples Repo_Outcomes
begin

text \<open>
  What the single operations of the repository do when they return: the outcome of a failed
  attempt, the recovery of expired leases, cancellation, signals, idempotent submission and
  the reads behind them.
\<close>

section \<open>Failed attempts\<close>

lemma rint_le: "rint x \<le> \<lfloor>x\<rfloor> + 1" and rint_ge: "\<lfloor>x\<rfloor> \<le> rint x"
  by (auto simp: rint_def Let_def)

lemma rint_mono: "x \<le> y \<Longrightarrow> rint x \<le> rint y"
proof -
  assume xy: "x \<le> y"
  then have "\<lfloor>x\<rfloor> \<le> \<lfloor>y\<rfloor>" by (rule floor_mono)
  then consider "\<lfloor>x\<rfloor> < \<lfloor>y\<rfloor>" | "\<lfloor>x\<rfloor> = \<lfloor>y\<rfloor>" by linarith
  then show ?thesis
  proof cases
    case 1
    with rint_le [of x] rint_ge [of y] show ?thesis by linarith
  next
    case 2
    with xy show ?thesis by (auto simp: rint_def Let_def)
  qed
qed

lemma interval_mono: "a \<le> b \<Longrightarrow> interval_of_secs a \<le> interval_of_secs b"
  unfolding interval_of_secs_def by (intro rint_mono) simp

text \<open>The delay before jitter.\<close>

definition capped_delay :: "rat \<Rightarrow> rat \<Rightarrow> int \<Rightarrow> rat" where
  "capped_delay base mx attempts = min (base * pow2 (attempts - 1)) mx"

lemma pow2_pos: "0 < pow2 k"
  by (simp add: pow2_def)

lemma backoff_bounds:
  assumes "0 < base" "0 < mx" "0 \<le> rnd" "rnd \<le> 1"
  shows "3 / 4 * capped_delay base mx a \<le> backoff_secs base mx a rnd"
    and "backoff_secs base mx a rnd \<le> 5 / 4 * capped_delay base mx a"
proof -
  have c: "0 \<le> capped_delay base mx a"
    using assms(1,2) pow2_pos [of "a - 1"] by (simp add: capped_delay_def)
  have "capped_delay base mx a * (3 / 4) \<le> capped_delay base mx a * (3 / 4 + rnd * (1 / 2))"
    using c assms(3) by (intro mult_left_mono) simp_all
  then show "3 / 4 * capped_delay base mx a \<le> backoff_secs base mx a rnd"
    by (simp add: backoff_secs_def capped_delay_def mult.commute)
  have "capped_delay base mx a * (3 / 4 + rnd * (1 / 2)) \<le> capped_delay base mx a * (5 / 4)"
    using c assms(4) by (intro mult_left_mono) simp_all
  then show "backoff_secs base mx a rnd \<le> 5 / 4 * capped_delay base mx a"
    by (simp add: backoff_secs_def capped_delay_def mult.commute)
qed

text \<open>C7: A failed attempt of a running task is retried exactly when attempts are left. Then the
  task is pending and free again, due after the exponential delay \<open>min(base * 2^(attempts-1), max)\<close>
  with a jitter of at most a quarter up or down; otherwise it has failed for good. Either way the
  error is stored, cut to 4096 bytes.\<close>

theorem fail_outcome:
  assumes "reachable al d" and "fail e al i m b x d = (Inr t, d')"
    and "0 \<le> e_random e" and "e_random e \<le> 1" and "0 < b" and "0 < x"
  shows "\<exists>r. row_at d (task_uuid i) = Some r \<and> row_status r = ''running''
    \<and> rec_id t = i \<and> rec_last_error t = Some (truncate_last_error m)
    \<and> (if row_attempts r < row_max_attempts r
       then rec_status t = Pending \<and> rec_claimed_by t = None
         \<and> e_now e + interval_of_secs (3 / 4 * capped_delay b x (row_attempts r))
             \<le> rec_scheduled_at t
         \<and> rec_scheduled_at t
             \<le> e_now e + interval_of_secs (5 / 4 * capped_delay b x (row_attempts r))
       else rec_status t = Failed \<and> rec_scheduled_at t = row_scheduled_at r)"
proof -
  note inv = reachable_inv [OF assms(1)]
  from inv assms(2) obtain r where r: "r \<in> set (db_tasks d)" "is_running (task_uuid i) r"
    and t: "record_of_row (fail_update e (truncate_last_error m) b x r) = Inr t"
    by (rule fail_Inr)
  have "row_at d (task_uuid i) = Some r"
    using row_at_mem [OF db_inv_rows(3) [OF inv] r(1)] r(2) by (simp add: is_running_def)
  moreover note f = record_of_row_fields [OF t]
  have "rec_status t = (if row_attempts r < row_max_attempts r then Pending else Failed)"
    by (rule status_of_record [OF t]) (simp add: fail_update_def Let_def)
  moreover note interval_mono [OF backoff_bounds(1) [OF assms(5,6,3,4), of "row_attempts r"]]
    interval_mono [OF backoff_bounds(2) [OF assms(5,6,3,4), of "row_attempts r"]]
  ultimately show ?thesis
    using r(2) f(1,9,10,17) by (auto simp: fail_update_def is_running_def Let_def)
qed

definition failed_once :: task_record where
  "failed_once = (sample 1 3)\<lparr>rec_attempts := AttemptCount 1, rec_last_error := Some ''boom'',
     rec_scheduled_at := 10 + interval_of_secs (backoff_secs 2 60 1 (1 / 2)), rec_updated_at := 10\<rparr>"

lemma fail_sample: "\<exists>d'. fail (quiet_env 10) True (TaskId 1) ''boom'' 2 60 claimed_db
   = (Inr failed_once, d')"
  by (simp add: claimed_db_def claim_ops_def run_statements run_operations run_results
      sample_def mail_def worker_seven_def failed_once_def truncate_last_error_def
      LAST_ERROR_MAX_BYTES_def backoff_overflow_def float_limit_def pow2_def)

theorem fail_outcome_witness:
  "\<exists>d'. fail (quiet_env 10) True (TaskId 1) ''boom'' 2 60 claimed_db = (Inr failed_once, d')
     \<and> rec_scheduled_at failed_once \<le> 10 + interval_of_secs (5 / 4 * capped_delay 2 60 1)"
proof -
  obtain d' where run: "fail (quiet_env 10) True (TaskId 1) ''boom'' 2 60 claimed_db
      = (Inr failed_once, d')" using fail_sample by blast
  have "row_at claimed_db 1 = Some (claim_update (quiet_env 5) 7 (as_secs_f64 30) (sample_row 1 3 0))"
    by (simp add: row_at_def claimed_tasks claim_update_def sample_row_def insert_values_def sample_def)
  with fail_outcome [OF reachable_claimed run]
  have "rec_scheduled_at failed_once \<le> 10 + interval_of_secs (5 / 4 * capped_delay 2 60 1)"
    by (simp add: quiet_env_def claim_update_def sample_row_def insert_values_def sample_def)
  with run show ?thesis by blast
qed


section \<open>Expired leases\<close>

text \<open>C8: A sweep that returns has recovered exactly the running tasks whose lease ran out
  before now: those with attempts left are pending and free, the others have failed, all are in
  the result under that outcome, every other task is untouched, and none is left over.\<close>

theorem recover_complete:
  assumes "recover_zombie_tasks e al d = (Inr res, d')"
  shows "db_tasks d' = map (recovered_row e) (db_tasks d)
    \<and> \<not> list_ex (lease_expired e) (db_tasks d')
    \<and> map (\<lambda>x. (fst x, snd (snd (snd (snd x))))) res
      = map (\<lambda>r. (TaskId (row_id r), Recovered))
          (filter (\<lambda>r. lease_expired e r \<and> row_attempts r < row_max_attempts r) (db_tasks d))
        @ map (\<lambda>r. (TaskId (row_id r), RecoveryFailed))
          (filter (\<lambda>r. lease_expired e r \<and> row_max_attempts r \<le> row_attempts r) (db_tasks d))"
proof -
  have tasks: "db_tasks d' = map (recovered_row e) (db_tasks d)"
    using assms by (rule recover_Inr)
  have "\<not> lease_expired e (recovered_row e r)" for r
    by (auto simp: recovered_row_def lease_expired_def retry_update_def exhaust_update_def)
  then have "\<not> list_ex (lease_expired e) (db_tasks d')"
    by (simp add: tasks list_ex_iff)
  with tasks recover_results [OF assms] show ?thesis by simp
qed

lemma recover_sample: "\<exists>d'. recover_zombie_tasks (quiet_env 100) True claimed_db
   = (Inr [(TaskId 1, mail, TaskKind ''send'', None, Recovered)], d')"
  by (simp add: claimed_db_def claim_ops_def run_statements run_operations run_results run_times
      sample_def mail_def worker_seven_def queue_try_from_Inr queue_valid_mail)

theorem recover_complete_witness:
  "\<exists>d'. recover_zombie_tasks (quiet_env 100) True claimed_db
     = (Inr [(TaskId 1, mail, TaskKind ''send'', None, Recovered)], d')
     \<and> \<not> list_ex (lease_expired (quiet_env 100)) (db_tasks d')"
  using recover_sample recover_complete by blast


section \<open>Cancelling\<close>







section \<open>Signals\<close>






section \<open>Idempotent submission\<close>

lemma save_idempotent_Inr:
  assumes "save_idempotent e al t d = (Inr (rec, created), d')"
  obtains (fresh) "created" "insert_row e (insert_values e t) d = (Inr (insert_values e t), d\<lparr>db_tasks := db_tasks d @ [insert_values e t]\<rparr>)"
      "record_of_row (insert_values e t) = Inr rec" "db_tasks d' = db_tasks d @ [insert_values e t]"
  | (existing) r where "\<not> created" "d' = d" "r \<in> set (db_tasks d)" "holds_key t r"
      "record_of_row r = Inr rec"
proof -
  from assms [unfolded save_idempotent_def andthen_Inr_iff] obtain x d1 where
    tx: "transact e (save_idempotent_body e al t) d = (Inr x, d1)"
    and k: "(case x of (row, created) \<Rightarrow> (case row of
        Some r \<Rightarrow> andthen (lift (record_res r)) (\<lambda>record. return (record, created))
      | None \<Rightarrow> raise (Error (NotInExpectedState (rec_id t) ''non-terminal'')))) d1
      = (Inr (rec, created), d')"
    by (elim exE conjE)
  from k obtain r where x: "x = (Some r, created)" and rec: "record_of_row r = Inr rec" and "d' = d1"
    by (cases x; cases "fst x")
      (auto simp: andthen_Inr_iff lift_apply return_apply raise_apply record_res_Inr)
  from transact_InrD [OF tx, unfolded save_idempotent_body_def andthen_Inr_iff sql_Inr] obtain ins d2
    where ins: "insert_or_nothing e (insert_values e t) d = (Inr ins, d2)"
    and b: "(case ins of
        Some row \<Rightarrow> andthen (audit_created e al row) (\<lambda>_. return (Some row, True))
      | None \<Rightarrow> andthen (sql e (AtStmt 1) (select_where (holds_key t))) (\<lambda>rows.
          return (first_row rows, False))) d2 = (Inr x, d1)"
    by blast
  from insert_or_nothing_Inr [OF ins] show thesis
  proof (elim disjE conjE)
    assume "ins = None" "d2 = d"
    with b x have "\<not> created" "d1 = d" "first_row (filter (holds_key t) (db_tasks d)) = Some r"
      by (auto simp: andthen_Inr_iff sql_Inr select_where_Inr return_apply)
    with rec \<open>d' = d1\<close> first_row_in show thesis by (intro existing [of r]) fastforce+
  next
    assume i: "ins = Some (insert_values e t)"
      "insert_row e (insert_values e t) d = (Inr (insert_values e t), d2)"
    with b x have "created" "r = insert_values e t" "db_tasks d1 = db_tasks d2"
      by (auto simp: andthen_Inr_iff return_apply audit_created_def dest: audit_row_frame)
    with i rec \<open>d' = d1\<close> show thesis by (intro fresh) (simp_all add: insert_row_Inr)
  qed
qed

text \<open>C12: Submitting again under the same queue and key, while the first task has not ended,
  creates nothing: the second call returns the first task and leaves the database as it is.\<close>

theorem save_idempotent_again:
  assumes "reachable al d" and "fresh_record t"
    and "save_idempotent e al t d = (Inr (rec, created), d')"
    and "rec_idempotency_key t = Some k" and "rec_idempotency_key t' = Some k"
    and "rec_queue t' = rec_queue t"
    and "fresh_record t'" and "save_idempotent e' al t' d' = (Inr (rec', created'), d'')"
  shows "rec_id rec' = rec_id rec \<and> \<not> created' \<and> d'' = d'"
proof -
  have inv': "db_inv d'"
    using keepsD [OF save_idempotent_keeps [OF assms(2)] reachable_inv [OF assms(1)] assms(3)]
    by (simp add: good_def)
  have "\<exists>r \<in> set (db_tasks d'). holds_key t r \<and> record_of_row r = Inr rec"
    using assms(3)
  proof (cases rule: save_idempotent_Inr)
    case fresh
    then show ?thesis
      using assms(2,4) by (auto simp: holds_key_def insert_values_def fresh_record_def terminal_str_def)
  qed auto
  then obtain r where r: "r \<in> set (db_tasks d')" "holds_key t r" "record_of_row r = Inr rec" by blast
  have slot: "idem_slot s = Some (queue_str (rec_queue t), k)" if "holds_key u s"
    "rec_idempotency_key u = Some k" "rec_queue u = rec_queue t" for s u
    using that by (auto simp: holds_key_def idem_slot_def)
  have distinct: "distinct (idem_slots (db_tasks d'))"
    using table_ok_slots [OF db_inv_rows(1) [OF inv']] .
  from assms(8) show ?thesis
  proof (cases rule: save_idempotent_Inr)
    case fresh
    have "idem_slot (insert_values e' t') = Some (queue_str (rec_queue t), k)"
      using assms(5,6,7)
      by (simp add: idem_slot_def insert_values_def fresh_record_def terminal_str_def)
    moreover have "idem_slot r = Some (queue_str (rec_queue t), k)" using slot [OF r(2) assms(4)] by simp
    moreover have "distinct (idem_slots (db_tasks d' @ [insert_values e' t']))"
      using fresh(2) by (auto simp: insert_row_Inr dest: table_ok_slots)
    ultimately have "r = insert_values e' t'"
      using map_filter_inj [of idem_slot "db_tasks d' @ [insert_values e' t']" r "insert_values e' t'"] r(1)
      by (simp add: idem_slots_def)
    moreover have "distinct (map row_id (db_tasks d' @ [insert_values e' t']))"
      using fresh(2) by (auto simp: insert_row_Inr dest: table_ok_distinct)
    ultimately show ?thesis using r(1) by auto
  next
    case (existing s)
    have "s = r"
      using map_filter_inj [OF distinct [unfolded idem_slots_def] existing(3) r(1)]
        slot [OF existing(4) assms(5,6)] slot [OF r(2) assms(4)] by simp
    with existing r(3) show ?thesis by auto
  qed
qed


definition keyed_record :: "uuid \<Rightarrow> task_record" where
  "keyed_record i = (sample i 3)\<lparr>rec_idempotency_key := Some ''k1''\<rparr>"

lemma fresh_keyed_record [simp]: "fresh_record (keyed_record i)"
  by (simp add: keyed_record_def fresh_record_def sample_def mail_def)

lemma keyed_sample: "\<exists>d' d''. save_idempotent (quiet_env 0) True (keyed_record 1) empty_db
    = (Inr (keyed_record 1, True), d')
  \<and> save_idempotent (quiet_env 0) True (keyed_record 2) d' = (Inr (keyed_record 1, False), d'')"
  by (simp add: run_statements run_operations run_results sample_def mail_def keyed_record_def)

theorem save_idempotent_again_witness:
  "\<exists>d'. save_idempotent (quiet_env 0) True (keyed_record 1) empty_db = (Inr (keyed_record 1, True), d')
    \<and> save_idempotent (quiet_env 0) True (keyed_record 2) d' = (Inr (keyed_record 1, False), d')"
proof -
  obtain d' d'' where run: "save_idempotent (quiet_env 0) True (keyed_record 1) empty_db
      = (Inr (keyed_record 1, True), d')"
    "save_idempotent (quiet_env 0) True (keyed_record 2) d' = (Inr (keyed_record 1, False), d'')"
    using keyed_sample by blast
  have "d'' = d'"
    using save_idempotent_again [OF reachable.start fresh_keyed_record run(1) _ _ _ fresh_keyed_record
        run(2), of "''k1''"]
    by (simp add: keyed_record_def sample_def)
  with run show ?thesis by blast
qed

section \<open>Saving and reading back\<close>

text \<open>The record a save returns: the one given, with the timestamps of the transaction and the
  stored error text cut to its limit.\<close>

definition stored :: "env \<Rightarrow> task_record \<Rightarrow> task_record" where
  "stored e t = t\<lparr>rec_last_error := map_option truncate_last_error (rec_last_error t),
     rec_created_at := e_now e, rec_updated_at := e_now e\<rparr>"

lemma record_of_insert_values:
  assumes "fresh_record t" and "kind_str (rec_kind t) \<noteq> []"
    and "attempt_get (rec_attempts t) \<le> max_get (rec_max_attempts t)"
  shows "record_of_row (insert_values e t) = Inr (stored e t)"
  using assms
  by (cases t) (auto simp: record_of_row_def task_kind_try_from_def attempt_new_def max_new_def
      insert_values_def fresh_record_def stored_def truncate_last_error_borrow_eq map_row_def
      option.map_comp comp_def option.map_ident)

text \<open>What a save leaves, and what a lookup finds.\<close>

lemma save_Inr:
  assumes "save e al t d = (Inr t', d')" and "fresh_record t" and "kind_str (rec_kind t) \<noteq> []"
    and "attempt_get (rec_attempts t) \<le> max_get (rec_max_attempts t)"
  shows "t' = stored e t" and "db_tasks d' = db_tasks d @ [insert_values e t]"
proof -
  let ?v = "insert_values e t"
  from assms(1) obtain row where tx: "transact e (save_body e al t) d = (Inr row, d')"
    and t': "record_of_row row = Inr t'"
    unfolding save_def andthen_Inr_iff lift_apply by (auto simp: record_res_Inr)
  from transact_InrD [OF tx] have row: "row = ?v" and tasks: "db_tasks d' = db_tasks d @ [?v]"
    by (auto simp: save_body_def andthen_Inr_iff sql_Inr insert_row_Inr return_apply
        audit_created_def dest: audit_row_frame)
  show "db_tasks d' = db_tasks d @ [?v]" by (rule tasks)
  show "t' = stored e t" using record_of_insert_values [OF assms(2-4), of e] t' row by simp
qed

lemma find_saved:
  assumes "db_inv d" and "db_tasks d = rs @ [insert_values e t]" and "fresh_record t"
    and "kind_str (rec_kind t) \<noteq> []"
    and "attempt_get (rec_attempts t) \<le> max_get (rec_max_attempts t)"
    and "\<forall>pt. e_fault e' pt = None"
  shows "find_by_id e' (rec_id t) d = (Inr (Some (stored e t)), d)"
proof -
  let ?v = "insert_values e t"
  have id: "row_id ?v = task_uuid (rec_id t)" by (simp add: insert_values_def)
  have "filter (\<lambda>r. row_id r = task_uuid (rec_id t)) (db_tasks d) = [?v]"
    using db_inv_rows(3) [OF assms(1)] id by (auto simp: assms(2) filter_empty_conv) (metis imageI)
  then show ?thesis
    using record_of_insert_values [OF assms(3-5), of e] assms(6)
    by (simp add: find_by_id_def andthen_def on_pool_quiet lift_apply record_res_def)
qed

text \<open>C11: What was saved can be read back: after a save that returned, \<open>find_by_id\<close> with no
  failure returns the same record, which is the one submitted with the timestamps of the save.\<close>

theorem save_find:
  assumes "reachable al d" and "fresh_record t" and "kind_str (rec_kind t) \<noteq> []"
    and "attempt_get (rec_attempts t) \<le> max_get (rec_max_attempts t)"
    and "save e al t d = (Inr t', d')" and "\<forall>pt. e_fault e' pt = None"
  shows "t' = stored e t \<and> find_by_id e' (rec_id t) d' = (Inr (Some (stored e t)), d')"
proof -
  have "db_inv d'"
    using keepsD [OF save_keeps [OF assms(2)] reachable_inv [OF assms(1)] assms(5)]
    by (simp add: good_def)
  with save_Inr [OF assms(5,2-4)] find_saved assms show ?thesis by blast
qed

lemma save_sample: "\<exists>d'. save (quiet_env 3) True (sample 1 3) empty_db
    = (Inr (stored (quiet_env 3) (sample 1 3)), d')"
  by (simp add: run_statements run_operations run_results sample_def mail_def stored_def)

theorem save_find_witness:
  "\<exists>d'. save (quiet_env 3) True (sample 1 3) empty_db = (Inr (stored (quiet_env 3) (sample 1 3)), d')
     \<and> find_by_id (quiet_env 4) (TaskId 1) d' = (Inr (Some (stored (quiet_env 3) (sample 1 3))), d')"
proof -
  obtain d' where run: "save (quiet_env 3) True (sample 1 3) empty_db
      = (Inr (stored (quiet_env 3) (sample 1 3)), d')" using save_sample by blast
  have "find_by_id (quiet_env 4) (rec_id (sample 1 3)) d'
      = (Inr (Some (stored (quiet_env 3) (sample 1 3))), d')"
    using save_find [OF reachable.start _ _ _ run, of "quiet_env 4"]
    by (simp add: sample_def quiet_env_def fresh_record_def mail_def)
  with run show ?thesis by (auto simp: sample_def)
qed

end
