(* ===== verification/Task_Machine.thy ===== *)
theory Task_Machine
  imports Repo_Outcomes Repo_Samples
begin

text \<open>
  The abstract machine behind the repository. Of a task it keeps only what its future depends
  on: whether it waits, is held under a lease, is parked or has ended, and how many attempts are
  used. One operation is one step: nothing, the change of one addressed task, or the change of
  every task the operation is due for. The repository refines it: whatever fails inside an
  operation, its effect on the table is a step of this machine.
\<close>

section \<open>The machine\<close>

datatype phase = Waiting | Held uuid time | Parked time | Ended task_status

record machine =
  mc_phase :: phase
  mc_attempts :: int
  mc_max :: int

type_synonym machines = "uuid \<Rightarrow> machine option"

text \<open>After an attempt that did not complete: once more, or never again.\<close>

definition retry_or_fail :: "machine \<Rightarrow> machine" where
  "retry_or_fail s = s\<lparr>mc_phase := (if mc_attempts s < mc_max s then Waiting else Ended Failed)\<rparr>"

text \<open>Back in the queue by a shutdown, which counts as an attempt.\<close>

definition hand_back :: "machine \<Rightarrow> machine" where
  "hand_back s = s\<lparr>mc_phase := Waiting, mc_attempts := mc_attempts s + 1\<rparr>"

text \<open>What an operation does to a task that exists, at a time; \<open>None\<close> where it is not due.\<close>

fun advance :: "time \<Rightarrow> operation \<Rightarrow> machine \<Rightarrow> machine option" where
  "advance now (ClaimNext q w lease g) s = (case mc_phase s of
      Waiting \<Rightarrow> Some (s\<lparr>mc_phase := Held (worker_uuid w) (now + interval_of_secs (as_secs_f64 lease)),
                       mc_attempts := mc_attempts s + 1\<rparr>)
    | _ \<Rightarrow> None)"
| "advance now (Complete i) s = (case mc_phase s of
      Held _ _ \<Rightarrow> Some (s\<lparr>mc_phase := Ended Completed\<rparr>) | _ \<Rightarrow> None)"
| "advance now (Fail i m b x) s = (case mc_phase s of
      Held _ _ \<Rightarrow> Some (retry_or_fail s) | _ \<Rightarrow> None)"
| "advance now RecoverZombies s = (case mc_phase s of
      Held _ until \<Rightarrow> if until < now then Some (retry_or_fail s) else None | _ \<Rightarrow> None)"
| "advance now (Cancel i) s = (case mc_phase s of
      Waiting \<Rightarrow> Some (s\<lparr>mc_phase := Ended Cancelled\<rparr>)
    | Parked _ \<Rightarrow> Some (s\<lparr>mc_phase := Ended Cancelled\<rparr>)
    | _ \<Rightarrow> None)"
| "advance now (ReleaseWorker w) s = (case mc_phase s of
      Held v _ \<Rightarrow> if v = worker_uuid w then Some (hand_back s) else None | _ \<Rightarrow> None)"
| "advance now (ReleaseTask i) s = (case mc_phase s of
      Held _ _ \<Rightarrow> Some (hand_back s) | _ \<Rightarrow> None)"
| "advance now (Suspend i) s = (case mc_phase s of
      Held _ _ \<Rightarrow> Some (s\<lparr>mc_phase := Parked now\<rparr>) | _ \<Rightarrow> None)"
| "advance now (Signal i p) s = (case mc_phase s of
      Parked _ \<Rightarrow> Some (s\<lparr>mc_phase := Waiting\<rparr>) | _ \<Rightarrow> None)"
| "advance now (ExpireSuspended timeout) s = (case mc_phase s of
      Parked since \<Rightarrow> if since < now - interval_of_secs (of_nat (as_secs timeout))
        then Some (s\<lparr>mc_phase := Ended Failed\<rparr>) else None
    | _ \<Rightarrow> None)"
| "advance now _ s = None"

text \<open>The task an operation brings into being, and the one it is addressed to.\<close>

fun submission :: "operation \<Rightarrow> task_record option" where
  "submission (Save t) = Some t"
| "submission (SaveIdempotent t) = Some t"
| "submission _ = None"

fun addressee :: "operation \<Rightarrow> uuid option" where
  "addressee (Save t) = Some (task_uuid (rec_id t))"
| "addressee (SaveIdempotent t) = Some (task_uuid (rec_id t))"
| "addressee (Complete i) = Some (task_uuid i)"
| "addressee (Fail i m b x) = Some (task_uuid i)"
| "addressee (Cancel i) = Some (task_uuid i)"
| "addressee (ReleaseTask i) = Some (task_uuid i)"
| "addressee (Suspend i) = Some (task_uuid i)"
| "addressee (Signal i p) = Some (task_uuid i)"
| "addressee _ = None"

text \<open>The operations on every task they are due for.\<close>

fun sweeping :: "operation \<Rightarrow> bool" where
  "sweeping RecoverZombies = True"
| "sweeping (ReleaseWorker w) = True"
| "sweeping (ExpireSuspended t) = True"
| "sweeping _ = False"

definition born :: "operation \<Rightarrow> machine option" where
  "born op = map_option (\<lambda>t. \<lparr>mc_phase = Waiting, mc_attempts = attempt_get (rec_attempts t),
     mc_max = max_get (rec_max_attempts t)\<rparr>) (submission op)"

definition successor :: "time \<Rightarrow> operation \<Rightarrow> machine option \<Rightarrow> machine option" where
  "successor now op s = (case s of None \<Rightarrow> born op | Some s \<Rightarrow> advance now op s)"

text \<open>The whole effect of a sweep: all or nothing, and never only some of the tasks due.\<close>

definition sweep_all :: "time \<Rightarrow> operation \<Rightarrow> machines \<Rightarrow> machines" where
  "sweep_all now op S = (\<lambda>i. case successor now op (S i) of None \<Rightarrow> S i | Some s \<Rightarrow> Some s)"

inductive machine_step :: "time \<Rightarrow> operation \<Rightarrow> machines \<Rightarrow> machines \<Rightarrow> bool"
  for now :: time and op :: operation where
  stutter: "machine_step now op S S"
| one: "addressee op = None \<or> addressee op = Some i \<Longrightarrow> \<not> sweeping op \<Longrightarrow>
     successor now op (S i) = Some s \<Longrightarrow> machine_step now op S (S(i \<mapsto> s))"
| sweep: "sweeping op \<Longrightarrow> machine_step now op S (sweep_all now op S)"

inductive machine_run :: "(time \<times> operation) list \<Rightarrow> machines \<Rightarrow> machines \<Rightarrow> bool" where
  finished: "machine_run [] S S"
| continued: "machine_step now op S T \<Longrightarrow> machine_run ops T U \<Longrightarrow>
     machine_run ((now, op) # ops) S U"

section \<open>The abstraction\<close>

definition phase_of :: "task_row \<Rightarrow> phase" where
  "phase_of r =
     (if row_status r = ''pending'' then Waiting
      else if row_status r = ''running'' then Held (the (row_claimed_by r)) (the (row_claimed_until r))
      else if row_status r = ''suspended'' then Parked (the (row_suspended_at r))
      else if row_status r = ''completed'' then Ended Completed
      else if row_status r = ''failed'' then Ended Failed
      else Ended Cancelled)"

definition machine_of :: "task_row \<Rightarrow> machine" where
  "machine_of r = \<lparr>mc_phase = phase_of r, mc_attempts = row_attempts r, mc_max = row_max_attempts r\<rparr>"

definition machines_of :: "db \<Rightarrow> machines" where
  "machines_of d i = map_option machine_of (row_at d i)"

text \<open>In a well-formed database the three columns \<open>phase_of\<close> reads are there.\<close>

lemma phase_columns:
  assumes "db_inv d" and "r \<in> set (db_tasks d)"
  shows "row_status r = ''running'' \<Longrightarrow> \<exists>w u. row_claimed_by r = Some w \<and> row_claimed_until r = Some u"
    and "row_status r = ''suspended'' \<Longrightarrow> \<exists>t. row_suspended_at r = Some t"
proof -
  have "row_inv r" "row_check r = None"
    using assms db_inv_rows table_ok_row by blast+
  then show "row_status r = ''running'' \<Longrightarrow> \<exists>w u. row_claimed_by r = Some w \<and> row_claimed_until r = Some u"
    and "row_status r = ''suspended'' \<Longrightarrow> \<exists>t. row_suspended_at r = Some t"
    by (auto simp: row_inv_def row_check_def split: if_splits)
qed

lemma machines_of_cong: "db_tasks d' = db_tasks d \<Longrightarrow> machines_of d' = machines_of d"
  unfolding machines_of_def fun_eq_iff by (metis row_at_cong)

lemma machines_of_rollback [simp]: "machines_of (rollback d t) = machines_of d"
  by (rule machines_of_cong) simp

section \<open>Steps of the table\<close>

text \<open>A table changed at one id, and a table changed row by row.\<close>

lemma machines_of_update_one:
  assumes "db_tasks d' = map (\<lambda>s. if row_id s = i then f s else s) (db_tasks d)"
    and "\<And>s. row_id (f s) = row_id s" and "row_at d i = Some r"
  shows "machines_of d' = (machines_of d)(i \<mapsto> machine_of (f r))"
proof
  fix j
  have "row_at d' j = map_option (\<lambda>s. if row_id s = i then f s else s) (row_at d j)"
    by (rule row_at_update [OF _ assms(1)]) (simp add: assms(2))
  then show "machines_of d' j = ((machines_of d)(i \<mapsto> machine_of (f r))) j"
    using assms(3) row_at_Some [of d j] by (cases "row_at d j") (auto simp: machines_of_def)
qed

lemma machines_of_sweep:
  assumes "db_tasks d' = map g (db_tasks d)" and "submission op = None"
    and ids: "\<And>r. row_id (g r) = row_id r"
    and due: "\<And>r. r \<in> set (db_tasks d) \<Longrightarrow> machine_of (g r) =
      (case advance now op (machine_of r) of None \<Rightarrow> machine_of r | Some s \<Rightarrow> s)"
  shows "machines_of d' = sweep_all now op (machines_of d)"
proof
  fix i
  have "row_at d' i = map_option g (row_at d i)" by (rule row_at_update [OF ids assms(1)])
  then show "machines_of d' i = sweep_all now op (machines_of d) i"
    using due [of "the (row_at d i)"] row_at_Some [of d i] assms(2)
    by (cases "row_at d i")
      (auto simp: machines_of_def sweep_all_def successor_def born_def split: option.splits)
qed

lemma machines_of_insert:
  assumes "table_ok (db_tasks d @ [r])" and "db_tasks d' = db_tasks d @ [r]"
  shows "machines_of d (row_id r) = None"
    and "machines_of d' = (machines_of d)(row_id r \<mapsto> machine_of r)"
proof -
  have new: "row_id r \<notin> set (map row_id (db_tasks d))"
    using table_ok_distinct [OF assms(1)] by auto
  then show "machines_of d (row_id r) = None" by (simp add: machines_of_def row_at_None)
  show "machines_of d' = (machines_of d)(row_id r \<mapsto> machine_of r)"
    using row_at_insert [OF assms(2) new] by (auto simp: machines_of_def)
qed

section \<open>Operations as steps\<close>

definition steps :: "env \<Rightarrow> operation \<Rightarrow> (db, 'a) op \<Rightarrow> bool" where
  "steps e op m \<longleftrightarrow>
     (\<forall>d. db_inv d \<longrightarrow> machine_step (e_now e) op (machines_of d) (machines_of (snd (m d))))"

lemma stepsD: "steps e op m \<Longrightarrow> db_inv d \<Longrightarrow>
    machine_step (e_now e) op (machines_of d) (machines_of (snd (m d)))"
  by (simp add: steps_def)

lemma steps_transact:
  assumes "\<And>d x d'. db_inv d \<Longrightarrow> body d = (Inr x, d') \<Longrightarrow>
      machine_step (e_now e) op (machines_of d) (machines_of d')"
  shows "steps e op (transact e body)"
  unfolding steps_def
proof (intro allI impI)
  fix d
  assume inv: "db_inv d"
  obtain res d' where run: "transact e body d = (res, d')" by fastforce
  then show "machine_step (e_now e) op (machines_of d) (machines_of (snd (transact e body d)))"
    by (cases rule: transact_cases) (auto simp: run intro: machine_step.stutter assms [OF inv])
qed

lemma steps_then_pure:
  assumes "steps e op m" and "\<And>x. pure_op (k x)"
  shows "steps e op (andthen m k)"
proof -
  have "snd (andthen m k d) = snd (m d)" for d
  proof -
    obtain r t where m: "m d = (r, t)" by fastforce
    have "snd (k x t) = t" for x using pure_opD [OF assms(2)] by (metis prod.collapse)
    with m show ?thesis by (cases r) (simp_all add: andthen_def)
  qed
  with assms(1) show ?thesis by (simp add: steps_def)
qed

lemma steps_after_check: "steps e op m \<Longrightarrow> steps e op (andthen (lift r) (\<lambda>_. m))"
  by (cases r) (simp_all add: steps_def andthen_def lift_apply machine_step.stutter)

lemma steps_fetch_one:
  assumes key: "\<And>r. p r \<Longrightarrow> row_id r = i" and ids: "\<And>r. row_id (f r) = row_id r"
    and due: "\<And>r. p r \<Longrightarrow> advance (e_now e) op (machine_of r) = Some (machine_of (f r))"
    and op: "addressee op = Some i" "\<not> sweeping op" and miss: "never_returns miss"
  shows "steps e op (transact e (fetch_one e p chk f
    (\<lambda>r. insert_audit_row e al (aid r) (fr r) (to r) (w r) (tr r) (m r) (g r)) ret miss))"
proof (rule steps_transact)
  fix d x d'
  assume inv: "db_inv d" and run: "fetch_one e p chk f
    (\<lambda>r. insert_audit_row e al (aid r) (fr r) (to r) (w r) (tr r) (m r) (g r)) ret miss d
    = (Inr x, d')"
  obtain rows d1 r' u where up: "update_where e p chk f d = (Inr rows, d1)"
    and hit: "first_row rows = Some r'"
    and au: "insert_audit_row e al (aid r') (fr r') (to r') (w r') (tr r') (m r') (g r') d1 = (Inr u, d')"
    by (rule fetch_one_Inr [OF run miss])
  from update_by_id [OF inv up hit key] obtain r where r: "r \<in> set (db_tasks d)" "p r" "row_id r = i"
    and d1: "db_tasks d1 = map (\<lambda>s. if row_id s = i then f s else s) (db_tasks d)" by blast
  have found: "row_at d i = Some r" using row_at_mem [OF db_inv_rows(3) [OF inv] r(1)] r(3) by simp
  have "machines_of d' = (machines_of d)(i \<mapsto> machine_of (f r))"
    using machines_of_update_one [OF _ ids found, of d'] audit_row_frame [OF au] d1 by simp
  moreover have "successor (e_now e) op (machines_of d i) = Some (machine_of (f r))"
    using found due [OF r(2)] by (simp add: successor_def machines_of_def)
  ultimately show "machine_step (e_now e) op (machines_of d) (machines_of d')"
    using op by (simp add: machine_step.one)
qed

text \<open>One statement on every row it is due for, and an audit row for each.\<close>

lemma steps_sweep:
  assumes ids: "\<And>r. row_id (f r) = row_id r" and op: "sweeping op" "submission op = None"
    and due: "\<And>d r. db_inv d \<Longrightarrow> r \<in> set (db_tasks d) \<Longrightarrow>
      advance (e_now e) op (machine_of r) = (if p r then Some (machine_of (f r)) else None)"
  shows "steps e op (transact e (andthen (sql e pt (update_where e p chk f)) (\<lambda>rows.
    andthen (each (\<lambda>r. insert_audit_row e al (aid r) (fr r) (to r) (w r) (tr r) (m r) (g r)) rows)
      (\<lambda>_. return rows))))"
proof (rule steps_transact)
  let ?au = "\<lambda>r. insert_audit_row e al (aid r) (fr r) (to r) (w r) (tr r) (m r) (g r)"
  fix d x d'
  assume inv: "db_inv d" and run: "andthen (sql e pt (update_where e p chk f)) (\<lambda>rows.
    andthen (each ?au rows) (\<lambda>_. return rows)) d = (Inr x, d')"
  then obtain rows d1 u where up: "update_where e p chk f d = (Inr rows, d1)"
    and au: "each ?au rows d1 = (Inr u, d')"
    unfolding andthen_Inr_iff return_apply sql_Inr by blast
  have "db_tasks d' = map (\<lambda>r. if p r then f r else r) (db_tasks d)"
    using each_audit_frame [OF au] up by (simp add: update_where_Inr)
  then have "machines_of d' = sweep_all (e_now e) op (machines_of d)"
    by (rule machines_of_sweep [OF _ op(2)]) (simp_all add: ids due [OF inv])
  with op(1) show "machine_step (e_now e) op (machines_of d) (machines_of d')"
    by (simp add: machine_step.sweep)
qed

section \<open>Every operation\<close>

lemmas machine_goal = machine_of_def phase_of_def retry_or_fail_def hand_back_def

lemma complete_steps: "steps e (Complete i) (complete e al i)"
  unfolding complete_def
  by (intro steps_then_pure pure_intros steps_fetch_one [where i = "task_uuid i"] never_returns_raise)
    (auto simp: is_running_def complete_update_def machine_goal)

lemma fail_steps: "steps e (Fail i m b x) (fail e al i m b x)"
  unfolding fail_def Let_def
  by (intro steps_after_check steps_then_pure pure_intros steps_fetch_one [where i = "task_uuid i"]
      never_returns_raise)
    (auto simp: is_running_def fail_update_def machine_goal Let_def)

lemma suspend_steps: "steps e (Suspend i) (suspend e al i)"
  unfolding suspend_def
  by (intro steps_then_pure pure_intros steps_fetch_one [where i = "task_uuid i"] never_returns_raise)
    (auto simp: is_running_def suspend_update_def machine_goal)

lemma release_task_steps: "steps e (ReleaseTask i) (release_lease_for_task e al i)"
  unfolding release_lease_for_task_def
  by (intro steps_fetch_one [where i = "task_uuid i"] never_returns_raise)
    (auto simp: is_running_def release_update_def machine_goal)

lemma signal_steps: "steps e (Signal i p) (signal e al i p)"
  unfolding signal_def
  by (intro steps_after_check steps_then_pure pure_intros steps_fetch_one [where i = "task_uuid i"]
      never_returns_andthen)
    (auto simp: signal_update_def machine_goal)

lemma release_worker_steps: "steps e (ReleaseWorker w) (release_leases_for_worker e al w)"
  unfolding release_leases_for_worker_def
  by (intro steps_then_pure pure_intros steps_sweep)
    (auto simp: release_update_def machine_goal dest: phase_columns)

lemma expire_steps: "steps e (ExpireSuspended t) (expire_suspended_tasks e al t)"
  unfolding expire_suspended_tasks_def Let_def
  by (intro steps_then_pure pure_intros steps_sweep)
    (auto simp: expire_update_def suspend_expired_def machine_goal dest: phase_columns)

lemma recover_steps: "steps e RecoverZombies (recover_zombie_tasks e al)"
  unfolding recover_zombie_tasks_def
proof (rule steps_transact)
  fix d res d'
  assume inv: "db_inv d" and run: "recover_body e al d = (Inr res, d')"
  have "db_tasks d' = map (recovered_row e) (db_tasks d)" using run by (rule recover_body_Inr)
  then have "machines_of d' = sweep_all (e_now e) RecoverZombies (machines_of d)"
  proof (rule machines_of_sweep)
    fix r
    assume "r \<in> set (db_tasks d)"
    then show "machine_of (recovered_row e r) = (case advance (e_now e) RecoverZombies (machine_of r) of
        None \<Rightarrow> machine_of r | Some s \<Rightarrow> s)"
      using phase_columns(1) [OF inv]
      by (fastforce simp: recovered_row_def lease_expired_def retry_update_def exhaust_update_def
          machine_goal)
  qed (simp_all add: recovered_row_def retry_update_def exhaust_update_def)
  then show "machine_step (e_now e) RecoverZombies (machines_of d) (machines_of d')"
    by (simp add: machine_step.sweep)
qed

lemma cancel_steps: "steps e (Cancel i) (cancel e al i)"
  unfolding cancel_def
proof (intro steps_then_pure steps_transact)
  fix d x d'
  assume inv: "db_inv d" and run: "andthen (sql e (AtStmt 0) (cancel_stmt e (task_uuid i))) (\<lambda>row.
     case row of CancelHit r \<Rightarrow> andthen (insert_audit_row e al (row_id r) (Some (cancel_origin r))
         ''cancelled'' None (row_trace_id r) None (row_region r)) (\<lambda>_. return row)
       | _ \<Rightarrow> return row) d = (Inr x, d')"
  from run obtain row d1 where st: "cancel_stmt e (task_uuid i) d = (Inr row, d1)"
    and au: "(case row of CancelHit r \<Rightarrow> andthen (insert_audit_row e al (row_id r)
         (Some (cancel_origin r)) ''cancelled'' None (row_trace_id r) None (row_region r)) (\<lambda>_. return row)
       | _ \<Rightarrow> return row) d1 = (Inr x, d')"
    unfolding andthen_Inr_iff sql_Inr by blast
  show "machine_step (e_now e) (Cancel i) (machines_of d) (machines_of d')"
  proof (cases row)
    case (CancelHit r')
    with st obtain rows where
      up: "update_where e (cancellable (task_uuid i)) no_chk (cancel_update e) d = (Inr rows, d1)"
      and hit: "first_row rows = Some r'"
      by (auto simp: cancel_stmt_def split: prod.splits sum.splits option.splits)
    have "cancellable (task_uuid i) r \<Longrightarrow> row_id r = task_uuid i" for r by (simp add: cancellable_def)
    from update_by_id [OF inv up hit this] obtain r where r: "r \<in> set (db_tasks d)"
      "cancellable (task_uuid i) r" "row_id r = task_uuid i"
      and d1: "db_tasks d1 = map (\<lambda>s. if row_id s = task_uuid i then cancel_update e s else s) (db_tasks d)"
      by blast
    have found: "row_at d (task_uuid i) = Some r"
      using row_at_mem [OF db_inv_rows(3) [OF inv] r(1)] r(3) by simp
    have "db_tasks d' = db_tasks d1"
      using au CancelHit by (auto simp: andthen_Inr_iff return_apply dest: audit_row_frame)
    with d1 have "machines_of d' = (machines_of d)(task_uuid i \<mapsto> machine_of (cancel_update e r))"
      by (intro machines_of_update_one [OF _ _ found]) (simp_all add: cancel_update_def)
    moreover have "successor (e_now e) (Cancel i) (machines_of d (task_uuid i))
        = Some (machine_of (cancel_update e r))"
      using found r(2)
      by (auto simp: successor_def machines_of_def cancellable_def cancel_update_def machine_goal)
    ultimately show ?thesis by (simp add: machine_step.one)
  qed (use au cancel_stmt_miss(1) [OF st] in \<open>auto simp: return_apply machine_step.stutter\<close>)
next
  show "pure_op (case row of
        CancelHit r \<Rightarrow> andthen (lift (record_res r)) (\<lambda>record. return (CancelledTask record))
      | CancelMiss st \<Rightarrow> andthen (lift (map_err adapter_failure (parse_status st)))
          (\<lambda>status. return (NotCancellable status))
      | CancelNone \<Rightarrow> return CancelNotFound)" for row
    by (cases row) (auto intro!: pure_intros)
qed

text \<open>Statements that leave every machine as it is.\<close>

lemma steps_quiet:
  assumes "\<And>r. row_id (f r) = row_id r \<and> machine_of (f r) = machine_of r"
  shows "steps e op (on_pool e (update_where e p chk f))"
  unfolding on_pool_def
proof (rule steps_transact)
  fix d x d'
  assume "sql e (AtStmt 0) (update_where e p chk f) d = (Inr x, d')"
  then have "db_tasks d' = map (\<lambda>r. if p r then f r else r) (db_tasks d)"
    by (simp add: sql_Inr update_where_Inr)
  then have "row_at d' j = map_option (\<lambda>r. if p r then f r else r) (row_at d j)" for j
    by (intro row_at_update) (simp_all add: assms)
  then have "machines_of d' = machines_of d"
    using assms by (auto simp: machines_of_def fun_eq_iff option.map_comp comp_def intro!: option.map_cong)
  then show "machine_step (e_now e) op (machines_of d) (machines_of d')"
    by (simp add: machine_step.stutter)
qed

lemma cleanup_steps: "steps e CleanupKeys (cleanup_expired_idempotency_keys e)"
  unfolding cleanup_expired_idempotency_keys_def
  by (intro steps_then_pure pure_intros steps_quiet) (simp add: machine_goal)

lemma write_checkpoint_steps: "steps e (WriteCheckpoint i w v) (write_checkpoint e i w v)"
  unfolding write_checkpoint_def
  by (intro steps_then_pure steps_quiet) (auto simp: machine_goal intro: pure_intros)

lemma claim_steps: "steps e (ClaimNext q w l g) (claim_next e al q w l g)"
  unfolding claim_next_def Let_def
proof (intro steps_then_pure pure_intros steps_transact)
  let ?st = "claim_stmt e (queue_str q) (worker_uuid w) (as_secs_f64 l) g"
  let ?op = "ClaimNext q w l g"
  let ?f = "claim_update e (worker_uuid w) (as_secs_f64 l)"
  let ?au = "\<lambda>rows. case first_row rows of None \<Rightarrow> return ()
     | Some r \<Rightarrow> insert_audit_row e al (row_id r) (Some ''pending'') ''running''
         (Some (worker_uuid w)) (row_trace_id r) None (row_region r)"
  fix d x d'
  assume inv: "db_inv d" and "andthen (sql e (AtStmt 0) ?st) (\<lambda>rows.
     andthen (?au rows) (\<lambda>_. return (first_row rows))) d = (Inr x, d')"
  then obtain rows d1 u where st: "?st d = (Inr rows, d1)" and au: "?au rows d1 = (Inr u, d')"
    unfolding andthen_Inr_iff sql_Inr return_apply by blast
  from inv st show "machine_step (e_now e) ?op (machines_of d) (machines_of d')"
  proof (cases rule: claim_stmt_cases)
    case none
    with au show ?thesis by (auto simp: return_apply machine_step.stutter)
  next
    case (one c)
    note c = claim_candidate_Some(1,2) [OF one(1)]
    have found: "row_at d (row_id c) = Some c" by (rule row_at_mem [OF db_inv_rows(3) [OF inv] c(1)])
    have "db_tasks d' = map (\<lambda>r. if row_id r = row_id c then ?f r else r) (db_tasks d)"
      using au one(2,3) by (auto dest: audit_row_frame)
    then have "machines_of d' = (machines_of d)(row_id c \<mapsto> machine_of (?f c))"
      by (rule machines_of_update_one [OF _ _ found]) (simp add: claim_update_def)
    moreover have "successor (e_now e) ?op (machines_of d (row_id c)) = Some (machine_of (?f c))"
      using found c(2)
      by (simp add: successor_def machines_of_def claimable_def claim_update_def machine_goal)
    ultimately show ?thesis by (simp add: machine_step.one)
  qed
qed

text \<open>A new row.\<close>

lemma created_step:
  assumes "insert_row e (insert_values e t) d = (Inr row, d1)" and "audit_created e al row d1 = (Inr u, d')"
    and "fresh_record t" and "submission op = Some t" "addressee op = Some (task_uuid (rec_id t))"
    and "\<not> sweeping op"
  shows "machine_step (e_now e) op (machines_of d) (machines_of d')"
proof -
  let ?i = "task_uuid (rec_id t)"
  from assms(1) have ok: "table_ok (db_tasks d @ [insert_values e t])"
    and d1: "db_tasks d1 = db_tasks d @ [insert_values e t]" by (simp_all add: insert_row_Inr)
  have "db_tasks d' = db_tasks d1" using assms(2) by (auto simp: audit_created_def dest: audit_row_frame)
  with machines_of_insert [OF ok] d1 have "machines_of d ?i = None"
    and "machines_of d' = (machines_of d)(?i \<mapsto> machine_of (insert_values e t))"
    by (simp_all add: insert_values_def)
  moreover have "born op = Some (machine_of (insert_values e t))"
    using assms(3,4) by (simp add: born_def fresh_record_def insert_values_def machine_goal)
  ultimately show ?thesis using assms(5,6) by (simp add: machine_step.one successor_def)
qed

lemma save_steps: "fresh_record t \<Longrightarrow> steps e (Save t) (save e al t)"
  unfolding save_def
  by (intro steps_then_pure pure_intros steps_transact)
    (auto simp: save_body_def andthen_Inr_iff sql_Inr return_apply intro: created_step)

lemma save_idempotent_steps:
  assumes "fresh_record t"
  shows "steps e (SaveIdempotent t) (save_idempotent e al t)"
  unfolding save_idempotent_def
proof (intro steps_then_pure save_idempotent_tail steps_transact)
  fix d x d'
  assume "save_idempotent_body e al t d = (Inr x, d')"
  then obtain ins d1 where ins: "insert_or_nothing e (insert_values e t) d = (Inr ins, d1)"
    and k: "(case ins of
        Some row \<Rightarrow> andthen (audit_created e al row) (\<lambda>_. return (Some row, True))
      | None \<Rightarrow> andthen (sql e (AtStmt 1) (select_where (holds_key t))) (\<lambda>rows.
          return (first_row rows, False))) d1 = (Inr x, d')"
    unfolding save_idempotent_body_def andthen_Inr_iff sql_Inr by blast
  from insert_or_nothing_Inr [OF ins] k assms
  show "machine_step (e_now e) (SaveIdempotent t) (machines_of d) (machines_of d')"
    by (auto simp: andthen_Inr_iff sql_Inr select_where_Inr return_apply
        intro: machine_step.stutter created_step)
qed

lemmas operation_steps = save_steps save_idempotent_steps cleanup_steps claim_steps complete_steps
  fail_steps recover_steps cancel_steps release_worker_steps release_task_steps suspend_steps
  signal_steps expire_steps write_checkpoint_steps

lemma perform_steps:
  "admissible op \<Longrightarrow> db_inv d \<Longrightarrow>
     machine_step (e_now e) op (machines_of d) (machines_of (perform e al op d))"
  by (cases op) (simp_all add: operation_steps [THEN stepsD])

lemma perform_all_runs:
  "list_all (\<lambda>(e, op). admissible op) ops \<Longrightarrow> db_inv d \<Longrightarrow>
     machine_run (map (\<lambda>(e, op). (e_now e, op)) ops) (machines_of d) (machines_of (perform_all al ops d))"
proof (induction al ops d rule: perform_all.induct)
  case (1 al d)
  then show ?case by (simp add: machine_run.finished)
next
  case (2 al e op ops d)
  then have "machine_step (e_now e) op (machines_of d) (machines_of (perform e al op d))"
    and "db_inv (perform e al op d)"
    using perform_steps [of op d e al] perform_good [of op d al e] by (simp_all add: good_def)
  with 2 show ?case by (simp add: machine_run.continued)
qed

section \<open>What the machine guarantees\<close>

inductive_cases machine_stepE: "machine_step now op S T"
inductive_cases machine_run_consE: "machine_run ((now, op) # ops) S T"
inductive_cases machine_run_nilE: "machine_run [] S T"

lemma machine_step_at:
  assumes "machine_step now op S T"
  shows "T i = S i \<or> T i = successor now op (S i)
    \<and> successor now op (S i) \<noteq> None \<and> (addressee op = None \<or> addressee op = Some i)"
  using assms by (cases rule: machine_stepE)
    (auto simp: sweep_all_def split: option.splits if_splits elim!: sweeping.elims(2))

text \<open>An operation that may take a held task from its worker.\<close>

fun may_end_lease :: "uuid \<Rightarrow> uuid \<Rightarrow> time \<Rightarrow> time \<times> operation \<Rightarrow> bool" where
  "may_end_lease i w until (now, op) \<longleftrightarrow> addressee op = Some i
     \<or> (case op of ReleaseWorker v \<Rightarrow> worker_uuid v = w | RecoverZombies \<Rightarrow> until < now | _ \<Rightarrow> False)"

lemma held_step:
  assumes "machine_step now op S T" and "S i = Some s" and "mc_phase s = Held w until"
    and "\<not> may_end_lease i w until (now, op)"
  shows "T i = Some s"
  using machine_step_at [OF assms(1), of i] assms(2-4)
  by (cases op) (auto simp: successor_def split: if_splits)

lemma held_run:
  assumes "machine_run ops S T" and "S i = Some s" and "mc_phase s = Held w until"
    and "list_all (\<lambda>x. \<not> may_end_lease i w until x) ops"
  shows "T i = Some s"
  using assms
proof (induction rule: machine_run.induct)
  case (continued now op S T ops U)
  from held_step [OF continued(1,4,5)] continued show ?case by simp
qed

section \<open>Properties\<close>

text \<open>C3: The repository refines the abstract machine of its tasks: in every sequence of operations,
  whatever fails inside them, the table goes through a run of the machine under the same operations
  at the same times. A task is only ever waiting, held under a lease, parked or ended; an operation
  on one task changes that task or nothing, and a sweep changes every task it is due for or none.\<close>

theorem repository_refines_machine:
  assumes "db_inv d" and "list_all (\<lambda>(e, op). admissible op) ops"
  shows "machine_run (map (\<lambda>(e, op). (e_now e, op)) ops) (machines_of d)
      (machines_of (perform_all al ops d))"
  using assms by (simp add: perform_all_runs)

text \<open>A task claimed for thirty seconds.\<close>

definition lease_ops :: "(env \<times> operation) list" where
  "lease_ops = [(quiet_env 0, Save (sample 1 3)),
     (quiet_env 5, ClaimNext mail worker_seven (from_secs 30) None)]"

definition leased_db :: db where
  "leased_db = perform_all True lease_ops empty_db"

definition leased_machine :: machine where
  "leased_machine = \<lparr>mc_phase = Held 7 30000005, mc_attempts = 1, mc_max = 3\<rparr>"

lemma leased_inv: "db_inv leased_db"
  unfolding leased_db_def
  by (rule reachable_inv [OF reachable_perform_all [OF reachable.start]]) (simp add: lease_ops_def)

lemma leased_machines: "machines_of leased_db 1 = Some leased_machine"
  by (simp add: leased_db_def lease_ops_def leased_machine_def machines_of_def row_at_def run_statements
      run_operations sample_def mail_def worker_seven_def machine_goal run_times from_secs_def
      nanos_per_sec_def)

theorem repository_refines_machine_witness:
  "machine_run [(0, Save (sample 1 3)), (5, ClaimNext mail worker_seven (from_secs 30) None)]
     (machines_of empty_db) (machines_of leased_db)
   \<and> machines_of leased_db 1 = Some leased_machine"
  using repository_refines_machine [OF db_inv_empty, of lease_ops True] leased_machines
  by (simp add: leased_db_def lease_ops_def quiet_env_def)

text \<open>C4: A lease protects a running task: until the end of its lease, no sequence of operations of
  others takes the task from its worker or changes its attempts, unless one names the task or
  releases all tasks of this worker. Claims in particular, its own included, never hand it out.\<close>

theorem lease_protects:
  assumes "db_inv d" and "list_all (\<lambda>(e, op). admissible op) ops"
    and "machines_of d i = Some s" and "mc_phase s = Held w until"
    and "list_all (\<lambda>(e, op). \<not> may_end_lease i w until (e_now e, op)) ops"
  shows "machines_of (perform_all al ops d) i = Some s"
  using held_run [OF perform_all_runs [OF assms(2,1), of al] assms(3,4)] assms(5)
  by (simp add: list_all_iff case_prod_beta)

definition others_ops :: "(env \<times> operation) list" where
  "others_ops = [(quiet_env 6, ClaimNext mail worker_seven 30 None), (quiet_env 7, RecoverZombies),
     (quiet_env 8, ReleaseWorker (WorkerId 8)), (quiet_env 9, Cancel (TaskId 2))]"

theorem lease_protects_witness:
  "machines_of (perform_all True others_ops leased_db) 1 = Some leased_machine"
proof (rule lease_protects [OF leased_inv _ leased_machines, where w = 7 and until = 30000005])
qed (simp_all add: others_ops_def quiet_env_def leased_machine_def)

end
