(* ===== verification/Port.thy ===== *)
theory Port
  imports Repo_Outcomes
begin

text \<open>
  The persistence port (\<open>crates/application/src/ports/task_repository.rs\<close>): the trait object
  the services hold is a record of operations over the state \<open>'s\<close> of some backend. The locale
  \<open>repository\<close> states what the services rely on, in terms of the status of a task and the
  paths of its life cycle; the Postgres adapter is its interpretation, over a world that is the
  database and the stream of environments of the calls to come.
\<close>

record 's task_repository =
  port_save :: "task_record \<Rightarrow> ('s, task_record) op"
  port_save_idempotent :: "task_record \<Rightarrow> ('s, task_record \<times> bool) op"
  port_cleanup_keys :: "('s, nat) op"
  port_find_by_id :: "task_id \<Rightarrow> ('s, task_record option) op"
  port_list_by_queue :: "queue_name \<Rightarrow> ('s, task_record list) op"
  port_claim_next :: "queue_name \<Rightarrow> worker_id \<Rightarrow> duration \<Rightarrow> string option
    \<Rightarrow> ('s, task_record option) op"
  port_complete :: "task_id \<Rightarrow> ('s, task_record) op"
  port_fail :: "task_id \<Rightarrow> string \<Rightarrow> rat \<Rightarrow> rat \<Rightarrow> ('s, task_record) op"
  port_recover :: "('s, recovered_task list) op"
  port_list_tasks :: "list_tasks_filter \<Rightarrow> ('s, list_tasks_result) op"
  port_queue_statistics :: "bool \<Rightarrow> ('s, queue_stats list) op"
  port_cancel :: "task_id \<Rightarrow> ('s, cancel_result) op"
  port_worker_status :: "('s, worker_status list) op"
  port_release_worker :: "worker_id \<Rightarrow> ('s, (task_id \<times> string option) list) op"
  port_release_task :: "task_id \<Rightarrow> ('s, string option) op"
  port_audit_log :: "task_id \<Rightarrow> int \<Rightarrow> int \<Rightarrow> ('s, list_audit_log_result) op"
  port_suspend :: "task_id \<Rightarrow> ('s, task_record) op"
  port_signal :: "task_id \<Rightarrow> json option \<Rightarrow> ('s, task_record) op"
  port_expire :: "duration \<Rightarrow> ('s, (task_id \<times> queue_name) list) op"

section \<open>The laws\<close>

text \<open>Status paths, without the spelling of the database.\<close>

inductive moves :: "task_status option \<Rightarrow> task_status option \<Rightarrow> bool" where
  stay: "moves a a"
| go: "moves a b \<Longrightarrow> lifecycle b c \<Longrightarrow> moves a (Some c)"

lemma moves_trans: "moves b c \<Longrightarrow> moves a b \<Longrightarrow> moves a c"
  by (induction rule: moves.induct) (auto intro: moves.go)

lemma moves_terminal: "moves a b \<Longrightarrow> a = Some s \<Longrightarrow> terminal s \<Longrightarrow> b = Some s"
  by (induction rule: moves.induct) (auto dest: lifecycle_terminal)

lemma moves_Some: "moves a b \<Longrightarrow> a \<noteq> None \<Longrightarrow> b \<noteq> None"
  by (induction rule: moves.induct) auto

definition only_task :: "('s \<Rightarrow> task_id \<Rightarrow> task_status option) \<Rightarrow> task_id \<Rightarrow> 's \<Rightarrow> 's \<Rightarrow> bool" where
  "only_task status i s s' \<longleftrightarrow> (\<forall>j. j \<noteq> i \<longrightarrow> status s' j = status s j)"

text \<open>A step of a service: the invariant holds again and every task moved along its life cycle.\<close>

definition lawful :: "('s \<Rightarrow> bool) \<Rightarrow> ('s \<Rightarrow> task_id \<Rightarrow> task_status option) \<Rightarrow> 's \<Rightarrow> 's \<Rightarrow> bool" where
  "lawful ok status s s' \<longleftrightarrow> ok s' \<and> (\<forall>i. moves (status s i) (status s' i))"

definition lawful_op :: "('s \<Rightarrow> bool) \<Rightarrow> ('s \<Rightarrow> task_id \<Rightarrow> task_status option) \<Rightarrow> ('s, 'a) op \<Rightarrow> bool"
  where "lawful_op ok status m \<longleftrightarrow> (\<forall>s r s'. ok s \<longrightarrow> m s = (r, s') \<longrightarrow> lawful ok status s s')"

lemma lawful_refl: "ok s \<Longrightarrow> lawful ok status s s"
  by (simp add: lawful_def moves.stay)

lemma lawful_trans: "lawful ok status s t \<Longrightarrow> lawful ok status t u \<Longrightarrow> lawful ok status s u"
  by (auto simp: lawful_def intro: moves_trans)

lemma lawful_opD: "lawful_op ok status m \<Longrightarrow> ok s \<Longrightarrow> m s = (r, s') \<Longrightarrow> lawful ok status s s'"
  by (simp add: lawful_op_def)

text \<open>The same as a relation between states, read off through a projection.\<close>

definition lawful_rel ::
  "('s \<Rightarrow> bool) \<Rightarrow> ('s \<Rightarrow> task_id \<Rightarrow> task_status option) \<Rightarrow> ('t \<Rightarrow> 's) \<Rightarrow> 't \<Rightarrow> 't \<Rightarrow> bool" where
  "lawful_rel ok status proj a b \<longleftrightarrow> (ok (proj a) \<longrightarrow> lawful ok status (proj a) (proj b))"

lemma reflp_lawful_rel: "reflp (lawful_rel ok status proj)"
  by (simp add: reflp_def lawful_rel_def lawful_refl)

lemma transp_lawful_rel: "transp (lawful_rel ok status proj)"
  unfolding transp_def lawful_rel_def by (meson lawful_def lawful_trans)

lemma lawful_rel_proj: "proj a' = proj a \<Longrightarrow> proj b' = proj b \<Longrightarrow>
    lawful_rel ok status proj a' b' = lawful_rel ok status proj a b"
  by (simp add: lawful_rel_def)

lemma lawful_op_inside: "lawful_op ok status m \<longleftrightarrow> inside (lawful_rel ok status (\<lambda>s. s)) m"
  by (auto simp: lawful_op_def inside_def lawful_rel_def)

locale repository =
  fixes repo :: "'s task_repository"
    and ok :: "'s \<Rightarrow> bool"
    and status :: "'s \<Rightarrow> task_id \<Rightarrow> task_status option"
  assumes save_lawful: "fresh_record t \<Longrightarrow> lawful_op ok status (port_save repo t)"
    and save_idempotent_lawful: "fresh_record t \<Longrightarrow> lawful_op ok status (port_save_idempotent repo t)"
    and cleanup_lawful: "lawful_op ok status (port_cleanup_keys repo)"
    and claim_lawful: "lawful_op ok status (port_claim_next repo q w l g)"
    and complete_lawful: "lawful_op ok status (port_complete repo i)"
    and fail_lawful: "lawful_op ok status (port_fail repo i m b x)"
    and recover_lawful: "lawful_op ok status (port_recover repo)"
    and cancel_lawful: "lawful_op ok status (port_cancel repo i)"
    and release_worker_lawful: "lawful_op ok status (port_release_worker repo w)"
    and release_task_lawful: "lawful_op ok status (port_release_task repo i)"
    and suspend_lawful: "lawful_op ok status (port_suspend repo i)"
    and signal_lawful: "lawful_op ok status (port_signal repo i p)"
    and expire_lawful: "lawful_op ok status (port_expire repo d)"
    and claim_next_law: "ok s \<Longrightarrow> port_claim_next repo q w l g s = (Inr (Some t), s') \<Longrightarrow>
      status s (rec_id t) = Some Pending \<and> status s' (rec_id t) = Some Running
        \<and> rec_status t = Running \<and> rec_claimed_by t = Some w \<and> rec_queue t = q
        \<and> only_task status (rec_id t) s s'"
    and claim_none_law: "ok s \<Longrightarrow> port_claim_next repo q w l g s = (Inr None, s') \<Longrightarrow>
      status s' = status s"
    and complete_law: "ok s \<Longrightarrow> port_complete repo i s = (Inr t, s') \<Longrightarrow>
      status s i = Some Running \<and> status s' i = Some Completed \<and> rec_id t = i
        \<and> only_task status i s s'"
    and fail_law: "ok s \<Longrightarrow> port_fail repo i m b x s = (Inr t, s') \<Longrightarrow>
      status s i = Some Running \<and> status s' i = Some (rec_status t)
        \<and> (rec_status t = Pending \<or> rec_status t = Failed) \<and> rec_id t = i \<and> only_task status i s s'"
    and suspend_law: "ok s \<Longrightarrow> port_suspend repo i s = (Inr t, s') \<Longrightarrow>
      status s i = Some Running \<and> status s' i = Some Suspended \<and> rec_id t = i
        \<and> only_task status i s s'"
    and release_task_law: "ok s \<Longrightarrow> port_release_task repo i s = (Inr tr, s') \<Longrightarrow>
      status s i = Some Running \<and> status s' i = Some Pending \<and> only_task status i s s'"
    and recover_law: "ok s \<Longrightarrow> port_recover repo s = (Inr rs, s') \<Longrightarrow>
      (i, qn, kd, tr, oc) \<in> set rs \<Longrightarrow> status s i = Some Running
        \<and> status s' i = Some (case oc of Recovered \<Rightarrow> Pending | RecoveryFailed \<Rightarrow> Failed)"
    and expire_law: "ok s \<Longrightarrow> port_expire repo d s = (Inr xs, s') \<Longrightarrow> (i, qn) \<in> set xs \<Longrightarrow>
      status s i = Some Suspended \<and> status s' i = Some Failed"
begin

lemma complete_terminal:
  assumes "ok s" and "port_complete repo i s = (Inr t, s')" and "lawful ok status s' s''"
  shows "status s'' i = Some Completed"
  using complete_law [OF assms(1,2)] assms(3) moves_terminal
  by (fastforce simp: lawful_def terminal_def)

end


section \<open>The Postgres adapter\<close>

record world =
  w_db :: db
  w_envs :: "nat \<Rightarrow> env"

definition in_world :: "(env \<Rightarrow> (db, 'a) op) \<Rightarrow> (world, 'a) op" where
  "in_world f w = (case f (w_envs w 0) (w_db w) of
     (r, d) \<Rightarrow> (r, w\<lparr>w_db := d, w_envs := (\<lambda>n. w_envs w (Suc n))\<rparr>))"

definition postgres_repository ::
  "bool \<Rightarrow> sqlx_error \<Rightarrow> (sqlx_error \<Rightarrow> string) \<Rightarrow> world task_repository" where
  "postgres_repository al neg sq = \<lparr>
     port_save = (\<lambda>t. in_world (\<lambda>e. save e al t)),
     port_save_idempotent = (\<lambda>t. in_world (\<lambda>e. save_idempotent e al t)),
     port_cleanup_keys = in_world cleanup_expired_idempotency_keys,
     port_find_by_id = (\<lambda>i. in_world (\<lambda>e. find_by_id e i)),
     port_list_by_queue = (\<lambda>q. in_world (\<lambda>e. list_by_queue e q)),
     port_claim_next = (\<lambda>q w l g. in_world (\<lambda>e. claim_next e al q w l g)),
     port_complete = (\<lambda>i. in_world (\<lambda>e. complete e al i)),
     port_fail = (\<lambda>i m b x. in_world (\<lambda>e. fail e al i m b x)),
     port_recover = in_world (\<lambda>e. recover_zombie_tasks e al),
     port_list_tasks = (\<lambda>f. in_world (\<lambda>e. list_tasks e f)),
     port_queue_statistics = (\<lambda>by_region. in_world (\<lambda>e. queue_statistics e by_region)),
     port_cancel = (\<lambda>i. in_world (\<lambda>e. cancel e al i)),
     port_worker_status = in_world worker_statuses,
     port_release_worker = (\<lambda>w. in_world (\<lambda>e. release_leases_for_worker e al w)),
     port_release_task = (\<lambda>i. in_world (\<lambda>e. release_lease_for_task e al i)),
     port_audit_log = (\<lambda>i lim off. in_world (\<lambda>e. audit_log e neg sq al i lim off)),
     port_suspend = (\<lambda>i. in_world (\<lambda>e. suspend e al i)),
     port_signal = (\<lambda>i p. in_world (\<lambda>e. signal e al i p)),
     port_expire = (\<lambda>d. in_world (\<lambda>e. expire_suspended_tasks e al d))\<rparr>"

definition world_ok :: "world \<Rightarrow> bool" where
  "world_ok w \<longleftrightarrow> db_inv (w_db w)"

definition decode_status :: "string \<Rightarrow> task_status option" where
  "decode_status s = (case parse_status s of Inl _ \<Rightarrow> None | Inr st \<Rightarrow> Some st)"

definition world_status :: "world \<Rightarrow> task_id \<Rightarrow> task_status option" where
  "world_status w i = Option.bind (status_of (w_db w) (task_uuid i)) decode_status"

lemma decode_as_str [simp]: "decode_status (as_str st) = Some st"
  by (simp add: decode_status_def)

lemma decode_literals [simp]:
  "decode_status ''pending'' = Some Pending" "decode_status ''running'' = Some Running"
  "decode_status ''completed'' = Some Completed" "decode_status ''failed'' = Some Failed"
  "decode_status ''cancelled'' = Some Cancelled" "decode_status ''suspended'' = Some Suspended"
  by (simp_all add: decode_status_def)

lemma path_moves:
  "path s es t \<Longrightarrow> moves (Option.bind s decode_status) (Option.bind t decode_status)"
proof (induction s es t rule: path.induct)
  case (1 s t)
  then show ?case by (simp add: moves.stay)
next
  case (2 s a b es t)
  then obtain x y where s: "s = map_option as_str x" and b: "b = as_str y" and l: "lifecycle x y"
    by (auto simp: edge_def)
  have "Option.bind s decode_status = x" using s by (cases x) simp_all
  then have "moves (Option.bind s decode_status) (Some y)"
    using l by (auto intro: moves.intros)
  with 2 b show ?case by (auto intro: moves_trans)
qed

lemma good_lawful:
  "good al d d' \<Longrightarrow> w_db w = d \<Longrightarrow> w_db w' = d' \<Longrightarrow> lawful world_ok world_status w w'"
  using good_path [of al d d'] path_moves
  by (auto simp: lawful_def world_ok_def world_status_def good_def)

lemma in_world_lawful:
  assumes "\<And>e. keeps al (f e)"
  shows "lawful_op world_ok world_status (in_world f)"
  unfolding lawful_op_def
proof (intro allI impI)
  fix w r w'
  assume ok: "world_ok w" and run: "in_world f w = (r, w')"
  obtain x d' where f: "f (w_envs w 0) (w_db w) = (x, d')" by fastforce
  with run have "w_db w' = d'" by (auto simp: in_world_def)
  moreover have "good al (w_db w) d'"
    using keepsD [OF assms _ f] ok by (simp add: world_ok_def)
  ultimately show "lawful world_ok world_status w w'" by (intro good_lawful) simp_all
qed

lemma in_world_Inr:
  assumes "in_world f w = (Inr x, w')"
  obtains e where "f e (w_db w) = (Inr x, w_db w')"
  using assms that [of "w_envs w 0"] by (auto simp: in_world_def split: prod.splits)

lemma world_status_eq:
  "status_of (w_db w) (task_uuid i) = Some s \<Longrightarrow> world_status w i = decode_status s"
  by (simp add: world_status_def)

lemma task_id_neq: "j \<noteq> i \<longleftrightarrow> task_uuid j \<noteq> task_uuid i"
  by (cases i; cases j) simp

text \<open>One row moved from one status to another: the shape of most laws.\<close>

lemma world_moved:
  assumes "status_of (w_db w) (task_uuid i) = Some a"
    and "\<And>j. status_of (w_db w') j = (if j = task_uuid i then Some b else status_of (w_db w) j)"
  shows "world_status w i = decode_status a" "world_status w' i = decode_status b"
    "only_task world_status i w w'"
  using assms by (auto simp: world_status_def only_task_def task_id_neq)

lemma complete_world:
  assumes "world_ok w" and "in_world (\<lambda>e. complete e al i) w = (Inr t, w')"
  shows "world_status w i = Some Running \<and> world_status w' i = Some Completed \<and> rec_id t = i
    \<and> only_task world_status i w w'"
proof -
  from assms(2) obtain e where run: "complete e al i (w_db w) = (Inr t, w_db w')" by (rule in_world_Inr)
  have inv: "db_inv (w_db w)" using assms(1) by (simp add: world_ok_def)
  from inv run obtain r where r: "r \<in> set (db_tasks (w_db w))" "is_running (task_uuid i) r"
    and t: "record_of_row (complete_update e r) = Inr t"
    and d': "db_tasks (w_db w') = map (\<lambda>s. if row_id s = task_uuid i then complete_update e s else s)
      (db_tasks (w_db w))"
    by (rule complete_Inr)
  note at = running_at [OF inv r]
  have "status_of (w_db w') j = (if j = task_uuid i then Some ''completed'' else status_of (w_db w) j)" for j
    using status_after_update [OF d', of r j] at by (simp add: complete_update_def)
  from world_moved [OF _ this] at record_of_row_fields(1) [OF t] r(2) show ?thesis
    by (simp add: complete_update_def is_running_def)
qed

lemma suspend_world:
  assumes "world_ok w" and "in_world (\<lambda>e. suspend e al i) w = (Inr t, w')"
  shows "world_status w i = Some Running \<and> world_status w' i = Some Suspended \<and> rec_id t = i
    \<and> only_task world_status i w w'"
proof -
  from assms(2) obtain e where run: "suspend e al i (w_db w) = (Inr t, w_db w')" by (rule in_world_Inr)
  have inv: "db_inv (w_db w)" using assms(1) by (simp add: world_ok_def)
  from inv run obtain r where r: "r \<in> set (db_tasks (w_db w))" "is_running (task_uuid i) r"
    and t: "record_of_row (suspend_update e r) = Inr t"
    and d': "db_tasks (w_db w') = map (\<lambda>s. if row_id s = task_uuid i then suspend_update e s else s)
      (db_tasks (w_db w))"
    by (rule suspend_Inr)
  note at = running_at [OF inv r]
  have "status_of (w_db w') j = (if j = task_uuid i then Some ''suspended'' else status_of (w_db w) j)" for j
    using status_after_update [OF d', of r j] at by (simp add: suspend_update_def)
  from world_moved [OF _ this] at record_of_row_fields(1) [OF t] r(2) show ?thesis
    by (simp add: suspend_update_def is_running_def)
qed

lemma release_task_world:
  assumes "world_ok w" and "in_world (\<lambda>e. release_lease_for_task e al i) w = (Inr t, w')"
  shows "world_status w i = Some Running \<and> world_status w' i = Some Pending
    \<and> only_task world_status i w w'"
proof -
  from assms(2) obtain e where run: "release_lease_for_task e al i (w_db w) = (Inr t, w_db w')"
    by (rule in_world_Inr)
  have inv: "db_inv (w_db w)" using assms(1) by (simp add: world_ok_def)
  from inv run obtain r where r: "r \<in> set (db_tasks (w_db w))" "is_running (task_uuid i) r"
    and d': "db_tasks (w_db w') = map (\<lambda>s. if row_id s = task_uuid i then release_update e s else s)
      (db_tasks (w_db w))"
    by (rule release_lease_for_task_Inr)
  note at = running_at [OF inv r]
  have "status_of (w_db w') j = (if j = task_uuid i then Some ''pending'' else status_of (w_db w) j)" for j
    using status_after_update [OF d', of r j] at by (simp add: release_update_def)
  from world_moved [OF _ this] at show ?thesis by simp
qed

lemma fail_world:
  assumes "world_ok w" and "in_world (\<lambda>e. fail e al i m b x) w = (Inr t, w')"
  shows "world_status w i = Some Running \<and> world_status w' i = Some (rec_status t)
    \<and> (rec_status t = Pending \<or> rec_status t = Failed) \<and> rec_id t = i
    \<and> only_task world_status i w w'"
proof -
  from assms(2) obtain e where run: "fail e al i m b x (w_db w) = (Inr t, w_db w')" by (rule in_world_Inr)
  let ?f = "fail_update e (truncate_last_error m) b x"
  have inv: "db_inv (w_db w)" using assms(1) by (simp add: world_ok_def)
  from inv run obtain r where r: "r \<in> set (db_tasks (w_db w))" "is_running (task_uuid i) r"
    and t: "record_of_row (?f r) = Inr t"
    and d': "db_tasks (w_db w') = map (\<lambda>s. if row_id s = task_uuid i then ?f s else s) (db_tasks (w_db w))"
    by (rule fail_Inr)
  let ?st = "if row_attempts r < row_max_attempts r then Pending else Failed"
  note at = running_at [OF inv r]
  have st: "row_status (?f r) = as_str ?st" by (simp add: fail_update_def Let_def)
  have "status_of (w_db w') j = (if j = task_uuid i then Some (as_str ?st) else status_of (w_db w) j)" for j
    using status_after_update [OF d', of r j] at st by (simp add: fail_update_def Let_def)
  note wm = world_moved [OF _ this]
  have "rec_status t = ?st" by (rule status_of_record [OF t st])
  with wm at record_of_row_fields(1) [OF t] r(2) show ?thesis
    by (simp add: fail_update_def is_running_def Let_def)
qed


lemma claim_world:
  assumes "world_ok w" and "in_world (\<lambda>e. claim_next e al q wk l g) w = (Inr (Some t), w')"
  shows "world_status w (rec_id t) = Some Pending \<and> world_status w' (rec_id t) = Some Running
    \<and> rec_status t = Running \<and> rec_claimed_by t = Some wk \<and> rec_queue t = q
    \<and> only_task world_status (rec_id t) w w'"
proof -
  from assms(2) obtain e where run: "claim_next e al q wk l g (w_db w) = (Inr (Some t), w_db w')"
    by (rule in_world_Inr)
  let ?up = "claim_update e (worker_uuid wk) (as_secs_f64 l)"
  have inv: "db_inv (w_db w)" using assms(1) by (simp add: world_ok_def)
  from inv run show ?thesis
  proof (cases rule: claim_next_Inr)
    case (claimed c t')
    have t: "record_of_row (?up c) = Inr t" using claimed(1,3) by simp
    note cand = claim_candidate_Some(1,2) [OF claimed(2)]
    have c: "row_at (w_db w) (row_id c) = Some c"
      using row_at_mem [OF db_inv_rows(3) [OF inv] cand(1)] .
    have i: "rec_id t = TaskId (row_id c)" using record_of_row_fields(1) [OF t] by (simp add: claim_update_def)
    have "status_of (w_db w') j = (if j = task_uuid (rec_id t) then Some ''running''
        else status_of (w_db w) j)" for j
      using status_after_update [OF claimed(4) _ c, of j] i by (simp add: claim_update_def)
    moreover have "status_of (w_db w) (task_uuid (rec_id t)) = Some ''pending''"
      using c i cand(2) by (simp add: status_of_def claimable_def)
    moreover have "rec_status t = Running"
      by (rule status_of_record [OF t]) (simp add: claim_update_def)
    moreover have "rec_claimed_by t = Some wk" "rec_queue t = q"
      using record_of_row_fields(2,10) [OF t] cand(2) by (simp_all add: claim_update_def claimable_def)
    ultimately show ?thesis using world_moved [of w "rec_id t" "''pending''" w' "''running''"] by simp
  qed simp
qed

lemma claim_none_world:
  assumes "world_ok w" and "in_world (\<lambda>e. claim_next e al q wk l g) w = (Inr None, w')"
  shows "world_status w' = world_status w"
proof -
  from assms(2) obtain e where run: "claim_next e al q wk l g (w_db w) = (Inr None, w_db w')"
    by (rule in_world_Inr)
  have inv: "db_inv (w_db w)" using assms(1) by (simp add: world_ok_def)
  from inv run have "w_db w' = w_db w" by (cases rule: claim_next_Inr) simp_all
  then show ?thesis by (auto simp: world_status_def)
qed

text \<open>The table after a row-wise change.\<close>

lemma status_after_map:
  assumes "db_tasks d' = map g (db_tasks d)" and "\<And>s. row_id (g s) = row_id s"
    and "row_at d i = Some r"
  shows "status_of d' i = Some (row_status (g r))"
  using row_at_update [OF _ assms(1), of i] assms(2,3) by (simp add: status_of_def)

lemma recover_world:
  assumes "world_ok w" and "in_world (\<lambda>e. recover_zombie_tasks e al) w = (Inr rs, w')"
    and "(i, qn, kd, tr, oc) \<in> set rs"
  shows "world_status w i = Some Running
    \<and> world_status w' i = Some (case oc of Recovered \<Rightarrow> Pending | RecoveryFailed \<Rightarrow> Failed)"
proof -
  from assms(2) obtain e where run: "recover_zombie_tasks e al (w_db w) = (Inr rs, w_db w')"
    by (rule in_world_Inr)
  have inv: "db_inv (w_db w)" using assms(1) by (simp add: world_ok_def)
  have tasks: "db_tasks (w_db w') = map (recovered_row e) (db_tasks (w_db w))"
    using run by (rule recover_Inr)
  have id: "row_id (recovered_row e r) = row_id r" for r
    by (simp add: recovered_row_def retry_update_def exhaust_update_def)
  have "(i, oc) \<in> set (map (\<lambda>x. (fst x, snd (snd (snd (snd x))))) rs)" using assms(3) by force
  then obtain r where r: "r \<in> set (db_tasks (w_db w))" "lease_expired e r" "i = TaskId (row_id r)"
    "oc = (if row_attempts r < row_max_attempts r then Recovered else RecoveryFailed)"
    unfolding recover_results [OF run] by auto
  have at: "row_at (w_db w) (task_uuid i) = Some r"
    using row_at_mem [OF db_inv_rows(3) [OF inv] r(1)] r(3) by simp
  from status_after_map [OF tasks id this] r(2,4)
  have "status_of (w_db w') (task_uuid i)
      = Some (case oc of Recovered \<Rightarrow> ''pending'' | RecoveryFailed \<Rightarrow> ''failed'')"
    by (simp add: recovered_row_def retry_update_def exhaust_update_def)
  moreover have "status_of (w_db w) (task_uuid i) = Some ''running''"
    using at r(2) by (simp add: status_of_def lease_expired_def)
  ultimately show ?thesis by (cases oc) (simp_all add: world_status_eq)
qed

lemma expire_world:
  assumes "world_ok w" and "in_world (\<lambda>e. expire_suspended_tasks e al t) w = (Inr xs, w')"
    and "(i, qn) \<in> set xs"
  shows "world_status w i = Some Suspended \<and> world_status w' i = Some Failed"
proof -
  from assms(2) obtain e where run: "expire_suspended_tasks e al t (w_db w) = (Inr xs, w_db w')"
    by (rule in_world_Inr)
  let ?p = "suspend_expired e (as_secs t)"
  have inv: "db_inv (w_db w)" using assms(1) by (simp add: world_ok_def)
  note ex = expire_Inr [OF run]
  have "Inr (i, qn) \<in> set (map expired_entry (map (expire_update e) (filter ?p (db_tasks (w_db w)))))"
    unfolding ex(2) using assms(3) by force
  then obtain r where r: "r \<in> set (db_tasks (w_db w))" "?p r" "expired_entry (expire_update e r) = Inr (i, qn)"
    by force
  have i: "i = TaskId (row_id r)"
    using expired_entry_Inr [OF r(3)] by (simp add: expire_update_def)
  have at: "row_at (w_db w) (task_uuid i) = Some r"
    using row_at_mem [OF db_inv_rows(3) [OF inv] r(1)] i by simp
  have "status_of (w_db w') (task_uuid i) = Some ''failed''"
    using status_after_map [OF ex(1) _ at] r(2) by (simp add: expire_update_def)
  moreover have "status_of (w_db w) (task_uuid i) = Some ''suspended''"
    using at r(2) by (simp add: status_of_def suspend_expired_def)
  ultimately show ?thesis by (simp add: world_status_eq)
qed

interpretation pg: repository "postgres_repository al neg sq" world_ok world_status
  for al :: bool and neg :: sqlx_error and sq :: "sqlx_error \<Rightarrow> string"
  by unfold_locales
    (simp_all add: postgres_repository_def operation_keeps in_world_lawful [where al = al]
      claim_world claim_none_world complete_world fail_world suspend_world release_task_world
      recover_world expire_world)

end
