(* ===== verification/Registry.thy ===== *)
theory Registry
  imports Domain_Model "HOL-Library.AList"
begin

text \<open>
  The registry of task handlers (\<open>crates/application/src/registry.rs\<close>): a hash map from kinds
  to handlers, here an association list with distinct keys. A handler is a trait object: running
  it takes the payload, the context and the shared state, and ends in a result, a panic or a
  cancelled join. The state it leaves is whatever it and everyone else did meanwhile.
\<close>

datatype panic_payload =
    PanicStr string
  | PanicString string
  | PanicBoxedString string
  | PanicOther string

datatype join_outcome =
    Finished "task_error + unit"
  | Panicked panic_payload
  | JoinCancelled string

type_synonym 's execution = "json \<Rightarrow> 's task_context \<Rightarrow> 's \<Rightarrow> join_outcome \<times> 's"

record 's task_handler =
  handler_kind :: string
  handler_execute :: "'s execution"

type_synonym 's task_registry = "(string \<times> 's task_handler) list"

definition registry_new :: "'s task_registry" where
  "registry_new = []"

text \<open>The flag says whether the warning about an overwritten registration is logged.\<close>

definition register :: "'s task_handler \<Rightarrow> 's task_registry \<Rightarrow> bool \<times> 's task_registry" where
  "register h reg =
     (map_of reg (handler_kind h) \<noteq> None, AList.update (handler_kind h) h reg)"

definition registry_get :: "'s task_registry \<Rightarrow> string \<Rightarrow> 's task_handler option" where
  "registry_get reg kind = map_of reg kind"

definition registry_len :: "'s task_registry \<Rightarrow> nat" where
  "registry_len reg = length reg"

definition registry_is_empty :: "'s task_registry \<Rightarrow> bool" where
  "registry_is_empty reg \<longleftrightarrow> reg = []"

definition registry_inv :: "'s task_registry \<Rightarrow> bool" where
  "registry_inv reg \<longleftrightarrow> distinct (map fst reg)
     \<and> (\<forall>k h. registry_get reg k = Some h \<longrightarrow> handler_kind h = k)"

lemma registry_get_register:
  "registry_get (snd (register h reg)) k
     = (if k = handler_kind h then Some h else registry_get reg k)"
  by (simp add: registry_get_def register_def update_conv')

lemma registry_inv_new: "registry_inv registry_new"
  by (simp add: registry_inv_def registry_new_def registry_get_def)

lemma registry_inv_register: "registry_inv reg \<Longrightarrow> registry_inv (snd (register h reg))"
  by (auto simp: registry_inv_def registry_get_register distinct_update)
    (auto simp: register_def distinct_update)

lemma length_update:
  "length (AList.update k v al) = (if k \<in> fst ` set al then length al else Suc (length al))"
  by (induction al) auto

lemma registry_len_register:
  "registry_len (snd (register h reg))
     = (if fst (register h reg) then registry_len reg else Suc (registry_len reg))"
  by (simp add: registry_len_def register_def length_update map_of_eq_None_iff)

end
