(* ===== verification/Instruments.thy ===== *)
theory Instruments
  imports Prelude
begin

text \<open>
  The metric instruments of the program: their names and the struct of handles of
  \<open>crates/application/src/metrics.rs\<close>, and their creation by \<open>create_metrics\<close> in
  \<open>crates/infrastructure/src/observability/metrics.rs\<close>. An instrument is what the meter is
  asked for: its kind, name, description and unit. \<open>declared\<close> says which measurements fit the
  instruments and the labels the struct documents for them.
\<close>

section \<open>Names\<close>

definition TASKS_PENDING :: string where
  "TASKS_PENDING = ''iron_defer_tasks_pending''"

definition TASKS_RUNNING :: string where
  "TASKS_RUNNING = ''iron_defer_tasks_running''"

definition TASK_DURATION_SECONDS :: string where
  "TASK_DURATION_SECONDS = ''iron_defer_task_duration_seconds''"

definition TASK_ATTEMPTS_TOTAL :: string where
  "TASK_ATTEMPTS_TOTAL = ''iron_defer_task_attempts_total''"

definition TASK_FAILURES_TOTAL :: string where
  "TASK_FAILURES_TOTAL = ''iron_defer_task_failures_total''"

definition ZOMBIE_RECOVERIES_TOTAL :: string where
  "ZOMBIE_RECOVERIES_TOTAL = ''iron_defer_zombie_recoveries_total''"

definition SUSPEND_TIMEOUT_TOTAL :: string where
  "SUSPEND_TIMEOUT_TOTAL = ''iron_defer_suspend_timeout_total''"

definition TASKS_SUSPENDED_TOTAL :: string where
  "TASKS_SUSPENDED_TOTAL = ''iron_defer_tasks_suspended_total''"

definition WORKER_POOL_UTILIZATION :: string where
  "WORKER_POOL_UTILIZATION = ''iron_defer_worker_pool_utilization''"

definition CLAIM_BACKOFF_TOTAL :: string where
  "CLAIM_BACKOFF_TOTAL = ''iron_defer_claim_backoff_total''"

definition CLAIM_BACKOFF_SECONDS :: string where
  "CLAIM_BACKOFF_SECONDS = ''iron_defer_claim_backoff_seconds''"

definition IDEMPOTENCY_KEYS_CLEANED_TOTAL :: string where
  "IDEMPOTENCY_KEYS_CLEANED_TOTAL = ''iron_defer_idempotency_keys_cleaned_total''"

definition POOL_CONNECTIONS_ACTIVE :: string where
  "POOL_CONNECTIONS_ACTIVE = ''iron_defer_pool_connections_active''"

definition POOL_CONNECTIONS_IDLE :: string where
  "POOL_CONNECTIONS_IDLE = ''iron_defer_pool_connections_idle''"

definition POOL_CONNECTIONS_TOTAL :: string where
  "POOL_CONNECTIONS_TOTAL = ''iron_defer_pool_connections_total''"

lemmas metric_names = TASKS_PENDING_def TASKS_RUNNING_def TASK_DURATION_SECONDS_def
  TASK_ATTEMPTS_TOTAL_def TASK_FAILURES_TOTAL_def ZOMBIE_RECOVERIES_TOTAL_def
  SUSPEND_TIMEOUT_TOTAL_def TASKS_SUSPENDED_TOTAL_def WORKER_POOL_UTILIZATION_def
  CLAIM_BACKOFF_TOTAL_def CLAIM_BACKOFF_SECONDS_def IDEMPOTENCY_KEYS_CLEANED_TOTAL_def
  POOL_CONNECTIONS_ACTIVE_def POOL_CONNECTIONS_IDLE_def POOL_CONNECTIONS_TOTAL_def

section \<open>Instruments\<close>

datatype instrument_kind = U64Counter | F64Histogram | F64Gauge | U64ObservableGauge

record instrument =
  ins_kind :: instrument_kind
  ins_name :: string
  ins_description :: string
  ins_unit :: "string option"

definition instrument :: "instrument_kind \<Rightarrow> string \<Rightarrow> string \<Rightarrow> string option \<Rightarrow> instrument" where
  "instrument k n d u = \<lparr>ins_kind = k, ins_name = n, ins_description = d, ins_unit = u\<rparr>"

text \<open>The struct \<open>Metrics\<close>: the handles the worker and the sweeper record into.\<close>

record metrics =
  mt_task_duration_seconds :: instrument
  mt_task_attempts_total :: instrument
  mt_task_failures_total :: instrument
  mt_zombie_recoveries_total :: instrument
  mt_suspend_timeout_total :: instrument
  mt_tasks_suspended_total :: instrument
  mt_worker_pool_utilization :: instrument
  mt_claim_backoff_total :: instrument
  mt_claim_backoff_seconds :: instrument
  mt_idempotency_keys_cleaned_total :: instrument

definition create_metrics :: metrics where
  "create_metrics = \<lparr>
     mt_task_duration_seconds = instrument F64Histogram TASK_DURATION_SECONDS
       ''Task execution duration in seconds'' (Some ''s''),
     mt_task_attempts_total = instrument U64Counter TASK_ATTEMPTS_TOTAL
       ''Cumulative task attempt count'' None,
     mt_task_failures_total = instrument U64Counter TASK_FAILURES_TOTAL
       ''Cumulative task failure count'' None,
     mt_zombie_recoveries_total = instrument U64Counter ZOMBIE_RECOVERIES_TOTAL
       ''Tasks recovered by the sweeper'' None,
     mt_suspend_timeout_total = instrument U64Counter SUSPEND_TIMEOUT_TOTAL
       ''Tasks auto-failed by the suspend watchdog due to timeout'' None,
     mt_tasks_suspended_total = instrument U64Counter TASKS_SUSPENDED_TOTAL
       ''Tasks that transitioned to the Suspended state'' None,
     mt_worker_pool_utilization = instrument F64Gauge WORKER_POOL_UTILIZATION
       ''Active/max workers ratio'' None,
     mt_claim_backoff_total = instrument U64Counter CLAIM_BACKOFF_TOTAL
       ''Cumulative claim backoff events'' None,
     mt_claim_backoff_seconds = instrument F64Histogram CLAIM_BACKOFF_SECONDS
       ''Claim backoff duration in seconds'' (Some ''s''),
     mt_idempotency_keys_cleaned_total = instrument U64Counter IDEMPOTENCY_KEYS_CLEANED_TOTAL
       ''Idempotency keys cleaned by the sweeper'' None\<rparr>"

text \<open>The handles with the labels the comments of the struct give them.\<close>

definition handles :: "metrics \<Rightarrow> (instrument \<times> string list) list" where
  "handles m =
     [(mt_task_duration_seconds m, [''queue'', ''kind'', ''status'']),
      (mt_task_attempts_total m, [''queue'', ''kind'']),
      (mt_task_failures_total m, [''queue'', ''kind'']),
      (mt_zombie_recoveries_total m, [''queue'']),
      (mt_suspend_timeout_total m, [''queue'']),
      (mt_tasks_suspended_total m, [''queue'', ''kind'']),
      (mt_worker_pool_utilization m, [''queue'']),
      (mt_claim_backoff_total m, [''queue'', ''saturation'']),
      (mt_claim_backoff_seconds m, [''queue'']),
      (mt_idempotency_keys_cleaned_total m, [])]"

section \<open>Measurements\<close>

text \<open>A counter is added to; a histogram and a gauge record a value.\<close>

datatype amount = Add nat | Record rat

fun takes :: "instrument_kind \<Rightarrow> amount \<Rightarrow> bool" where
  "takes U64Counter (Add _) = True"
| "takes F64Histogram (Record _) = True"
| "takes F64Gauge (Record _) = True"
| "takes _ _ = False"

definition find_handle :: "string \<Rightarrow> (instrument \<times> string list) option" where
  "find_handle name = List.find (\<lambda>(i, _). ins_name i = name) (handles create_metrics)"

definition documented :: "string \<Rightarrow> amount \<Rightarrow> string list \<Rightarrow> bool" where
  "documented name a keys = (case find_handle name of
      None \<Rightarrow> False
    | Some (i, labels) \<Rightarrow> takes (ins_kind i) a \<and> keys = labels)"

text \<open>Two instruments also get a label \<open>region\<close>, which their comments do not name.\<close>

definition regional :: "string list" where
  "regional = [TASK_DURATION_SECONDS, TASK_ATTEMPTS_TOTAL]"

definition declared :: "string \<Rightarrow> amount \<Rightarrow> string list \<Rightarrow> bool" where
  "declared name a keys \<longleftrightarrow> documented name a keys
     \<or> name \<in> set regional \<and> keys \<noteq> [] \<and> last keys = ''region'' \<and> documented name a (butlast keys)"

lemmas handle_defs = find_handle_def handles_def create_metrics_def instrument_def

lemma handle_names_distinct: "distinct (map (ins_name \<circ> fst) (handles create_metrics))"
  by (simp add: handles_def create_metrics_def instrument_def metric_names)

lemma documented_simps [simp]:
  "documented TASK_DURATION_SECONDS (Record r) ks \<longleftrightarrow> ks = [''queue'', ''kind'', ''status'']"
  "documented TASK_ATTEMPTS_TOTAL (Add n) ks \<longleftrightarrow> ks = [''queue'', ''kind'']"
  "documented TASK_FAILURES_TOTAL (Add n) ks \<longleftrightarrow> ks = [''queue'', ''kind'']"
  "documented ZOMBIE_RECOVERIES_TOTAL (Add n) ks \<longleftrightarrow> ks = [''queue'']"
  "documented SUSPEND_TIMEOUT_TOTAL (Add n) ks \<longleftrightarrow> ks = [''queue'']"
  "documented TASKS_SUSPENDED_TOTAL (Add n) ks \<longleftrightarrow> ks = [''queue'', ''kind'']"
  "documented WORKER_POOL_UTILIZATION (Record r) ks \<longleftrightarrow> ks = [''queue'']"
  "documented CLAIM_BACKOFF_TOTAL (Add n) ks \<longleftrightarrow> ks = [''queue'', ''saturation'']"
  "documented CLAIM_BACKOFF_SECONDS (Record r) ks \<longleftrightarrow> ks = [''queue'']"
  "documented IDEMPOTENCY_KEYS_CLEANED_TOTAL (Add n) ks \<longleftrightarrow> ks = []"
  by (simp_all add: documented_def handle_defs metric_names)

lemma declared_documented: "documented name a keys \<Longrightarrow> declared name a keys"
  by (simp add: declared_def)

lemma declared_regional [simp]:
  "declared TASK_DURATION_SECONDS (Record r) [''queue'', ''kind'', ''status'', ''region'']"
  "declared TASK_ATTEMPTS_TOTAL (Add n) [''queue'', ''kind'', ''region'']"
  by (simp_all add: declared_def regional_def)

end
