(* ===== verification/Observe.thy ===== *)
theory Observe
  imports Domain_Model Instruments
begin

text \<open>
  What the services tell the outside: log lines, trace spans with their events, and metrics
  (the logging, tracing and metrics macros of \<open>worker.rs\<close> and \<open>sweeper.rs\<close>, the event of
  \<open>crates/application/src/observability.rs\<close>, measurements of the theory \<open>Instruments\<close>). They are
  values, kept in the order of emission; what a collector does with them is not modelled.
  The renderings that belong to libraries, and the test whether a hexadecimal text is a trace
  id, are the parameters of a record \<open>lib\<close>.
\<close>

record lib =
  lib_sqlx :: "sqlx_error \<Rightarrow> string"
  lib_formats :: formats
  lib_trace_ok :: "string \<Rightarrow> bool"

definition to_text :: "lib \<Rightarrow> message \<Rightarrow> string" where
  "to_text lib m = render (lib_formats lib) m"

definition error_text :: "lib \<Rightarrow> task_error \<Rightarrow> string" where
  "error_text lib e = to_text lib (display_task_error (lib_sqlx lib) e)"

datatype level = LevelInfo | LevelWarn | LevelError

datatype field_value =
    VId uuid
  | VText string
  | VInt int
  | VBool bool
  | VRat rat
  | VJson json
  | VTime time
  | VStatus task_status

type_synonym fields = "(string \<times> field_value) list"

record log_line =
  log_level :: level
  log_event :: "string option"
  log_fields :: fields
  log_text :: string

datatype observation =
    Log log_line
  | Span string string fields
  | SpanEvent string fields
  | Metric string amount fields

definition log_of :: "level \<Rightarrow> string option \<Rightarrow> fields \<Rightarrow> string \<Rightarrow> observation" where
  "log_of lv ev fs text =
     Log \<lparr>log_level = lv, log_event = ev, log_fields = fs, log_text = text\<rparr>"

section \<open>Transitions outside an execution span\<close>

record state_transition_event =
  ste_task_id :: task_id
  ste_from :: task_status
  ste_to :: task_status
  ste_queue :: "queue_name option"
  ste_kind :: "task_kind option"
  ste_trace_id_hex :: "string option"
  ste_worker_id :: "worker_id option"
  ste_attempt :: int

text \<open>The builder sets the three mandatory fields; the others start empty.\<close>

definition transition_event :: "task_id \<Rightarrow> task_status \<Rightarrow> task_status \<Rightarrow> state_transition_event" where
  "transition_event i a b = \<lparr>ste_task_id = i, ste_from = a, ste_to = b, ste_queue = None,
     ste_kind = None, ste_trace_id_hex = None, ste_worker_id = None, ste_attempt = 0\<rparr>"

definition opt_field :: "string \<Rightarrow> field_value option \<Rightarrow> fields" where
  "opt_field name v = (case v of None \<Rightarrow> [] | Some x \<Rightarrow> [(name, x)])"

definition queue_field :: "queue_name option \<Rightarrow> fields" where
  "queue_field q = opt_field ''queue'' (map_option (\<lambda>n. VText (queue_str n)) q)"

definition kind_field :: "task_kind option \<Rightarrow> fields" where
  "kind_field k = opt_field ''kind'' (map_option (\<lambda>n. VText (kind_str n)) k)"

definition emit_transition :: "lib \<Rightarrow> state_transition_event \<Rightarrow> observation list" where
  "emit_transition lib ev = (case ste_trace_id_hex ev of
      None \<Rightarrow> []
    | Some trace_id \<Rightarrow>
        if \<not> lib_trace_ok lib trace_id then []
        else
          [Span ''iron_defer.transition'' trace_id
             ((''task_id'', VId (task_uuid (ste_task_id ev)))
              # queue_field (ste_queue ev) @ kind_field (ste_kind ev)),
           SpanEvent ''task.state_transition''
             ([(''task_id'', VId (task_uuid (ste_task_id ev))),
               (''from_status'', VText (as_str (ste_from ev))),
               (''to_status'', VText (as_str (ste_to ev))),
               (''attempt'', VInt (ste_attempt ev))]
              @ queue_field (ste_queue ev) @ kind_field (ste_kind ev)
              @ opt_field ''worker_id''
                  (map_option (\<lambda>w. VId (worker_uuid w)) (ste_worker_id ev)))])"

section \<open>Reading observations\<close>

text \<open>A log line of one event about one task; a payload in any field; the transitions told.\<close>

definition tells :: "string \<Rightarrow> task_id \<Rightarrow> observation list \<Rightarrow> bool" where
  "tells ev i obs \<longleftrightarrow> list_ex (\<lambda>ob. case ob of
      Log l \<Rightarrow> log_event l = Some ev \<and> (''task_id'', VId (task_uuid i)) \<in> set (log_fields l)
    | _ \<Rightarrow> False) obs"

definition shows_payload :: "fields \<Rightarrow> bool" where
  "shows_payload fs \<longleftrightarrow> list_ex (\<lambda>(n, v). n = ''payload'' \<or> (case v of VJson _ \<Rightarrow> True | _ \<Rightarrow> False)) fs"

definition private_observation :: "observation \<Rightarrow> bool" where
  "private_observation ob = (case ob of
      Log l \<Rightarrow> \<not> shows_payload (log_fields l)
    | Span _ _ fs \<Rightarrow> \<not> shows_payload fs
    | SpanEvent _ fs \<Rightarrow> \<not> shows_payload fs
    | Metric _ _ fs \<Rightarrow> \<not> shows_payload fs)"

lemma tells_simps [simp]:
  "\<not> tells ev i []" "tells ev i (as @ bs) \<longleftrightarrow> tells ev i as \<or> tells ev i bs"
  "tells ev i (log_of lv e fs tx # bs)
     \<longleftrightarrow> e = Some ev \<and> (''task_id'', VId (task_uuid i)) \<in> set fs \<or> tells ev i bs"
  "tells ev i (Log l # bs)
     \<longleftrightarrow> log_event l = Some ev \<and> (''task_id'', VId (task_uuid i)) \<in> set (log_fields l) \<or> tells ev i bs"
  "tells ev i (Span a b fs # bs) \<longleftrightarrow> tells ev i bs"
  "tells ev i (SpanEvent a fs # bs) \<longleftrightarrow> tells ev i bs"
  "tells ev i (Metric n m fs # bs) \<longleftrightarrow> tells ev i bs"
  by (auto simp: tells_def log_of_def)

lemma tells_emit_transition [simp]: "\<not> tells ev i (emit_transition lib st)"
  by (simp add: emit_transition_def split: option.splits)

lemma shows_payload_simps [simp]:
  "\<not> shows_payload []" "shows_payload (as @ bs) \<longleftrightarrow> shows_payload as \<or> shows_payload bs"
  "shows_payload ((n, v) # fs)
     \<longleftrightarrow> n = ''payload'' \<or> (\<exists>j. v = VJson j) \<or> shows_payload fs"
  by (auto simp: shows_payload_def split: field_value.splits)

lemma shows_payload_fields [simp]:
  "\<not> shows_payload (queue_field q)" "\<not> shows_payload (kind_field k)"
  by (simp_all add: queue_field_def kind_field_def opt_field_def split: option.splits)

section \<open>Policies on what is emitted\<close>

text \<open>
  A policy says which observations are allowed. What the services rely on: logs, spans and events
  without a payload are allowed, logs with one where the policy accepts payloads, and measurements
  that fit a declared instrument. The lemmas of the services are proved once for every policy.
\<close>

locale emission_policy =
  fixes allowed :: "observation \<Rightarrow> bool" and payloads :: bool
  assumes log_allowed: "payloads \<or> \<not> shows_payload fs \<Longrightarrow> allowed (log_of lv ev fs tx)"
    and span_allowed: "\<not> shows_payload fs \<Longrightarrow> allowed (Span name trace_id fs)"
    and event_allowed: "\<not> shows_payload fs \<Longrightarrow> allowed (SpanEvent name fs)"
    and metric_allowed: "declared name a (map fst fs) \<Longrightarrow> \<not> shows_payload fs \<Longrightarrow> allowed (Metric name a fs)"
begin

declare log_allowed [simp]

lemma emit_transition_allowed [simp]: "list_all allowed (emit_transition lib st)"
  by (simp add: emit_transition_def opt_field_def span_allowed event_allowed split: option.splits)

lemmas emission_rules = log_allowed span_allowed event_allowed metric_allowed
  declared_documented emit_transition_allowed

end

text \<open>Payloads stay private, and every measurement fits its instrument.\<close>

definition metered :: "observation \<Rightarrow> bool" where
  "metered ob = (case ob of Metric name a fs \<Rightarrow> declared name a (map fst fs) | _ \<Rightarrow> True)"

interpretation discreet: emission_policy private_observation False
  by unfold_locales (simp_all add: private_observation_def log_of_def)

interpretation metered: emission_policy metered True
  by unfold_locales (simp_all add: metered_def log_of_def)

section \<open>Services\<close>

text \<open>The state of a running service: the backend behind its port, and what it has told so far.\<close>

record 's svc =
  sv_repo :: 's
  sv_obs :: "observation list"

text \<open>Errors of the port are values a service reacts to; only a panic ends it.\<close>

type_synonym ('s, 'a) service = "('s svc, message, 'a) act"

definition attempt :: "('s, 'a) op \<Rightarrow> ('s, task_error + 'a) service" where
  "attempt m sv = (case m (sv_repo sv) of
      (Inl (Panic p), s) \<Rightarrow> (Inl p, sv\<lparr>sv_repo := s\<rparr>)
    | (Inl (Error e), s) \<Rightarrow> (Inr (Inl e), sv\<lparr>sv_repo := s\<rparr>)
    | (Inr x, s) \<Rightarrow> (Inr (Inr x), sv\<lparr>sv_repo := s\<rparr>))"

definition observe :: "observation list \<Rightarrow> ('s, unit) service" where
  "observe obs sv = (Inr (), sv\<lparr>sv_obs := sv_obs sv @ obs\<rparr>)"

definition on_backend :: "('s \<Rightarrow> 'a \<times> 's) \<Rightarrow> ('s, 'a) service" where
  "on_backend f sv = (case f (sv_repo sv) of (x, s) \<Rightarrow> (Inr x, sv\<lparr>sv_repo := s\<rparr>))"

lemma observe_apply [effect_simps]: "observe obs sv = (Inr (), sv\<lparr>sv_obs := sv_obs sv @ obs\<rparr>)"
  by (simp add: observe_def)

lemma andthen_observe [simp]: "andthen (observe obs) k sv = k () (sv\<lparr>sv_obs := sv_obs sv @ obs\<rparr>)"
  by (simp add: andthen_def observe_def)

lemma attempt_cases:
  obtains (panic) p s where "m (sv_repo sv) = (Inl (Panic p), s)" "attempt m sv = (Inl p, sv\<lparr>sv_repo := s\<rparr>)"
  | (error) e s where "m (sv_repo sv) = (Inl (Error e), s)" "attempt m sv = (Inr (Inl e), sv\<lparr>sv_repo := s\<rparr>)"
  | (ok) x s where "m (sv_repo sv) = (Inr x, s)" "attempt m sv = (Inr (Inr x), sv\<lparr>sv_repo := s\<rparr>)"
proof -
  obtain r s where r: "m (sv_repo sv) = (r, s)" by fastforce
  show ?thesis
  proof (cases r)
    case (Inl f)
    then show ?thesis using r that by (cases f) (simp_all add: attempt_def)
  next
    case (Inr x)
    then show ?thesis using r that by (simp add: attempt_def)
  qed
qed

end
