(* ===== verification/Dispatch.thy ===== *)
theory Dispatch
  imports Port Registry Observe
begin

text \<open>
  Running one claimed task (\<open>dispatch_task\<close> and its helpers in
  \<open>crates/application/src/services/worker.rs\<close>). The handler is spawned as a task of its own, so
  it ends in a result, a panic or a cancelled join; whatever it and the rest of the system did
  meanwhile is the state transformer of its execution. A panic of the port unwinds the dispatch.
\<close>

record 's dispatch_context =
  dx_repo :: "'s task_repository"
  dx_registry :: "'s task_registry"
  dx_worker_id :: worker_id
  dx_base_delay_secs :: rat
  dx_max_delay_secs :: rat
  dx_log_payload :: bool
  dx_metrics :: bool
  dx_queue_str :: string
  dx_checkpoint_writer :: "'s checkpoint_writer option"

section \<open>Lifecycle logs\<close>

text \<open>The fields the lifecycle logs share, and the payload behind its flag.\<close>

definition correlation :: "task_record \<Rightarrow> worker_id \<Rightarrow> fields" where
  "correlation t w =
     [(''task_id'', VId (task_uuid (rec_id t))), (''queue'', VText (queue_str (rec_queue t))),
      (''worker_id'', VId (worker_uuid w)), (''kind'', VText (kind_str (rec_kind t))),
      (''attempt'', VInt (attempt_get (rec_attempts t)))]"

definition payload_field :: "bool \<Rightarrow> task_record \<Rightarrow> fields" where
  "payload_field log_payload t = (if log_payload then [(''payload'', VJson (rec_payload t))] else [])"

definition max_attempts_field :: "task_record \<Rightarrow> fields" where
  "max_attempts_field t = [(''max_attempts'', VInt (max_get (rec_max_attempts t)))]"

definition emit_task_completed :: "task_record \<Rightarrow> worker_id \<Rightarrow> nat \<Rightarrow> bool \<Rightarrow> observation list" where
  "emit_task_completed t w duration_ms log_payload =
     [log_of LevelInfo (Some ''task_completed'')
       (correlation t w @ opt_field ''region'' (map_option VText (rec_region t))
        @ [(''duration_ms'', VInt (int duration_ms))] @ payload_field log_payload t)
       ''task completed'']"

definition emit_task_suspended :: "task_record \<Rightarrow> worker_id \<Rightarrow> bool \<Rightarrow> observation list" where
  "emit_task_suspended t w log_payload =
     [log_of LevelInfo (Some ''task_suspended'') (correlation t w @ payload_field log_payload t)
       ''task suspended'']"

definition emit_task_failed ::
  "task_record \<Rightarrow> worker_id \<Rightarrow> task_record \<Rightarrow> string \<Rightarrow> bool \<Rightarrow> observation list" where
  "emit_task_failed t w record error_message log_payload = (case rec_status record of
      Pending \<Rightarrow>
        [log_of LevelWarn (Some ''task_failed_retry'')
          (correlation t w @ max_attempts_field t
           @ [(''next_scheduled_at'', VTime (rec_scheduled_at record)), (''error'', VText error_message)]
           @ payload_field log_payload t) ''task failed, will retry'']
    | Failed \<Rightarrow>
        [log_of LevelError (Some ''task_failed_terminal'')
          (correlation t w @ max_attempts_field t @ [(''error'', VText error_message)]
           @ payload_field log_payload t) ''task failed permanently'']
    | other \<Rightarrow>
        [log_of LevelError (Some ''task_fail_unexpected_status'')
          (correlation t w @ max_attempts_field t
           @ [(''status'', VStatus other), (''error'', VText error_message)])
          ''repo.fail returned unexpected status''])"

definition emit_task_fail_storage_error ::
  "task_record \<Rightarrow> worker_id \<Rightarrow> string \<Rightarrow> bool \<Rightarrow> observation list" where
  "emit_task_fail_storage_error t w error_message log_payload =
     [log_of LevelError (Some ''task_fail_storage_error'')
       (correlation t w @ max_attempts_field t @ [(''error'', VText error_message)]
        @ payload_field log_payload t) ''task dispatch aborted by infrastructure error'']"

definition emit_task_fail_panic ::
  "task_record \<Rightarrow> worker_id \<Rightarrow> string \<Rightarrow> bool \<Rightarrow> observation list" where
  "emit_task_fail_panic t w panic_message log_payload =
     [log_of LevelError (Some ''task_fail_panic'')
       (correlation t w @ max_attempts_field t @ [(''error'', VText panic_message)]
        @ payload_field log_payload t) ''handler panicked during execution'']"

text \<open>A payload of a panic that is neither text leaves only the name of its type.\<close>

fun extract_panic_message :: "panic_payload \<Rightarrow> string" where
  "extract_panic_message (PanicStr s) = ''handler panicked: '' @ s"
| "extract_panic_message (PanicString s) = ''handler panicked: '' @ s"
| "extract_panic_message (PanicBoxedString s) = ''handler panicked: '' @ s"
| "extract_panic_message (PanicOther ty) = ''handler panicked (payload type: '' @ ty @ '')''"

section \<open>The span of an execution\<close>

definition otel_active :: "lib \<Rightarrow> task_record \<Rightarrow> bool" where
  "otel_active lib t = (case rec_trace_id t of None \<Rightarrow> False | Some h \<Rightarrow> lib_trace_ok lib h)"

definition transition_in_span ::
  "lib \<Rightarrow> task_record \<Rightarrow> worker_id \<Rightarrow> string \<Rightarrow> string \<Rightarrow> fields \<Rightarrow> observation list" where
  "transition_in_span lib t w a b extra =
     (if otel_active lib t then
        [SpanEvent ''task.state_transition''
          ([(''task_id'', VId (task_uuid (rec_id t))), (''from_status'', VText a), (''to_status'', VText b),
            (''queue'', VText (queue_str (rec_queue t))), (''kind'', VText (kind_str (rec_kind t))),
            (''worker_id'', VId (worker_uuid w)), (''attempt'', VInt (attempt_get (rec_attempts t)))]
           @ extra)]
      else [])"

definition execution_span :: "lib \<Rightarrow> task_record \<Rightarrow> worker_id \<Rightarrow> observation list" where
  "execution_span lib t w = (case rec_trace_id t of
      None \<Rightarrow> []
    | Some trace_id \<Rightarrow> if \<not> lib_trace_ok lib trace_id then [] else
        Span ''iron_defer.execute'' trace_id
          [(''task_id'', VId (task_uuid (rec_id t))), (''queue'', VText (queue_str (rec_queue t))),
           (''kind'', VText (kind_str (rec_kind t))), (''attempt'', VInt (attempt_get (rec_attempts t)))]
        # transition_in_span lib t w ''pending'' ''running'' [])"

text \<open>The status announced before \<open>fail\<close> is called, from the attempts of the claimed record.\<close>

definition announced_status :: "task_record \<Rightarrow> string" where
  "announced_status t =
     (if attempt_get (rec_attempts t) < max_get (rec_max_attempts t) then ''pending'' else ''failed'')"

definition task_context_for :: "'s dispatch_context \<Rightarrow> task_record \<Rightarrow> 's task_context" where
  "task_context_for ctx t =
     with_signal_payload (rec_signal_payload t)
       (let c = context_new (rec_id t) (dx_worker_id ctx) (rec_attempts t) in
        case dx_checkpoint_writer ctx of
          None \<Rightarrow> c
        | Some writer \<Rightarrow> with_checkpoint (rec_checkpoint t) writer c)"

section \<open>Metrics\<close>

definition metric :: "'s dispatch_context \<Rightarrow> string \<Rightarrow> amount \<Rightarrow> fields \<Rightarrow> observation list" where
  "metric ctx name a labels = (if dx_metrics ctx then [Metric name a labels] else [])"

definition queue_kind :: "'s dispatch_context \<Rightarrow> task_record \<Rightarrow> fields" where
  "queue_kind ctx t = [(''queue'', VText (dx_queue_str ctx)), (''kind'', VText (kind_str (rec_kind t)))]"

definition region_label :: "task_record \<Rightarrow> string" where
  "region_label t = (case rec_region t of None \<Rightarrow> ''global'' | Some r \<Rightarrow> r)"

definition duration_metric ::
  "'s dispatch_context \<Rightarrow> task_record \<Rightarrow> duration \<Rightarrow> string \<Rightarrow> observation list" where
  "duration_metric ctx t elapsed status =
     metric ctx TASK_DURATION_SECONDS (Record (as_secs_f64 elapsed))
       (queue_kind ctx t @ [(''status'', VText status)])"

definition failures_metric :: "'s dispatch_context \<Rightarrow> task_record \<Rightarrow> observation list" where
  "failures_metric ctx t = metric ctx TASK_FAILURES_TOTAL (Add 1) (queue_kind ctx t)"

section \<open>Dispatch\<close>

definition error_log :: "task_record \<Rightarrow> string \<Rightarrow> string \<Rightarrow> observation" where
  "error_log t e text = log_of LevelError None
     [(''task_id'', VId (task_uuid (rec_id t))), (''error'', VText e)] text"

text \<open>Every failing path asks the port to record the failure and reacts to its answer.\<close>

definition record_failure ::
  "'s dispatch_context \<Rightarrow> task_record \<Rightarrow> string \<Rightarrow> (task_record \<Rightarrow> observation list)
     \<Rightarrow> (task_error \<Rightarrow> observation list) \<Rightarrow> ('s, unit) service" where
  "record_failure ctx t msg on_ok on_err =
     andthen (attempt (port_fail (dx_repo ctx) (rec_id t) msg (dx_base_delay_secs ctx)
        (dx_max_delay_secs ctx)))
     (\<lambda>r. case r of Inr record \<Rightarrow> observe (on_ok record) | Inl e \<Rightarrow> observe (on_err e))"

definition handle_task_failure ::
  "lib \<Rightarrow> 's dispatch_context \<Rightarrow> task_record \<Rightarrow> task_error \<Rightarrow> duration \<Rightarrow> ('s, unit) service" where
  "handle_task_failure lib ctx t err elapsed =
     (let error_message = error_text lib err; w = dx_worker_id ctx; lp = dx_log_payload ctx in
      record_failure ctx t error_message
        (\<lambda>record. emit_task_failed t w record error_message lp @ failures_metric ctx t
           @ duration_metric ctx t elapsed ''failed'')
        (\<lambda>e. let combined = ''handler error: '' @ error_message @ ''; repo.fail failure: ''
               @ error_text lib e in
           [error_log t (error_text lib e) ''failed to record task failure'']
           @ emit_task_fail_storage_error t w combined lp
           @ duration_metric ctx t elapsed ''storage_error''))"

definition dispatch_missing_handler ::
  "lib \<Rightarrow> 's dispatch_context \<Rightarrow> task_record \<Rightarrow> ('s, unit) service" where
  "dispatch_missing_handler lib ctx t =
     (let kind = kind_str (rec_kind t); w = dx_worker_id ctx; lp = dx_log_payload ctx;
          msg = to_text lib [Lit ''no handler registered for kind: TaskKind('', Dbg kind, Lit '')''];
          err = ExecutionFailed (MissingHandler kind) in
      andthen (observe
        (log_of LevelError None
           [(''task_id'', VId (task_uuid (rec_id t))), (''kind'', VText kind)] msg
         # emit_task_fail_storage_error t w msg lp))
      (\<lambda>_. record_failure ctx t (error_text lib err)
         (\<lambda>record. emit_task_failed t w record (error_text lib err) lp)
         (\<lambda>e. [error_log t (error_text lib e) ''failed to record task failure for missing handler''])))"

definition handler_panicked ::
  "lib \<Rightarrow> 's dispatch_context \<Rightarrow> task_record \<Rightarrow> panic_payload \<Rightarrow> ('s, unit) service" where
  "handler_panicked lib ctx t p =
     (let panic_msg = extract_panic_message p; w = dx_worker_id ctx; lp = dx_log_payload ctx;
          err = ExecutionFailed (HandlerPanicked [Str panic_msg]) in
      andthen (observe
        (transition_in_span lib t w ''running'' (announced_status t) [(''error'', VText ''panic'')]
         @ emit_task_fail_panic t w panic_msg lp))
      (\<lambda>_. record_failure ctx t (error_text lib err)
         (\<lambda>record. emit_task_failed t w record (error_text lib err) lp @ failures_metric ctx t)
         (\<lambda>e. [error_log t (error_text lib e) ''failed to record task panic in repo''])))"

definition join_cancelled ::
  "lib \<Rightarrow> 's dispatch_context \<Rightarrow> task_record \<Rightarrow> string \<Rightarrow> ('s, unit) service" where
  "join_cancelled lib ctx t e = observe
     (transition_in_span lib t (dx_worker_id ctx) ''running'' ''pending'' [(''reason'', VText ''shutdown'')]
      @ [error_log t e ''handler task join error''])"

definition handler_succeeded ::
  "lib \<Rightarrow> 's dispatch_context \<Rightarrow> task_record \<Rightarrow> duration \<Rightarrow> ('s, unit) service" where
  "handler_succeeded lib ctx t elapsed =
     (let w = dx_worker_id ctx; lp = dx_log_payload ctx; ms = as_millis elapsed;
          duration_ms = (if ms \<le> u64_max then ms else u64_max) in
      andthen (attempt (port_complete (dx_repo ctx) (rec_id t)))
      (\<lambda>r. case r of
         Inr _ \<Rightarrow> observe (transition_in_span lib t w ''running'' ''completed'' []
           @ emit_task_completed t w duration_ms lp
           @ metric ctx TASK_DURATION_SECONDS (Record (as_secs_f64 elapsed))
               (queue_kind ctx t @ [(''status'', VText ''completed''), (''region'', VText (region_label t))]))
       | Inl e \<Rightarrow> observe (error_log t (error_text lib e) ''failed to mark task as completed''
           # emit_task_fail_storage_error t w (error_text lib e) lp
           @ duration_metric ctx t elapsed ''storage_error'')))"

definition handler_suspended ::
  "lib \<Rightarrow> 's dispatch_context \<Rightarrow> task_record \<Rightarrow> duration \<Rightarrow> ('s, unit) service" where
  "handler_suspended lib ctx t elapsed =
     (let w = dx_worker_id ctx; lp = dx_log_payload ctx in
      andthen (attempt (port_suspend (dx_repo ctx) (rec_id t)))
      (\<lambda>r. case r of
         Inr _ \<Rightarrow> observe (transition_in_span lib t w ''running'' ''suspended'' []
           @ emit_task_suspended t w lp
           @ metric ctx TASKS_SUSPENDED_TOTAL (Add 1) (queue_kind ctx t)
           @ duration_metric ctx t elapsed ''suspended'')
       | Inl e \<Rightarrow> observe (error_log t (error_text lib e) ''failed to suspend task''
           # emit_task_fail_storage_error t w (error_text lib e) lp)))"

definition handler_failed ::
  "lib \<Rightarrow> 's dispatch_context \<Rightarrow> task_record \<Rightarrow> duration \<Rightarrow> task_error \<Rightarrow> ('s, unit) service" where
  "handler_failed lib ctx t elapsed e =
     andthen (observe (transition_in_span lib t (dx_worker_id ctx) ''running'' (announced_status t)
        [(''error'', VText (error_text lib e))]))
     (\<lambda>_. handle_task_failure lib ctx t e elapsed)"

text \<open>\<open>elapsed\<close> is the reading of the clock when the handler has ended.\<close>

definition handler_ended ::
  "lib \<Rightarrow> 's dispatch_context \<Rightarrow> task_record \<Rightarrow> duration \<Rightarrow> join_outcome \<Rightarrow> ('s, unit) service" where
  "handler_ended lib ctx t elapsed out = (case out of
      Finished (Inr _) \<Rightarrow> handler_succeeded lib ctx t elapsed
    | Finished (Inl SuspendRequested) \<Rightarrow> handler_suspended lib ctx t elapsed
    | Finished (Inl e) \<Rightarrow> handler_failed lib ctx t elapsed e
    | Panicked p \<Rightarrow> handler_panicked lib ctx t p
    | JoinCancelled e \<Rightarrow> join_cancelled lib ctx t e)"

definition dispatch_task ::
  "lib \<Rightarrow> 's dispatch_context \<Rightarrow> duration \<Rightarrow> task_record \<Rightarrow> ('s, unit) service" where
  "dispatch_task lib ctx elapsed t =
     (case registry_get (dx_registry ctx) (kind_str (rec_kind t)) of
        None \<Rightarrow> dispatch_missing_handler lib ctx t
      | Some h \<Rightarrow>
          andthen (observe (execution_span lib t (dx_worker_id ctx))) (\<lambda>_.
          andthen (on_backend (handler_execute h (rec_payload t) (task_context_for ctx t)))
            (handler_ended lib ctx t elapsed)))"

end
