(* ===== verification/Scheduler.thy ===== *)
theory Scheduler
  imports Port
begin

text \<open>
  The scheduler service (\<open>crates/application/src/services/scheduler.rs\<close>): it turns the
  arguments of a submission into a task record and hands it to the port. What a call takes from
  its surroundings is in a record \<open>ambient\<close>: the clock, the id generator, the build mode, the
  serializer, and the operations of the calendar library the code calls.
\<close>

record ambient =
  am_now :: time
  am_fresh_id :: uuid
  am_dbg :: bool
  am_json :: serializer
  am_from_std :: "duration \<Rightarrow> string + time"
  am_checked_add :: "time \<Rightarrow> time \<Rightarrow> time option"
  am_year :: "time \<Rightarrow> int"

definition invalid_payload :: "message \<Rightarrow> failure" where
  "invalid_payload m = Error (InvalidPayload (Validation m))"

definition reject_empty_region :: "string option \<Rightarrow> unit res" where
  "reject_empty_region region =
     (if region = Some [] then Inl (invalid_payload [Lit ''region label must not be empty''])
      else Inr ())"

definition idempotency_expires_at :: "ambient \<Rightarrow> duration \<Rightarrow> time res" where
  "idempotency_expires_at am retention = (case am_from_std am retention of
      Inl e \<Rightarrow> Inl (invalid_payload
        [Lit ''invalid idempotency retention duration: '', Str e])
    | Inr delta \<Rightarrow> (case am_checked_add am (am_now am) delta of
        Some t \<Rightarrow> Inr t
      | None \<Rightarrow> Inl (invalid_payload
          [Lit ''idempotency retention duration causes overflow''])))"

definition parse_max_attempts :: "int option \<Rightarrow> max_attempts res" where
  "parse_max_attempts v = (case v of
      None \<Rightarrow> Inr max_attempts_default
    | Some n \<Rightarrow> map_err (\<lambda>e. invalid_payload
        (Lit ''invalid max_attempts: '' # display_validation_error e)) (max_new n))"

definition parse_kind :: "message \<Rightarrow> string \<Rightarrow> task_kind res" where
  "parse_kind m kind = map_err (\<lambda>_. invalid_payload m) (task_kind_try_from kind)"

text \<open>The builder chain the four submissions share.\<close>

definition new_record ::
  "ambient \<Rightarrow> queue_name \<Rightarrow> task_kind \<Rightarrow> json \<Rightarrow> time option \<Rightarrow> priority \<Rightarrow> max_attempts
     \<Rightarrow> string option \<Rightarrow> (string \<times> time) option \<Rightarrow> string option \<Rightarrow> task_record" where
  "new_record am queue kind payload scheduled_at prio mx trace_id key region =
     \<lparr>rec_id = TaskId (am_fresh_id am), rec_queue = queue, rec_kind = kind, rec_payload = payload,
      rec_status = Pending, rec_priority = prio, rec_attempts = attempt_zero,
      rec_max_attempts = mx, rec_last_error = None,
      rec_scheduled_at = (case scheduled_at of Some t \<Rightarrow> t | None \<Rightarrow> am_now am),
      rec_claimed_by = None, rec_claimed_until = None, rec_created_at = am_now am,
      rec_updated_at = am_now am, rec_idempotency_key = map_option fst key,
      rec_idempotency_expires_at = map_option snd key, rec_trace_id = trace_id,
      rec_checkpoint = None, rec_suspended_at = None, rec_signal_payload = None,
      rec_region = region\<rparr>"

definition prepare_raw ::
  "ambient \<Rightarrow> queue_name \<Rightarrow> string \<Rightarrow> json \<Rightarrow> time option \<Rightarrow> int option \<Rightarrow> int option
     \<Rightarrow> string option \<Rightarrow> string option \<Rightarrow> task_record res" where
  "prepare_raw am queue kind payload scheduled_at prio mx trace_id region =
     and_then (reject_empty_region region) (\<lambda>_.
     and_then (parse_max_attempts mx) (\<lambda>max_attempts.
     and_then (parse_kind [Lit ''task kind must not be empty''] kind) (\<lambda>task_kind.
     let t = new_record am queue task_kind payload scheduled_at
       (case prio of Some p \<Rightarrow> Priority p | None \<Rightarrow> priority_default) max_attempts trace_id None region in
     and_then (validate_invariants (am_dbg am) t) (\<lambda>_. Inr t))))"

definition enqueue_raw ::
  "'s task_repository \<Rightarrow> ambient \<Rightarrow> queue_name \<Rightarrow> string \<Rightarrow> json \<Rightarrow> time option \<Rightarrow> int option
     \<Rightarrow> int option \<Rightarrow> string option \<Rightarrow> string option \<Rightarrow> ('s, task_record) op" where
  "enqueue_raw repo am queue kind payload scheduled_at prio mx trace_id region =
     andthen (lift (prepare_raw am queue kind payload scheduled_at prio mx trace_id region))
       (port_save repo)"

definition enqueue ::
  "'s task_repository \<Rightarrow> ambient \<Rightarrow> queue_name \<Rightarrow> string \<Rightarrow> json \<Rightarrow> time option
     \<Rightarrow> ('s, task_record) op" where
  "enqueue repo am queue kind payload scheduled_at =
     enqueue_raw repo am queue kind payload scheduled_at None None None None"

definition prepare_idempotent ::
  "ambient \<Rightarrow> queue_name \<Rightarrow> string \<Rightarrow> json \<Rightarrow> time option \<Rightarrow> int option \<Rightarrow> int option
     \<Rightarrow> string \<Rightarrow> duration \<Rightarrow> string option \<Rightarrow> string option \<Rightarrow> task_record res" where
  "prepare_idempotent am queue kind payload scheduled_at prio mx key retention trace_id region =
     and_then (reject_empty_region region) (\<lambda>_.
     and_then (idempotency_expires_at am retention) (\<lambda>expires_at.
     and_then (parse_max_attempts mx) (\<lambda>max_attempts.
     and_then (parse_kind [Lit ''task kind must not be empty''] kind) (\<lambda>task_kind.
     let t = new_record am queue task_kind payload scheduled_at
       (case prio of Some p \<Rightarrow> Priority p | None \<Rightarrow> priority_default) max_attempts trace_id
       (Some (key, expires_at)) region in
     and_then (validate_invariants (am_dbg am) t) (\<lambda>_. Inr t)))))"

definition enqueue_raw_idempotent ::
  "'s task_repository \<Rightarrow> ambient \<Rightarrow> queue_name \<Rightarrow> string \<Rightarrow> json \<Rightarrow> time option \<Rightarrow> int option
     \<Rightarrow> int option \<Rightarrow> string \<Rightarrow> duration \<Rightarrow> string option \<Rightarrow> string option
     \<Rightarrow> ('s, task_record \<times> bool) op" where
  "enqueue_raw_idempotent repo am queue kind payload scheduled_at prio mx key retention trace_id
     region =
     andthen (lift (prepare_idempotent am queue kind payload scheduled_at prio mx key retention
       trace_id region)) (port_save_idempotent repo)"

definition enqueue_idempotent ::
  "'s task_repository \<Rightarrow> ambient \<Rightarrow> queue_name \<Rightarrow> string \<Rightarrow> json \<Rightarrow> time option \<Rightarrow> string
     \<Rightarrow> duration \<Rightarrow> string option \<Rightarrow> ('s, task_record \<times> bool) op" where
  "enqueue_idempotent repo am queue kind payload scheduled_at key retention region =
     enqueue_raw_idempotent repo am queue kind payload scheduled_at None None key retention None
       region"

section \<open>Inside a transaction of the caller\<close>

text \<open>The transactional port, over the state of an open transaction.\<close>

record 't tx_repository =
  tx_save :: "task_record \<Rightarrow> ('t, task_record) op"
  tx_save_idempotent :: "task_record \<Rightarrow> ('t, task_record \<times> bool) op"

definition postgres_tx :: "env \<Rightarrow> bool \<Rightarrow> db tx_repository" where
  "postgres_tx e al = \<lparr>tx_save = save_in_tx e al, tx_save_idempotent = save_idempotent_in_tx e al\<rparr>"

definition tx_missing :: failure where
  "tx_missing = Error (Storage (Text [Lit ''transactional repository not configured'']))"

definition kind_message :: "string \<Rightarrow> message" where
  "kind_message kind = [Lit ''Task kind '', Dbg kind, Lit '' must be non-empty'']"

definition enqueue_in_tx ::
  "'t tx_repository option \<Rightarrow> ambient \<Rightarrow> queue_name \<Rightarrow> string \<Rightarrow> json \<Rightarrow> time option
     \<Rightarrow> string option \<Rightarrow> ('t, task_record) op" where
  "enqueue_in_tx tx_repo am queue kind payload scheduled_at region = (case tx_repo of
      None \<Rightarrow> raise tx_missing
    | Some tx \<Rightarrow> andthen (lift (
        and_then (reject_empty_region region) (\<lambda>_.
        and_then (parse_kind (kind_message kind) kind) (\<lambda>task_kind.
        let t = new_record am queue task_kind payload scheduled_at priority_default
          max_attempts_default None None region in
        and_then (validate_invariants (am_dbg am) t) (\<lambda>_. Inr t))))) (tx_save tx))"

definition enqueue_in_tx_idempotent ::
  "'t tx_repository option \<Rightarrow> ambient \<Rightarrow> queue_name \<Rightarrow> string \<Rightarrow> json \<Rightarrow> time option
     \<Rightarrow> string \<Rightarrow> duration \<Rightarrow> string option \<Rightarrow> ('t, task_record \<times> bool) op" where
  "enqueue_in_tx_idempotent tx_repo am queue kind payload scheduled_at key retention region =
     (case tx_repo of
      None \<Rightarrow> raise tx_missing
    | Some tx \<Rightarrow> andthen (lift (
        and_then (reject_empty_region region) (\<lambda>_.
        and_then (idempotency_expires_at am retention) (\<lambda>expires_at.
        and_then (parse_kind (kind_message kind) kind) (\<lambda>task_kind.
        let t = new_record am queue task_kind payload scheduled_at priority_default
          max_attempts_default None (Some (key, expires_at)) region in
        and_then (validate_invariants (am_dbg am) t) (\<lambda>_. Inr t)))))) (tx_save_idempotent tx))"

section \<open>Methods of the port\<close>

text \<open>These pass their arguments on to the port unchanged.\<close>

definition sched_find :: "'s task_repository \<Rightarrow> task_id \<Rightarrow> ('s, task_record option) op" where
  "sched_find repo i = port_find_by_id repo i"

definition sched_cancel :: "'s task_repository \<Rightarrow> task_id \<Rightarrow> ('s, cancel_result) op" where
  "sched_cancel repo i = port_cancel repo i"

definition sched_list :: "'s task_repository \<Rightarrow> queue_name \<Rightarrow> ('s, task_record list) op" where
  "sched_list repo queue = port_list_by_queue repo queue"

definition sched_list_tasks :: "'s task_repository \<Rightarrow> list_tasks_filter \<Rightarrow> ('s, list_tasks_result) op" where
  "sched_list_tasks repo flt = port_list_tasks repo flt"

definition sched_queue_statistics :: "'s task_repository \<Rightarrow> bool \<Rightarrow> ('s, queue_stats list) op" where
  "sched_queue_statistics repo by_region = port_queue_statistics repo by_region"

definition sched_worker_status :: "'s task_repository \<Rightarrow> ('s, worker_status list) op" where
  "sched_worker_status repo = port_worker_status repo"

definition sched_audit_log ::
  "'s task_repository \<Rightarrow> task_id \<Rightarrow> int \<Rightarrow> int \<Rightarrow> ('s, list_audit_log_result) op" where
  "sched_audit_log repo i limit offset = port_audit_log repo i limit offset"

lemmas sched_forwards [simp] = sched_find_def sched_cancel_def sched_list_def sched_list_tasks_def
  sched_queue_statistics_def sched_worker_status_def sched_audit_log_def

definition sched_signal ::
  "'s task_repository \<Rightarrow> ambient \<Rightarrow> task_id \<Rightarrow> json option \<Rightarrow> ('s, task_record) op" where
  "sched_signal repo am task_id payload =
     andthen (lift (case payload of
         None \<Rightarrow> Inr ()
       | Some p \<Rightarrow> (case am_json am p of
           Inl e \<Rightarrow> Inl (Error (InvalidPayload (Serialization
             [Lit ''failed to serialize signal payload: '', Str e])))
         | Inr bytes \<Rightarrow>
             if SIGNAL_PAYLOAD_MAX_BYTES < length bytes then
               Inl (invalid_payload [Lit ''signal payload size '', Num (int (length bytes)),
                 Lit '' exceeds maximum '', Num (int SIGNAL_PAYLOAD_MAX_BYTES), Lit '' bytes''])
             else Inr ())))
     (\<lambda>_. port_signal repo task_id payload)"

section \<open>What is submitted is fresh\<close>

lemma parse_kind_Inr: "parse_kind m k = Inr t \<longleftrightarrow> k \<noteq> [] \<and> t = TaskKind k"
  by (auto simp: parse_kind_def task_kind_try_from_def)

lemma parse_max_attempts_Inr:
  "parse_max_attempts v = Inr m \<longleftrightarrow> (case v of None \<Rightarrow> m = MaxAttempts 3
     | Some n \<Rightarrow> 1 \<le> n \<and> m = MaxAttempts n)"
  by (auto simp: parse_max_attempts_def max_attempts_default_def max_new_def split: option.splits)

lemma new_record_fresh:
  "queue_valid (queue_str queue) \<Longrightarrow> 1 \<le> max_get mx \<Longrightarrow>
     fresh_record (new_record am queue kind p s prio mx tr key g)"
  by (simp add: fresh_record_def new_record_def attempt_zero_def)

lemma prepare_raw_Inr:
  "prepare_raw am queue kind p s prio mx tr region = Inr t \<longleftrightarrow>
     region \<noteq> Some [] \<and> kind \<noteq> [] \<and> (\<forall>n. mx = Some n \<longrightarrow> 1 \<le> n)
     \<and> t = new_record am queue (TaskKind kind) p s
         (case prio of Some q \<Rightarrow> Priority q | None \<Rightarrow> priority_default)
         (MaxAttempts (case mx of Some n \<Rightarrow> n | None \<Rightarrow> 3)) tr None region
     \<and> (am_dbg am \<longrightarrow> record_invariants t)"
  by (auto simp: prepare_raw_def reject_empty_region_def and_then_Inr_iff parse_kind_Inr Let_def
      parse_max_attempts_Inr validate_invariants_Inr split: option.splits if_splits)

lemma prepare_idempotent_Inr:
  "prepare_idempotent am queue kind p s prio mx key ret tr region = Inr t \<longleftrightarrow>
     (\<exists>x. idempotency_expires_at am ret = Inr x \<and> region \<noteq> Some [] \<and> kind \<noteq> []
     \<and> (\<forall>n. mx = Some n \<longrightarrow> 1 \<le> n)
     \<and> t = new_record am queue (TaskKind kind) p s
         (case prio of Some q \<Rightarrow> Priority q | None \<Rightarrow> priority_default)
         (MaxAttempts (case mx of Some n \<Rightarrow> n | None \<Rightarrow> 3)) tr (Some (key, x)) region
     \<and> (am_dbg am \<longrightarrow> record_invariants t))"
  by (auto simp: prepare_idempotent_def reject_empty_region_def and_then_Inr_iff parse_kind_Inr
      Let_def parse_max_attempts_Inr validate_invariants_Inr split: option.splits if_splits)

lemma prepare_raw_fresh:
  "prepare_raw am queue kind p s prio mx tr region = Inr t \<Longrightarrow> queue_valid (queue_str queue) \<Longrightarrow>
     fresh_record t"
  by (auto simp: prepare_raw_Inr split: option.splits intro!: new_record_fresh)

lemma prepare_idempotent_fresh:
  "prepare_idempotent am queue kind p s prio mx key ret tr region = Inr t \<Longrightarrow>
     queue_valid (queue_str queue) \<Longrightarrow> fresh_record t"
  by (auto simp: prepare_idempotent_Inr split: option.splits intro!: new_record_fresh)

lemma lawful_lift: "lawful_op ok status (lift r)"
  by (auto simp: lawful_op_def lift_apply lawful_refl)

lemma lawful_return: "lawful_op ok status (return r)" "lawful_op ok status (raise f)"
  by (auto simp: lawful_op_def effect_simps lawful_refl)

lemma lawful_andthen:
  "lawful_op ok status m \<Longrightarrow> (\<And>x. lawful_op ok status (k x)) \<Longrightarrow> lawful_op ok status (andthen m k)"
  unfolding lawful_op_inside by (rule inside_andthen [OF transp_lawful_rel])

lemma lawful_andthen_lift:
  assumes "\<And>x. r = Inr x \<Longrightarrow> lawful_op ok status (k x)"
  shows "lawful_op ok status (andthen (lift r) k)"
  using assms by (cases r) (auto simp: lawful_op_def andthen_def lift_apply lawful_refl)

context repository begin

lemma enqueue_raw_lawful:
  "queue_valid (queue_str queue) \<Longrightarrow>
     lawful_op ok status (enqueue_raw repo am queue kind p s prio mx tr region)"
  unfolding enqueue_raw_def
  by (intro lawful_andthen_lift save_lawful) (rule prepare_raw_fresh)

lemma enqueue_raw_idempotent_lawful:
  "queue_valid (queue_str queue) \<Longrightarrow>
     lawful_op ok status (enqueue_raw_idempotent repo am queue kind p s prio mx key ret tr region)"
  unfolding enqueue_raw_idempotent_def
  by (intro lawful_andthen_lift save_idempotent_lawful) (rule prepare_idempotent_fresh)

lemma sched_signal_lawful: "lawful_op ok status (sched_signal repo am i p)"
  unfolding sched_signal_def by (intro lawful_andthen_lift signal_lawful)

end

end
