(* ===== verification/Dispatch_Props.thy ===== *)
theory Dispatch_Props
  imports Dispatch Scheduler
begin

text \<open>
  What a dispatch may do: move tasks only along their life cycle, tell no payload unless asked
  to, and tell of a finished task only what the backend holds. The lemmas are proved against the
  laws of the port; the properties are their instances on the Postgres adapter.
\<close>

section \<open>Services over the port\<close>

definition lawful_service ::
  "('s \<Rightarrow> bool) \<Rightarrow> ('s \<Rightarrow> task_id \<Rightarrow> task_status option) \<Rightarrow> ('s, 'a) service \<Rightarrow> bool" where
  "lawful_service ok status m \<longleftrightarrow> inside (lawful_rel ok status sv_repo) m"

text \<open>What a service tells is appended to what was told, and satisfies \<open>P\<close>.\<close>

definition tells_only :: "(observation \<Rightarrow> bool) \<Rightarrow> 's svc \<Rightarrow> 's svc \<Rightarrow> bool" where
  "tells_only P a b \<longleftrightarrow> extends_by P (sv_obs a) (sv_obs b)"

definition emits :: "(observation \<Rightarrow> bool) \<Rightarrow> ('s, 'a) service \<Rightarrow> bool" where
  "emits P m \<longleftrightarrow> inside (tells_only P) m"

lemma transp_tells_only: "transp (tells_only P)"
  unfolding transp_def tells_only_def by (meson extends_by_trans)

named_theorems service_intros \<open>what the building blocks of a service preserve\<close>

lemma lawful_observe [service_intros]: "lawful_service ok status (observe obs)"
  by (auto simp: lawful_service_def inside_def lawful_rel_def observe_def lawful_refl)

lemma lawful_attempt [service_intros]:
  "lawful_op ok status m \<Longrightarrow> lawful_service ok status (attempt m)"
  unfolding lawful_service_def inside_def lawful_rel_def lawful_op_def attempt_def
  by (fastforce split: prod.splits sum.splits failure.splits)

lemma lawful_on_backend:
  "(\<And>s x s'. ok s \<Longrightarrow> f s = (x, s') \<Longrightarrow> lawful ok status s s') \<Longrightarrow>
     lawful_service ok status (on_backend f)"
  by (fastforce simp: lawful_service_def inside_def lawful_rel_def on_backend_def split: prod.splits)

lemma lawful_service_andthen [service_intros]:
  "lawful_service ok status m \<Longrightarrow> (\<And>x. lawful_service ok status (k x)) \<Longrightarrow>
     lawful_service ok status (andthen m k)"
  unfolding lawful_service_def by (rule inside_andthen [OF transp_lawful_rel])

lemma emits_observe [service_intros]: "list_all P obs \<Longrightarrow> emits P (observe obs)"
  by (simp add: emits_def inside_def tells_only_def observe_def)

lemma emits_attempt [service_intros]: "emits P (attempt m)"
  by (auto simp: emits_def inside_def tells_only_def attempt_def
      split: prod.splits sum.splits failure.splits)

lemma emits_on_backend [service_intros]: "emits P (on_backend f)"
  by (auto simp: emits_def inside_def tells_only_def on_backend_def split: prod.splits)

lemma emits_andthen [service_intros]:
  "emits P m \<Longrightarrow> (\<And>x. emits P (k x)) \<Longrightarrow> emits P (andthen m k)"
  unfolding emits_def by (rule inside_andthen [OF transp_tells_only])

lemma lawful_case_sum [service_intros]:
  "(\<And>x. lawful_service ok status (f x)) \<Longrightarrow> (\<And>y. lawful_service ok status (g y)) \<Longrightarrow>
     lawful_service ok status (case r of Inl x \<Rightarrow> f x | Inr y \<Rightarrow> g y)"
  by (cases r) simp_all

lemma emits_case_sum [service_intros]:
  "(\<And>x. emits P (f x)) \<Longrightarrow> (\<And>y. emits P (g y)) \<Longrightarrow>
     emits P (case r of Inl x \<Rightarrow> f x | Inr y \<Rightarrow> g y)"
  by (cases r) simp_all

section \<open>Dispatch moves tasks along their life cycle\<close>

definition handlers_lawful ::
  "('s \<Rightarrow> bool) \<Rightarrow> ('s \<Rightarrow> task_id \<Rightarrow> task_status option) \<Rightarrow> 's task_registry \<Rightarrow> bool" where
  "handlers_lawful ok status reg \<longleftrightarrow> (\<forall>k h p c s out s'. registry_get reg k = Some h \<longrightarrow> ok s \<longrightarrow>
     handler_execute h p c s = (out, s') \<longrightarrow> lawful ok status s s')"

context repository begin

lemma record_failure_lawful:
  "dx_repo ctx = repo \<Longrightarrow> lawful_service ok status (record_failure ctx t msg f g)"
  unfolding record_failure_def by (intro service_intros) (simp add: fail_lawful)

lemma handler_leaf_lawful:
  assumes "dx_repo ctx = repo"
  shows "lawful_service ok status (handler_succeeded lib ctx t elapsed)"
    "lawful_service ok status (handler_suspended lib ctx t elapsed)"
    "lawful_service ok status (handler_failed lib ctx t elapsed e)"
    "lawful_service ok status (handler_panicked lib ctx t p)"
    "lawful_service ok status (join_cancelled lib ctx t m)"
    "lawful_service ok status (dispatch_missing_handler lib ctx t)"
  unfolding handler_succeeded_def handler_suspended_def handler_failed_def
    handle_task_failure_def handler_panicked_def join_cancelled_def dispatch_missing_handler_def
    Let_def
  using assms by (intro service_intros record_failure_lawful; simp add: complete_lawful suspend_lawful)+

lemma handler_ended_lawful:
  "dx_repo ctx = repo \<Longrightarrow> lawful_service ok status (handler_ended lib ctx t elapsed out)"
  unfolding handler_ended_def
  by (simp add: handler_leaf_lawful split: join_outcome.split sum.split unit.split task_error.split)

lemma dispatch_lawful:
  assumes "dx_repo ctx = repo" and "handlers_lawful ok status (dx_registry ctx)"
  shows "lawful_service ok status (dispatch_task lib ctx elapsed t)"
proof (cases "registry_get (dx_registry ctx) (kind_str (rec_kind t))")
  case None
  with assms(1) show ?thesis by (simp add: dispatch_task_def handler_leaf_lawful)
next
  case (Some h)
  have "lawful_service ok status (on_backend (handler_execute h p c))" for p c
    using assms(2) Some by (intro lawful_on_backend) (auto simp: handlers_lawful_def)
  with Some show ?thesis
    unfolding dispatch_task_def option.case Some
    by (intro service_intros handler_ended_lawful [OF assms(1)])
qed

end

section \<open>What a dispatch emits\<close>

lemmas field_defs = correlation_def max_attempts_field_def payload_field_def queue_kind_def
  opt_field_def

context emission_policy begin

lemma emit_allowed:
  assumes "lp \<longrightarrow> payloads"
  shows "list_all allowed (emit_task_completed t w d lp)"
    "list_all allowed (emit_task_suspended t w lp)"
    "list_all allowed (emit_task_failed t w u m lp)"
    "list_all allowed (emit_task_fail_storage_error t w m lp)"
    "list_all allowed (emit_task_fail_panic t w m lp)"
  using assms by (auto simp: emit_task_completed_def emit_task_suspended_def emit_task_failed_def
      emit_task_fail_storage_error_def emit_task_fail_panic_def field_defs log_allowed
      split: task_status.splits option.splits)

lemma span_emits:
  "\<not> shows_payload extra \<Longrightarrow> list_all allowed (transition_in_span lib t w a b extra)"
  "list_all allowed (execution_span lib t w)"
  by (auto simp: execution_span_def transition_in_span_def span_allowed event_allowed split: option.splits)

lemma metric_emits:
  "declared n a (map fst fs) \<Longrightarrow> \<not> shows_payload fs \<Longrightarrow> list_all allowed (metric ctx n a fs)"
  by (simp add: metric_def metric_allowed)

lemma task_metric_emits:
  "list_all allowed (duration_metric ctx t d st)"
  "list_all allowed (failures_metric ctx t)"
  "list_all allowed (metric ctx TASKS_SUSPENDED_TOTAL (Add k) (queue_kind ctx t))"
  "list_all allowed (metric ctx TASK_DURATION_SECONDS (Record r)
     (queue_kind ctx t @ [(''status'', VText st), (''region'', VText g)]))"
  "list_all allowed (metric ctx TASK_ATTEMPTS_TOTAL (Add k)
     (queue_kind ctx t @ [(''region'', VText g)]))"
  by (simp_all add: duration_metric_def failures_metric_def queue_kind_def metric_emits declared_documented)

lemma error_log_emits: "allowed (error_log t e tx)"
  by (simp add: error_log_def log_allowed)

lemmas dispatch_emissions = emit_allowed span_emits task_metric_emits error_log_emits log_allowed

lemma record_failure_emits:
  assumes "\<And>u. list_all allowed (f u)" and "\<And>e. list_all allowed (g e)"
  shows "emits allowed (record_failure ctx t msg f g)"
  unfolding record_failure_def using assms by (intro service_intros)

lemma handler_leaf_emits:
  assumes "dx_log_payload ctx \<longrightarrow> payloads"
  shows "emits allowed (handler_succeeded lib ctx t elapsed)"
    "emits allowed (handler_suspended lib ctx t elapsed)"
    "emits allowed (handler_failed lib ctx t elapsed e)"
    "emits allowed (handler_panicked lib ctx t p)"
    "emits allowed (join_cancelled lib ctx t m)"
    "emits allowed (dispatch_missing_handler lib ctx t)"
  unfolding handler_succeeded_def handler_suspended_def handler_failed_def
    handle_task_failure_def handler_panicked_def join_cancelled_def dispatch_missing_handler_def
    Let_def
  using assms by (intro service_intros record_failure_emits; simp add: dispatch_emissions)+

lemma handler_ended_emits:
  "dx_log_payload ctx \<longrightarrow> payloads \<Longrightarrow> emits allowed (handler_ended lib ctx t elapsed out)"
  unfolding handler_ended_def
  by (simp add: handler_leaf_emits split: join_outcome.split sum.split unit.split task_error.split)

lemma dispatch_emits:
  assumes "dx_log_payload ctx \<longrightarrow> payloads"
  shows "emits allowed (dispatch_task lib ctx elapsed t)"
proof (cases "registry_get (dx_registry ctx) (kind_str (rec_kind t))")
  case None
  with assms show ?thesis by (simp add: dispatch_task_def handler_leaf_emits)
next
  case (Some h)
  show ?thesis unfolding dispatch_task_def option.case Some
    by (intro service_intros handler_ended_emits [OF assms] span_emits)
qed

end

section \<open>What is told of the end of a task is what the backend holds\<close>

definition final_words :: "(string \<times> task_status) list" where
  "final_words = [(''task_completed'', Completed), (''task_suspended'', Suspended),
     (''task_failed_retry'', Pending), (''task_failed_terminal'', Failed)]"

definition truthful :: "('s \<Rightarrow> task_id \<Rightarrow> task_status option) \<Rightarrow> observation list \<Rightarrow> 's \<Rightarrow> bool" where
  "truthful status obs s \<longleftrightarrow>
     (\<forall>i. list_all (\<lambda>(ev, st). tells ev i obs \<longrightarrow> status s i = Some st) final_words)"

definition quiet :: "observation list \<Rightarrow> bool" where
  "quiet obs \<longleftrightarrow> (\<forall>i. list_all (\<lambda>(ev, st). \<not> tells ev i obs) final_words)"

lemma quiet_simps [simp]:
  "quiet []" "quiet (as @ bs) \<longleftrightarrow> quiet as \<and> quiet bs"
  by (auto simp: quiet_def final_words_def)

lemma quiet_blocks [simp]:
  "quiet (error_log t e tx # obs) \<longleftrightarrow> quiet obs"
  "quiet (emit_task_fail_storage_error t w m lp)"
  "quiet (emit_task_fail_panic t w m lp)"
  "quiet (transition_in_span lib t w a b extra)" "quiet (execution_span lib t w)"
  "quiet (metric ctx n am fs)" "quiet (duration_metric ctx t d st)" "quiet (failures_metric ctx t)"
  "quiet (log_of lv None fs tx # obs) \<longleftrightarrow> quiet obs"
  by (auto simp: quiet_def final_words_def error_log_def emit_task_fail_storage_error_def
      emit_task_fail_panic_def transition_in_span_def execution_span_def metric_def
      duration_metric_def failures_metric_def split: option.splits)

lemma quiet_truthful: "quiet obs \<Longrightarrow> truthful status obs s"
  by (simp add: quiet_def truthful_def final_words_def)

lemma truthful_append:
  "quiet as \<Longrightarrow> truthful status (as @ bs) s \<longleftrightarrow> truthful status bs s"
  "quiet bs \<Longrightarrow> truthful status (as @ bs) s \<longleftrightarrow> truthful status as s"
  by (auto simp: quiet_def truthful_def final_words_def)

lemma tells_own_task:
  "tells ev i (emit_task_completed t w d lp) \<longleftrightarrow> ev = ''task_completed'' \<and> i = rec_id t"
  "tells ev i (emit_task_suspended t w lp) \<longleftrightarrow> ev = ''task_suspended'' \<and> i = rec_id t"
  by (cases i; cases "rec_id t"; auto simp: emit_task_completed_def emit_task_suspended_def field_defs
      split: option.splits if_splits)+

lemma tells_failed:
  "tells ev i (emit_task_failed t w u m lp) \<longleftrightarrow> i = rec_id t \<and>
     ev = (case rec_status u of Pending \<Rightarrow> ''task_failed_retry'' | Failed \<Rightarrow> ''task_failed_terminal''
       | _ \<Rightarrow> ''task_fail_unexpected_status'')"
  by (cases i; cases "rec_id t"; cases "rec_status u"; auto simp: emit_task_failed_def field_defs
      split: if_splits)

lemma truthful_completed:
  "status s (rec_id t) = Some Completed \<Longrightarrow> truthful status (emit_task_completed t w d lp) s"
  and truthful_suspended:
  "status s (rec_id t) = Some Suspended \<Longrightarrow> truthful status (emit_task_suspended t w lp) s"
  and truthful_failed:
  "status s (rec_id t) = Some (rec_status u) \<Longrightarrow> truthful status (emit_task_failed t w u m lp) s"
  by (auto simp: truthful_def final_words_def tells_own_task tells_failed split: task_status.splits)

text \<open>A run of a service whose last words are true.\<close>

definition ends_truthfully ::
  "('s \<Rightarrow> task_id \<Rightarrow> task_status option) \<Rightarrow> 's svc \<Rightarrow> ('e + 'a) \<times> 's svc \<Rightarrow> bool" where
  "ends_truthfully status sv out \<longleftrightarrow> (\<exists>new. sv_obs (snd out) = sv_obs sv @ new
     \<and> truthful status new (sv_repo (snd out)))"

lemma ends_after_quiet:
  assumes "ends_truthfully status (sv\<lparr>sv_obs := sv_obs sv @ obs\<rparr>) out" and "quiet obs"
  shows "ends_truthfully status sv out"
proof -
  from assms(1) obtain new where "sv_obs (snd out) = sv_obs sv @ obs @ new"
    "truthful status new (sv_repo (snd out))"
    by (auto simp: ends_truthfully_def)
  with assms(2) show ?thesis
    unfolding ends_truthfully_def by (intro exI [of _ "obs @ new"]) (simp add: truthful_append)
qed

lemma ends_on_backend:
  assumes "\<And>x s. f (sv_repo sv) = (x, s) \<Longrightarrow> ends_truthfully status (sv\<lparr>sv_repo := s\<rparr>) (k x (sv\<lparr>sv_repo := s\<rparr>))"
  shows "ends_truthfully status sv (andthen (on_backend f) k sv)"
proof -
  obtain x s where run: "f (sv_repo sv) = (x, s)" by fastforce
  with assms [OF run] show ?thesis by (simp add: andthen_def on_backend_def ends_truthfully_def)
qed

lemma ends_observe:
  "truthful status obs (sv_repo sv) \<Longrightarrow> ends_truthfully status sv (observe obs sv)"
  by (auto simp: ends_truthfully_def observe_def)

text \<open>Calling the port: a panic says nothing, and the answer decides what is said.\<close>

lemma ends_attempt:
  assumes "\<And>e s. m (sv_repo sv) = (Inl (Error e), s) \<Longrightarrow> truthful status (g e) s"
    and "\<And>x s. m (sv_repo sv) = (Inr x, s) \<Longrightarrow> truthful status (f x) s"
  shows "ends_truthfully status sv
    (andthen (attempt m) (\<lambda>r. case r of Inl e \<Rightarrow> observe (g e) | Inr x \<Rightarrow> observe (f x)) sv)"
proof (cases rule: attempt_cases [of m sv])
  case (panic p s)
  then show ?thesis by (simp add: andthen_def ends_truthfully_def quiet_truthful)
next
  case (error e s)
  with assms(1) [of e s] show ?thesis
    by (simp add: andthen_def ends_truthfully_def observe_def)
next
  case (ok x s)
  with assms(2) [of x s] show ?thesis
    by (simp add: andthen_def ends_truthfully_def observe_def)
qed

context repository begin

lemma record_failure_truthful:
  assumes "dx_repo ctx = repo" and "ok (sv_repo sv)"
    and "\<And>e. quiet (g e)" and "\<And>u. quiet (rest u)"
  shows "ends_truthfully status sv
    (record_failure ctx t msg (\<lambda>u. emit_task_failed t w u m lp @ rest u) g sv)"
  unfolding record_failure_def
  using assms fail_law [OF assms(2)]
  by (intro ends_attempt) (auto intro!: quiet_truthful truthful_failed simp: truthful_append)

lemma record_failure_truthful':
  assumes "dx_repo ctx = repo" and "ok (sv_repo sv)" and "\<And>e. quiet (g e)"
  shows "ends_truthfully status sv
    (record_failure ctx t msg (\<lambda>u. emit_task_failed t w u m lp) g sv)"
  using record_failure_truthful [OF assms, of "\<lambda>_. []"] by simp

lemma handler_leaf_truthful:
  assumes "dx_repo ctx = repo" and "ok (sv_repo sv)"
  shows "ends_truthfully status sv (handler_succeeded lib ctx t elapsed sv)"
    "ends_truthfully status sv (handler_suspended lib ctx t elapsed sv)"
    "ends_truthfully status sv (handler_failed lib ctx t elapsed e sv)"
    "ends_truthfully status sv (handler_panicked lib ctx t p sv)"
    "ends_truthfully status sv (join_cancelled lib ctx t m sv)"
    "ends_truthfully status sv (dispatch_missing_handler lib ctx t sv)"
proof -
  show "ends_truthfully status sv (handler_succeeded lib ctx t elapsed sv)"
    unfolding handler_succeeded_def Let_def using assms complete_law [OF assms(2)]
    by (intro ends_attempt) (auto intro!: quiet_truthful truthful_completed simp: truthful_append)
  show "ends_truthfully status sv (handler_suspended lib ctx t elapsed sv)"
    unfolding handler_suspended_def Let_def using assms suspend_law [OF assms(2)]
    by (intro ends_attempt) (auto intro!: quiet_truthful truthful_suspended simp: truthful_append)
  show "ends_truthfully status sv (handler_failed lib ctx t elapsed e sv)"
    unfolding handler_failed_def handle_task_failure_def Let_def andthen_observe
    by (rule ends_after_quiet, rule record_failure_truthful) (simp_all add: assms)
  show "ends_truthfully status sv (handler_panicked lib ctx t p sv)"
    unfolding handler_panicked_def Let_def andthen_observe
    by (rule ends_after_quiet, rule record_failure_truthful) (simp_all add: assms)
  show "ends_truthfully status sv (join_cancelled lib ctx t m sv)"
    unfolding join_cancelled_def by (intro ends_observe quiet_truthful) simp
  show "ends_truthfully status sv (dispatch_missing_handler lib ctx t sv)"
    unfolding dispatch_missing_handler_def Let_def andthen_observe
    by (rule ends_after_quiet, rule record_failure_truthful') (simp_all add: assms)
qed

lemma handler_ended_truthful:
  "dx_repo ctx = repo \<Longrightarrow> ok (sv_repo sv) \<Longrightarrow>
     ends_truthfully status sv (handler_ended lib ctx t elapsed out sv)"
  unfolding handler_ended_def
  by (simp add: handler_leaf_truthful split: join_outcome.split sum.split unit.split task_error.split)

lemma dispatch_truth:
  assumes "dx_repo ctx = repo" and "handlers_lawful ok status (dx_registry ctx)" and "ok (sv_repo sv)"
  shows "ends_truthfully status sv (dispatch_task lib ctx elapsed t sv)"
proof (cases "registry_get (dx_registry ctx) (kind_str (rec_kind t))")
  case None
  with assms show ?thesis by (simp add: dispatch_task_def handler_leaf_truthful)
next
  case (Some h)
  have "ends_truthfully status (sv\<lparr>sv_obs := obs\<rparr>)
    (andthen (on_backend (handler_execute h p c)) (handler_ended lib ctx t elapsed) (sv\<lparr>sv_obs := obs\<rparr>))"
    for obs p c
  proof (rule ends_on_backend)
    fix out s
    assume "handler_execute h p c (sv_repo (sv\<lparr>sv_obs := obs\<rparr>)) = (out, s)"
    then have "ok s" using assms(2,3) Some by (auto simp: handlers_lawful_def lawful_def)
    then show "ends_truthfully status (sv\<lparr>sv_obs := obs, sv_repo := s\<rparr>)
      (handler_ended lib ctx t elapsed out (sv\<lparr>sv_obs := obs, sv_repo := s\<rparr>))"
      by (intro handler_ended_truthful [OF assms(1)]) simp
  qed
  then show ?thesis
    unfolding dispatch_task_def option.case Some andthen_observe by (rule ends_after_quiet) simp
qed

end

end
