(* ===== verification/Config.thy ===== *)
theory Config
  imports Prelude
begin

text \<open>
  The configuration structs with their defaults and validation
  (\<open>crates/application/src/config.rs\<close>). Loading them from files and the environment is done by
  a library and not modelled.
\<close>

record producer_config =
  pc_allowed_regions :: "string list"

record database_config =
  dc_url :: string
  dc_max_connections :: nat
  dc_unlogged_tables :: bool
  dc_audit_log :: bool
  dc_test_before_acquire :: bool

record worker_config =
  wc_concurrency :: nat
  wc_log_payload :: bool
  wc_lease_duration :: duration
  wc_base_delay :: duration
  wc_max_delay :: duration
  wc_poll_interval :: duration
  wc_sweeper_interval :: duration
  wc_max_claim_backoff :: duration
  wc_shutdown_timeout :: duration
  wc_idempotency_key_retention :: duration
  wc_suspend_timeout :: duration
  wc_region :: "string option"

record server_config =
  sc_bind_address :: string
  sc_port :: nat
  sc_readiness_timeout_secs :: nat

record observability_config =
  oc_otlp_endpoint :: string
  oc_prometheus_path :: string

record app_config =
  ac_database :: database_config
  ac_worker :: worker_config
  ac_server :: server_config
  ac_observability :: observability_config
  ac_producer :: producer_config

definition producer_config_default :: producer_config where
  "producer_config_default = \<lparr>pc_allowed_regions = []\<rparr>"

definition database_config_default :: database_config where
  "database_config_default = \<lparr>dc_url = '''', dc_max_connections = 0, dc_unlogged_tables = False,
     dc_audit_log = False, dc_test_before_acquire = True\<rparr>"

definition worker_config_default :: worker_config where
  "worker_config_default = \<lparr>wc_concurrency = 4, wc_log_payload = False,
     wc_lease_duration = from_secs (5 * 60), wc_base_delay = from_secs 5,
     wc_max_delay = from_secs (30 * 60), wc_poll_interval = from_millis 500,
     wc_sweeper_interval = from_secs 60, wc_max_claim_backoff = from_secs 30,
     wc_shutdown_timeout = from_secs 30, wc_idempotency_key_retention = from_secs (24 * 60 * 60),
     wc_suspend_timeout = from_secs (24 * 60 * 60), wc_region = None\<rparr>"

definition server_config_default :: server_config where
  "server_config_default = \<lparr>sc_bind_address = '''', sc_port = 0, sc_readiness_timeout_secs = 5\<rparr>"

definition database_validate :: "database_config \<Rightarrow> message + unit" where
  "database_validate c =
     (if dc_unlogged_tables c \<and> dc_audit_log c then
        Inl [Lit (''UNLOGGED table mode and audit_log are mutually exclusive '' @
          [CHR 0xE2, CHR 0x80, CHR 0x94] @ '' UNLOGGED tables do not survive Postgres crash recovery ''
          @ [CHR 0xE2, CHR 0x80, CHR 0x94] @ '' and cannot satisfy audit trail requirements.'')]
      else Inr ())"

definition MIN_DURATION :: duration where
  "MIN_DURATION = from_millis 10"

text \<open>The first violation decides.\<close>

fun first_violation :: "(bool \<times> message) list \<Rightarrow> message + unit" where
  "first_violation [] = Inr ()"
| "first_violation ((bad, m) # checks) = (if bad then Inl m else first_violation checks)"

definition too_short :: "string \<Rightarrow> duration \<Rightarrow> message" where
  "too_short name d =
     [Lit name, Lit '' must be >= '', Dur MIN_DURATION, Lit '', got '', Dur d]"

definition worker_validate :: "worker_config \<Rightarrow> message + unit" where
  "worker_validate c = first_violation
     [(wc_concurrency c = 0, [Lit ''concurrency must be >= 1'']),
      (wc_poll_interval c < MIN_DURATION, too_short ''poll_interval'' (wc_poll_interval c)),
      (wc_sweeper_interval c < MIN_DURATION, too_short ''sweeper_interval'' (wc_sweeper_interval c)),
      (wc_lease_duration c < MIN_DURATION, too_short ''lease_duration'' (wc_lease_duration c)),
      (wc_base_delay c = 0, [Lit ''base_delay must be > 0'']),
      (wc_max_delay c = 0, [Lit ''max_delay must be > 0'']),
      (wc_max_delay c < wc_base_delay c,
         [Lit ''max_delay ('', Dur (wc_max_delay c), Lit '') must be >= base_delay ('',
          Dur (wc_base_delay c), Lit '')'']),
      (wc_max_claim_backoff c = 0, [Lit ''max_claim_backoff must be > 0'']),
      (wc_shutdown_timeout c = 0, [Lit ''shutdown_timeout must be > 0'']),
      (wc_idempotency_key_retention c < from_secs 60,
         [Lit ''idempotency_key_retention must be >= 1 minute, got '',
          Dur (wc_idempotency_key_retention c)]),
      (wc_suspend_timeout c < MIN_DURATION, too_short ''suspend_timeout'' (wc_suspend_timeout c))]"

lemma first_violation_Inr: "first_violation checks = Inr u \<longleftrightarrow> (\<forall>(bad, m) \<in> set checks. \<not> bad)"
  by (induction checks) (auto split: if_splits)

definition worker_config_ok :: "worker_config \<Rightarrow> bool" where
  "worker_config_ok c \<longleftrightarrow> 0 < wc_concurrency c \<and> MIN_DURATION \<le> wc_poll_interval c
     \<and> MIN_DURATION \<le> wc_sweeper_interval c \<and> MIN_DURATION \<le> wc_lease_duration c
     \<and> 0 < wc_base_delay c \<and> wc_base_delay c \<le> wc_max_delay c \<and> 0 < wc_max_claim_backoff c
     \<and> 0 < wc_shutdown_timeout c \<and> from_secs 60 \<le> wc_idempotency_key_retention c
     \<and> MIN_DURATION \<le> wc_suspend_timeout c"

lemma worker_validate_Inr: "worker_validate c = Inr () \<longleftrightarrow> worker_config_ok c"
  by (auto simp: worker_validate_def first_violation_Inr worker_config_ok_def not_less)

lemma worker_config_default_ok: "worker_config_ok worker_config_default"
  by (simp add: worker_config_ok_def worker_config_default_def MIN_DURATION_def from_secs_def
      from_millis_def nanos_per_sec_def nanos_per_milli_def)

end
