(* ===== verification/Worker.thy ===== *)
theory Worker
  imports Dispatch_Props Config
begin

text \<open>
  The worker service (\<open>crates/application/src/services/worker.rs\<close>): the poll loop with its
  semaphore, its backoff and its cancellation points, and the drain. The state of a running loop
  is a \<open>pool\<close>; the dispatches it spawned are in \<open>pl_tasks\<close> until they end, and their results
  (a panic or nothing) in \<open>pl_ended\<close> until the join set hands them out. What the
  scheduler of the runtime decides (which branch of a \<open>select!\<close> is taken, what the token says at
  each look, the clock and the random jitter) is the input of an iteration, and the steps of
  everybody else are steps of their own, so the model has every interleaving of whole calls of
  the port.
\<close>

record 's worker_service =
  wk_repo :: "'s task_repository"
  wk_registry :: "'s task_registry"
  wk_config :: worker_config
  wk_queue :: queue_name
  wk_worker_id :: worker_id
  wk_is_saturation :: "task_error \<Rightarrow> bool"
  wk_metrics :: bool
  wk_checkpoint_writer :: "'s checkpoint_writer option"

record 's pool =
  pl_svc :: "'s svc"
  pl_tasks :: "task_record list"
  pl_ended :: "message option list"
  pl_permits :: nat
  pl_active :: "32 word"
  pl_errors :: nat
  pl_backoff :: "nat option"

type_synonym ('s, 'a) pooled = "('s pool, message, 'a) act"

datatype flow = Continue | Break

definition in_svc :: "('s, 'a) service \<Rightarrow> ('s, 'a) pooled" where
  "in_svc m p = (case m (pl_svc p) of (r, sv) \<Rightarrow> (r, p\<lparr>pl_svc := sv\<rparr>))"

definition update :: "('s pool \<Rightarrow> 's pool) \<Rightarrow> ('s, unit) pooled" where
  "update f p = (Inr (), f p)"

definition told :: "observation list \<Rightarrow> 's pool \<Rightarrow> 's pool" where
  "told obs p = p\<lparr>pl_svc := (pl_svc p)\<lparr>sv_obs := sv_obs (pl_svc p) @ obs\<rparr>\<rparr>"

section \<open>Backoff after a failed claim\<close>

definition saturating_pow2 :: "nat \<Rightarrow> nat" where
  "saturating_pow2 n = min (2 ^ n) u32_max"

definition claim_base_delay :: "worker_config \<Rightarrow> nat \<Rightarrow> duration" where
  "claim_base_delay cfg consecutive_errors =
     duration_saturating_mul (wc_poll_interval cfg) (saturating_pow2 (consecutive_errors - 1))"

text \<open>\<open>jitter r\<close> is the random number drawn from \<open>0..=r\<close>.\<close>

definition claim_delay :: "worker_config \<Rightarrow> nat \<Rightarrow> (nat \<Rightarrow> nat) \<Rightarrow> duration" where
  "claim_delay cfg consecutive_errors jitter =
     (let max_claim_backoff = wc_max_claim_backoff cfg;
          capped_base = min (claim_base_delay cfg consecutive_errors) max_claim_backoff;
          jitter_budget = duration_saturating_sub max_claim_backoff capped_base;
          ms = as_millis jitter_budget;
          jitter_range = min (if ms \<le> u64_max then ms else 0) (u64_max - 1);
          jitter_ms = (if 0 < jitter_range then jitter jitter_range else 0)
      in duration_saturating_add capped_base (from_millis jitter_ms))"

text \<open>Instants of the clock are bounded: adding to one may fail.\<close>

definition instant_checked_add :: "nat \<Rightarrow> nat \<Rightarrow> duration \<Rightarrow> nat option" where
  "instant_checked_add instant_max now d = (if now + d \<le> instant_max then Some (now + d) else None)"

definition backoff_deadline :: "nat \<Rightarrow> nat \<Rightarrow> duration \<Rightarrow> duration \<Rightarrow> nat" where
  "backoff_deadline instant_max now delay max_claim_backoff =
     (case instant_checked_add instant_max now delay of
        Some t \<Rightarrow> t
      | None \<Rightarrow> (case instant_checked_add instant_max now max_claim_backoff of
          Some t \<Rightarrow> t | None \<Rightarrow> now))"

section \<open>The counter of active tasks\<close>

text \<open>\<open>ActiveTaskGuard::new\<close> and its \<open>Drop\<close>: the counter wraps, as \<open>fetch_add\<close> does.\<close>

definition record_utilization :: "'s worker_service \<Rightarrow> 32 word \<Rightarrow> observation list" where
  "record_utilization wk counter =
     (if wk_metrics wk then
        [Metric WORKER_POOL_UTILIZATION
          (Record (of_nat (unat counter) / of_nat (max (wc_concurrency (wk_config wk)) 1)))
          [(''queue'', VText (queue_str (wk_queue wk)))]]
      else [])"

definition guard_new :: "'s worker_service \<Rightarrow> 's pool \<Rightarrow> 's pool" where
  "guard_new wk p = (let c = pl_active p + 1 in told (record_utilization wk c) (p\<lparr>pl_active := c\<rparr>))"

definition guard_drop :: "'s worker_service \<Rightarrow> 's pool \<Rightarrow> 's pool" where
  "guard_drop wk p = (let c = pl_active p - 1 in told (record_utilization wk c) (p\<lparr>pl_active := c\<rparr>))"

definition drop_permit :: "'s pool \<Rightarrow> 's pool" where
  "drop_permit p = p\<lparr>pl_permits := pl_permits p + 1\<rparr>"

section \<open>One tick of the poll loop\<close>

record tick_input =
  ti_cancel_in_claim :: bool
  ti_claim_took_effect :: bool
  ti_cancelled_after :: bool
  ti_jitter :: "nat \<Rightarrow> nat"
  ti_now :: nat
  ti_instant_max :: nat

definition claim_call :: "'s worker_service \<Rightarrow> ('s, task_record option) op" where
  "claim_call wk = port_claim_next (wk_repo wk) (wk_queue wk) (wk_worker_id wk)
     (wc_lease_duration (wk_config wk)) (wc_region (wk_config wk))"

definition dispatch_context_of :: "'s worker_service \<Rightarrow> 's dispatch_context" where
  "dispatch_context_of wk = \<lparr>dx_repo = wk_repo wk, dx_registry = wk_registry wk,
     dx_worker_id = wk_worker_id wk, dx_base_delay_secs = as_secs_f64 (wc_base_delay (wk_config wk)),
     dx_max_delay_secs = as_secs_f64 (wc_max_delay (wk_config wk)),
     dx_log_payload = wc_log_payload (wk_config wk), dx_metrics = wk_metrics wk,
     dx_queue_str = queue_str (wk_queue wk), dx_checkpoint_writer = wk_checkpoint_writer wk\<rparr>"

text \<open>The token fires while the claim is under way: its future is dropped, and the database may
  or may not have taken the claim.\<close>

definition claim_dropped :: "'s worker_service \<Rightarrow> bool \<Rightarrow> ('s, flow) pooled" where
  "claim_dropped wk took_effect p =
     (let s = sv_repo (pl_svc p); s' = (if took_effect then snd (claim_call wk s) else s);
          p' = drop_permit (p\<lparr>pl_svc := (pl_svc p)\<lparr>sv_repo := s'\<rparr>\<rparr>) in
      (Inr Break, told [log_of LevelInfo None [] ''cancellation received during claim attempt''] p'))"

definition released_event :: "'s worker_service \<Rightarrow> task_record \<Rightarrow> string \<Rightarrow> state_transition_event" where
  "released_event wk t trace_id = (transition_event (rec_id t) Running Pending)
     \<lparr>ste_queue := Some (rec_queue t), ste_kind := Some (rec_kind t),
      ste_trace_id_hex := Some trace_id, ste_worker_id := Some (wk_worker_id wk),
      ste_attempt := attempt_get (rec_attempts t)\<rparr>"

text \<open>Cancelled between the claim and the spawn: the lease is given back and the loop ends.\<close>

definition release_claimed :: "lib \<Rightarrow> 's worker_service \<Rightarrow> task_record \<Rightarrow> ('s, flow) pooled" where
  "release_claimed lib wk t =
     andthen (in_svc (observe [log_of LevelInfo (Some ''claim_cancelled'')
       [(''task_id'', VId (task_uuid (rec_id t))), (''worker_id'', VId (worker_uuid (wk_worker_id wk)))]
       ''cancellation detected after claim, releasing lease''])) (\<lambda>_.
     andthen (in_svc (attempt (port_release_task (wk_repo wk) (rec_id t)))) (\<lambda>r.
     andthen (update (case r of
         Inr (Some trace_id) \<Rightarrow> told (emit_transition lib (released_event wk t trace_id))
       | _ \<Rightarrow> (\<lambda>p. p))) (\<lambda>_.
     andthen (update drop_permit) (\<lambda>_. return Break))))"

definition emit_task_claimed :: "'s worker_service \<Rightarrow> task_record \<Rightarrow> observation list" where
  "emit_task_claimed wk t =
     [log_of LevelInfo (Some ''task_claimed'')
       ([(''task_id'', VId (task_uuid (rec_id t))), (''queue'', VText (queue_str (wk_queue wk))),
         (''worker_id'', VId (worker_uuid (wk_worker_id wk))), (''kind'', VText (kind_str (rec_kind t))),
         (''attempt'', VInt (attempt_get (rec_attempts t)))]
        @ payload_field (wc_log_payload (wk_config wk)) t) ''task claimed'']"

text \<open>The permit moves into the spawned dispatch.\<close>

definition spawn_dispatch :: "'s worker_service \<Rightarrow> task_record \<Rightarrow> ('s, flow) pooled" where
  "spawn_dispatch wk t =
     andthen (in_svc (observe (emit_task_claimed wk t
        @ metric (dispatch_context_of wk) TASK_ATTEMPTS_TOTAL (Add 1)
            (queue_kind (dispatch_context_of wk) t @ [(''region'', VText (region_label t))])))) (\<lambda>_.
     andthen (update (guard_new wk)) (\<lambda>_.
     andthen (update (\<lambda>p. p\<lparr>pl_tasks := pl_tasks p @ [t]\<rparr>)) (\<lambda>_. return Continue)))"

definition backoff_logs :: "lib \<Rightarrow> 's worker_service \<Rightarrow> task_error \<Rightarrow> nat \<Rightarrow> duration \<Rightarrow> observation list" where
  "backoff_logs lib wk e consecutive_errors delay =
     (let is_sat = wk_is_saturation wk e; ms = as_millis delay;
          delay_ms = (if ms \<le> u64_max then ms else u64_max);
          queue = (''queue'', VText (queue_str (wk_queue wk)));
          fs = [(''worker_id'', VId (worker_uuid (wk_worker_id wk))), queue,
                (''error'', VText (error_text lib e)),
                (''consecutive_errors'', VInt (int consecutive_errors)), (''backoff_ms'', VInt (int delay_ms))]
      in (if is_sat
          then log_of LevelWarn (Some ''pool_saturated'') fs
            (''postgres connection pool saturated '' @ [CHR 0xE2, CHR 0x80, CHR 0x94] @ '' backing off'')
          else log_of LevelWarn (Some ''claim_backoff'') fs
            (''failed to claim task '' @ [CHR 0xE2, CHR 0x80, CHR 0x94] @ '' backing off''))
        # (if wk_metrics wk then
             [Metric CLAIM_BACKOFF_TOTAL (Add 1)
                [queue, (''saturation'', VText (if is_sat then ''true'' else ''false''))],
              Metric CLAIM_BACKOFF_SECONDS (Record (as_secs_f64 delay)) [queue]]
           else []))"

definition back_off :: "lib \<Rightarrow> 's worker_service \<Rightarrow> tick_input \<Rightarrow> task_error \<Rightarrow> ('s, flow) pooled" where
  "back_off lib wk inp e p =
     (let delay = claim_delay (wk_config wk) (pl_errors p) (ti_jitter inp);
          errs = min (pl_errors p + 1) u32_max;
          deadline = backoff_deadline (ti_instant_max inp) (ti_now inp) delay
            (wc_max_claim_backoff (wk_config wk)) in
      (Inr Continue, drop_permit
        ((told (backoff_logs lib wk e errs delay) p)\<lparr>pl_errors := errs, pl_backoff := Some deadline\<rparr>)))"

definition claim_answered ::
  "lib \<Rightarrow> 's worker_service \<Rightarrow> tick_input \<Rightarrow> task_error + task_record option \<Rightarrow> ('s, flow) pooled" where
  "claim_answered lib wk inp r = (case r of
      Inr (Some t) \<Rightarrow>
        andthen (update (\<lambda>p. p\<lparr>pl_errors := 0\<rparr>)) (\<lambda>_.
        if ti_cancelled_after inp then release_claimed lib wk t else spawn_dispatch wk t)
    | Inr None \<Rightarrow>
        andthen (update (\<lambda>p. drop_permit (p\<lparr>pl_errors := 0\<rparr>))) (\<lambda>_. return Continue)
    | Inl e \<Rightarrow> back_off lib wk inp e)"

text \<open>Reap what has ended, take a permit or skip the tick, claim, and react to the answer.\<close>

definition poll_tick :: "lib \<Rightarrow> 's worker_service \<Rightarrow> tick_input \<Rightarrow> ('s, flow) pooled" where
  "poll_tick lib wk inp =
     andthen (update (\<lambda>p. p\<lparr>pl_ended := []\<rparr>)) (\<lambda>_.
     reading (\<lambda>p. if pl_permits p = 0 then return Continue else
       andthen (update (\<lambda>p. p\<lparr>pl_permits := pl_permits p - 1\<rparr>)) (\<lambda>_.
       if ti_cancel_in_claim inp then claim_dropped wk (ti_claim_took_effect inp)
       else andthen (in_svc (attempt (claim_call wk))) (claim_answered lib wk inp))))"

section \<open>The loop\<close>

text \<open>The first \<open>select!\<close>, only there while a deadline is set; reaping one ended dispatch ends
  the wait.\<close>

datatype backoff_end = BackoffCancelled | BackoffReaped | BackoffElapsed

definition backoff_phase :: "backoff_end \<Rightarrow> ('s, flow) pooled" where
  "backoff_phase ev p = (case pl_backoff p of
      None \<Rightarrow> (Inr Continue, p)
    | Some deadline \<Rightarrow>
        (let p = p\<lparr>pl_backoff := None\<rparr> in
         case ev of
           BackoffCancelled \<Rightarrow>
             (Inr Break, told [log_of LevelInfo None [] ''cancellation received during backoff''] p)
         | BackoffReaped \<Rightarrow> (Inr Continue, p\<lparr>pl_ended := tl (pl_ended p)\<rparr>)
         | BackoffElapsed \<Rightarrow> (Inr Continue, p)))"

text \<open>The second \<open>select!\<close>: \<open>None\<close> is the token, \<open>Some\<close> a tick of the interval.\<close>

definition loop_body ::
  "lib \<Rightarrow> 's worker_service \<Rightarrow> backoff_end \<Rightarrow> tick_input option \<Rightarrow> ('s, flow) pooled" where
  "loop_body lib wk ev inp =
     andthen (backoff_phase ev) (\<lambda>fl. case fl of
       Break \<Rightarrow> return Break
     | Continue \<Rightarrow> (case inp of
         None \<Rightarrow> andthen (update (told [log_of LevelInfo None []
             ''cancellation received, returning in-flight handles for drain''])) (\<lambda>_. return Break)
       | Some i \<Rightarrow> poll_tick lib wk i))"

definition pool_new :: "'s worker_service \<Rightarrow> 's svc \<Rightarrow> 's pool" where
  "pool_new wk sv = \<lparr>pl_svc = sv\<lparr>sv_obs := sv_obs sv @ [log_of LevelInfo None
       [(''worker_id'', VId (worker_uuid (wk_worker_id wk))), (''queue'', VText (queue_str (wk_queue wk)))]
       ''worker started'']\<rparr>,
     pl_tasks = [], pl_ended = [], pl_permits = wc_concurrency (wk_config wk), pl_active = 0,
     pl_errors = 0, pl_backoff = None\<rparr>"

text \<open>\<open>run_poll_loop\<close> before its loop: a pool without permits is an error.\<close>

definition poll_loop_start :: "'s worker_service \<Rightarrow> 's svc \<Rightarrow> task_error + 's pool" where
  "poll_loop_start wk sv =
     (if wc_concurrency (wk_config wk) = 0
      then Inl (InvalidPayload (Validation [Lit ''worker concurrency must be >= 1'']))
      else Inr (pool_new wk sv))"

text \<open>The whole loop on the inputs of its iterations, until one of them breaks it.\<close>

fun poll_loop ::
  "lib \<Rightarrow> 's worker_service \<Rightarrow> (backoff_end \<times> tick_input option) list \<Rightarrow> ('s, flow) pooled" where
  "poll_loop lib wk [] = return Continue"
| "poll_loop lib wk ((ev, inp) # rest) =
     andthen (loop_body lib wk ev inp) (\<lambda>fl. case fl of
       Break \<Rightarrow> return Break | Continue \<Rightarrow> poll_loop lib wk rest)"

section \<open>Dispatches that end\<close>

definition remove_nth :: "nat \<Rightarrow> 'a list \<Rightarrow> 'a list" where
  "remove_nth i xs = take i xs @ drop (Suc i) xs"

definition release_slot :: "'s worker_service \<Rightarrow> nat \<Rightarrow> message option \<Rightarrow> 's pool \<Rightarrow> 's pool" where
  "release_slot wk i outcome p = guard_drop wk (drop_permit
     (p\<lparr>pl_tasks := remove_nth i (pl_tasks p), pl_ended := pl_ended p @ [outcome]\<rparr>))"

text \<open>A spawned dispatch runs to its end, returning or panicking; either way its permit and its
  guard are dropped. \<open>task_aborted\<close> is \<open>abort_all\<close> hitting it instead.\<close>

definition task_ended :: "lib \<Rightarrow> 's worker_service \<Rightarrow> nat \<Rightarrow> duration \<Rightarrow> 's pool \<Rightarrow> 's pool" where
  "task_ended lib wk i elapsed p =
     (case in_svc (dispatch_task lib (dispatch_context_of wk) elapsed (pl_tasks p ! i)) p of
        (Inl panic, p') \<Rightarrow> release_slot wk i (Some panic) p'
      | (Inr _, p') \<Rightarrow> release_slot wk i None p')"

definition task_aborted :: "'s worker_service \<Rightarrow> nat \<Rightarrow> 's pool \<Rightarrow> 's pool" where
  "task_aborted wk i p = release_slot wk i None p"

text \<open>\<open>drain_join_set\<close>: every result is taken and a panic is logged; the dispatches still running
  end in the given order. The text of a join error is the library's.\<close>

definition join_error_logs :: "(message \<Rightarrow> string) \<Rightarrow> message option list \<Rightarrow> observation list" where
  "join_error_logs join_error rs = concat (map (\<lambda>r. case r of
      None \<Rightarrow> []
    | Some m \<Rightarrow> [log_of LevelError None [(''error'', VText (join_error m))]
        ''in-flight task panicked during drain'']) rs)"

definition take_results :: "(message \<Rightarrow> string) \<Rightarrow> 's pool \<Rightarrow> 's pool" where
  "take_results join_error p = told (join_error_logs join_error (pl_ended p)) (p\<lparr>pl_ended := []\<rparr>)"

fun drain_join_set ::
  "lib \<Rightarrow> (message \<Rightarrow> string) \<Rightarrow> 's worker_service \<Rightarrow> (nat \<times> duration) list \<Rightarrow> 's pool \<Rightarrow> 's pool" where
  "drain_join_set lib join_error wk [] p =
     told [log_of LevelInfo None [] ''worker pool stopped, all in-flight tasks drained'']
       (take_results join_error p)"
| "drain_join_set lib join_error wk ((i, elapsed) # order) p =
     drain_join_set lib join_error wk order (task_ended lib wk i elapsed (take_results join_error p))"

text \<open>\<open>run\<close>: the loop and then the drain. An error ends it before there is a pool.\<close>

definition worker_run ::
  "lib \<Rightarrow> (message \<Rightarrow> string) \<Rightarrow> 's worker_service \<Rightarrow> (backoff_end \<times> tick_input option) list
     \<Rightarrow> (nat \<times> duration) list \<Rightarrow> 's svc \<Rightarrow> (failure + unit) \<times> 's pool option" where
  "worker_run lib join_error wk inputs order sv = (case poll_loop_start wk sv of
      Inl e \<Rightarrow> (Inl (Error e), None)
    | Inr p \<Rightarrow> (case poll_loop lib wk inputs p of
          (Inl m, q) \<Rightarrow> (Inl (Panic m), Some q)
        | (Inr _, q) \<Rightarrow> (Inr (), Some (drain_join_set lib join_error wk order q))))"

end
