(* ===== verification/Worker_Props.thy ===== *)
theory Worker_Props
  imports Worker
begin

text \<open>
  Invariants of the worker pool: permits, spawned dispatches and the counter agree, the backoff
  stays within its bound, and whatever the loop does is lawful for the backend.
\<close>

section \<open>Steps\<close>

inductive pool_step ::
  "('s \<Rightarrow> 's \<Rightarrow> bool) \<Rightarrow> lib \<Rightarrow> 's worker_service \<Rightarrow> 's pool \<Rightarrow> 's pool \<Rightarrow> bool"
  for others lib wk where
  iterate: "loop_body lib wk ev inp p = (Inr fl, p') \<Longrightarrow> pool_step others lib wk p p'"
| ended: "i < length (pl_tasks p) \<Longrightarrow> pool_step others lib wk p (task_ended lib wk i d p)"
| aborted: "i < length (pl_tasks p) \<Longrightarrow> pool_step others lib wk p (task_aborted wk i p)"
| meanwhile: "others (sv_repo (pl_svc p)) s \<Longrightarrow>
    pool_step others lib wk p (p\<lparr>pl_svc := (pl_svc p)\<lparr>sv_repo := s\<rparr>\<rparr>)"

inductive pool_reaches ::
  "('s \<Rightarrow> 's \<Rightarrow> bool) \<Rightarrow> lib \<Rightarrow> 's worker_service \<Rightarrow> 's pool \<Rightarrow> 's pool \<Rightarrow> bool"
  for others lib wk where
  here: "pool_reaches others lib wk p p"
| step: "pool_reaches others lib wk p q \<Longrightarrow> pool_step others lib wk q r \<Longrightarrow>
    pool_reaches others lib wk p r"

inductive_cases pool_step_cases: "pool_step others lib wk p p'"

lemma pool_reaches_invariant:
  assumes "pool_reaches others lib wk p q" and "P p"
    and "\<And>q r. P q \<Longrightarrow> pool_step others lib wk q r \<Longrightarrow> P r"
  shows "P q"
  using assms(1,2) by (induction rule: pool_reaches.induct) (auto intro: assms(3))

section \<open>Capacity\<close>

definition pool_inv :: "'s worker_service \<Rightarrow> 's pool \<Rightarrow> bool" where
  "pool_inv wk p \<longleftrightarrow> pl_permits p + length (pl_tasks p) = wc_concurrency (wk_config wk)
     \<and> pl_active p = of_nat (length (pl_tasks p))"

lemma told_fields [simp]:
  "pl_tasks (told obs p) = pl_tasks p" "pl_ended (told obs p) = pl_ended p"
  "pl_permits (told obs p) = pl_permits p" "pl_active (told obs p) = pl_active p"
  "pl_errors (told obs p) = pl_errors p" "pl_backoff (told obs p) = pl_backoff p"
  "sv_repo (pl_svc (told obs p)) = sv_repo (pl_svc p)"
  by (simp_all add: told_def)

text \<open>Running a service inside the pool touches nothing else.\<close>

lemma in_svc_fields:
  "in_svc m p = (r, p') \<Longrightarrow> pl_tasks p' = pl_tasks p \<and> pl_ended p' = pl_ended p
     \<and> pl_permits p' = pl_permits p \<and> pl_active p' = pl_active p \<and> pl_errors p' = pl_errors p
     \<and> pl_backoff p' = pl_backoff p"
  by (auto simp: in_svc_def split: prod.splits)

lemma pool_inv_cong:
  "pl_tasks p' = pl_tasks p \<Longrightarrow> pl_permits p' = pl_permits p \<Longrightarrow> pl_active p' = pl_active p \<Longrightarrow>
     pool_inv wk p' = pool_inv wk p"
  by (simp add: pool_inv_def)

text \<open>One permit is in the hands of the tick.\<close>

definition pool_inv_taken :: "'s worker_service \<Rightarrow> 's pool \<Rightarrow> bool" where
  "pool_inv_taken wk p \<longleftrightarrow> pool_inv wk (drop_permit p)"

definition establishes :: "('s pool \<Rightarrow> bool) \<Rightarrow> ('s, 'a) pooled \<Rightarrow> ('s pool \<Rightarrow> bool) \<Rightarrow> bool" where
  "establishes P m Q \<longleftrightarrow> (\<forall>p x p'. P p \<longrightarrow> m p = (Inr x, p') \<longrightarrow> Q p')"

named_theorems pooled_intros \<open>rules for the sequencing of pool actions\<close>

lemma establishes_andthen:
  "establishes P m R \<Longrightarrow> (\<And>x. establishes R (k x) Q) \<Longrightarrow> establishes P (andthen m k) Q"
  unfolding establishes_def by (auto simp: andthen_Inr_iff)

lemma establishes_return: "establishes P (return x) P"
  by (simp add: establishes_def return_def)

lemma establishes_update: "(\<And>p. P p \<Longrightarrow> Q (f p)) \<Longrightarrow> establishes P (update f) Q"
  by (simp add: establishes_def update_def)

lemma establishes_in_svc: "(\<And>p sv. P p \<Longrightarrow> Q (p\<lparr>pl_svc := sv\<rparr>)) \<Longrightarrow> establishes P (in_svc m) Q"
  by (auto simp: establishes_def in_svc_def split: prod.splits)

lemma establishes_reading:
  "(\<And>p. P p \<Longrightarrow> establishes (\<lambda>q. q = p) (k p) Q) \<Longrightarrow> establishes P (reading k) Q"
  by (auto simp: establishes_def reading_def)

lemma pool_inv_simps [simp]:
  "pool_inv wk (told obs p) = pool_inv wk p" "pool_inv_taken wk (told obs p) = pool_inv_taken wk p"
  "pool_inv wk (p\<lparr>pl_svc := sv\<rparr>) = pool_inv wk p"
  "pool_inv_taken wk (p\<lparr>pl_svc := sv\<rparr>) = pool_inv_taken wk p"
  "pool_inv wk (p\<lparr>pl_errors := n\<rparr>) = pool_inv wk p"
  "pool_inv_taken wk (p\<lparr>pl_errors := n\<rparr>) = pool_inv_taken wk p"
  "pool_inv wk (p\<lparr>pl_backoff := b\<rparr>) = pool_inv wk p"
  "pool_inv_taken wk (p\<lparr>pl_backoff := b\<rparr>) = pool_inv_taken wk p"
  "pool_inv wk (p\<lparr>pl_ended := e\<rparr>) = pool_inv wk p"
  "pool_inv wk (drop_permit p) = pool_inv_taken wk p"
  by (simp_all add: pool_inv_def pool_inv_taken_def drop_permit_def)

lemma pool_inv_acquire: "pool_inv wk p \<Longrightarrow> 0 < pl_permits p \<Longrightarrow>
    pool_inv_taken wk (p\<lparr>pl_permits := pl_permits p - 1\<rparr>)"
  by (simp add: pool_inv_def pool_inv_taken_def drop_permit_def)

lemma pool_inv_spawn:
  "pool_inv_taken wk p \<Longrightarrow> pool_inv wk ((guard_new wk p)\<lparr>pl_tasks := pl_tasks (guard_new wk p) @ [t]\<rparr>)"
  by (simp add: pool_inv_def pool_inv_taken_def drop_permit_def guard_new_def Let_def)

lemma length_remove_nth: "i < length xs \<Longrightarrow> length (remove_nth i xs) = length xs - 1"
  by (simp add: remove_nth_def)

lemma pool_inv_release:
  "pool_inv wk p \<Longrightarrow> i < length (pl_tasks p) \<Longrightarrow> pool_inv wk (release_slot wk i out p)"
  by (auto simp: pool_inv_def release_slot_def guard_drop_def drop_permit_def length_remove_nth
      Let_def of_nat_diff)

lemma release_claimed_inv:
  "establishes (pool_inv_taken wk) (release_claimed lib wk t) (pool_inv wk)"
proof -
  let ?T = "pool_inv_taken wk"
  have up: "?T p \<Longrightarrow> ?T ((case r of Inr (Some trace_id) \<Rightarrow>
      told (emit_transition lib (released_event wk t trace_id)) | _ \<Rightarrow> (\<lambda>p. p)) p)"
    for p and r :: "task_error + string option"
    by (simp split: sum.split option.split)
  show ?thesis unfolding release_claimed_def
    by (rule establishes_andthen [where R = ?T], rule establishes_in_svc, simp,
        rule establishes_andthen [where R = ?T], rule establishes_in_svc, simp,
        rule establishes_andthen [where R = ?T], rule establishes_update, erule up,
        rule establishes_andthen [where R = "pool_inv wk"], rule establishes_update, simp,
        rule establishes_return)
qed

lemma spawn_dispatch_inv:
  "establishes (pool_inv_taken wk) (spawn_dispatch wk t) (pool_inv wk)"
  by (auto simp: establishes_def spawn_dispatch_def andthen_def in_svc_def observe_def update_def
      return_def intro!: pool_inv_spawn)

lemma claim_answered_inv:
  "establishes (pool_inv_taken wk) (claim_answered lib wk inp r) (pool_inv wk)"
proof (cases r)
  case (Inl e)
  then show ?thesis
    by (simp add: claim_answered_def establishes_def back_off_def Let_def)
next
  case (Inr o_t)
  show ?thesis
  proof (cases o_t)
    case None
    have "establishes (pool_inv_taken wk) (update (\<lambda>p. drop_permit (p\<lparr>pl_errors := 0\<rparr>))) (pool_inv wk)"
      by (rule establishes_update) simp
    with Inr None show ?thesis
      by (simp add: claim_answered_def) (rule establishes_andthen, assumption, rule establishes_return)
  next
    case (Some t)
    have zero: "establishes (pool_inv_taken wk) (update (\<lambda>p. p\<lparr>pl_errors := 0\<rparr>)) (pool_inv_taken wk)"
      by (rule establishes_update) simp
    show ?thesis unfolding claim_answered_def Inr Some sum.case option.case
      by (rule establishes_andthen [OF zero])
        (simp add: release_claimed_inv spawn_dispatch_inv)
  qed
qed

lemma poll_tick_inv: "establishes (pool_inv wk) (poll_tick lib wk inp) (pool_inv wk)"
proof -
  have claim: "establishes (pool_inv_taken wk) (if ti_cancel_in_claim inp
      then claim_dropped wk (ti_claim_took_effect inp)
      else andthen (in_svc (attempt (claim_call wk))) (claim_answered lib wk inp)) (pool_inv wk)"
  proof (cases "ti_cancel_in_claim inp")
    case True
    then show ?thesis by (simp add: establishes_def claim_dropped_def Let_def)
  next
    case False
    have "establishes (pool_inv_taken wk) (in_svc (attempt (claim_call wk))) (pool_inv_taken wk)"
      by (rule establishes_in_svc) simp
    from establishes_andthen [OF this claim_answered_inv] False show ?thesis by simp
  qed
  have "establishes (pool_inv wk) (reading (\<lambda>p. if pl_permits p = 0 then return Continue else
       andthen (update (\<lambda>p. p\<lparr>pl_permits := pl_permits p - 1\<rparr>)) (\<lambda>_. if ti_cancel_in_claim inp
      then claim_dropped wk (ti_claim_took_effect inp)
      else andthen (in_svc (attempt (claim_call wk))) (claim_answered lib wk inp)))) (pool_inv wk)"
  proof (rule establishes_reading)
    fix p :: "'a pool"
    assume p: "pool_inv wk p"
    have take: "0 < pl_permits p \<Longrightarrow> establishes (\<lambda>q. q = p) (update (\<lambda>p. p\<lparr>pl_permits := pl_permits p - 1\<rparr>)) (pool_inv_taken wk)"
      by (rule establishes_update) (metis pool_inv_acquire p)
    show "establishes (\<lambda>q. q = p) (if pl_permits p = 0 then return Continue else
       andthen (update (\<lambda>p. p\<lparr>pl_permits := pl_permits p - 1\<rparr>)) (\<lambda>_. if ti_cancel_in_claim inp
      then claim_dropped wk (ti_claim_took_effect inp)
      else andthen (in_svc (attempt (claim_call wk))) (claim_answered lib wk inp))) (pool_inv wk)"
    proof (cases "pl_permits p = 0")
      case True
      with p show ?thesis by (simp add: establishes_def return_def)
    next
      case False
      then show ?thesis by (simp only: if_False) (rule establishes_andthen [OF take claim], simp)
    qed
  qed
  then show ?thesis
    unfolding poll_tick_def
    by (intro establishes_andthen [where R = "pool_inv wk"] establishes_update) simp_all
qed

lemma loop_body_inv: "establishes (pool_inv wk) (loop_body lib wk ev inp) (pool_inv wk)"
proof -
  have waiting: "establishes (pool_inv wk) (backoff_phase ev) (pool_inv wk)"
    by (auto simp: establishes_def backoff_phase_def Let_def split: option.splits backoff_end.splits)
  have stop: "establishes (pool_inv wk) (andthen (update (told obs)) (\<lambda>_. return Break)) (pool_inv wk)" for obs
    by (rule establishes_andthen [where R = "pool_inv wk"], rule establishes_update, simp,
        rule establishes_return)
  show ?thesis unfolding loop_body_def
  proof (rule establishes_andthen [OF waiting])
    fix fl
    show "establishes (pool_inv wk) (case fl of Break \<Rightarrow> return Break | Continue \<Rightarrow> (case inp of
        None \<Rightarrow> andthen (update (told [log_of LevelInfo None []
          ''cancellation received, returning in-flight handles for drain''])) (\<lambda>_. return Break)
      | Some i \<Rightarrow> poll_tick lib wk i)) (pool_inv wk)"
      by (cases fl; cases inp) (simp_all add: stop poll_tick_inv establishes_return)
  qed
qed

lemma task_ended_inv:
  "pool_inv wk p \<Longrightarrow> i < length (pl_tasks p) \<Longrightarrow> pool_inv wk (task_ended lib wk i d p)"
  by (auto simp: task_ended_def in_svc_def intro!: pool_inv_release split: prod.splits sum.splits)

lemma pool_step_inv: "pool_inv wk p \<Longrightarrow> pool_step others lib wk p p' \<Longrightarrow> pool_inv wk p'"
  by (erule pool_step_cases)
    (auto simp: task_aborted_def intro: task_ended_inv pool_inv_release
      dest: loop_body_inv [unfolded establishes_def, rule_format])

lemma pool_new_inv: "pool_inv wk (pool_new wk sv)"
  by (simp add: pool_inv_def pool_new_def)

lemma pool_reaches_inv:
  "poll_loop_start wk sv = Inr p \<Longrightarrow> pool_reaches others lib wk p q \<Longrightarrow> pool_inv wk q"
  by (rule pool_reaches_invariant [of others lib wk p q "pool_inv wk"])
    (auto simp: poll_loop_start_def pool_new_inv intro: pool_step_inv split: if_splits)

section \<open>Lawful and private\<close>

definition pool_lawful ::
  "('s \<Rightarrow> bool) \<Rightarrow> ('s \<Rightarrow> task_id \<Rightarrow> task_status option) \<Rightarrow> 's pool \<Rightarrow> 's pool \<Rightarrow> bool" where
  "pool_lawful ok status = lawful_rel ok status (\<lambda>p. sv_repo (pl_svc p))"

definition pool_tells :: "(observation \<Rightarrow> bool) \<Rightarrow> 's pool \<Rightarrow> 's pool \<Rightarrow> bool" where
  "pool_tells P a b \<longleftrightarrow> tells_only P (pl_svc a) (pl_svc b)"

lemma transp_pool_lawful: "transp (pool_lawful ok status)"
  unfolding pool_lawful_def by (rule transp_lawful_rel)

lemma transp_pool_tells: "transp (pool_tells P)"
  using transp_tells_only [of P] unfolding transp_def pool_tells_def by blast

lemma pool_lawful_same: "sv_repo (pl_svc q) = sv_repo (pl_svc p) \<Longrightarrow> pool_lawful ok status p q"
  by (auto simp: pool_lawful_def lawful_rel_def lawful_refl)

lemma pool_lawful_in_svc: "lawful_service ok status m \<Longrightarrow> inside (pool_lawful ok status) (in_svc m)"
  by (auto simp: lawful_service_def inside_def pool_lawful_def lawful_rel_def in_svc_def split: prod.splits)

lemma pool_lawful_update:
  "(\<And>p. sv_repo (pl_svc (f p)) = sv_repo (pl_svc p)) \<Longrightarrow> inside (pool_lawful ok status) (update f)"
  by (auto simp: inside_def update_def intro: pool_lawful_same)

lemma pool_tells_same: "sv_obs (pl_svc q) = sv_obs (pl_svc p) \<Longrightarrow> pool_tells P p q"
  by (simp add: pool_tells_def tells_only_def)

lemma pool_tells_told [simp]: "pool_tells P p (told obs q) \<longleftrightarrow>
    (\<exists>new. sv_obs (pl_svc q) @ obs = sv_obs (pl_svc p) @ new \<and> list_all P new)"
  by (simp add: pool_tells_def tells_only_def told_def extends_by_def)

lemma pool_tells_in_svc: "emits P m \<Longrightarrow> inside (pool_tells P) (in_svc m)"
  by (auto simp: emits_def inside_def pool_tells_def in_svc_def split: prod.splits)

lemma pool_tells_update:
  "(\<And>p. pool_tells P p (f p)) \<Longrightarrow> inside (pool_tells P) (update f)"
  by (auto simp: inside_def update_def)

lemmas andthen_lawful = inside_andthen [OF transp_pool_lawful]
  and andthen_tells = inside_andthen [OF transp_pool_tells]

lemma return_lawful: "inside (pool_lawful ok status) (return x)"
  by (auto simp: inside_def return_def intro: pool_lawful_same)

lemma return_tells: "inside (pool_tells P) (return x)"
  by (auto simp: inside_def return_def intro: pool_tells_same)

lemma guard_repo [simp]:
  "sv_repo (pl_svc (guard_new wk p)) = sv_repo (pl_svc p)"
  "sv_repo (pl_svc (guard_drop wk p)) = sv_repo (pl_svc p)"
  "sv_repo (pl_svc (drop_permit p)) = sv_repo (pl_svc p)"
  "sv_obs (pl_svc (drop_permit p)) = sv_obs (pl_svc p)"
  by (simp_all add: guard_new_def guard_drop_def drop_permit_def Let_def)

lemma release_slot_repo [simp]: "sv_repo (pl_svc (release_slot wk i out p)) = sv_repo (pl_svc p)"
  by (simp add: release_slot_def)

context repository begin

lemma release_claimed_lawful:
  "wk_repo wk = repo \<Longrightarrow> inside (pool_lawful ok status) (release_claimed lib wk t)"
  unfolding release_claimed_def
  by (intro andthen_lawful return_lawful pool_lawful_update pool_lawful_in_svc service_intros)
    (simp_all add: release_task_lawful split: sum.split option.split)

lemma spawn_dispatch_lawful: "inside (pool_lawful ok status) (spawn_dispatch wk t)"
  unfolding spawn_dispatch_def
  by (intro andthen_lawful return_lawful pool_lawful_update pool_lawful_in_svc service_intros) simp_all

lemma back_off_lawful: "inside (pool_lawful ok status) (back_off lib wk inp e)"
  by (auto simp: inside_def back_off_def Let_def intro: pool_lawful_same)

lemma claim_dropped_lawful:
  assumes "wk_repo wk = repo"
  shows "inside (pool_lawful ok status) (claim_dropped wk te)"
proof (rule insideI)
  fix p r p'
  assume run: "claim_dropped wk te p = (r, p')"
  have "ok (sv_repo (pl_svc p)) \<Longrightarrow> lawful ok status (sv_repo (pl_svc p)) (snd (claim_call wk (sv_repo (pl_svc p))))"
    using assms claim_lawful lawful_opD by (metis claim_call_def prod.collapse)
  with run show "pool_lawful ok status p p'"
    by (auto simp: claim_dropped_def Let_def pool_lawful_def lawful_rel_def lawful_refl)
qed

lemma claim_answered_lawful:
  "wk_repo wk = repo \<Longrightarrow> inside (pool_lawful ok status) (claim_answered lib wk inp r)"
  unfolding claim_answered_def
  by (intro inside_intros andthen_lawful return_lawful pool_lawful_update back_off_lawful
      release_claimed_lawful spawn_dispatch_lawful) simp_all

lemma poll_tick_lawful:
  "wk_repo wk = repo \<Longrightarrow> inside (pool_lawful ok status) (poll_tick lib wk inp)"
  unfolding poll_tick_def
  by (intro inside_intros andthen_lawful return_lawful pool_lawful_update pool_lawful_in_svc
      claim_dropped_lawful claim_answered_lawful service_intros)
    (simp_all add: claim_call_def claim_lawful)

lemma loop_body_lawful:
  assumes "wk_repo wk = repo"
  shows "inside (pool_lawful ok status) (loop_body lib wk ev inp)"
proof -
  have wait: "inside (pool_lawful ok status) (backoff_phase ev)"
    by (auto simp: inside_def backoff_phase_def Let_def intro!: pool_lawful_same
        split: option.splits backoff_end.splits)
  have stop: "inside (pool_lawful ok status) (andthen (update (told obs)) (\<lambda>_. return Break))" for obs
    by (intro andthen_lawful return_lawful pool_lawful_update) simp
  show ?thesis unfolding loop_body_def
  proof (rule andthen_lawful [OF wait])
    fix fl
    show "inside (pool_lawful ok status) (case fl of Break \<Rightarrow> return Break | Continue \<Rightarrow> (case inp of
        None \<Rightarrow> andthen (update (told [log_of LevelInfo None []
          ''cancellation received, returning in-flight handles for drain''])) (\<lambda>_. return Break)
      | Some i \<Rightarrow> poll_tick lib wk i))"
      by (cases fl; cases inp) (simp_all add: stop poll_tick_lawful [OF assms] return_lawful)
  qed
qed

lemma task_ended_lawful:
  assumes "wk_repo wk = repo" and "handlers_lawful ok status (wk_registry wk)"
  shows "pool_lawful ok status p (task_ended lib wk i d p)"
proof -
  have "lawful_service ok status (dispatch_task lib (dispatch_context_of wk) d (pl_tasks p ! i))"
    using assms by (intro dispatch_lawful) (simp_all add: dispatch_context_of_def)
  from pool_lawful_in_svc [OF this] show ?thesis
    by (auto simp: task_ended_def pool_lawful_def lawful_rel_def dest!: insideD
        split: prod.splits sum.splits)
qed

text \<open>Every step of the pool, with lawful others, is lawful.\<close>

lemma pool_step_lawful:
  assumes "wk_repo wk = repo" and "handlers_lawful ok status (wk_registry wk)"
    and "pool_step (lawful ok status) lib wk p q"
  shows "pool_lawful ok status p q"
  using assms(3)
proof (cases rule: pool_step.cases)
  case (iterate ev inp fl)
  then show ?thesis by (rule insideD [OF loop_body_lawful [OF assms(1)]])
next
  case (ended i d)
  with task_ended_lawful [OF assms(1,2)] show ?thesis by simp
qed (auto simp: task_aborted_def pool_lawful_def lawful_rel_def lawful_refl)

lemma pool_reaches_lawful:
  assumes "wk_repo wk = repo" and "handlers_lawful ok status (wk_registry wk)"
    and "pool_reaches (lawful ok status) lib wk p q" and "ok (sv_repo (pl_svc p))"
  shows "lawful ok status (sv_repo (pl_svc p)) (sv_repo (pl_svc q))"
proof -
  have "pool_lawful ok status p q"
  proof (rule pool_reaches_invariant [OF assms(3), where P = "pool_lawful ok status p"])
    show "pool_lawful ok status p p" by (rule pool_lawful_same) simp
    fix q r
    assume "pool_lawful ok status p q" and "pool_step (lawful ok status) lib wk q r"
    with pool_step_lawful [OF assms(1,2)] show "pool_lawful ok status p r"
      using transp_pool_lawful by (meson transpD)
  qed
  with assms(4) show ?thesis by (simp add: pool_lawful_def lawful_rel_def)
qed

end

section \<open>What the pool emits\<close>

context emission_policy begin

lemma guard_tells:
  "pool_tells allowed p (guard_new wk p)" "pool_tells allowed p (guard_drop wk p)"
  by (auto simp: guard_new_def guard_drop_def Let_def record_utilization_def metric_allowed declared_documented)

lemma backoff_logs_emits: "list_all allowed (backoff_logs lib wk e n d)"
  by (simp add: backoff_logs_def Let_def emission_rules)

lemma release_claimed_emits: "inside (pool_tells allowed) (release_claimed lib wk t)"
  unfolding release_claimed_def
  by (intro andthen_tells return_tells pool_tells_update pool_tells_in_svc service_intros)
    (auto split: sum.split option.split intro: pool_tells_same)

lemma spawn_dispatch_emits:
  assumes "wc_log_payload (wk_config wk) \<longrightarrow> payloads"
  shows "inside (pool_tells allowed) (spawn_dispatch wk t)"
  unfolding spawn_dispatch_def
  using assms by (intro andthen_tells return_tells pool_tells_update pool_tells_in_svc service_intros)
    (auto simp: emit_task_claimed_def payload_field_def task_metric_emits log_allowed guard_tells
      intro: pool_tells_same)

lemma back_off_emits: "inside (pool_tells allowed) (back_off lib wk inp e)"
proof (rule insideI)
  fix p r p'
  assume "back_off lib wk inp e p = (r, p')"
  then show "pool_tells allowed p p'"
    using backoff_logs_emits
    by (auto simp: back_off_def Let_def pool_tells_def tells_only_def told_def drop_permit_def)
qed

lemma claim_dropped_emits: "inside (pool_tells allowed) (claim_dropped wk te)"
  by (auto simp: inside_def claim_dropped_def Let_def)

lemma claim_answered_emits:
  "wc_log_payload (wk_config wk) \<longrightarrow> payloads \<Longrightarrow>
     inside (pool_tells allowed) (claim_answered lib wk inp r)"
  unfolding claim_answered_def
  by (intro inside_intros andthen_tells return_tells pool_tells_update back_off_emits
      release_claimed_emits spawn_dispatch_emits) (auto intro: pool_tells_same)

lemma poll_tick_emits:
  "wc_log_payload (wk_config wk) \<longrightarrow> payloads \<Longrightarrow> inside (pool_tells allowed) (poll_tick lib wk inp)"
  unfolding poll_tick_def
  by (intro inside_intros andthen_tells return_tells pool_tells_update pool_tells_in_svc
      claim_dropped_emits claim_answered_emits service_intros) (auto intro: pool_tells_same)

lemma loop_body_emits:
  assumes "wc_log_payload (wk_config wk) \<longrightarrow> payloads"
  shows "inside (pool_tells allowed) (loop_body lib wk ev inp)"
proof -
  have wait: "inside (pool_tells allowed) (backoff_phase ev)"
    by (auto simp: inside_def backoff_phase_def Let_def intro!: pool_tells_same
        split: option.splits backoff_end.splits)
  have stop: "inside (pool_tells allowed)
      (andthen (update (told [log_of LevelInfo None [] x])) (\<lambda>_. return Break))" for x
    by (intro andthen_tells return_tells pool_tells_update) simp
  show ?thesis unfolding loop_body_def
  proof (rule andthen_tells [OF wait])
    fix fl
    show "inside (pool_tells allowed) (case fl of Break \<Rightarrow> return Break | Continue \<Rightarrow> (case inp of
        None \<Rightarrow> andthen (update (told [log_of LevelInfo None []
          ''cancellation received, returning in-flight handles for drain''])) (\<lambda>_. return Break)
      | Some i \<Rightarrow> poll_tick lib wk i))"
      by (cases fl; cases inp) (simp_all add: stop poll_tick_emits [OF assms] return_tells)
  qed
qed

lemma release_slot_emits: "pool_tells allowed p (release_slot wk i out p)"
proof -
  let ?q = "drop_permit (p\<lparr>pl_tasks := remove_nth i (pl_tasks p), pl_ended := pl_ended p @ [out]\<rparr>)"
  have "pool_tells allowed p ?q" by (rule pool_tells_same) simp
  moreover have "pool_tells allowed ?q (guard_drop wk ?q)" by (rule guard_tells)
  ultimately show ?thesis
    unfolding release_slot_def using transp_pool_tells by (meson transpD)
qed

lemma task_ended_emits:
  assumes "wc_log_payload (wk_config wk) \<longrightarrow> payloads"
  shows "pool_tells allowed p (task_ended lib wk i d p)"
proof -
  have "emits allowed (dispatch_task lib (dispatch_context_of wk) d (pl_tasks p ! i))"
    using assms by (intro dispatch_emits) (simp add: dispatch_context_of_def)
  note step = insideD [OF pool_tells_in_svc [OF this]]
  obtain r q where run: "in_svc (dispatch_task lib (dispatch_context_of wk) d (pl_tasks p ! i)) p = (r, q)"
    by fastforce
  then have "task_ended lib wk i d p = release_slot wk i (case r of Inl m \<Rightarrow> Some m | Inr _ \<Rightarrow> None) q"
    by (simp add: task_ended_def split: sum.splits)
  with step [OF run] release_slot_emits show ?thesis
    using transp_pool_tells by (metis transpD)
qed

lemma pool_step_emits:
  assumes "wc_log_payload (wk_config wk) \<longrightarrow> payloads" and "pool_step others lib wk p q"
  shows "pool_tells allowed p q"
  using assms(2)
proof (cases rule: pool_step.cases)
  case (iterate ev inp fl)
  then show ?thesis by (rule insideD [OF loop_body_emits [OF assms(1)]])
next
  case (ended i d)
  with task_ended_emits [OF assms(1)] show ?thesis by simp
next
  case (aborted i)
  with release_slot_emits show ?thesis by (simp add: task_aborted_def)
qed (auto intro: pool_tells_same)

lemma pool_reaches_emits:
  assumes "wc_log_payload (wk_config wk) \<longrightarrow> payloads" and "pool_reaches others lib wk p q"
  shows "pool_tells allowed p q"
proof (rule pool_reaches_invariant [OF assms(2), where P = "pool_tells allowed p"])
  show "pool_tells allowed p p" by (rule pool_tells_same) simp
  fix q r
  assume "pool_tells allowed p q" and "pool_step others lib wk q r"
  with pool_step_emits [OF assms(1)] show "pool_tells allowed p r"
    using transp_pool_tells by (meson transpD)
qed

end

section \<open>The backoff\<close>

lemma saturating_pow2_pos: "1 \<le> saturating_pow2 n"
  by (simp add: saturating_pow2_def u32_max_def)

lemma from_millis_as_millis: "from_millis (as_millis d) \<le> d"
  by (simp add: from_millis_def as_millis_def nanos_per_milli_def)

lemma claim_delay_bounds:
  assumes "\<And>r. jitter r \<le> r" and "wc_max_claim_backoff cfg \<le> duration_max"
  shows "min (wc_poll_interval cfg) (wc_max_claim_backoff cfg) \<le> claim_delay cfg n jitter"
    and "claim_delay cfg n jitter \<le> wc_max_claim_backoff cfg"
proof -
  let ?m = "wc_max_claim_backoff cfg"
  define capped where "capped = min (claim_base_delay cfg n) ?m"
  define range where "range = min (if as_millis (?m - capped) \<le> u64_max then as_millis (?m - capped) else 0)
    (u64_max - 1)"
  define j where "j = (if 0 < range then jitter range else 0)"
  have delay: "claim_delay cfg n jitter = min (capped + from_millis j) duration_max"
    by (simp add: claim_delay_def Let_def capped_def range_def j_def duration_saturating_sub_def
        duration_saturating_add_def)
  have "range \<le> as_millis (?m - capped)" by (simp add: range_def)
  moreover have "j \<le> range" using assms(1) by (simp add: j_def)
  ultimately have "from_millis j \<le> from_millis (as_millis (?m - capped))"
    by (simp add: from_millis_def)
  also have "\<dots> \<le> ?m - capped" by (rule from_millis_as_millis)
  finally have j: "from_millis j \<le> ?m - capped" .
  have cap: "capped \<le> ?m" by (simp add: capped_def)
  from j cap show "claim_delay cfg n jitter \<le> ?m" unfolding delay by linarith
  define k where "k = wc_poll_interval cfg * saturating_pow2 (n - 1)"
  have k: "wc_poll_interval cfg \<le> k"
    unfolding k_def by (rule le_trans [OF _ mult_le_mono2 [OF saturating_pow2_pos]]) simp
  have "capped = min (min k duration_max) ?m"
    by (simp add: capped_def claim_base_delay_def duration_saturating_mul_def k_def)
  with k assms(2) have "min (wc_poll_interval cfg) ?m \<le> capped" by linarith
  moreover have "capped \<le> duration_max" using cap assms(2) by linarith
  ultimately show "min (wc_poll_interval cfg) ?m \<le> claim_delay cfg n jitter"
    unfolding delay by linarith
qed

lemma backoff_deadline_bounds:
  "delay \<le> m \<Longrightarrow> now \<le> backoff_deadline imax now delay m \<and> backoff_deadline imax now delay m \<le> now + m"
  by (auto simp: backoff_deadline_def instant_checked_add_def split: option.splits)

section \<open>Claims and cancellation\<close>

lemma drop_acquire: "0 < pl_permits p \<Longrightarrow> drop_permit (q\<lparr>pl_permits := pl_permits p - 1\<rparr>) = q\<lparr>pl_permits := pl_permits p\<rparr>"
  by (simp add: drop_permit_def)

lemma release_claimed_fields:
  "release_claimed lib wk t p = (Inr fl, p') \<Longrightarrow>
     fl = Break \<and> pl_tasks p' = pl_tasks p \<and> pl_permits p' = Suc (pl_permits p)
     \<and> (\<exists>r. port_release_task (wk_repo wk) (rec_id t) (sv_repo (pl_svc p)) = (r, sv_repo (pl_svc p')))"
  by (auto simp: release_claimed_def andthen_def in_svc_def observe_def update_def return_def
      attempt_def drop_permit_def split: prod.splits sum.splits option.splits failure.splits)

lemma spawn_dispatch_fields:
  "spawn_dispatch wk t p = (Inr fl, p') \<Longrightarrow>
     fl = Continue \<and> pl_tasks p' = pl_tasks p @ [t] \<and> pl_permits p' = pl_permits p
     \<and> sv_repo (pl_svc p') = sv_repo (pl_svc p)"
  by (auto simp: spawn_dispatch_def andthen_def in_svc_def observe_def update_def return_def
      guard_new_def Let_def)

lemma claim_answered_tasks:
  assumes "claim_answered lib wk inp r p = (Inr fl, p')" and "pl_tasks p' \<noteq> pl_tasks p"
  obtains t where "r = Inr (Some t)" "pl_tasks p' = pl_tasks p @ [t]" "fl = Continue"
    "\<not> ti_cancelled_after inp" "sv_repo (pl_svc p') = sv_repo (pl_svc p)"
proof (cases r)
  case (Inl e)
  with assms show ?thesis by (auto simp: claim_answered_def back_off_def Let_def drop_permit_def)
next
  case (Inr o_t)
  show ?thesis
  proof (cases o_t)
    case None
    with Inr assms show ?thesis
      by (auto simp: claim_answered_def andthen_def update_def return_def drop_permit_def)
  next
    case (Some t)
    let ?q = "p\<lparr>pl_errors := 0\<rparr>"
    have run: "(if ti_cancelled_after inp then release_claimed lib wk t else spawn_dispatch wk t) ?q = (Inr fl, p')"
      using assms(1) Inr Some by (simp add: claim_answered_def andthen_def update_def)
    with assms(2) release_claimed_fields [of lib wk t ?q fl p'] have "\<not> ti_cancelled_after inp"
      by auto
    with run spawn_dispatch_fields [of wk t ?q fl p'] Inr Some that show ?thesis by simp
  qed
qed

text \<open>What a tick does to the list of dispatches.\<close>

lemma poll_tick_spawn:
  assumes "poll_tick lib wk inp p = (Inr fl, p')" and "pl_tasks p' \<noteq> pl_tasks p"
  obtains t where "0 < pl_permits p" "pl_tasks p' = pl_tasks p @ [t]" "fl = Continue"
    "\<not> ti_cancelled_after inp"
    "claim_call wk (sv_repo (pl_svc p)) = (Inr (Some t), sv_repo (pl_svc p'))"
proof -
  let ?q = "p\<lparr>pl_ended := [], pl_permits := pl_permits p - 1\<rparr>"
  have pos: "0 < pl_permits p" and nocancel: "\<not> ti_cancel_in_claim inp"
    using assms by (auto simp: poll_tick_def andthen_def update_def reading_def return_def
        claim_dropped_def drop_permit_def Let_def split: if_splits)
  with assms(1) obtain r q where claim: "in_svc (attempt (claim_call wk)) ?q = (Inr r, q)"
    and ans: "claim_answered lib wk inp r q = (Inr fl, p')"
    by (auto simp: poll_tick_def andthen_def update_def reading_def split: prod.splits sum.splits)
  have q: "pl_tasks q = pl_tasks p" using in_svc_fields [OF claim] by simp
  with assms(2) have "pl_tasks p' \<noteq> pl_tasks q" by simp
  with ans obtain t where t: "r = Inr (Some t)" "pl_tasks p' = pl_tasks q @ [t]" "fl = Continue"
    "\<not> ti_cancelled_after inp" "sv_repo (pl_svc p') = sv_repo (pl_svc q)"
    by (rule claim_answered_tasks)
  have "claim_call wk (sv_repo (pl_svc p)) = (Inr (Some t), sv_repo (pl_svc q))"
    using claim t(1) by (auto simp: in_svc_def attempt_def split: prod.splits sum.splits failure.splits)
  with t q pos that show ?thesis by simp
qed

lemma poll_tick_cancelled:
  assumes "poll_tick lib wk inp p = (Inr fl, p')" and "0 < pl_permits p"
    and "\<not> ti_cancel_in_claim inp" and "ti_cancelled_after inp"
    and "claim_call wk (sv_repo (pl_svc p)) = (Inr (Some t), s)"
  shows "fl = Break \<and> pl_tasks p' = pl_tasks p \<and> pl_permits p' = pl_permits p
     \<and> (\<exists>r. port_release_task (wk_repo wk) (rec_id t) s = (r, sv_repo (pl_svc p')))"
proof -
  let ?q = "p\<lparr>pl_ended := [], pl_permits := pl_permits p - 1,
     pl_svc := (pl_svc p)\<lparr>sv_repo := s\<rparr>, pl_errors := 0\<rparr>"
  have "release_claimed lib wk t ?q = (Inr fl, p')"
    using assms by (auto simp: poll_tick_def andthen_def update_def reading_def in_svc_def
        attempt_def claim_answered_def)
  from release_claimed_fields [OF this] assms(2) show ?thesis by simp
qed

section \<open>The drain\<close>

lemma take_results_fields [simp]:
  "pl_tasks (take_results je p) = pl_tasks p" "pool_inv wk (take_results je p) = pool_inv wk p"
  by (simp_all add: take_results_def)

lemma task_ended_length:
  "i < length (pl_tasks p) \<Longrightarrow> length (pl_tasks (task_ended lib wk i d p)) = length (pl_tasks p) - 1"
  by (auto simp: task_ended_def in_svc_def release_slot_def guard_drop_def drop_permit_def Let_def
      length_remove_nth split: prod.splits sum.splits)

text \<open>An order in which the dispatches can end: each index is one still running.\<close>

definition end_order :: "nat \<Rightarrow> (nat \<times> duration) list \<Rightarrow> bool" where
  "end_order n order \<longleftrightarrow> length order = n \<and> (\<forall>k < n. fst (order ! k) < n - k)"

lemma end_order_Cons:
  assumes "end_order n ((i, d) # order)"
  shows "i < n \<and> end_order (n - 1) order"
proof -
  have n: "n = Suc (length order)" and b: "\<And>k. k < n \<Longrightarrow> fst (((i, d) # order) ! k) < n - k"
    using assms by (auto simp: end_order_def)
  have "fst (order ! k) < n - 1 - k" if "k < n - 1" for k
    using b [of "Suc k"] that by simp
  with b [of 0] n show ?thesis by (simp add: end_order_def)
qed

lemma drain_complete:
  "pool_inv wk p \<Longrightarrow> end_order (length (pl_tasks p)) order \<Longrightarrow>
     pl_tasks (drain_join_set lib je wk order p) = [] \<and> pl_ended (drain_join_set lib je wk order p) = []
     \<and> pool_inv wk (drain_join_set lib je wk order p)"
proof (induction order arbitrary: p)
  case Nil
  then show ?case by (simp add: end_order_def take_results_def)
next
  case (Cons io order)
  obtain i d where io: "io = (i, d)" by fastforce
  let ?q = "task_ended lib wk i d (take_results je p)"
  from Cons.prems(2) have i: "i < length (pl_tasks p)" "end_order (length (pl_tasks p) - 1) order"
    unfolding io using end_order_Cons by blast+
  have "pool_inv wk ?q" using Cons.prems(1) i(1) by (intro task_ended_inv) simp_all
  moreover have "end_order (length (pl_tasks ?q)) order"
    using i by (simp add: task_ended_length)
  ultimately show ?case unfolding io by (simp add: Cons.IH)
qed

end
