(* ===== verification/Sweeper.thy ===== *)
theory Sweeper
  imports Dispatch_Props "HOL-Library.AList"
begin

text \<open>
  The sweeper service (\<open>crates/application/src/services/sweeper.rs\<close>): on every tick it recovers
  the tasks whose lease has expired, clears the idempotency keys whose retention is over and
  fails the tasks suspended for too long. An error of one of the three calls is logged and the
  next one is made. The counters per queue go through a hash map; the order in which it is
  iterated is a parameter of the service.
\<close>

type_synonym 'k counts = "('k \<times> nat) list"

record 's sweeper_service =
  sw_repo :: "'s task_repository"
  sw_suspend_timeout :: duration
  sw_is_saturation :: "task_error \<Rightarrow> bool"
  sw_metrics :: bool
  sw_queue_order :: "string counts \<Rightarrow> string counts"
  sw_pair_order :: "(string \<times> string) counts \<Rightarrow> (string \<times> string) counts"

definition sweeper_new :: "'s task_repository \<Rightarrow> 's sweeper_service" where
  "sweeper_new repo = \<lparr>sw_repo = repo, sw_suspend_timeout = from_secs (24 * 60 * 60),
     sw_is_saturation = (\<lambda>_. False), sw_metrics = False, sw_queue_order = (\<lambda>c. c),
     sw_pair_order = (\<lambda>c. c)\<rparr>"

definition with_suspend_timeout :: "duration \<Rightarrow> 's sweeper_service \<Rightarrow> 's sweeper_service" where
  "with_suspend_timeout d sw = sw\<lparr>sw_suspend_timeout := d\<rparr>"

definition with_metrics :: "'s sweeper_service \<Rightarrow> 's sweeper_service" where
  "with_metrics sw = sw\<lparr>sw_metrics := True\<rparr>"

definition with_saturation_classifier ::
  "(task_error \<Rightarrow> bool) \<Rightarrow> 's sweeper_service \<Rightarrow> 's sweeper_service" where
  "with_saturation_classifier f sw = sw\<lparr>sw_is_saturation := f\<rparr>"

section \<open>Recovered tasks\<close>

definition recovered_fields :: "recovered_task \<Rightarrow> fields" where
  "recovered_fields r = (case r of (i, queue, kind, _, _) \<Rightarrow>
     [(''task_id'', VId (task_uuid i)), (''queue'', VText (queue_str queue)),
      (''kind'', VText (kind_str kind))])"

definition recovered_transition :: "lib \<Rightarrow> recovered_task \<Rightarrow> task_status \<Rightarrow> observation list" where
  "recovered_transition lib r to_status = (case r of (i, queue, kind, trace_id, _) \<Rightarrow>
     emit_transition lib ((transition_event i Running to_status)
       \<lparr>ste_queue := Some queue, ste_kind := Some kind, ste_trace_id_hex := trace_id\<rparr>))"

definition log_recovered_task :: "lib \<Rightarrow> recovered_task \<Rightarrow> observation list" where
  "log_recovered_task lib r = (case r of (_, _, _, _, outcome) \<Rightarrow> (case outcome of
      Recovered \<Rightarrow>
        log_of LevelInfo (Some ''task_recovered'') (recovered_fields r) ''zombie task recovered''
        # recovered_transition lib r Pending
    | RecoveryFailed \<Rightarrow>
        log_of LevelWarn (Some ''task_failed'') (recovered_fields r)
          ''zombie task failed (max attempts exhausted)''
        # recovered_transition lib r Failed))"

definition log_recovered_tasks :: "lib \<Rightarrow> recovered_task list \<Rightarrow> observation list" where
  "log_recovered_tasks lib results =
     concat (map (log_recovered_task lib) results)
     @ [log_of LevelInfo None [(''recovered'', VInt (int (length results)))]
          ''sweeper recovered zombie tasks'']"

text \<open>\<open>*map.entry(k).or_default() += 1\<close>.\<close>

definition bump :: "'k \<Rightarrow> 'k counts \<Rightarrow> 'k counts" where
  "bump k al = AList.update k (case map_of al k of None \<Rightarrow> 1 | Some n \<Rightarrow> n + 1) al"

fun count_recoveries ::
  "recovered_task list \<Rightarrow> string counts \<times> (string \<times> string) counts
     \<Rightarrow> string counts \<times> (string \<times> string) counts" where
  "count_recoveries [] acc = acc"
| "count_recoveries ((_, queue, kind, _, outcome) # results) (recoveries, failures) =
     count_recoveries results
       (bump (queue_str queue) recoveries,
        if outcome = RecoveryFailed then bump (queue_str queue, kind_str kind) failures else failures)"

definition emit_per_queue_metrics :: "'s sweeper_service \<Rightarrow> recovered_task list \<Rightarrow> observation list" where
  "emit_per_queue_metrics sw results =
     (if sw_metrics sw then
        (let (recoveries, failures) = count_recoveries results ([], []) in
         map (\<lambda>(queue, n). Metric ZOMBIE_RECOVERIES_TOTAL (Add n)
           [(''queue'', VText queue)]) (sw_queue_order sw recoveries)
         @ map (\<lambda>((queue, kind), n). Metric TASK_FAILURES_TOTAL (Add n)
             [(''queue'', VText queue), (''kind'', VText kind)]) (sw_pair_order sw failures))
      else [])"

section \<open>One sweep\<close>

definition dash :: string where
  "dash = [CHR 0xE2, CHR 0x80, CHR 0x94]"

definition sweep_error ::
  "lib \<Rightarrow> 's sweeper_service \<Rightarrow> string \<Rightarrow> string \<Rightarrow> task_error \<Rightarrow> observation list" where
  "sweep_error lib sw deferred text e =
     [if sw_is_saturation sw e
      then log_of LevelWarn (Some ''pool_saturated'') [(''error'', VText (error_text lib e))]
        (''postgres connection pool saturated '' @ dash @ deferred)
      else log_of LevelError None [(''error'', VText (error_text lib e))] text]"

definition sweep_recover :: "lib \<Rightarrow> 's sweeper_service \<Rightarrow> ('s, unit) service" where
  "sweep_recover lib sw = andthen (attempt (port_recover (sw_repo sw))) (\<lambda>r. case r of
      Inl e \<Rightarrow> observe (sweep_error lib sw '' sweeper cycle deferred''
        ''sweeper failed to recover zombie tasks'' e)
    | Inr results \<Rightarrow> observe
        (if results = [] then []
         else log_recovered_tasks lib results @ emit_per_queue_metrics sw results))"

definition sweep_keys :: "lib \<Rightarrow> 's sweeper_service \<Rightarrow> ('s, unit) service" where
  "sweep_keys lib sw = andthen (attempt (port_cleanup_keys (sw_repo sw))) (\<lambda>r. case r of
      Inl e \<Rightarrow> observe (sweep_error lib sw '' idempotency key cleanup deferred''
        ''sweeper failed to clean expired idempotency keys'' e)
    | Inr cleaned \<Rightarrow> observe
        (if 0 < cleaned then
           log_of LevelInfo (Some ''idempotency_keys_cleaned'') [(''count'', VInt (int cleaned))]
             ''sweeper cleaned expired idempotency keys''
           # (if sw_metrics sw
              then [Metric IDEMPOTENCY_KEYS_CLEANED_TOTAL (Add cleaned) []] else [])
         else []))"

definition log_expired_task :: "lib \<Rightarrow> 's sweeper_service \<Rightarrow> task_id \<times> queue_name \<Rightarrow> observation list" where
  "log_expired_task lib sw x = (case x of (i, queue) \<Rightarrow>
     log_of LevelWarn (Some ''suspend_timeout_expired'')
       [(''task_id'', VId (task_uuid i)), (''queue'', VText (queue_str queue))]
       ''task auto-failed: suspended too long''
     # emit_transition lib ((transition_event i Suspended Failed)\<lparr>ste_queue := Some queue\<rparr>)
     @ (if sw_metrics sw then [Metric SUSPEND_TIMEOUT_TOTAL (Add 1)
         [(''queue'', VText (queue_str queue))]] else []))"

definition sweep_suspended :: "lib \<Rightarrow> 's sweeper_service \<Rightarrow> ('s, unit) service" where
  "sweep_suspended lib sw =
     andthen (attempt (port_expire (sw_repo sw) (sw_suspend_timeout sw))) (\<lambda>r. case r of
      Inl e \<Rightarrow> observe (sweep_error lib sw '' suspend watchdog deferred''
        ''sweeper failed to expire suspended tasks'' e)
    | Inr expired \<Rightarrow> observe (concat (map (log_expired_task lib sw) expired)))"

definition sweep_tick :: "lib \<Rightarrow> 's sweeper_service \<Rightarrow> ('s, unit) service" where
  "sweep_tick lib sw =
     andthen (sweep_recover lib sw) (\<lambda>_.
     andthen (sweep_keys lib sw) (\<lambda>_. sweep_suspended lib sw))"

text \<open>The loop: ticks until the token is seen. It never returns an error.\<close>

fun sweeper_ticks :: "lib \<Rightarrow> 's sweeper_service \<Rightarrow> nat \<Rightarrow> ('s, unit) service" where
  "sweeper_ticks lib sw 0 =
     observe [log_of LevelInfo None [] ''sweeper received cancellation, stopping'',
       log_of LevelInfo None [] ''sweeper stopped'']"
| "sweeper_ticks lib sw (Suc n) = andthen (sweep_tick lib sw) (\<lambda>_. sweeper_ticks lib sw n)"

definition sweeper_run :: "lib \<Rightarrow> 's sweeper_service \<Rightarrow> nat \<Rightarrow> ('s, unit) service" where
  "sweeper_run lib sw ticks =
     andthen (observe [log_of LevelInfo None [] ''sweeper started'']) (\<lambda>_. sweeper_ticks lib sw ticks)"

section \<open>Counting\<close>

definition counts_of :: "'k list \<Rightarrow> 'k counts \<Rightarrow> bool" where
  "counts_of ks al \<longleftrightarrow> distinct (map fst al)
     \<and> (\<forall>k. map_of al k = (if count_list ks k = 0 then None else Some (count_list ks k)))"

lemma counts_of_Nil: "counts_of [] []"
  by (simp add: counts_of_def)

lemma counts_of_bump: "counts_of ks al \<Longrightarrow> counts_of (ks @ [k]) (bump k al)"
  by (auto simp: counts_of_def bump_def update_conv' distinct_update)

definition recovery_key :: "recovered_task \<Rightarrow> string" where
  "recovery_key r = (case r of (_, queue, _, _, _) \<Rightarrow> queue_str queue)"

definition failure_keys :: "recovered_task list \<Rightarrow> (string \<times> string) list" where
  "failure_keys rs = map (\<lambda>(_, queue, kind, _, _). (queue_str queue, kind_str kind))
     (filter (\<lambda>(_, _, _, _, oc). oc = RecoveryFailed) rs)"

lemma recovery_key_simp [simp]: "recovery_key (i, q, k, tr, oc) = queue_str q"
  by (simp add: recovery_key_def)

lemma failure_keys_Cons:
  "failure_keys ((i, q, k, tr, oc) # rs)
     = (if oc = RecoveryFailed then [(queue_str q, kind_str k)] else []) @ failure_keys rs"
  by (simp add: failure_keys_def)

lemma count_recoveries_counts:
  "counts_of ks a \<Longrightarrow> counts_of fs b \<Longrightarrow> count_recoveries rs (a, b) = (a', b') \<Longrightarrow>
     counts_of (ks @ map recovery_key rs) a' \<and> counts_of (fs @ failure_keys rs) b'"
proof (induction rs arbitrary: ks fs a b)
  case Nil
  then show ?case by (simp add: failure_keys_def)
next
  case (Cons r rs)
  obtain i q k tr oc where r: "r = (i, q, k, tr, oc)" by (cases r) auto
  define f where "f = (if oc = RecoveryFailed then [(queue_str q, kind_str k)] else [])"
  define b1 where "b1 = (if oc = RecoveryFailed then bump (queue_str q, kind_str k) b else b)"
  have "counts_of (ks @ [queue_str q]) (bump (queue_str q) a)"
    using Cons.prems(1) by (rule counts_of_bump)
  moreover have "counts_of (fs @ f) b1"
    using Cons.prems(2) counts_of_bump by (auto simp: f_def b1_def)
  moreover have "count_recoveries rs (bump (queue_str q) a, b1) = (a', b')"
    using Cons.prems(3) by (simp add: r b1_def)
  ultimately have "counts_of ((ks @ [queue_str q]) @ map recovery_key rs) a'
      \<and> counts_of ((fs @ f) @ failure_keys rs) b'" by (rule Cons.IH)
  then show ?case by (simp add: r failure_keys_Cons f_def)
qed

text \<open>The sum a counter receives for one label.\<close>

definition counted :: "string \<Rightarrow> fields \<Rightarrow> observation list \<Rightarrow> nat" where
  "counted name labels obs = sum_list (map (\<lambda>ob. case ob of
      Metric n (Add k) ls \<Rightarrow> if n = name \<and> ls = labels then k else 0
    | _ \<Rightarrow> 0) obs)"

lemma counted_simps [simp]:
  "counted n ls [] = 0" "counted n ls (as @ bs) = counted n ls as + counted n ls bs"
  "counted n ls (log_of lv ev fs tx # obs) = counted n ls obs"
  by (simp_all add: counted_def log_of_def)

lemma sum_distinct_counts:
  "distinct (map fst al) \<Longrightarrow>
     sum_list (map (\<lambda>(q, n). if q = k then n else 0) al) = (case map_of al k of None \<Rightarrow> 0 | Some n \<Rightarrow> n)"
proof (induction al)
  case (Cons x al)
  obtain q n where x: "x = (q, n)" by fastforce
  show ?case
  proof (cases "q = k")
    case True
    with Cons.prems x have "map_of al k = None" by (simp add: map_of_eq_None_iff)
    with Cons x True show ?thesis by simp
  qed (use Cons x in simp)
qed simp

definition reorders :: "('k counts \<Rightarrow> 'k counts) \<Rightarrow> bool" where
  "reorders f \<longleftrightarrow> (\<forall>c. distinct (map fst c) \<longrightarrow> distinct (map fst (f c)) \<and> map_of (f c) = map_of c)"

lemma recoveries_counted:
  assumes "sw_metrics sw" and "reorders (sw_queue_order sw)"
  shows "counted ZOMBIE_RECOVERIES_TOTAL [(''queue'', VText q)]
      (emit_per_queue_metrics sw rs) = length (filter (\<lambda>r. recovery_key r = q) rs)"
proof -
  obtain a b where ab: "count_recoveries rs ([], []) = (a, b)" by fastforce
  with count_recoveries_counts [OF counts_of_Nil counts_of_Nil ab]
  have a: "counts_of (map recovery_key rs) a" by simp
  let ?a = "sw_queue_order sw a"
  have d: "distinct (map fst ?a)" "map_of ?a = map_of a"
    using a assms(2) by (simp_all add: counts_of_def reorders_def)
  have "counted ZOMBIE_RECOVERIES_TOTAL [(''queue'', VText q)]
      (emit_per_queue_metrics sw rs) = sum_list (map (\<lambda>(p, n). if p = q then n else 0) ?a)"
    using assms(1) ab by (simp add: emit_per_queue_metrics_def counted_def case_prod_unfold comp_def)
  also have "\<dots> = (case map_of a q of None \<Rightarrow> 0 | Some n \<Rightarrow> n)"
    using sum_distinct_counts [OF d(1)] d(2) by simp
  also have "\<dots> = count_list (map recovery_key rs) q"
    using a by (simp add: counts_of_def)
  also have "\<dots> = length (filter (\<lambda>r. recovery_key r = q) rs)"
    by (induction rs) auto
  finally show ?thesis .
qed

section \<open>Lawful and private\<close>

lemma lawful_sweep_intro:
  "lawful_op ok status m \<Longrightarrow> lawful_service ok status
     (andthen (attempt m) (\<lambda>r. case r of Inl e \<Rightarrow> observe (g e) | Inr x \<Rightarrow> observe (f x)))"
  by (intro service_intros)

lemma list_all_concat_map: "(\<And>x. list_all P (f x)) \<Longrightarrow> list_all P (concat (map f xs))"
  by (induction xs) simp_all

context emission_policy begin

lemma recovered_emits: "list_all allowed (log_recovered_task lib r)"
  by (cases r) (auto simp: log_recovered_task_def recovered_fields_def recovered_transition_def
      log_allowed emit_transition_allowed split: recovery_outcome.splits)

lemma expired_emits: "list_all allowed (log_expired_task lib sw x)"
  by (cases x) (simp add: log_expired_task_def emission_rules)

lemma per_queue_emits: "list_all allowed (emit_per_queue_metrics sw rs)"
  by (auto simp: emit_per_queue_metrics_def list_all_iff split: prod.splits
      intro!: metric_allowed declared_documented)

lemma sweep_tick_emits: "emits allowed (sweep_tick lib sw)"
  unfolding sweep_tick_def sweep_recover_def sweep_keys_def sweep_suspended_def
  by (intro service_intros)
    (simp_all add: sweep_error_def log_recovered_tasks_def list_all_concat_map recovered_emits
      expired_emits per_queue_emits emission_rules)

end

context repository begin

lemma sweep_tick_lawful:
  "sw_repo sw = repo \<Longrightarrow> lawful_service ok status (sweep_tick lib sw)"
  unfolding sweep_tick_def sweep_recover_def sweep_keys_def sweep_suspended_def
  by (intro service_intros) (simp_all add: recover_lawful cleanup_lawful expire_lawful)

lemma sweeper_run_lawful:
  assumes "sw_repo sw = repo"
  shows "lawful_service ok status (sweeper_run lib sw n)"
proof -
  have "lawful_service ok status (sweeper_ticks lib sw n)"
    by (induction n) (auto intro!: service_intros sweep_tick_lawful [OF assms])
  then show ?thesis unfolding sweeper_run_def by (intro service_intros)
qed

end

text \<open>An error of one call does not keep the sweeper from the next one.\<close>

lemma call_and_tell:
  "andthen (attempt m) (\<lambda>r. case r of Inl e \<Rightarrow> observe (g e) | Inr x \<Rightarrow> observe (f x)) sv = (Inr u, sv')
     \<Longrightarrow> \<exists>r. m (sv_repo sv) = (r, sv_repo sv')"
  by (auto simp: andthen_def attempt_def observe_def split: prod.splits sum.splits failure.splits)

lemma sweep_tick_calls:
  assumes "sweep_tick lib sw sv = (Inr u, sv')"
  obtains r1 s1 r2 s2 r3 where "port_recover (sw_repo sw) (sv_repo sv) = (r1, s1)"
    "port_cleanup_keys (sw_repo sw) s1 = (r2, s2)"
    "port_expire (sw_repo sw) (sw_suspend_timeout sw) s2 = (r3, sv_repo sv')"
proof -
  from assms obtain u1 a u2 b where steps: "sweep_recover lib sw sv = (Inr u1, a)"
    "sweep_keys lib sw a = (Inr u2, b)" "sweep_suspended lib sw b = (Inr u, sv')"
    unfolding sweep_tick_def andthen_Inr_iff by auto
  note steps [unfolded sweep_recover_def sweep_keys_def sweep_suspended_def, THEN call_and_tell]
  with that show ?thesis by blast
qed

end
