(* ===== verification/Lease.thy ===== *)
theory Lease
  imports Port
begin

text \<open>
  Leases: an extension of the port's interface by the worker that holds a task, with the laws the
  shutdown relies on, and its interpretation on the Postgres adapter.
\<close>

locale lease_repository = repository repo ok status
  for repo :: "'s task_repository" and ok :: "'s \<Rightarrow> bool"
    and status :: "'s \<Rightarrow> task_id \<Rightarrow> task_status option" +
  fixes owner :: "'s \<Rightarrow> task_id \<Rightarrow> worker_id option"
  assumes claim_owner_law: "ok s \<Longrightarrow> port_claim_next repo q w l g s = (Inr (Some t), s') \<Longrightarrow>
      owner s' (rec_id t) = Some w"
    and release_worker_clears: "ok s \<Longrightarrow> port_release_worker repo w s = (Inr rs, s') \<Longrightarrow>
      status s' i = Some Running \<Longrightarrow> owner s' i \<noteq> Some w"
    and release_worker_listed: "ok s \<Longrightarrow> port_release_worker repo w s = (Inr rs, s') \<Longrightarrow>
      (i, tr) \<in> set rs \<Longrightarrow> status s i = Some Running \<and> owner s i = Some w \<and> status s' i = Some Pending"
begin

lemma released_not_listed:
  assumes "ok s" and "port_release_worker repo w s = (Inr rs, s')" and "(i, tr) \<in> set rs"
  shows "status s' i \<noteq> Some Running"
  using release_worker_listed [OF assms] by simp

end

definition world_owner :: "world \<Rightarrow> task_id \<Rightarrow> worker_id option" where
  "world_owner w i = Option.bind (row_at (w_db w) (task_uuid i)) (\<lambda>r. map_option WorkerId (row_claimed_by r))"

definition held_by :: "worker_id \<Rightarrow> task_row \<Rightarrow> bool" where
  "held_by w r \<longleftrightarrow> row_claimed_by r = Some (worker_uuid w) \<and> row_status r = ''running''"

lemma release_leases_Inr:
  assumes "release_leases_for_worker e al w d = (Inr rs, d')"
  shows "db_tasks d' = map (\<lambda>r. if held_by w r then release_update e r else r) (db_tasks d)"
    and "rs = map (\<lambda>r. (TaskId (row_id r), row_trace_id r)) (filter (held_by w) (db_tasks d))"
proof -
  let ?p = "\<lambda>r. row_claimed_by r = Some (worker_uuid w) \<and> row_status r = ''running''"
  have p: "held_by w = ?p" by (auto simp: held_by_def)
  from assms [unfolded release_leases_for_worker_def]
  obtain rows d2 where tx: "transact e (andthen (sql e (AtStmt 0) (update_where e ?p attempts_chk (release_update e)))
      (\<lambda>rows. andthen (each (\<lambda>row. insert_audit_row e al (row_id row) (Some ''running'') ''pending''
         (Some (worker_uuid w)) (row_trace_id row) (Some shutdown_metadata) None) rows) (\<lambda>_. return rows))) d
      = (Inr rows, d2)" and res: "return (map (\<lambda>r. (TaskId (row_id r), row_trace_id r)) rows) d2 = (Inr rs :: _ res, d')"
    by (rule andthen_InrE)
  from res have rs: "rs = map (\<lambda>r. (TaskId (row_id r), row_trace_id r)) rows" "d2 = d'"
    by (simp_all add: return_apply)
  from transact_InrD [OF tx, unfolded andthen_Inr_iff return_apply sql_Inr]
  obtain d1 u where up: "update_where e ?p attempts_chk (release_update e) d = (Inr rows, d1)"
    and au: "each (\<lambda>row. insert_audit_row e al (row_id row) (Some ''running'') ''pending''
         (Some (worker_uuid w)) (row_trace_id row) (Some shutdown_metadata) None) rows d1 = (Inr u, d2)"
    by auto
  have "db_tasks d2 = db_tasks d1"
    using each_audit_frame [OF au] .
  with up rs show "db_tasks d' = map (\<lambda>r. if held_by w r then release_update e r else r) (db_tasks d)"
    by (simp add: update_where_Inr p)
  show "rs = map (\<lambda>r. (TaskId (row_id r), row_trace_id r)) (filter (held_by w) (db_tasks d))"
    using up rs by (simp add: update_where_Inr p release_update_def comp_def)
qed

lemma row_of_world:
  "world_status w i = Some st \<Longrightarrow> \<exists>r. row_at (w_db w) (task_uuid i) = Some r
     \<and> decode_status (row_status r) = Some st"
  by (auto simp: world_status_def status_of_def bind_eq_Some_conv)

lemma decoded_status:
  assumes "db_inv d" and "row_at d i = Some r" and "decode_status (row_status r) = Some st"
  shows "row_status r = as_str st"
proof -
  from row_at_Some [OF assms(2)] row_status_known [OF assms(1)] obtain x where "row_status r = as_str x" by blast
  with assms(3) show ?thesis by simp
qed

lemma released_at:
  assumes "db_inv d" and "release_leases_for_worker e al wk d = (Inr rs, d')"
  shows "row_at d' i = map_option (\<lambda>r. if held_by wk r then release_update e r else r) (row_at d i)"
  by (rule row_at_update [OF _ release_leases_Inr(1) [OF assms(2)]]) (simp add: release_update_def)

lemma release_worker_world:
  assumes "world_ok w" and "in_world (\<lambda>e. release_leases_for_worker e al wk) w = (Inr rs, w')"
  shows "world_status w' i = Some Running \<Longrightarrow> world_owner w' i \<noteq> Some wk"
    and "(i, tr) \<in> set rs \<Longrightarrow> world_status w i = Some Running \<and> world_owner w i = Some wk
      \<and> world_status w' i = Some Pending"
proof -
  from assms(2) obtain e where run: "release_leases_for_worker e al wk (w_db w) = (Inr rs, w_db w')"
    by (rule in_world_Inr)
  have inv: "db_inv (w_db w)" using assms(1) by (simp add: world_ok_def)
  note at = released_at [OF inv run]
  show "world_owner w' i \<noteq> Some wk" if running: "world_status w' i = Some Running"
  proof
    assume owner: "world_owner w' i = Some wk"
    obtain r' where r': "row_at (w_db w') (task_uuid i) = Some r'" "decode_status (row_status r') = Some Running"
      using row_of_world [OF running] by blast
    then obtain r where r: "row_at (w_db w) (task_uuid i) = Some r"
      "r' = (if held_by wk r then release_update e r else r)" using at by auto
    have unheld: "\<not> held_by wk r"
      using r(2) r'(2) by (auto simp: release_update_def)
    with r r' have "row_status r = ''running''"
      using decoded_status [OF inv r(1)] by simp
    moreover have "row_claimed_by r = Some (worker_uuid wk)"
      using owner r' r unheld by (cases wk) (auto simp: world_owner_def)
    ultimately show False using unheld by (simp add: held_by_def)
  qed
  show "world_status w i = Some Running \<and> world_owner w i = Some wk \<and> world_status w' i = Some Pending"
    if listed: "(i, tr) \<in> set rs"
  proof -
    from listed obtain r where r: "r \<in> set (db_tasks (w_db w))" "held_by wk r" "i = TaskId (row_id r)"
      unfolding release_leases_Inr(2) [OF run] by auto
    have "row_at (w_db w) (task_uuid i) = Some r"
      using row_at_mem [OF db_inv_rows(3) [OF inv] r(1)] r(3) by simp
    with at r(2) show ?thesis
      by (cases wk) (simp add: world_status_def status_of_def world_owner_def held_by_def release_update_def)
  qed
qed

lemma claim_owner_world:
  assumes "world_ok w" and "in_world (\<lambda>e. claim_next e al q wk l g) w = (Inr (Some t), w')"
  shows "world_owner w' (rec_id t) = Some wk"
proof -
  from assms(2) obtain e where run: "claim_next e al q wk l g (w_db w) = (Inr (Some t), w_db w')"
    by (rule in_world_Inr)
  let ?up = "claim_update e (worker_uuid wk) (as_secs_f64 l)"
  have inv: "db_inv (w_db w)" using assms(1) by (simp add: world_ok_def)
  from inv run show ?thesis
  proof (cases rule: claim_next_Inr)
    case (claimed c t')
    note cand = claim_candidate_Some(1,2) [OF claimed(2)]
    have "row_at (w_db w) (row_id c) = Some c"
      using row_at_mem [OF db_inv_rows(3) [OF inv] cand(1)] .
    then have "row_at (w_db w') (row_id c) = Some (?up c)"
      by (subst row_at_update [OF _ claimed(4)]) (simp_all add: claim_update_def)
    moreover have "rec_id t = TaskId (row_id c)"
      using record_of_row_fields(1) [OF claimed(3)] claimed(1) by (simp add: claim_update_def)
    ultimately show ?thesis by (cases wk) (simp add: world_owner_def claim_update_def)
  qed simp
qed

interpretation pgl: lease_repository "postgres_repository al neg sq" world_ok world_status world_owner
  for al :: bool and neg :: sqlx_error and sq :: "sqlx_error \<Rightarrow> string"
  by unfold_locales
    (simp_all add: postgres_repository_def claim_owner_world release_worker_world)

end
