(* ===== verification/Service_Props.thy ===== *)
theory Service_Props
  imports Worker_Props Sweeper Lease Repo_Samples
begin

text \<open>
  The properties of the worker and the sweeper on the Postgres adapter, each an instance of what
  was proved against the laws of the port, and concrete services on which they are evaluated.
\<close>

section \<open>Concrete services\<close>

definition sample_world :: "db \<Rightarrow> world" where
  "sample_world d = \<lparr>w_db = d, w_envs = (\<lambda>n. quiet_env (50 + int n))\<rparr>"

definition sample_lib :: lib where
  "sample_lib = \<lparr>lib_sqlx = (\<lambda>_. ''sqlx''), lib_formats = \<lparr>fmt_dbg = (\<lambda>s. s),
     fmt_dbg_list = concat, fmt_uuid = (\<lambda>_. ''id''), fmt_dur = (\<lambda>_. ''d'')\<rparr>,
     lib_trace_ok = (\<lambda>_. False)\<rparr>"

definition postgres :: "world task_repository" where
  "postgres = postgres_repository True PoolClosed (\<lambda>_. ''sqlx'')"

definition ready_handler :: "world task_handler" where
  "ready_handler = \<lparr>handler_kind = ''send'', handler_execute = (\<lambda>p c s. (Finished (Inr ()), s))\<rparr>"

definition sample_worker :: "world worker_service" where
  "sample_worker = \<lparr>wk_repo = postgres, wk_registry = [(''send'', ready_handler)],
     wk_config = worker_config_default, wk_queue = mail, wk_worker_id = worker_seven,
     wk_is_saturation = (\<lambda>_. False), wk_metrics = False, wk_checkpoint_writer = None\<rparr>"

definition sample_svc :: "db \<Rightarrow> world svc" where
  "sample_svc d = \<lparr>sv_repo = sample_world d, sv_obs = []\<rparr>"

definition quiet_tick :: tick_input where
  "quiet_tick = \<lparr>ti_cancel_in_claim = False, ti_claim_took_effect = False,
     ti_cancelled_after = False, ti_jitter = (\<lambda>_. 0), ti_now = 0, ti_instant_max = 1000\<rparr>"

lemma world_ok_sample: "reachable al d \<Longrightarrow> world_ok (sample_world d)"
  by (simp add: world_ok_def sample_world_def reachable_inv)

lemma ready_handlers_lawful: "handlers_lawful world_ok world_status [(''send'', ready_handler)]"
  by (simp add: handlers_lawful_def registry_get_def ready_handler_def lawful_refl)

lemma postgres_ports [simp]:
  "port_claim_next postgres q w l g = in_world (\<lambda>e. claim_next e True q w l g)"
  "port_complete postgres i = in_world (\<lambda>e. complete e True i)"
  "port_release_task postgres i = in_world (\<lambda>e. release_lease_for_task e True i)"
  "port_release_worker postgres w = in_world (\<lambda>e. release_leases_for_worker e True w)"
  "port_recover postgres = in_world (\<lambda>e. recover_zombie_tasks e True)"
  "port_cleanup_keys postgres = in_world cleanup_expired_idempotency_keys"
  "port_expire postgres d = in_world (\<lambda>e. expire_suspended_tasks e True d)"
  "port_save postgres t = in_world (\<lambda>e. save e True t)"
  "port_find_by_id postgres i = in_world (\<lambda>e. find_by_id e i)"
  by (simp_all add: postgres_def postgres_repository_def)

lemmas run_services = sample_worker_def sample_svc_def sample_world_def
  in_world_def dispatch_context_of_def worker_config_default_def claim_call_def

lemma tick_sample:
  "\<exists>p'. poll_tick sample_lib sample_worker quiet_tick (pool_new sample_worker (sample_svc submitted_db))
     = (Inr Continue, p') \<and> length (pl_tasks p') = 1"
  by (simp add: poll_tick_def update_def reading_def pool_new_def quiet_tick_def in_svc_def attempt_def
      claim_answered_def spawn_dispatch_def observe_def guard_new_def told_def metric_def
      emit_task_claimed_def payload_field_def run_services run_statements run_operations run_results
      submitted_tasks sample_row_def insert_values_def sample_def mail_def worker_seven_def)

text \<open>A tick on the sample world has a dispatch running.\<close>

lemma sample_running:
  "\<exists>q. pool_reaches others sample_lib sample_worker (pool_new sample_worker (sample_svc submitted_db)) q
     \<and> length (pl_tasks q) = 1"
proof -
  let ?p = "pool_new sample_worker (sample_svc submitted_db)"
  obtain q where q: "poll_tick sample_lib sample_worker quiet_tick ?p = (Inr Continue, q)"
    "length (pl_tasks q) = 1" using tick_sample by blast
  have "loop_body sample_lib sample_worker BackoffElapsed (Some quiet_tick) ?p = (Inr Continue, q)"
    using q(1) by (simp add: loop_body_def backoff_phase_def andthen_def pool_new_def)
  then have "pool_reaches others sample_lib sample_worker ?p q"
    by (intro pool_reaches.step [OF pool_reaches.here] pool_step.iterate)
  with q(2) show ?thesis by blast
qed

section \<open>Properties\<close>

text \<open>C18: The worker pool never runs more dispatches than its concurrency, and its counters agree:
  in every state the pool can reach from its start, the permits left and the dispatches running
  add up to the configured concurrency, and the 32-bit counter of active tasks is the number of
  dispatches running, without having wrapped.\<close>

theorem pool_capacity:
  assumes "poll_loop_start wk sv = Inr p" and "pool_reaches others lib wk p q"
    and "wc_concurrency (wk_config wk) \<le> u32_max"
  shows "pl_permits q + length (pl_tasks q) = wc_concurrency (wk_config wk)
    \<and> unat (pl_active q) = length (pl_tasks q)"
proof -
  have inv: "pool_inv wk q" using pool_reaches_inv [OF assms(1,2)] .
  then have "length (pl_tasks q) < 2 ^ 32" using assms(3) by (simp add: pool_inv_def u32_max_def)
  with inv show ?thesis by (simp add: pool_inv_def unat_of_nat take_bit_nat_eq_self)
qed

lemma sample_start: "poll_loop_start sample_worker sv = Inr (pool_new sample_worker sv)"
  by (simp add: poll_loop_start_def sample_worker_def worker_config_default_def)

theorem pool_capacity_witness:
  "\<exists>q. pool_reaches (\<lambda>_ _. False) sample_lib sample_worker (pool_new sample_worker (sample_svc submitted_db)) q
     \<and> length (pl_tasks q) = 1 \<and> pl_permits q = 3 \<and> unat (pl_active q) = 1"
proof -
  obtain q where q: "pool_reaches (\<lambda>_ _. False) sample_lib sample_worker
      (pool_new sample_worker (sample_svc submitted_db)) q" "length (pl_tasks q) = 1"
    using sample_running by blast
  have "wc_concurrency (wk_config sample_worker) = 4"
    by (simp add: sample_worker_def worker_config_default_def)
  with pool_capacity [OF sample_start q(1)] q show ?thesis by (auto simp: u32_max_def)
qed

text \<open>Whatever the pool does, in any interleaving with handlers and other processes that act
  through the engine, the database stays well-formed and every task moves only along its life
  cycle.\<close>

theorem pool_lifecycle:
  assumes "wk_repo wk = postgres_repository al neg sq"
    and "handlers_lawful world_ok world_status (wk_registry wk)"
    and "pool_reaches (lawful world_ok world_status) lib wk p q" and "world_ok (sv_repo (pl_svc p))"
  shows "world_ok (sv_repo (pl_svc q))
    \<and> moves (world_status (sv_repo (pl_svc p)) i) (world_status (sv_repo (pl_svc q)) i)"
  using pg.pool_reaches_lawful [OF assms] by (simp add: lawful_def)

theorem pool_lifecycle_witness:
  "\<exists>q. pool_reaches (lawful world_ok world_status) sample_lib sample_worker
       (pool_new sample_worker (sample_svc submitted_db)) q
     \<and> length (pl_tasks q) = 1 \<and> world_ok (sv_repo (pl_svc q))
     \<and> moves (world_status (sample_world submitted_db) (TaskId 1)) (world_status (sv_repo (pl_svc q)) (TaskId 1))"
proof -
  let ?p = "pool_new sample_worker (sample_svc submitted_db)"
  obtain q where q: "pool_reaches (lawful world_ok world_status) sample_lib sample_worker ?p q"
    "length (pl_tasks q) = 1" using sample_running by blast
  have repo: "sv_repo (pl_svc ?p) = sample_world submitted_db" by (simp add: pool_new_def sample_svc_def)
  have "wk_repo sample_worker = postgres_repository True PoolClosed (\<lambda>_. ''sqlx'')"
    "wk_registry sample_worker = [(''send'', ready_handler)]"
    by (simp_all add: sample_worker_def postgres_def)
  from pool_lifecycle [OF this(1) _ q(1)] this(2) q ready_handlers_lawful
    world_ok_sample [OF reachable_submitted] repo show ?thesis by auto
qed



text \<open>C19: What a dispatch tells of the end of its task is what the database holds: when it logs
  \<open>task_completed\<close>, \<open>task_suspended\<close>, \<open>task_failed_retry\<close> or \<open>task_failed_terminal\<close> for a task,
  that task is then completed, suspended, pending or failed.\<close>

theorem dispatch_truthful:
  assumes "dx_repo ctx = postgres_repository al neg sq"
    and "handlers_lawful world_ok world_status (dx_registry ctx)" and "world_ok (sv_repo sv)"
    and "dispatch_task lib ctx elapsed t sv = (r, sv')"
  shows "\<exists>new. sv_obs sv' = sv_obs sv @ new \<and> truthful world_status new (sv_repo sv')"
  using pg.dispatch_truth [OF assms(1-3), of lib elapsed t] assms(4) by (simp add: ends_truthfully_def)

definition claimed_sample :: task_record where
  "claimed_sample = (sample 1 3)\<lparr>rec_status := Running, rec_attempts := AttemptCount 1,
     rec_claimed_by := Some worker_seven, rec_claimed_until := Some 30\<rparr>"

text \<open>The sample dispatch ends in a completed task and says so.\<close>

lemma dispatch_sample:
  "tells ''task_completed'' (TaskId 1)
     (sv_obs (snd (dispatch_task sample_lib (dispatch_context_of sample_worker) 5 claimed_sample
       (sample_svc claimed_db))))"
  by (simp add: dispatch_task_def registry_get_def ready_handler_def claimed_sample_def
      handler_ended_def handler_succeeded_def emit_task_completed_def correlation_def
      run_services run_statements run_operations run_results claimed_tasks sample_row_def
      insert_values_def sample_def mail_def worker_seven_def
      on_backend_def attempt_def observe_def execution_span_def transition_in_span_def
      otel_active_def metric_def payload_field_def)

theorem dispatch_truthful_witness:
  "world_status (sv_repo (snd (dispatch_task sample_lib (dispatch_context_of sample_worker) 5
     claimed_sample (sample_svc claimed_db)))) (TaskId 1) = Some Completed"
proof -
  obtain r sv' where run: "dispatch_task sample_lib (dispatch_context_of sample_worker) 5
      claimed_sample (sample_svc claimed_db) = (r, sv')" by fastforce
  have "\<exists>new. sv_obs sv' = sv_obs (sample_svc claimed_db) @ new \<and> truthful world_status new (sv_repo sv')"
    by (rule dispatch_truthful [OF _ _ _ run, of True PoolClosed "\<lambda>_. ''sqlx''"])
      (simp_all add: dispatch_context_of_def sample_worker_def postgres_def ready_handlers_lawful
        sample_svc_def world_ok_sample [OF reachable_claimed])
  then have "truthful world_status (sv_obs sv') (sv_repo sv')" by (simp add: sample_svc_def)
  with dispatch_sample run show ?thesis by (simp add: truthful_def final_words_def)
qed



text \<open>A tick spawns a dispatch only for a task it has claimed: when a tick adds to the running
  dispatches, it adds one, a permit was free, the token was not seen cancelled, and the task went
  from pending to running in the database under this worker, no other task changing status.\<close>

theorem tick_spawns_claimed:
  assumes "wk_repo wk = postgres_repository al neg sq" and "world_ok (sv_repo (pl_svc p))"
    and "poll_tick lib wk inp p = (Inr fl, p')" and "pl_tasks p' \<noteq> pl_tasks p"
  shows "\<exists>t. pl_tasks p' = pl_tasks p @ [t] \<and> 0 < pl_permits p \<and> \<not> ti_cancelled_after inp
    \<and> world_status (sv_repo (pl_svc p)) (rec_id t) = Some Pending
    \<and> world_status (sv_repo (pl_svc p')) (rec_id t) = Some Running
    \<and> world_owner (sv_repo (pl_svc p')) (rec_id t) = Some (wk_worker_id wk)
    \<and> only_task world_status (rec_id t) (sv_repo (pl_svc p)) (sv_repo (pl_svc p'))"
proof -
  from assms(3,4) obtain t where t: "0 < pl_permits p" "pl_tasks p' = pl_tasks p @ [t]"
    "\<not> ti_cancelled_after inp"
    and claim: "claim_call wk (sv_repo (pl_svc p)) = (Inr (Some t), sv_repo (pl_svc p'))"
    by (rule poll_tick_spawn)
  note claim = claim [unfolded claim_call_def assms(1)]
  show ?thesis
    using t pg.claim_next_law [OF assms(2) claim] pgl.claim_owner_law [OF assms(2) claim] by blast
qed

lemma sample_repo: "wk_repo sample_worker = postgres_repository True PoolClosed (\<lambda>_. ''sqlx'')"
  by (simp add: sample_worker_def postgres_def)

theorem tick_spawns_claimed_witness:
  "\<exists>p' t. poll_tick sample_lib sample_worker quiet_tick (pool_new sample_worker (sample_svc submitted_db))
       = (Inr Continue, p') \<and> pl_tasks p' = [t]
     \<and> world_status (sv_repo (pl_svc p')) (rec_id t) = Some Running"
proof -
  let ?p = "pool_new sample_worker (sample_svc submitted_db)"
  obtain p' where run: "poll_tick sample_lib sample_worker quiet_tick ?p = (Inr Continue, p')"
    and one: "length (pl_tasks p') = 1" using tick_sample by blast
  have none: "pl_tasks ?p = []" by (simp add: pool_new_def)
  with one have new: "pl_tasks p' \<noteq> pl_tasks ?p" by auto
  have ok: "world_ok (sv_repo (pl_svc ?p))"
    by (simp add: pool_new_def sample_svc_def world_ok_sample [OF reachable_submitted])
  from tick_spawns_claimed [OF sample_repo ok run new] none run show ?thesis by auto
qed

text \<open>A cancellation seen between the claim and the spawn gives the task back: the loop ends,
  no dispatch is added, the permit is free again, and when the release succeeded the task is
  pending.\<close>

theorem cancelled_claim_released:
  assumes "wk_repo wk = postgres_repository al neg sq" and "world_ok (sv_repo (pl_svc p))"
    and "poll_tick lib wk inp p = (Inr fl, p')" and "0 < pl_permits p"
    and "\<not> ti_cancel_in_claim inp" and "ti_cancelled_after inp"
    and "claim_call wk (sv_repo (pl_svc p)) = (Inr (Some t), s)"
    and "port_release_task (wk_repo wk) (rec_id t) s = (Inr trace, s')"
  shows "fl = Break \<and> pl_tasks p' = pl_tasks p \<and> pl_permits p' = pl_permits p
    \<and> world_status (sv_repo (pl_svc p')) (rec_id t) = Some Pending"
proof -
  have "world_ok s"
    using lawful_opD [OF pg.claim_lawful assms(2)] assms(7) by (simp add: claim_call_def assms(1) lawful_def)
  from pg.release_task_law [OF this] assms(8) have "world_status s' (rec_id t) = Some Pending"
    by (simp add: assms(1))
  with poll_tick_cancelled [OF assms(3-7)] assms(8) show ?thesis by auto
qed

definition late_cancel :: tick_input where
  "late_cancel = quiet_tick\<lparr>ti_cancelled_after := True\<rparr>"

lemma late_claim_sample:
  "\<exists>t s s'. claim_call sample_worker (sample_world submitted_db) = (Inr (Some t), s) \<and> rec_id t = TaskId 1
     \<and> port_release_task postgres (TaskId 1) s = (Inr None, s')"
  by (simp add: run_services run_statements run_operations run_results
      submitted_tasks sample_row_def insert_values_def sample_def mail_def worker_seven_def)

lemma late_tick_sample:
  "\<exists>p'. poll_tick sample_lib sample_worker late_cancel (pool_new sample_worker (sample_svc submitted_db))
     = (Inr Break, p')"
  by (simp add: poll_tick_def update_def reading_def pool_new_def late_cancel_def quiet_tick_def
      in_svc_def attempt_def claim_answered_def release_claimed_def observe_def told_def drop_permit_def
      run_services run_statements run_operations run_results
      submitted_tasks sample_row_def insert_values_def sample_def mail_def worker_seven_def)

theorem cancelled_claim_released_witness:
  "\<exists>p'. poll_tick sample_lib sample_worker late_cancel (pool_new sample_worker (sample_svc submitted_db))
       = (Inr Break, p') \<and> pl_permits p' = 4 \<and> world_status (sv_repo (pl_svc p')) (TaskId 1) = Some Pending"
proof -
  let ?p = "pool_new sample_worker (sample_svc submitted_db)"
  have p: "sv_repo (pl_svc ?p) = sample_world submitted_db" "pl_permits ?p = 4"
    by (simp_all add: pool_new_def sample_svc_def sample_worker_def worker_config_default_def)
  obtain t s s' where c: "claim_call sample_worker (sample_world submitted_db) = (Inr (Some t), s)"
    "rec_id t = TaskId 1" "port_release_task postgres (TaskId 1) s = (Inr None, s')"
    using late_claim_sample by blast
  obtain p' where run: "poll_tick sample_lib sample_worker late_cancel ?p = (Inr Break, p')"
    using late_tick_sample by blast
  have wk: "wk_repo sample_worker = postgres" by (simp add: sample_worker_def)
  have ok: "world_ok (sv_repo (pl_svc ?p))" using world_ok_sample [OF reachable_submitted] p(1) by simp
  have claim: "claim_call sample_worker (sv_repo (pl_svc ?p)) = (Inr (Some t), s)" using c(1) p(1) by simp
  have release: "port_release_task (wk_repo sample_worker) (rec_id t) s = (Inr None, s')"
    using c(2,3) wk by simp
  have "0 < pl_permits ?p" "\<not> ti_cancel_in_claim late_cancel" "ti_cancelled_after late_cancel"
    using p(2) by (simp_all add: late_cancel_def quiet_tick_def)
  from cancelled_claim_released [OF sample_repo ok run this claim release] p(2) c(2) run
  show ?thesis by simp
qed



section \<open>The sweeper\<close>

text \<open>An error of one of the three calls does not keep the sweeper from the others: a sweep that
  does not panic has recovered, cleaned up and expired, each on what the one before left.\<close>

theorem sweep_makes_every_call:
  assumes "sweep_tick lib sw sv = (Inr u, sv')"
  shows "\<exists>r1 s1 r2 s2 r3. port_recover (sw_repo sw) (sv_repo sv) = (r1, s1)
    \<and> port_cleanup_keys (sw_repo sw) s1 = (r2, s2)
    \<and> port_expire (sw_repo sw) (sw_suspend_timeout sw) s2 = (r3, sv_repo sv')"
  using sweep_tick_calls [OF assms] by metis

definition failing_world :: "db \<Rightarrow> world" where
  "failing_world d = (sample_world d)\<lparr>w_envs := (\<lambda>n. if n = 0
     then (quiet_env 100)\<lparr>e_fault := (\<lambda>_. Some PoolTimedOut)\<rparr> else quiet_env 100)\<rparr>"

lemma failing_sweep:
  "\<exists>sv'. sweep_tick sample_lib (sweeper_new postgres) \<lparr>sv_repo = failing_world empty_db, sv_obs = []\<rparr> = (Inr (), sv')"
  by (simp add: sweep_tick_def sweep_recover_def sweep_keys_def sweep_suspended_def sweeper_new_def
      failing_world_def sample_world_def attempt_def observe_def in_world_def run_statements run_operations
      cleanup_expired_idempotency_keys_def expire_suspended_tasks_def sqlx_failure_def
      run_results from_secs_def nanos_per_sec_def as_secs_def)

theorem sweep_makes_every_call_witness:
  "\<exists>r1 s1 r2 s2 r3 s3. port_recover postgres (failing_world empty_db) = (r1, s1)
     \<and> port_cleanup_keys postgres s1 = (r2, s2) \<and> port_expire postgres (from_secs 86400) s2 = (r3, s3)"
proof -
  obtain sv' where "sweep_tick sample_lib (sweeper_new postgres)
    \<lparr>sv_repo = failing_world empty_db, sv_obs = []\<rparr> = (Inr (), sv')" using failing_sweep by blast
  from sweep_makes_every_call [OF this] show ?thesis by (auto simp: sweeper_new_def)
qed

text \<open>C25: The recovery counters are exact: for every queue, what a sweep adds to
  \<open>iron_defer_zombie_recoveries_total\<close> is the number of tasks of that queue in the result, in
  whatever order the hash map is iterated.\<close>

theorem sweep_counts_recoveries:
  assumes "sw_metrics sw" and "reorders (sw_queue_order sw)"
  shows "counted ZOMBIE_RECOVERIES_TOTAL [(''queue'', VText q)]
      (emit_per_queue_metrics sw rs) = length (filter (\<lambda>r. recovery_key r = q) rs)"
  by (rule recoveries_counted [OF assms])

definition recovered_pair :: "recovered_task list" where
  "recovered_pair = [(TaskId 1, mail, TaskKind ''send'', None, Recovered),
     (TaskId 2, mail, TaskKind ''send'', None, RecoveryFailed)]"

theorem sweep_counts_recoveries_witness:
  "counted ZOMBIE_RECOVERIES_TOTAL [(''queue'', VText ''mail'')]
      (emit_per_queue_metrics (with_metrics (sweeper_new postgres)) recovered_pair) = 2"
proof -
  have "reorders (\<lambda>c :: string counts. c)" by (simp add: reorders_def)
  then show ?thesis
    using sweep_counts_recoveries [of "with_metrics (sweeper_new postgres)" "''mail''" recovered_pair]
    by (simp add: with_metrics_def sweeper_new_def recovered_pair_def mail_def)
qed

end
