(* ===== verification/Engine.thy ===== *)
theory Engine
  imports Worker_Props Sweeper
begin

text \<open>
  The engine facade (\<open>crates/api/src/lib.rs\<close>, \<open>task_handler_adapter.rs\<close>): the validation of
  what a caller submits, the typed and the raw submissions, the task-management calls, and the
  builder. A caller's task type is a record of its kind and its two conversions, which a
  serialization library derives; the text of a library error is its result.
\<close>

record 't task_type =
  tt_kind :: string
  tt_type_name :: string
  tt_to_json :: "'t \<Rightarrow> string + json"
  tt_from_json :: "json \<Rightarrow> string + 't"

record ('s, 'tx) engine =
  en_repo :: "'s task_repository"
  en_tx_repo :: "'tx tx_repository option"
  en_registry :: "'s task_registry"
  en_worker_config :: worker_config
  en_producer_config :: producer_config
  en_queue :: queue_name
  en_metrics :: bool
  en_readiness_timeout :: duration
  en_audit_log :: bool
  en_unlogged_tables :: bool

type_synonym ('s, 'a) api = "('s svc, failure, 'a) act"

definition from_port :: "('s, 'a) op \<Rightarrow> ('s, 'a) api" where
  "from_port m sv = (case m (sv_repo sv) of (r, s) \<Rightarrow> (r, sv\<lparr>sv_repo := s\<rparr>))"

definition tell :: "observation list \<Rightarrow> ('s, unit) api" where
  "tell obs sv = (Inr (), sv\<lparr>sv_obs := sv_obs sv @ obs\<rparr>)"

section \<open>Validation\<close>

definition check_that :: "bool \<Rightarrow> message \<Rightarrow> unit res" where
  "check_that ok m = (if ok then Inr () else Inl (invalid_payload m))"

definition quote :: string where
  "quote = [CHR 0x27]"

definition region_char :: "char \<Rightarrow> bool" where
  "region_char c \<longleftrightarrow> is_ascii_lowercase c \<or> is_ascii_digit c \<or> c = CHR ''-''"

definition validate_region :: "string \<Rightarrow> unit res" where
  "validate_region region =
     and_then (check_that (region \<noteq> []) [Lit ''region label must not be empty'']) (\<lambda>_.
     and_then (check_that (length region \<le> REGION_MAX_LEN)
       [Lit ''region label length '', Num (int (length region)), Lit '' exceeds maximum of '',
        Num (int REGION_MAX_LEN), Lit '' characters'']) (\<lambda>_.
     check_that (list_all region_char region)
       [Lit (''region label '' @ quote), Str region,
        Lit (quote @ '' must contain only lowercase ASCII letters, digits, and hyphens'')]))"

definition validate_region_authorization :: "producer_config \<Rightarrow> string option \<Rightarrow> unit res" where
  "validate_region_authorization pc region = (case region of
      None \<Rightarrow> Inr ()
    | Some r \<Rightarrow> and_then (validate_region r) (\<lambda>_.
        check_that (pc_allowed_regions pc = [] \<or> r \<in> set (pc_allowed_regions pc))
          [Lit (''unauthorized region '' @ quote), Str r, Lit (quote @ ''; allowed regions: ''),
           DbgList (pc_allowed_regions pc)]))"

definition validate_idempotency_key :: "string \<Rightarrow> unit res" where
  "validate_idempotency_key key =
     and_then (check_that (key \<noteq> []) [Lit ''idempotency key must not be empty'']) (\<lambda>_.
     check_that (length key \<le> IDEMPOTENCY_KEY_MAX_LEN)
       [Lit ''idempotency key length '', Num (int (length key)), Lit '' exceeds maximum of '',
        Num (int IDEMPOTENCY_KEY_MAX_LEN), Lit '' characters''])"

definition validate_scheduled_at :: "ambient \<Rightarrow> time \<Rightarrow> unit res" where
  "validate_scheduled_at am dt =
     (let year = am_year am dt in
      check_that (-4712 \<le> year \<and> year \<le> 294276)
        [Lit ''scheduled_at year '', Num year,
         Lit '' is outside Postgres timestamptz range (-4712..294276)''])"

definition validate_schedule :: "ambient \<Rightarrow> time option \<Rightarrow> unit res" where
  "validate_schedule am scheduled_at = (case scheduled_at of
      None \<Rightarrow> Inr () | Some dt \<Rightarrow> validate_scheduled_at am dt)"

definition parse_queue :: "string \<Rightarrow> queue_name res" where
  "parse_queue queue = map_err (\<lambda>e. invalid_payload
     (Lit ''invalid queue name: '' # display_validation_error e)) (queue_try_from queue)"

definition require_handler :: "'s task_registry \<Rightarrow> string \<Rightarrow> message \<Rightarrow> unit res" where
  "require_handler reg kind m = check_that (registry_get reg kind \<noteq> None) m"

definition no_handler :: "string \<Rightarrow> message" where
  "no_handler kind = [Lit ''no handler registered for kind '', Dbg kind]"

definition no_handler_type :: "'t task_type \<Rightarrow> message" where
  "no_handler_type tt = no_handler (tt_kind tt)
     @ [Lit (CHR '' '' # [CHR 0xE2, CHR 0x80, CHR 0x94] @ '' call .register::<''),
        Str (tt_type_name tt), Lit ''>() before .build()'']"

definition to_payload :: "'t task_type \<Rightarrow> 't \<Rightarrow> json res" where
  "to_payload tt task = map_err (\<lambda>e. Error (InvalidPayload (Serialization
     [Lit ''task payload serialization failed: '', Str e]))) (tt_to_json tt task)"

definition check_max_attempts :: "int option \<Rightarrow> unit res" where
  "check_max_attempts mx = (case mx of
      None \<Rightarrow> Inr ()
    | Some ma \<Rightarrow> check_that (1 \<le> ma) [Lit ''max_attempts must be >= 1, got '', Num ma])"

section \<open>The lifecycle log of a submission\<close>

definition emit_task_enqueued :: "task_record \<Rightarrow> bool \<Rightarrow> observation list" where
  "emit_task_enqueued r log_payload =
     [log_of LevelInfo (Some ''task_enqueued'')
       ([(''task_id'', VId (task_uuid (rec_id r))), (''queue'', VText (queue_str (rec_queue r))),
         (''kind'', VText (kind_str (rec_kind r))), (''priority'', VInt (priority_get (rec_priority r))),
         (''attempt'', VInt 0), (''max_attempts'', VInt (max_get (rec_max_attempts r))),
         (''scheduled_at'', VTime (rec_scheduled_at r))] @ payload_field log_payload r)
       ''task enqueued'']"

definition announce :: "('s, 'tx) engine \<Rightarrow> ('r, task_record) api \<Rightarrow> ('r, task_record) api" where
  "announce en m = andthen m (\<lambda>record.
     andthen (tell (emit_task_enqueued record (wc_log_payload (en_worker_config en)))) (\<lambda>_. return record))"

definition announce_keyed ::
  "('s, 'tx) engine \<Rightarrow> ('r, task_record \<times> bool) api \<Rightarrow> ('r, task_record \<times> bool) api" where
  "announce_keyed en m = andthen m (\<lambda>(record, created).
     andthen (tell (emit_task_enqueued record (wc_log_payload (en_worker_config en))))
       (\<lambda>_. return (record, created)))"

section \<open>Submissions\<close>

definition engine_enqueue_raw ::
  "('s, 'tx) engine \<Rightarrow> ambient \<Rightarrow> string \<Rightarrow> string \<Rightarrow> json \<Rightarrow> time option \<Rightarrow> int option \<Rightarrow> int option
     \<Rightarrow> string option \<Rightarrow> string option \<Rightarrow> ('s, task_record) api" where
  "engine_enqueue_raw en am queue kind payload scheduled_at prio mx trace_id region =
     andthen (lift (
       and_then (validate_region_authorization (en_producer_config en) region) (\<lambda>_.
       and_then (check_that (kind \<noteq> []) [Lit ''task kind must not be empty'']) (\<lambda>_.
       and_then (require_handler (en_registry en) kind (no_handler kind)) (\<lambda>_.
       and_then (check_max_attempts mx) (\<lambda>_.
       and_then (validate_schedule am scheduled_at) (\<lambda>_. parse_queue queue)))))))
     (\<lambda>queue_name. announce en (from_port
       (enqueue_raw (en_repo en) am queue_name kind payload scheduled_at prio mx trace_id region)))"

definition engine_enqueue_raw_idempotent ::
  "('s, 'tx) engine \<Rightarrow> ambient \<Rightarrow> string \<Rightarrow> string \<Rightarrow> json \<Rightarrow> time option \<Rightarrow> int option \<Rightarrow> int option
     \<Rightarrow> string \<Rightarrow> string option \<Rightarrow> string option \<Rightarrow> ('s, task_record \<times> bool) api" where
  "engine_enqueue_raw_idempotent en am queue kind payload scheduled_at prio mx key trace_id region =
     andthen (lift (
       and_then (validate_region_authorization (en_producer_config en) region) (\<lambda>_.
       and_then (validate_idempotency_key key) (\<lambda>_.
       and_then (check_that (kind \<noteq> []) [Lit ''task kind must not be empty'']) (\<lambda>_.
       and_then (require_handler (en_registry en) kind (no_handler kind)) (\<lambda>_.
       and_then (check_max_attempts mx) (\<lambda>_.
       and_then (validate_schedule am scheduled_at) (\<lambda>_. parse_queue queue))))))))
     (\<lambda>queue_name. announce_keyed en (from_port
       (enqueue_raw_idempotent (en_repo en) am queue_name kind payload scheduled_at prio mx key
         (wc_idempotency_key_retention (en_worker_config en)) trace_id region)))"

definition enqueue_inner ::
  "('s, 'tx) engine \<Rightarrow> ambient \<Rightarrow> 't task_type \<Rightarrow> string \<Rightarrow> 't \<Rightarrow> time option
     \<Rightarrow> ('s, task_record) api" where
  "enqueue_inner en am tt queue task scheduled_at =
     andthen (lift (
       and_then (require_handler (en_registry en) (tt_kind tt) (no_handler_type tt)) (\<lambda>_.
       and_then (parse_queue queue) (\<lambda>queue_name.
       and_then (validate_schedule am scheduled_at) (\<lambda>_.
       and_then (to_payload tt task) (\<lambda>payload. Inr (queue_name, payload)))))))
     (\<lambda>(queue_name, payload). announce en (from_port
       (enqueue (en_repo en) am queue_name (tt_kind tt) payload scheduled_at)))"

definition engine_enqueue ::
  "('s, 'tx) engine \<Rightarrow> ambient \<Rightarrow> 't task_type \<Rightarrow> string \<Rightarrow> 't \<Rightarrow> ('s, task_record) api" where
  "engine_enqueue en am tt queue task = enqueue_inner en am tt queue task None"

definition engine_enqueue_at ::
  "('s, 'tx) engine \<Rightarrow> ambient \<Rightarrow> 't task_type \<Rightarrow> string \<Rightarrow> 't \<Rightarrow> time \<Rightarrow> ('s, task_record) api" where
  "engine_enqueue_at en am tt queue task scheduled_at =
     enqueue_inner en am tt queue task (Some scheduled_at)"

definition engine_enqueue_with_region ::
  "('s, 'tx) engine \<Rightarrow> ambient \<Rightarrow> 't task_type \<Rightarrow> string \<Rightarrow> 't \<Rightarrow> string \<Rightarrow> ('s, task_record) api" where
  "engine_enqueue_with_region en am tt queue task region =
     andthen (lift (
       and_then (validate_region_authorization (en_producer_config en) (Some region)) (\<lambda>_.
       and_then (require_handler (en_registry en) (tt_kind tt) (no_handler_type tt)) (\<lambda>_.
       to_payload tt task))))
     (\<lambda>payload. engine_enqueue_raw en am queue (tt_kind tt) payload None None None None (Some region))"

definition enqueue_keyed ::
  "('s, 'tx) engine \<Rightarrow> ambient \<Rightarrow> 't task_type \<Rightarrow> string \<Rightarrow> 't \<Rightarrow> string \<Rightarrow> string option \<Rightarrow> message
     \<Rightarrow> ('s, task_record \<times> bool) api" where
  "enqueue_keyed en am tt queue task key region no_handler_message =
     andthen (lift (
       and_then (validate_idempotency_key key) (\<lambda>_.
       and_then (require_handler (en_registry en) (tt_kind tt) no_handler_message) (\<lambda>_.
       and_then (parse_queue queue) (\<lambda>queue_name.
       and_then (to_payload tt task) (\<lambda>payload. Inr (queue_name, payload)))))))
     (\<lambda>(queue_name, payload). announce_keyed en (from_port
       (enqueue_idempotent (en_repo en) am queue_name (tt_kind tt) payload None key
         (wc_idempotency_key_retention (en_worker_config en)) region)))"

definition engine_enqueue_idempotent ::
  "('s, 'tx) engine \<Rightarrow> ambient \<Rightarrow> 't task_type \<Rightarrow> string \<Rightarrow> 't \<Rightarrow> string
     \<Rightarrow> ('s, task_record \<times> bool) api" where
  "engine_enqueue_idempotent en am tt queue task key =
     enqueue_keyed en am tt queue task key None (no_handler_type tt)"

definition engine_enqueue_idempotent_with_region ::
  "('s, 'tx) engine \<Rightarrow> ambient \<Rightarrow> 't task_type \<Rightarrow> string \<Rightarrow> 't \<Rightarrow> string \<Rightarrow> string
     \<Rightarrow> ('s, task_record \<times> bool) api" where
  "engine_enqueue_idempotent_with_region en am tt queue task key region =
     andthen (lift (validate_region region)) (\<lambda>_.
       enqueue_keyed en am tt queue task key (Some region) (no_handler (tt_kind tt)))"

text \<open>The two submissions inside a transaction of the caller act on that transaction.\<close>

definition engine_enqueue_in_tx ::
  "('s, 'tx) engine \<Rightarrow> ambient \<Rightarrow> 't task_type \<Rightarrow> string \<Rightarrow> 't \<Rightarrow> string option
     \<Rightarrow> ('tx, task_record) api" where
  "engine_enqueue_in_tx en am tt queue task region =
     andthen (lift (
       and_then (reject_empty_region region) (\<lambda>_.
       and_then (require_handler (en_registry en) (tt_kind tt) (no_handler_type tt)) (\<lambda>_.
       and_then (parse_queue queue) (\<lambda>queue_name.
       and_then (to_payload tt task) (\<lambda>payload. Inr (queue_name, payload)))))))
     (\<lambda>(queue_name, payload). announce en (from_port
       (enqueue_in_tx (en_tx_repo en) am queue_name (tt_kind tt) payload None region)))"

definition engine_enqueue_in_tx_idempotent ::
  "('s, 'tx) engine \<Rightarrow> ambient \<Rightarrow> 't task_type \<Rightarrow> string \<Rightarrow> 't \<Rightarrow> string \<Rightarrow> string option
     \<Rightarrow> ('tx, task_record \<times> bool) api" where
  "engine_enqueue_in_tx_idempotent en am tt queue task key region =
     andthen (lift (
       and_then (validate_idempotency_key key) (\<lambda>_.
       and_then (reject_empty_region region) (\<lambda>_.
       and_then (require_handler (en_registry en) (tt_kind tt) (no_handler_type tt)) (\<lambda>_.
       and_then (parse_queue queue) (\<lambda>queue_name.
       and_then (to_payload tt task) (\<lambda>payload. Inr (queue_name, payload))))))))
     (\<lambda>(queue_name, payload). announce_keyed en (from_port
       (enqueue_in_tx_idempotent (en_tx_repo en) am queue_name (tt_kind tt) payload None key
         (wc_idempotency_key_retention (en_worker_config en)) region)))"

section \<open>Task management\<close>

definition engine_find :: "('s, 'tx) engine \<Rightarrow> task_id \<Rightarrow> ('s, task_record option) api" where
  "engine_find en i = from_port (sched_find (en_repo en) i)"

definition engine_get :: "('s, 'tx) engine \<Rightarrow> 't task_type \<Rightarrow> task_id \<Rightarrow> ('s, 't) api" where
  "engine_get en tt i =
     andthen (engine_find en i) (\<lambda>found. case found of
       None \<Rightarrow> raise (Error (NotFound i))
     | Some record \<Rightarrow>
         if kind_str (rec_kind record) \<noteq> tt_kind tt then
           raise (invalid_payload [Lit ''task kind mismatch: expected '', Dbg (tt_kind tt),
             Lit '', got '', Dbg (kind_str (rec_kind record))])
         else lift (map_err (\<lambda>e. Error (InvalidPayload (Deserialization [Str e])))
           (tt_from_json tt (rec_payload record))))"

definition engine_list :: "('s, 'tx) engine \<Rightarrow> string \<Rightarrow> ('s, task_record list) api" where
  "engine_list en queue =
     andthen (lift (parse_queue queue)) (\<lambda>q. from_port (sched_list (en_repo en) q))"

definition engine_cancel :: "('s, 'tx) engine \<Rightarrow> task_id \<Rightarrow> ('s, cancel_result) api" where
  "engine_cancel en i =
     andthen (from_port (sched_cancel (en_repo en) i)) (\<lambda>result.
     andthen (tell (case result of
         CancelledTask r \<Rightarrow>
           [log_of LevelInfo (Some ''task_cancelled'')
             [(''task_id'', VId (task_uuid (rec_id r))), (''queue'', VText (queue_str (rec_queue r))),
              (''kind'', VText (kind_str (rec_kind r)))] ''task cancelled by operator'']
       | _ \<Rightarrow> [])) (\<lambda>_. return result))"

definition engine_signal ::
  "('s, 'tx) engine \<Rightarrow> ambient \<Rightarrow> task_id \<Rightarrow> json option \<Rightarrow> ('s, task_record) api" where
  "engine_signal en am i payload = from_port (sched_signal (en_repo en) am i payload)"

definition engine_list_tasks :: "('s, 'tx) engine \<Rightarrow> list_tasks_filter \<Rightarrow> ('s, list_tasks_result) api" where
  "engine_list_tasks en flt = from_port (sched_list_tasks (en_repo en) flt)"

definition engine_queue_statistics :: "('s, 'tx) engine \<Rightarrow> bool \<Rightarrow> ('s, queue_stats list) api" where
  "engine_queue_statistics en by_region = from_port (sched_queue_statistics (en_repo en) by_region)"

definition engine_worker_status :: "('s, 'tx) engine \<Rightarrow> ('s, worker_status list) api" where
  "engine_worker_status en = from_port (sched_worker_status (en_repo en))"

definition engine_audit_log ::
  "('s, 'tx) engine \<Rightarrow> task_id \<Rightarrow> int \<Rightarrow> int \<Rightarrow> ('s, list_audit_log_result) api" where
  "engine_audit_log en i limit offset = from_port (sched_audit_log (en_repo en) i limit offset)"

section \<open>The handler of a task type\<close>

text \<open>\<open>TaskHandlerAdapter\<close>: deserialize the payload and run the task; what the task does is its
  own (\<open>T::execute\<close>).\<close>

definition task_handler_adapter ::
  "'t task_type \<Rightarrow> ('t \<Rightarrow> 's task_context \<Rightarrow> 's \<Rightarrow> join_outcome \<times> 's) \<Rightarrow> 's task_handler" where
  "task_handler_adapter tt execute = \<lparr>handler_kind = tt_kind tt,
     handler_execute = (\<lambda>payload ctx s. case tt_from_json tt payload of
         Inl e \<Rightarrow> (Finished (Inl (InvalidPayload (Deserialization [Str e]))), s)
       | Inr task \<Rightarrow> execute task ctx s)\<rparr>"

end
