(* ===== verification/Builder.thy ===== *)
theory Builder
  imports Engine
begin

text \<open>
  The builder of the engine (\<open>IronDeferBuilder\<close> in \<open>crates/api/src/lib.rs\<close>): its fields and
  setters, \<open>build\<close> with its validations, and the reconciliation of the persistence of the tasks
  table, over the part of the Postgres catalog it reads and alters. Running the migrations is a
  library's, given as a parameter.
\<close>

section \<open>Table persistence\<close>

datatype table_persistence = Permanent | Unlogged | Temporary

fun is_unlogged :: "table_persistence \<Rightarrow> bool" where
  "is_unlogged Unlogged = True"
| "is_unlogged _ = False"

fun alter_table_keyword :: "table_persistence \<Rightarrow> string option" where
  "alter_table_keyword Permanent = Some ''LOGGED''"
| "alter_table_keyword Unlogged = Some ''UNLOGGED''"
| "alter_table_keyword Temporary = None"

definition persistence_try_from :: "string \<Rightarrow> message + table_persistence" where
  "persistence_try_from s =
     (if s = ''p'' then Inr Permanent else if s = ''u'' then Inr Unlogged
      else if s = ''t'' then Inr Temporary
      else Inl [Lit ''unknown pg_class.relpersistence value: '', Dbg s])"

text \<open>The code Postgres keeps for each.\<close>

fun persistence_code :: "table_persistence \<Rightarrow> string" where
  "persistence_code Permanent = ''p''"
| "persistence_code Unlogged = ''u''"
| "persistence_code Temporary = ''t''"

lemma persistence_round_trip [simp]: "persistence_try_from (persistence_code p) = Inr p"
  by (cases p) (simp_all add: persistence_try_from_def)

text \<open>
  The catalog: the persistence of \<open>tasks\<close> when the table exists, whether \<open>task_audit_log\<close>
  exists, the name of its foreign key, and the tables themselves. Each statement may fail; a
  permanent table may not reference an unlogged one, a row of the audit log cannot be deleted
  (its trigger raises), and a foreign key is refused over orphans.
\<close>

record catalog =
  cat_tasks :: "string option"
  cat_has_audit :: bool
  cat_fk :: "string option"
  cat_db :: db

record catalog_env =
  ce_fault :: "nat \<Rightarrow> sqlx_error option"
  ce_refused :: "nat \<Rightarrow> sqlx_error"
  ce_text :: "sqlx_error \<Rightarrow> string"

definition orphans :: "db \<Rightarrow> audit_row list" where
  "orphans d = filter (\<lambda>a. aud_task_id a \<notin> set (map row_id (db_tasks d))) (db_audit d)"

definition statement ::
  "catalog_env \<Rightarrow> nat \<Rightarrow> string \<Rightarrow> (catalog \<Rightarrow> bool) \<Rightarrow> (catalog \<Rightarrow> 'a \<times> catalog) \<Rightarrow> (catalog, 'a) api" where
  "statement ce k context accepts f sv =
     (case (case ce_fault ce k of Some e \<Rightarrow> Some e
        | None \<Rightarrow> if accepts (sv_repo sv) then None else Some (ce_refused ce k)) of
       Some e \<Rightarrow> (Inl (Error (Storage (Text [Lit context, Lit '': '', Str (ce_text ce e)]))), sv)
     | None \<Rightarrow> (case f (sv_repo sv) of (x, c) \<Rightarrow> (Inr x, sv\<lparr>sv_repo := c\<rparr>)))"

definition query_catalog :: "catalog_env \<Rightarrow> nat \<Rightarrow> string \<Rightarrow> (catalog \<Rightarrow> 'a) \<Rightarrow> (catalog, 'a) api" where
  "query_catalog ce k context f = statement ce k context (\<lambda>_. True) (\<lambda>c. (f c, c))"

definition alter_catalog ::
  "catalog_env \<Rightarrow> nat \<Rightarrow> string \<Rightarrow> (catalog \<Rightarrow> bool) \<Rightarrow> (catalog \<Rightarrow> catalog) \<Rightarrow> (catalog, unit) api" where
  "alter_catalog ce k context accepts f = statement ce k context accepts (\<lambda>c. ((), f c))"

definition set_table_persistence :: "catalog_env \<Rightarrow> table_persistence \<Rightarrow> (catalog, unit) api" where
  "set_table_persistence ce target = (case alter_table_keyword target of
      None \<Rightarrow> raise (Panic [Lit (''Temporary cannot be set via ALTER TABLE ''
        @ [CHR 0xE2, CHR 0x80, CHR 0x94] @ '' only Permanent and Unlogged'')])
    | Some keyword \<Rightarrow>
        andthen (query_catalog ce 1 ''failed to check task_audit_log existence'' cat_has_audit) (\<lambda>has_audit_table.
        andthen (if has_audit_table then query_catalog ce 2 ''failed to find FK constraint'' cat_fk
                 else return None) (\<lambda>fk_name.
        andthen (if fk_name = None then return ()
                 else alter_catalog ce 3 ''failed to drop FK constraint'' (\<lambda>_. True)
                   (\<lambda>c. c\<lparr>cat_fk := None\<rparr>)) (\<lambda>_.
        andthen (alter_catalog ce 4 (''ALTER TABLE tasks SET '' @ keyword @ '' failed'')
                   (\<lambda>c. target = Unlogged \<longrightarrow> cat_fk c = None)
                   (\<lambda>c. c\<lparr>cat_tasks := Some (persistence_code target)\<rparr>)) (\<lambda>_.
        if target = Permanent \<and> fk_name \<noteq> None then
          andthen (alter_catalog ce 5 ''failed to clear orphaned audit logs''
                    (\<lambda>c. orphans (cat_db c) = []) (\<lambda>c. c)) (\<lambda>_.
          alter_catalog ce 6 ''failed to restore FK constraint''
            (\<lambda>c. orphans (cat_db c) = []) (\<lambda>c. c\<lparr>cat_fk := fk_name\<rparr>))
        else return ())))))"

definition plain_log :: "level \<Rightarrow> string \<Rightarrow> observation list" where
  "plain_log lv text = [log_of lv None [] text]"

definition reconcile_table_persistence :: "catalog_env \<Rightarrow> bool \<Rightarrow> (catalog, unit) api" where
  "reconcile_table_persistence ce want_unlogged =
     andthen (query_catalog ce 0 ''failed to query table persistence'' cat_tasks) (\<lambda>row. case row of
       None \<Rightarrow> return ()
     | Some code \<Rightarrow>
         andthen (lift (map_err (\<lambda>m. Error (Storage (Text m))) (persistence_try_from code))) (\<lambda>persistence.
         andthen
           (if want_unlogged \<and> \<not> is_unlogged persistence then
              andthen (tell (plain_log LevelWarn (''converting tasks table to UNLOGGED '' @ dash
                @ '' data will be LOST on Postgres crash recovery''))) (\<lambda>_.
              set_table_persistence ce Unlogged)
            else if \<not> want_unlogged \<and> is_unlogged persistence then
              andthen (tell (plain_log LevelWarn ''restoring tasks table to LOGGED (WAL-backed)'')) (\<lambda>_.
              set_table_persistence ce Permanent)
            else return ()) (\<lambda>_.
         tell (if want_unlogged
           then plain_log LevelWarn (''UNLOGGED table mode enabled '' @ dash
               @ '' data will be LOST on Postgres crash recovery. Not suitable for durable workloads.'')
             @ plain_log LevelInfo ''tasks table persistence: UNLOGGED''
           else plain_log LevelInfo ''tasks table persistence: LOGGED''))))"

section \<open>Repairing the migrations\<close>

text \<open>The table \<open>_sqlx_migrations\<close> of the migration library, as far as the repair looks at it. The
  repair is a function of the pool, and a method of the engine that wraps its error.\<close>

record migration =
  mg_version :: int
  mg_success :: bool

definition repair_migrations :: "sqlx_error option \<Rightarrow> migration list \<Rightarrow> (adapter_error + unit) \<times> migration list" where
  "repair_migrations fault ms = (case fault of
      Some e \<Rightarrow> (Inl (Query e), ms)
    | None \<Rightarrow> (Inr (), filter mg_success ms))"

definition engine_repair_migrations :: "sqlx_error option \<Rightarrow> (migration list, unit) op" where
  "engine_repair_migrations fault ms = (case repair_migrations fault ms of
      (r, ms') \<Rightarrow> (map_err (\<lambda>e. Error (Migration (Adapter e))) r, ms'))"

section \<open>The builder\<close>

record 's builder =
  bd_pool :: bool
  bd_registry :: "'s task_registry"
  bd_skip_migrations :: bool
  bd_worker_config :: worker_config
  bd_producer_cfg :: producer_config
  bd_database_config :: database_config
  bd_queue :: "string option"
  bd_metrics :: bool
  bd_readiness_timeout :: duration

definition builder_default :: "'s builder" where
  "builder_default = \<lparr>bd_pool = False, bd_registry = registry_new, bd_skip_migrations = False,
     bd_worker_config = worker_config_default, bd_producer_cfg = producer_config_default,
     bd_database_config = database_config_default, bd_queue = None, bd_metrics = False,
     bd_readiness_timeout = from_secs 5\<rparr>"

definition set_pool :: "'s builder \<Rightarrow> 's builder" where
  "set_pool b = b\<lparr>bd_pool := True\<rparr>"

definition register_task ::
  "'t task_type \<Rightarrow> ('t \<Rightarrow> 's task_context \<Rightarrow> 's \<Rightarrow> join_outcome \<times> 's) \<Rightarrow> 's builder \<Rightarrow> 's builder" where
  "register_task tt execute b =
     b\<lparr>bd_registry := snd (register (task_handler_adapter tt execute) (bd_registry b))\<rparr>"

definition set_worker_config :: "worker_config \<Rightarrow> 's builder \<Rightarrow> 's builder" where
  "set_worker_config c b = b\<lparr>bd_worker_config := c\<rparr>"

definition set_producer_config :: "producer_config \<Rightarrow> 's builder \<Rightarrow> 's builder" where
  "set_producer_config c b = b\<lparr>bd_producer_cfg := c\<rparr>"

definition set_database_config :: "database_config \<Rightarrow> 's builder \<Rightarrow> 's builder" where
  "set_database_config c b = b\<lparr>bd_database_config := c\<rparr>"

definition set_sweeper_interval :: "duration \<Rightarrow> 's builder \<Rightarrow> 's builder" where
  "set_sweeper_interval d b = b\<lparr>bd_worker_config := (bd_worker_config b)\<lparr>wc_sweeper_interval := d\<rparr>\<rparr>"

definition set_shutdown_timeout :: "duration \<Rightarrow> 's builder \<Rightarrow> 's builder" where
  "set_shutdown_timeout d b = b\<lparr>bd_worker_config := (bd_worker_config b)\<lparr>wc_shutdown_timeout := d\<rparr>\<rparr>"

definition set_readiness_timeout :: "duration \<Rightarrow> 's builder \<Rightarrow> 's builder" where
  "set_readiness_timeout d b = b\<lparr>bd_readiness_timeout := d\<rparr>"

definition set_queue :: "string \<Rightarrow> 's builder \<Rightarrow> 's builder" where
  "set_queue name b = b\<lparr>bd_queue := Some name\<rparr>"

definition set_metrics :: "'s builder \<Rightarrow> 's builder" where
  "set_metrics b = b\<lparr>bd_metrics := True\<rparr>"

definition set_skip_migrations :: "bool \<Rightarrow> 's builder \<Rightarrow> 's builder" where
  "set_skip_migrations skip b = b\<lparr>bd_skip_migrations := skip\<rparr>"

text \<open>\<open>build\<close>: the repositories it wires up are given for the audit flag of the configuration.\<close>

definition engine_build ::
  "(catalog \<Rightarrow> (string + unit) \<times> catalog) \<Rightarrow> catalog_env \<Rightarrow> (bool \<Rightarrow> 's task_repository)
     \<Rightarrow> (bool \<Rightarrow> 'tx tx_repository) \<Rightarrow> 's builder \<Rightarrow> (catalog, ('s, 'tx) engine) api" where
  "engine_build migrate ce repo tx_repo b =
     andthen (lift (map_err invalid_payload (worker_validate (bd_worker_config b)))) (\<lambda>_.
     andthen (lift (map_err invalid_payload (database_validate (bd_database_config b)))) (\<lambda>_.
     andthen (if bd_pool b then return ()
       else raise (Error (Storage (Text [Lit (''PgPool not provided to IronDeferBuilder '' @ dash
         @ '' call .pool(pool) before .build()'')])))) (\<lambda>_.
     andthen (if bd_skip_migrations b then return () else from_port (\<lambda>c. case migrate c of
         (Inl e, c') \<Rightarrow> (Inl (Error (Migration (Foreign e))), c')
       | (Inr u, c') \<Rightarrow> (Inr u, c'))) (\<lambda>_.
     andthen (reconcile_table_persistence ce (dc_unlogged_tables (bd_database_config b))) (\<lambda>_.
     andthen (lift (case bd_queue b of
         Some name \<Rightarrow> parse_queue name
       | None \<Rightarrow> map_err (\<lambda>_. Panic [Lit ''\"default\" is a valid queue name'']) (queue_try_from ''default''))) (\<lambda>queue.
     return \<lparr>en_repo = repo (dc_audit_log (bd_database_config b)),
       en_tx_repo = Some (tx_repo (dc_audit_log (bd_database_config b))), en_registry = bd_registry b,
       en_worker_config = bd_worker_config b, en_producer_config = bd_producer_cfg b,
       en_queue = queue, en_metrics = bd_metrics b, en_readiness_timeout = bd_readiness_timeout b,
       en_audit_log = dc_audit_log (bd_database_config b),
       en_unlogged_tables = dc_unlogged_tables (bd_database_config b)\<rparr>))))))"

section \<open>What a built engine satisfies\<close>

lemma from_port_Inr: "from_port m sv = (Inr x, sv') \<Longrightarrow>
    \<exists>s. m (sv_repo sv) = (Inr x, s) \<and> sv' = sv\<lparr>sv_repo := s\<rparr>"
  by (auto simp: from_port_def split: prod.splits)

lemma query_catalog_Inr:
  "query_catalog ce k context f sv = (Inr x, sv') \<longleftrightarrow>
     ce_fault ce k = None \<and> x = f (sv_repo sv) \<and> sv' = sv"
  by (auto simp: query_catalog_def statement_def split: option.splits)

lemma alter_catalog_Inr:
  "alter_catalog ce k context accepts f sv = (Inr u, sv') \<longleftrightarrow>
     ce_fault ce k = None \<and> accepts (sv_repo sv) \<and> sv' = sv\<lparr>sv_repo := f (sv_repo sv)\<rparr>"
  by (auto simp: alter_catalog_def statement_def split: option.splits)

lemmas catalog_Inr = query_catalog_Inr alter_catalog_Inr

lemma set_table_persistence_Inr:
  "set_table_persistence ce target sv = (Inr u, sv') \<Longrightarrow>
     cat_tasks (sv_repo sv') = Some (persistence_code target)"
  by (cases target)
    (auto simp: set_table_persistence_def andthen_Inr_iff catalog_Inr return_apply raise_apply split: if_splits)

lemma tell_Inr: "tell obs sv = (Inr u, sv') \<longleftrightarrow> sv' = sv\<lparr>sv_obs := sv_obs sv @ obs\<rparr>"
  by (auto simp: tell_def)

lemma persistence_try_from_Inr: "persistence_try_from s = Inr p \<longleftrightarrow> s = persistence_code p"
  by (cases p) (auto simp: persistence_try_from_def split: if_splits)

declare map_err_Inr [simp]

lemma reconcile_Inr:
  assumes "reconcile_table_persistence ce want sv = (Inr u, sv')" and "cat_tasks (sv_repo sv) \<noteq> None"
  shows "(cat_tasks (sv_repo sv') = Some ''u'') = want"
proof -
  from assms(2) obtain code where code: "cat_tasks (sv_repo sv) = Some code" by blast
  let ?change = "\<lambda>p. if want \<and> \<not> is_unlogged p then
              andthen (tell (plain_log LevelWarn (''converting tasks table to UNLOGGED '' @ dash
                @ '' data will be LOST on Postgres crash recovery''))) (\<lambda>_.
              set_table_persistence ce Unlogged)
            else if \<not> want \<and> is_unlogged p then
              andthen (tell (plain_log LevelWarn ''restoring tasks table to LOGGED (WAL-backed)'')) (\<lambda>_.
              set_table_persistence ce Permanent)
            else return ()"
  from assms(1) code obtain p sv1 u1 where p: "code = persistence_code p"
    and change: "?change p sv = (Inr u1, sv1)" and told: "sv_repo sv' = sv_repo sv1"
    unfolding reconcile_table_persistence_def
    by (auto simp: andthen_Inr_iff catalog_Inr lift_apply persistence_try_from_Inr tell_Inr)
  have "(cat_tasks (sv_repo sv1) = Some ''u'') = want"
    using change code p
    by (cases p; cases want)
      (auto simp: andthen_Inr_iff tell_Inr return_apply dest!: set_table_persistence_Inr)
  with told show ?thesis by simp
qed

lemma database_validate_Inr:
  "database_validate c = Inr () \<longleftrightarrow> \<not> (dc_unlogged_tables c \<and> dc_audit_log c)"
  by (simp add: database_validate_def)

lemma parse_queue_Inr: "parse_queue s = Inr q \<longleftrightarrow> queue_valid s \<and> q = QueueName s"
  by (simp add: parse_queue_def queue_try_from_Inr)

lemma engine_build_Inr:
  assumes "engine_build migrate ce repo tx_repo b sv = (Inr en, sv')"
  shows "worker_config_ok (en_worker_config en) \<and> en_worker_config en = bd_worker_config b
    \<and> \<not> (en_unlogged_tables en \<and> en_audit_log en) \<and> bd_pool b \<and> queue_valid (queue_str (en_queue en))
    \<and> (\<forall>name. bd_queue b = Some name \<longrightarrow> en_queue en = QueueName name)
    \<and> en_repo en = repo (en_audit_log en) \<and> en_registry en = bd_registry b"
  using assms unfolding engine_build_def
  by (auto simp: andthen_Inr_iff lift_apply worker_validate_Inr database_validate_Inr return_apply
      raise_apply parse_queue_Inr queue_try_from_Inr split: if_splits option.splits)

lemma engine_build_persistence:
  assumes "engine_build migrate ce repo tx_repo b sv = (Inr en, sv')" and "bd_skip_migrations b"
    and "cat_tasks (sv_repo sv) \<noteq> None"
  shows "(cat_tasks (sv_repo sv') = Some ''u'') = en_unlogged_tables en"
proof -
  from assms(1,2) obtain sv1 u where "reconcile_table_persistence ce (dc_unlogged_tables (bd_database_config b)) sv = (Inr u, sv1)"
    and "sv_repo sv' = sv_repo sv1" and "en_unlogged_tables en = dc_unlogged_tables (bd_database_config b)"
    unfolding engine_build_def
    by (auto simp: andthen_Inr_iff lift_apply return_apply raise_apply split: if_splits)
  with reconcile_Inr assms(3) show ?thesis by metis
qed

end
