(* ===== verification/Engine_Run.thy ===== *)
theory Engine_Run
  imports Builder Lease
begin

text \<open>
  Starting and stopping the engine (\<open>IronDefer::start\<close> in \<open>crates/api/src/lib.rs\<close>): the guard
  against a second start, the poll loop with the dispatches and the sweeper running beside it,
  and the shutdown, which drains the pool within a timeout or aborts what is left and gives the
  leases back. The inputs are the events of the runtime in the order they happen.
\<close>

definition worker_of ::
  "('s, 'tx) engine \<Rightarrow> worker_id \<Rightarrow> 's checkpoint_writer \<Rightarrow> (task_error \<Rightarrow> bool) \<Rightarrow> 's worker_service" where
  "worker_of en worker_id writer is_saturation = \<lparr>wk_repo = en_repo en, wk_registry = en_registry en,
     wk_config = en_worker_config en, wk_queue = en_queue en, wk_worker_id = worker_id,
     wk_is_saturation = is_saturation, wk_metrics = en_metrics en,
     wk_checkpoint_writer = Some writer\<rparr>"

definition sweeper_of :: "('s, 'tx) engine \<Rightarrow> (task_error \<Rightarrow> bool) \<Rightarrow> 's sweeper_service" where
  "sweeper_of en is_saturation =
     (let sw = with_saturation_classifier is_saturation (with_suspend_timeout
        (wc_suspend_timeout (en_worker_config en)) (sweeper_new (en_repo en))) in
      if en_metrics en then with_metrics sw else sw)"

section \<open>Running\<close>

datatype 's run_event =
    Iterate backoff_end "tick_input option"
  | TaskEnds nat duration
  | Sweep
  | Elsewhere "'s \<Rightarrow> 's"

text \<open>A dispatch that is not there does not end. A sweep that panics leaves the pool running.\<close>

definition side_event ::
  "lib \<Rightarrow> 's worker_service \<Rightarrow> 's sweeper_service \<Rightarrow> 's run_event \<Rightarrow> 's pool \<Rightarrow> 's pool" where
  "side_event lib wk sw ev p = (case ev of
      TaskEnds i d \<Rightarrow> if i < length (pl_tasks p) then task_ended lib wk i d p else p
    | Sweep \<Rightarrow> snd (in_svc (sweep_tick lib sw) p)
    | Elsewhere f \<Rightarrow> p\<lparr>pl_svc := (pl_svc p)\<lparr>sv_repo := f (sv_repo (pl_svc p))\<rparr>\<rparr>
    | Iterate _ _ \<Rightarrow> p)"

fun run_events ::
  "lib \<Rightarrow> 's worker_service \<Rightarrow> 's sweeper_service \<Rightarrow> 's run_event list \<Rightarrow> ('s, flow) pooled" where
  "run_events lib wk sw [] = return Continue"
| "run_events lib wk sw (ev # events) = (case ev of
      Iterate b inp \<Rightarrow> andthen (loop_body lib wk b inp) (\<lambda>fl. case fl of
          Break \<Rightarrow> return Break
        | Continue \<Rightarrow> run_events lib wk sw events)
    | _ \<Rightarrow> andthen (update (side_event lib wk sw ev)) (\<lambda>_. run_events lib wk sw events))"

section \<open>Shutting down\<close>

fun abort_all :: "'s worker_service \<Rightarrow> nat \<Rightarrow> 's pool \<Rightarrow> 's pool" where
  "abort_all wk 0 p = p"
| "abort_all wk (Suc n) p = abort_all wk n (task_aborted wk 0 p)"

definition panics_of :: "(message \<Rightarrow> string) \<Rightarrow> message option list \<Rightarrow> observation list" where
  "panics_of join_error rs = concat (map (\<lambda>r. case r of
      None \<Rightarrow> []
    | Some m \<Rightarrow> [log_of LevelError None [(''error'', VText (join_error m))]
        ''in-flight task panicked during shutdown'']) rs)"

definition released_observations ::
  "lib \<Rightarrow> worker_id \<Rightarrow> (task_id \<times> string option) list \<Rightarrow> observation list" where
  "released_observations lib w released =
     log_of LevelWarn None [(''worker_id'', VId (worker_uuid w)),
       (''released_count'', VInt (int (length released)))] ''released leases for timed-out in-flight tasks''
     # concat (map (\<lambda>(i, trace_id). emit_transition lib ((transition_event i Running Pending)
         \<lparr>ste_trace_id_hex := trace_id, ste_worker_id := Some w\<rparr>)) released)"

text \<open>After the timeout: abort first, then give the leases back.\<close>

definition abort_and_release ::
  "lib \<Rightarrow> (message \<Rightarrow> string) \<Rightarrow> 's worker_service \<Rightarrow> ('s, unit) pooled" where
  "abort_and_release lib join_error wk =
     (let w = wk_worker_id wk in
      andthen (in_svc (observe [log_of LevelWarn None
        [(''worker_id'', VId (worker_uuid w)),
         (''timeout_secs'', VInt (int (as_secs (wc_shutdown_timeout (wk_config wk)))))]
        ''drain timeout expired, aborting in-flight tasks''])) (\<lambda>_.
      andthen (update (\<lambda>p. abort_all wk (length (pl_tasks p)) p)) (\<lambda>_.
      andthen (update (\<lambda>p. told (panics_of join_error (pl_ended p)) (p\<lparr>pl_ended := []\<rparr>))) (\<lambda>_.
      andthen (in_svc (attempt (port_release_worker (wk_repo wk) w))) (\<lambda>r. case r of
        Inr released \<Rightarrow> in_svc (observe (released_observations lib w released))
      | Inl e \<Rightarrow> in_svc (observe [log_of LevelError None
          [(''worker_id'', VId (worker_uuid w)), (''error'', VText (error_text lib e))]
          ''failed to release leases during shutdown timeout'']))))))"

text \<open>The drain: the given dispatches end, while the last sweep and others go on; when dispatches are
  left over, the timeout has expired.\<close>

fun drain_until ::
  "lib \<Rightarrow> (message \<Rightarrow> string) \<Rightarrow> 's worker_service \<Rightarrow> 's sweeper_service \<Rightarrow> 's run_event list
     \<Rightarrow> 's pool \<Rightarrow> 's pool" where
  "drain_until lib je wk sw [] p = take_results je p"
| "drain_until lib je wk sw (ev # order) p =
     drain_until lib je wk sw order (side_event lib wk sw ev (take_results je p))"

definition shutdown_pool ::
  "lib \<Rightarrow> (message \<Rightarrow> string) \<Rightarrow> 's worker_service \<Rightarrow> 's sweeper_service \<Rightarrow> 's run_event list
     \<Rightarrow> ('s, unit) pooled" where
  "shutdown_pool lib je wk sw order =
     andthen (update (drain_until lib je wk sw order)) (\<lambda>_.
     reading (\<lambda>p. if pl_tasks p = []
       then in_svc (observe [log_of LevelInfo None [] ''worker pool stopped, all in-flight tasks drained''])
       else abort_and_release lib je wk))"

section \<open>Start\<close>

text \<open>The tasks \<open>start\<close> joins last: the sweeper and, with metrics, the refresh of the gauges. Each is
  given as the text of its join error, if it panicked.\<close>

record background =
  bg_sweeper :: "string option"
  bg_refresh :: "string option"

definition joined :: "string option \<Rightarrow> string \<Rightarrow> observation list" where
  "joined err text = (case err of
      None \<Rightarrow> []
    | Some e \<Rightarrow> [log_of LevelError None [(''error'', VText e)] text])"

definition join_background :: "('s, 'tx) engine \<Rightarrow> background \<Rightarrow> observation list" where
  "join_background en bg = joined (bg_sweeper bg) ''sweeper task panicked''
     @ (if en_metrics en then joined (bg_refresh bg) ''task-count refresh loop panicked'' else [])"

text \<open>\<open>started\<close> is the flag of the engine before the call; it is set from then on. When the pool is
  refused, the sweeper is cancelled and joined; until then it may have swept. A panic of the poll loop
  or of the shutdown unwinds \<open>start\<close>.\<close>

definition engine_start ::
  "lib \<Rightarrow> (message \<Rightarrow> string) \<Rightarrow> ('s, 'tx) engine \<Rightarrow> bool \<Rightarrow> 's worker_service \<Rightarrow> 's sweeper_service
     \<Rightarrow> 's run_event list \<Rightarrow> 's run_event list \<Rightarrow> background \<Rightarrow> 's svc
     \<Rightarrow> (failure + unit) \<times> bool \<times> 's pool option" where
  "engine_start lib je en started wk sw events order bg sv =
     (if started then (Inl (Error (InvalidPayload AlreadyStarted)), True, None)
      else (case poll_loop_start wk sv of
          Inl e \<Rightarrow> (Inl (Error e), True, Some (told (joined (bg_sweeper bg) ''sweeper task panicked'')
            (fold (side_event lib wk sw) events (pool_new wk sv))))
        | Inr p \<Rightarrow>
            (case andthen (run_events lib wk sw events) (\<lambda>_. shutdown_pool lib je wk sw order) p of
               (Inl m, q) \<Rightarrow> (Inl (Panic m), True, Some q)
             | (Inr _, q) \<Rightarrow> (Inr (), True, Some (told (join_background en bg) q)))))"

section \<open>What is left after a shutdown\<close>

lemma abort_all_inv:
  "pool_inv wk p \<Longrightarrow> n = length (pl_tasks p) \<Longrightarrow>
     pool_inv wk (abort_all wk n p) \<and> pl_tasks (abort_all wk n p) = []
     \<and> sv_repo (pl_svc (abort_all wk n p)) = sv_repo (pl_svc p)"
proof (induction n arbitrary: p)
  case (Suc n)
  let ?q = "task_aborted wk 0 p"
  have "0 < length (pl_tasks p)" using Suc.prems(2) by linarith
  then have "pool_inv wk ?q" "n = length (pl_tasks ?q)"
    using Suc.prems pool_inv_release [of wk p 0 None]
    by (simp_all add: task_aborted_def release_slot_def guard_drop_def drop_permit_def Let_def
        length_remove_nth)
  from Suc.IH [OF this] show ?case by (simp add: task_aborted_def)
qed simp

lemma side_event_inv: "pool_inv wk p \<Longrightarrow> pool_inv wk (side_event lib wk sw ev p)"
  by (auto simp: side_event_def in_svc_def task_ended_inv split: run_event.splits prod.splits)

lemma run_events_inv: "establishes (pool_inv wk) (run_events lib wk sw events) (pool_inv wk)"
proof (induction events)
  case Nil
  then show ?case by (simp add: establishes_return)
next
  case (Cons ev events)
  show ?case
  proof (cases "\<exists>b inp. ev = Iterate b inp")
    case True
    then obtain b inp where ev: "ev = Iterate b inp" by blast
    have "establishes (pool_inv wk) (case fl of Break \<Rightarrow> return Break | Continue \<Rightarrow> run_events lib wk sw events)
        (pool_inv wk)" for fl
      by (cases fl) (simp_all add: Cons.IH establishes_return)
    then show ?thesis unfolding ev by (simp add: establishes_andthen [OF loop_body_inv])
  next
    case False
    have "establishes (pool_inv wk) (update (side_event lib wk sw ev)) (pool_inv wk)"
      by (rule establishes_update) (rule side_event_inv)
    with False show ?thesis
      by (cases ev) (simp_all add: establishes_andthen [OF _ Cons.IH])
  qed
qed

lemma drain_until_inv: "pool_inv wk p \<Longrightarrow> pool_inv wk (drain_until lib je wk sw order p)"
proof (induction order arbitrary: p)
  case (Cons ev order)
  have "pool_inv wk (take_results je p)" using Cons.prems by simp
  from Cons.IH [OF side_event_inv [OF this]] show ?case by simp
qed simp

lemma in_svc_observe: "in_svc (observe obs) p = (Inr (), told obs p)"
  by (simp add: in_svc_def observe_def told_def)

lemma andthen_told: "andthen (in_svc (observe obs)) k p = k () (told obs p)"
  and andthen_update: "andthen (update f) k p = k () (f p)"
  by (simp_all add: andthen_def in_svc_observe update_def)

lemma abort_and_release_run:
  assumes "abort_and_release lib je wk p = (Inr u, q)" and "pool_inv wk p"
  shows "pool_inv wk q \<and> pl_tasks q = [] \<and> pl_ended q = []
    \<and> (\<exists>r. port_release_worker (wk_repo wk) (wk_worker_id wk) (sv_repo (pl_svc p)) = (r, sv_repo (pl_svc q)))"
proof -
  let ?release = "port_release_worker (wk_repo wk) (wk_worker_id wk)"
  define p0 where "p0 = told [log_of LevelWarn None [(''worker_id'', VId (worker_uuid (wk_worker_id wk))),
         (''timeout_secs'', VInt (int (as_secs (wc_shutdown_timeout (wk_config wk)))))]
        ''drain timeout expired, aborting in-flight tasks''] p"
  define a where "a = abort_all wk (length (pl_tasks p0)) p0"
  define b where "b = told (panics_of je (pl_ended a)) (a\<lparr>pl_ended := []\<rparr>)"
  have a: "pool_inv wk a" "pl_tasks a = []" "sv_repo (pl_svc a) = sv_repo (pl_svc p)"
    using abort_all_inv [of wk p0 "length (pl_tasks p0)"] assms(2) by (simp_all add: a_def p0_def)
  from assms(1) have "andthen (in_svc (attempt ?release)) (\<lambda>r. case r of
        Inr released \<Rightarrow> in_svc (observe (released_observations lib (wk_worker_id wk) released))
      | Inl e \<Rightarrow> in_svc (observe [log_of LevelError None
          [(''worker_id'', VId (worker_uuid (wk_worker_id wk))), (''error'', VText (error_text lib e))]
          ''failed to release leases during shutdown timeout''])) b = (Inr u, q)"
    unfolding abort_and_release_def Let_def andthen_told andthen_update p0_def a_def b_def .
  then obtain r c where c: "in_svc (attempt ?release) b = (Inr r, c)" and q: "\<exists>obs. q = told obs c"
    by (rule andthen_InrE) (auto simp: in_svc_observe split: sum.splits)
  from c have "\<exists>x. ?release (sv_repo (pl_svc b)) = (x, sv_repo (pl_svc c))"
    by (auto simp: in_svc_def attempt_def split: prod.splits sum.splits failure.splits)
  moreover have "pool_inv wk c" "pl_tasks c = []" "pl_ended c = []"
    using a in_svc_fields [OF c] by (simp_all add: pool_inv_def b_def)
  ultimately show ?thesis using q a(3) by (auto simp: b_def)
qed

text \<open>A shutdown that returns leaves no dispatch and no permit taken; when it had to abort, it
  asked for the leases of its worker back.\<close>

lemma shutdown_pool_run:
  assumes "shutdown_pool lib je wk sw order p = (Inr u, q)" and "pool_inv wk p"
  shows "pool_inv wk q \<and> pl_tasks q = []
    \<and> (pl_tasks (drain_until lib je wk sw order p) \<noteq> [] \<longrightarrow>
        (\<exists>s r. port_release_worker (wk_repo wk) (wk_worker_id wk) s = (r, sv_repo (pl_svc q))
           \<and> s = sv_repo (pl_svc (drain_until lib je wk sw order p))))"
proof -
  let ?d = "drain_until lib je wk sw order p"
  have inv: "pool_inv wk ?d" using assms(2) by (rule drain_until_inv)
  have run: "(if pl_tasks ?d = [] then in_svc (observe [log_of LevelInfo None []
      ''worker pool stopped, all in-flight tasks drained'']) else abort_and_release lib je wk) ?d = (Inr u, q)"
    using assms(1) by (simp add: shutdown_pool_def andthen_def update_def reading_def)
  show ?thesis
  proof (cases "pl_tasks ?d = []")
    case True
    with run inv show ?thesis by (auto simp: in_svc_def observe_def)
  next
    case False
    with run have "abort_and_release lib je wk ?d = (Inr u, q)" by simp
    from abort_and_release_run [OF this inv] show ?thesis by auto
  qed
qed

end
