(* ===== verification/Engine_Props.thy ===== *)
theory Engine_Props
  imports Engine_Run Service_Props Repo_Ops
begin

text \<open>
  The properties of the engine: what a submission is checked for, that it is stored and read
  back, what the builder guarantees, and what a shutdown leaves.
\<close>

section \<open>Validation\<close>

lemma check_that_Inr: "check_that ok m = Inr u \<longleftrightarrow> ok"
  by (simp add: check_that_def)

definition region_ok :: "string \<Rightarrow> bool" where
  "region_ok r \<longleftrightarrow> r \<noteq> [] \<and> length r \<le> REGION_MAX_LEN \<and> list_all region_char r"

lemma validate_region_Inr: "validate_region r = Inr u \<longleftrightarrow> region_ok r"
  by (simp add: validate_region_def region_ok_def and_then_Inr_iff check_that_Inr)

definition region_authorized :: "producer_config \<Rightarrow> string option \<Rightarrow> bool" where
  "region_authorized pc region \<longleftrightarrow> pred_option (\<lambda>r. region_ok r
     \<and> (pc_allowed_regions pc = [] \<or> r \<in> set (pc_allowed_regions pc))) region"

lemma validate_region_authorization_Inr:
  "validate_region_authorization pc region = Inr u \<longleftrightarrow> region_authorized pc region"
  by (cases region)
    (auto simp: validate_region_authorization_def region_authorized_def and_then_Inr_iff
      check_that_Inr validate_region_Inr)

lemma validate_schedule_Inr:
  "validate_schedule am s = Inr u \<longleftrightarrow> pred_option (\<lambda>dt. -4712 \<le> am_year am dt \<and> am_year am dt \<le> 294276) s"
  by (cases s) (auto simp: validate_schedule_def validate_scheduled_at_def Let_def check_that_Inr)

lemma check_max_attempts_Inr: "check_max_attempts mx = Inr u \<longleftrightarrow> pred_option (\<lambda>n. 1 \<le> n) mx"
  by (cases mx) (simp_all add: check_max_attempts_def check_that_Inr)

text \<open>Everything the raw submission checks before it touches the backend.\<close>

definition submission_ok ::
  "('s, 'tx) engine \<Rightarrow> ambient \<Rightarrow> string \<Rightarrow> string \<Rightarrow> time option \<Rightarrow> int option \<Rightarrow> string option \<Rightarrow> bool" where
  "submission_ok en am queue kind scheduled_at mx region \<longleftrightarrow>
     region_authorized (en_producer_config en) region \<and> kind \<noteq> []
     \<and> registry_get (en_registry en) kind \<noteq> None \<and> pred_option (\<lambda>n. 1 \<le> n) mx
     \<and> pred_option (\<lambda>dt. -4712 \<le> am_year am dt \<and> am_year am dt \<le> 294276) scheduled_at
     \<and> queue_valid queue"

lemma submission_checks:
  "and_then (validate_region_authorization (en_producer_config en) region) (\<lambda>_.
     and_then (check_that (kind \<noteq> []) m1) (\<lambda>_.
     and_then (require_handler (en_registry en) kind m2) (\<lambda>_.
     and_then (check_max_attempts mx) (\<lambda>_.
     and_then (validate_schedule am scheduled_at) (\<lambda>_. parse_queue queue))))) = Inr q
   \<longleftrightarrow> submission_ok en am queue kind scheduled_at mx region \<and> q = QueueName queue"
  by (simp add: and_then_Inr_iff validate_region_authorization_Inr check_that_Inr require_handler_def
      check_max_attempts_Inr validate_schedule_Inr parse_queue_Inr submission_ok_def)

text \<open>A validation fails with a validation error.\<close>

definition invalid :: "'a res \<Rightarrow> bool" where
  "invalid r \<longleftrightarrow> (\<forall>f. r = Inl f \<longrightarrow> (\<exists>m. f = invalid_payload m))"

lemma invalid_and_then: "invalid r \<Longrightarrow> (\<And>x. invalid (k x)) \<Longrightarrow> invalid (and_then r k)"
  by (cases r) (auto simp: invalid_def)

lemma invalid_leaves:
  "invalid (check_that b m)" "invalid (validate_region r)" "invalid (validate_region_authorization pc g)"
  "invalid (require_handler reg k m)" "invalid (check_max_attempts mx)" "invalid (validate_schedule am s)"
  "invalid (parse_queue q)"
proof -
  show check: "invalid (check_that b m)" for b m by (auto simp: invalid_def check_that_def)
  have ok: "invalid (Inr () :: unit res)" by (simp add: invalid_def)
  show region: "invalid (validate_region r)" for r
    unfolding validate_region_def by (intro invalid_and_then check)
  show "invalid (validate_region_authorization pc g)"
    unfolding validate_region_authorization_def
    by (cases g) (auto intro: ok invalid_and_then region check)
  show "invalid (require_handler reg k m)" unfolding require_handler_def by (rule check)
  show "invalid (check_max_attempts mx)"
    unfolding check_max_attempts_def by (cases mx) (simp_all add: ok check)
  show "invalid (validate_schedule am s)"
    unfolding validate_schedule_def validate_scheduled_at_def Let_def by (cases s) (simp_all add: ok check)
  show "invalid (parse_queue q)"
    unfolding parse_queue_def by (cases "queue_try_from q") (auto simp: invalid_def)
qed

lemma announce_Inr:
  "announce en m sv = (Inr r, sv') \<longleftrightarrow> (\<exists>su. m sv = (Inr r, su)
     \<and> sv' = su\<lparr>sv_obs := sv_obs su @ emit_task_enqueued r (wc_log_payload (en_worker_config en))\<rparr>)"
  by (auto simp: announce_def andthen_Inr_iff tell_def return_apply)

lemma engine_enqueue_raw_Inr:
  "engine_enqueue_raw en am queue kind payload s prio mx tr region sv = (Inr r, sv') \<longleftrightarrow>
     submission_ok en am queue kind s mx region
     \<and> announce en (from_port (enqueue_raw (en_repo en) am (QueueName queue) kind payload s prio mx tr region)) sv
        = (Inr r, sv')"
  unfolding engine_enqueue_raw_def andthen_Inr_iff lift_apply
  by (auto simp: submission_checks)

text \<open>C28: A raw submission that fails a check changes nothing and fails with a validation error: an
  unauthorized or ill-formed region, an empty kind or one without a handler, a maximum of attempts
  below one, a time Postgres cannot hold or an invalid queue name.\<close>

theorem enqueue_raw_rejects:
  assumes "\<not> submission_ok en am queue kind scheduled_at mx region"
  shows "\<exists>m. engine_enqueue_raw en am queue kind payload scheduled_at prio mx trace_id region sv
    = (Inl (invalid_payload m), sv)"
proof -
  let ?checks = "and_then (validate_region_authorization (en_producer_config en) region) (\<lambda>_.
     and_then (check_that (kind \<noteq> []) [Lit ''task kind must not be empty'']) (\<lambda>_.
     and_then (require_handler (en_registry en) kind (no_handler kind)) (\<lambda>_.
     and_then (check_max_attempts mx) (\<lambda>_.
     and_then (validate_schedule am scheduled_at) (\<lambda>_. parse_queue queue)))))"
  have "invalid ?checks" by (intro invalid_and_then invalid_leaves)
  moreover obtain f where f: "?checks = Inl f"
    using submission_checks assms by (cases ?checks) blast+
  ultimately obtain m where "f = invalid_payload m" by (auto simp: invalid_def)
  with f show ?thesis unfolding engine_enqueue_raw_def by (auto simp: andthen_def lift_apply)
qed

definition sample_engine :: "string list \<Rightarrow> (world, db) engine" where
  "sample_engine regions = \<lparr>en_repo = postgres, en_tx_repo = Some (postgres_tx (quiet_env 1) True),
     en_registry = [(''send'', ready_handler)], en_worker_config = worker_config_default,
     en_producer_config = \<lparr>pc_allowed_regions = regions\<rparr>, en_queue = mail, en_metrics = False,
     en_readiness_timeout = from_secs 5, en_audit_log = True, en_unlogged_tables = False\<rparr>"

definition sample_ambient :: ambient where
  "sample_ambient = \<lparr>am_now = 1, am_fresh_id = 9, am_dbg = True, am_json = (\<lambda>_. Inr ''{}''),
     am_from_std = (\<lambda>d. Inr (int (d div 1000))), am_checked_add = (\<lambda>a b. Some (a + b)),
     am_year = (\<lambda>_. 2026)\<rparr>"

theorem enqueue_raw_rejects_witness:
  "\<exists>m. engine_enqueue_raw (sample_engine [''us'']) sample_ambient ''mail'' ''send'' JNull None None None None
    (Some ''eu'') (sample_svc empty_db) = (Inl (invalid_payload m), sample_svc empty_db)"
  by (rule enqueue_raw_rejects) (simp add: submission_ok_def region_authorized_def sample_engine_def)

section \<open>Submissions are stored\<close>

lemma enqueue_raw_stored:
  assumes "world_ok w"
    and "enqueue_raw (postgres_repository al neg sq) am (QueueName queue) kind p s prio mx tr g w = (Inr r, w')"
    and "queue_valid queue"
  obtains e t where "prepare_raw am (QueueName queue) kind p s prio mx tr g = Inr t" "r = stored e t"
    "db_tasks (w_db w') = db_tasks (w_db w) @ [insert_values e t]" "fresh_record t" "world_ok w'"
    "kind_str (rec_kind t) \<noteq> []" "attempt_get (rec_attempts t) \<le> max_get (rec_max_attempts t)"
proof -
  let ?repo = "postgres_repository al neg sq"
  from assms(2) obtain t where t: "prepare_raw am (QueueName queue) kind p s prio mx tr g = Inr t"
    and run: "port_save ?repo t w = (Inr r, w')"
    unfolding enqueue_raw_def andthen_Inr_iff lift_apply by auto
  have fresh: "fresh_record t" using prepare_raw_fresh [OF t] assms(3) by simp
  have ok: "world_ok w'"
    using lawful_opD [OF pg.save_lawful [OF fresh] assms(1) run] by (simp add: lawful_def)
  from t have k: "kind_str (rec_kind t) \<noteq> []" "attempt_get (rec_attempts t) \<le> max_get (rec_max_attempts t)"
    by (auto simp: prepare_raw_Inr new_record_def attempt_zero_def split: option.splits)
  from run have "in_world (\<lambda>e. save e al t) w = (Inr r, w')" by (simp add: postgres_repository_def)
  then obtain e where "save e al t (w_db w) = (Inr r, w_db w')" by (rule in_world_Inr)
  from save_Inr [OF this fresh k] t fresh ok k that show ?thesis by blast
qed

lemma stored_status:
  assumes "world_ok w'" and "db_tasks (w_db w') = rs @ [insert_values e t]" and "fresh_record t"
  shows "world_status w' (rec_id t) = Some Pending"
proof -
  have "row_at (w_db w') (row_id (insert_values e t)) = Some (insert_values e t)"
    using assms(1,2) by (intro row_at_mem db_inv_rows(3)) (simp_all add: world_ok_def)
  moreover have "row_id (insert_values e t) = task_uuid (rec_id t)" by (simp add: insert_values_def)
  ultimately show ?thesis
    using insert_values_pending [OF assms(3), of e] by (simp add: world_status_def status_of_def)
qed

text \<open>C29: A raw submission that succeeds has passed every check, is stored as a pending task, returns
  a record with what was submitted, and is announced once.\<close>

theorem enqueue_raw_accepts:
  assumes "en_repo en = postgres_repository al neg sq" and "world_ok (sv_repo sv)"
    and "engine_enqueue_raw en am queue kind payload scheduled_at prio mx trace_id region sv = (Inr r, sv')"
  shows "submission_ok en am queue kind scheduled_at mx region \<and> world_ok (sv_repo sv')
    \<and> world_status (sv_repo sv') (rec_id r) = Some Pending
    \<and> queue_str (rec_queue r) = queue \<and> kind_str (rec_kind r) = kind \<and> rec_payload r = payload
    \<and> rec_region r = region \<and> rec_status r = Pending
    \<and> sv_obs sv' = sv_obs sv @ emit_task_enqueued r (wc_log_payload (en_worker_config en))"
proof -
  from assms(3) have sub: "submission_ok en am queue kind scheduled_at mx region"
    and ann: "announce en (from_port (enqueue_raw (en_repo en) am (QueueName queue) kind payload
      scheduled_at prio mx trace_id region)) sv = (Inr r, sv')"
    unfolding engine_enqueue_raw_Inr by blast+
  from ann obtain w' where run: "enqueue_raw (postgres_repository al neg sq) am (QueueName queue) kind payload
      scheduled_at prio mx trace_id region (sv_repo sv) = (Inr r, w')"
    and sv': "sv' = sv\<lparr>sv_repo := w', sv_obs := sv_obs sv @ emit_task_enqueued r (wc_log_payload (en_worker_config en))\<rparr>"
    unfolding announce_Inr by (auto simp: assms(1) dest!: from_port_Inr)
  from sub have q: "queue_valid queue" by (simp add: submission_ok_def)
  from assms(2) run q obtain e t where t: "prepare_raw am (QueueName queue) kind payload scheduled_at prio mx trace_id region = Inr t"
    "r = stored e t" "db_tasks (w_db w') = db_tasks (w_db (sv_repo sv)) @ [insert_values e t]"
    "fresh_record t" "world_ok w'" by (rule enqueue_raw_stored)
  have "rec_id r = rec_id t" using t(2) by (simp add: stored_def)
  with stored_status [OF t(5,3,4)] t sub sv' show ?thesis
    by (auto simp: prepare_raw_Inr new_record_def stored_def)
qed

lemma enqueue_sample:
  "\<exists>r sv'. engine_enqueue_raw (sample_engine []) sample_ambient ''mail'' ''send'' JNull None None None None
    (Some ''eu'') (sample_svc empty_db) = (Inr r, sv')"
proof -
  have "region_ok ''eu''"
    by (simp add: region_ok_def REGION_MAX_LEN_def region_char_def is_ascii_lowercase_def byte_def)
  then have sub: "submission_ok (sample_engine []) sample_ambient ''mail'' ''send'' None None (Some ''eu'')"
    by (simp add: submission_ok_def region_authorized_def sample_engine_def registry_get_def)
  have run: "\<exists>r w'. enqueue_raw postgres sample_ambient (QueueName ''mail'') ''send'' JNull None None None None
      (Some ''eu'') (sample_world empty_db) = (Inr r, w')"
    by (simp add: enqueue_raw_def prepare_raw_def reject_empty_region_def parse_max_attempts_def
        parse_kind_def task_kind_try_from_def sample_ambient_def new_record_def Let_def
        validate_invariants_def debug_assert_def REGION_MAX_LEN_def max_attempts_default_def
        attempt_zero_def priority_default_def mail_def
        run_services run_statements run_operations run_results)
  then show ?thesis unfolding engine_enqueue_raw_Inr announce_Inr
    using sub by (auto simp: from_port_def sample_engine_def sample_svc_def)
qed

theorem enqueue_raw_accepts_witness:
  "\<exists>r sv'. engine_enqueue_raw (sample_engine []) sample_ambient ''mail'' ''send'' JNull None None None None
      (Some ''eu'') (sample_svc empty_db) = (Inr r, sv')
     \<and> world_status (sv_repo sv') (rec_id r) = Some Pending \<and> rec_region r = Some ''eu''"
proof -
  obtain r sv' where run: "engine_enqueue_raw (sample_engine []) sample_ambient ''mail'' ''send'' JNull None None None None
      (Some ''eu'') (sample_svc empty_db) = (Inr r, sv')" using enqueue_sample by blast
  have "world_ok (sv_repo (sample_svc empty_db))"
    by (simp add: sample_svc_def world_ok_sample [OF reachable.start])
  from enqueue_raw_accepts [OF _ this run, of True PoolClosed "\<lambda>_. ''sqlx''"] run
  show ?thesis by (auto simp: sample_engine_def postgres_def)
qed

section \<open>A round trip\<close>

text \<open>What a caller enqueues it can get back: for a task type whose conversion to JSON can be
  undone, \<open>get\<close> with the id of the record that \<open>enqueue\<close> returned yields the task submitted, when
  the database does not fail the lookup.\<close>

theorem enqueue_get:
  assumes "en_repo en = postgres_repository al neg sq" and "world_ok (sv_repo sv)"
    and "\<And>j. tt_to_json tt task = Inr j \<Longrightarrow> tt_from_json tt j = Inr task"
    and "engine_enqueue en am tt queue task sv = (Inr r, sv')"
    and "\<And>pt. e_fault (w_envs (sv_repo sv') 0) pt = None"
  shows "\<exists>sv''. engine_get en tt (rec_id r) sv' = (Inr task, sv'')"
proof -
  from assms(4) obtain payload where q: "queue_valid queue" and j: "tt_to_json tt task = Inr payload"
    and ann: "announce en (from_port (enqueue (en_repo en) am (QueueName queue) (tt_kind tt) payload None)) sv
      = (Inr r, sv')"
    unfolding engine_enqueue_def enqueue_inner_def andthen_Inr_iff lift_apply
    by (auto simp: and_then_Inr_iff parse_queue_Inr to_payload_def)
  from ann obtain w' where run: "enqueue_raw (postgres_repository al neg sq) am (QueueName queue) (tt_kind tt) payload
      None None None None None (sv_repo sv) = (Inr r, w')" and sv': "sv_repo sv' = w'"
    unfolding announce_Inr by (auto simp: assms(1) enqueue_def dest!: from_port_Inr)
  from assms(2) run q obtain e t where t: "prepare_raw am (QueueName queue) (tt_kind tt) payload None None None None None = Inr t"
    "r = stored e t" "db_tasks (w_db w') = db_tasks (w_db (sv_repo sv)) @ [insert_values e t]"
    "fresh_record t" "world_ok w'" "kind_str (rec_kind t) \<noteq> []"
    "attempt_get (rec_attempts t) \<le> max_get (rec_max_attempts t)" by (rule enqueue_raw_stored)
  have "find_by_id (w_envs w' 0) (rec_id t) (w_db w') = (Inr (Some (stored e t)), w_db w')"
    using find_saved [OF _ t(3,4,6,7)] t(5) assms(5) sv' by (simp add: world_ok_def)
  then have "engine_find en (rec_id r) sv' = (Inr (Some r), sv'\<lparr>sv_repo := w'\<lparr>w_envs := (\<lambda>n. w_envs w' (Suc n))\<rparr>\<rparr>)"
    using t(2) sv' by (simp add: engine_find_def from_port_def assms(1) postgres_repository_def in_world_def stored_def)
  moreover have "kind_str (rec_kind r) = tt_kind tt" "rec_payload r = payload"
    using t(1,2) by (auto simp: prepare_raw_Inr new_record_def stored_def)
  ultimately show ?thesis
    using assms(3) [OF j] by (simp add: engine_get_def andthen_def lift_apply)
qed

definition int_task :: "int task_type" where
  "int_task = \<lparr>tt_kind = ''send'', tt_type_name = ''Send'', tt_to_json = (\<lambda>i. Inr (JInt i)),
     tt_from_json = (\<lambda>j. case j of JInt i \<Rightarrow> Inr i | _ \<Rightarrow> Inl ''integer expected'')\<rparr>"

lemma enqueue_int_sample:
  "\<exists>r sv'. engine_enqueue (sample_engine []) sample_ambient int_task ''mail'' 42 (sample_svc empty_db) = (Inr r, sv')
     \<and> w_envs (sv_repo sv') 0 = quiet_env 51"
proof -
  have "\<exists>r w'. enqueue postgres sample_ambient (QueueName ''mail'') ''send'' (JInt 42) None (sample_world empty_db) = (Inr r, w')
      \<and> w_envs w' 0 = quiet_env 51"
    by (simp add: enqueue_def enqueue_raw_def prepare_raw_def reject_empty_region_def parse_max_attempts_def
        parse_kind_def task_kind_try_from_def sample_ambient_def new_record_def Let_def
        validate_invariants_def debug_assert_def max_attempts_default_def
        attempt_zero_def priority_default_def mail_def
        run_services run_statements run_operations run_results)
  then show ?thesis
    by (auto simp: engine_enqueue_def enqueue_inner_def andthen_def lift_apply require_handler_def
        check_that_def parse_queue_def validate_schedule_def to_payload_def int_task_def sample_engine_def
        registry_get_def announce_def from_port_def tell_def return_apply sample_svc_def mail_def)
qed

theorem enqueue_get_witness:
  "\<exists>r sv' sv''. engine_enqueue (sample_engine []) sample_ambient int_task ''mail'' 42 (sample_svc empty_db) = (Inr r, sv')
     \<and> engine_get (sample_engine []) int_task (rec_id r) sv' = (Inr 42, sv'')"
proof -
  obtain r sv' where run: "engine_enqueue (sample_engine []) sample_ambient int_task ''mail'' 42 (sample_svc empty_db) = (Inr r, sv')"
    and env: "w_envs (sv_repo sv') 0 = quiet_env 51" using enqueue_int_sample by blast
  have "en_repo (sample_engine []) = postgres_repository True PoolClosed (\<lambda>_. ''sqlx'')"
    by (simp add: sample_engine_def postgres_def)
  moreover have "world_ok (sv_repo (sample_svc empty_db))"
    by (simp add: sample_svc_def world_ok_sample [OF reachable.start])
  moreover have "tt_to_json int_task 42 = Inr j \<Longrightarrow> tt_from_json int_task j = Inr 42" for j
    by (auto simp: int_task_def)
  moreover have "e_fault (w_envs (sv_repo sv') 0) pt = None" for pt by (simp add: env quiet_env_def)
  ultimately show ?thesis using enqueue_get [OF _ _ _ run] run by blast
qed

section \<open>Regions\<close>

text \<open>The restriction to allowed regions binds the raw submission but not the keyed one: on an
  engine that allows only one region, a typed submission with a key and another region is stored,
  while the raw submission with that region is refused.\<close>

theorem keyed_submission_skips_allowed_regions:
  "(\<exists>r sv'. engine_enqueue_idempotent_with_region (sample_engine [''us'']) sample_ambient int_task ''mail'' 42
       ''key'' ''eu'' (sample_svc empty_db) = (Inr (r, True), sv') \<and> rec_region r = Some ''eu'')
   \<and> (\<exists>f. engine_enqueue_raw (sample_engine [''us'']) sample_ambient ''mail'' ''send'' (JInt 42) None None None
       None (Some ''eu'') (sample_svc empty_db) = (Inl f, sample_svc empty_db))"
proof
  have region: "validate_region ''eu'' = Inr ()"
    by (simp add: validate_region_def check_that_def REGION_MAX_LEN_def region_char_def
        is_ascii_lowercase_def byte_def)
  have "\<exists>r w'. enqueue_idempotent postgres sample_ambient (QueueName ''mail'') ''send'' (JInt 42) None ''key''
      (wc_idempotency_key_retention worker_config_default) (Some ''eu'') (sample_world empty_db)
      = (Inr (r, True), w') \<and> rec_region r = Some ''eu''"
    by (simp add: enqueue_idempotent_def enqueue_raw_idempotent_def prepare_idempotent_def
        reject_empty_region_def parse_max_attempts_def idempotency_expires_at_def
        parse_kind_def task_kind_try_from_def sample_ambient_def new_record_def Let_def
        validate_invariants_def debug_assert_def max_attempts_default_def REGION_MAX_LEN_def
        IDEMPOTENCY_KEY_MAX_LEN_def attempt_zero_def priority_default_def mail_def postgres_def
        postgres_repository_def run_services run_statements run_operations run_results)
  then show "\<exists>r sv'. engine_enqueue_idempotent_with_region (sample_engine [''us'']) sample_ambient int_task ''mail'' 42
       ''key'' ''eu'' (sample_svc empty_db) = (Inr (r, True), sv') \<and> rec_region r = Some ''eu''"
    by (auto simp: engine_enqueue_idempotent_with_region_def enqueue_keyed_def region andthen_def lift_apply
        validate_idempotency_key_def require_handler_def IDEMPOTENCY_KEY_MAX_LEN_def
        check_that_def parse_queue_def to_payload_def int_task_def sample_engine_def
        registry_get_def announce_keyed_def from_port_def tell_def return_apply sample_svc_def mail_def)
  have "\<not> submission_ok (sample_engine [''us'']) sample_ambient ''mail'' ''send'' None None (Some ''eu'')"
    by (simp add: submission_ok_def region_authorized_def sample_engine_def)
  then have "engine_enqueue_raw (sample_engine [''us'']) sample_ambient ''mail'' ''send'' (JInt 42) None None None
       None (Some ''eu'') (sample_svc empty_db) = (Inl (invalid_payload (Lit (''unauthorized region '' @ quote)
         # [Str ''eu'', Lit (quote @ ''; allowed regions: ''), DbgList [''us'']])), sample_svc empty_db)"
    by (simp add: engine_enqueue_raw_def validate_region_authorization_def region check_that_def
        andthen_def lift_apply sample_engine_def)
  then show "\<exists>f. engine_enqueue_raw (sample_engine [''us'']) sample_ambient ''mail'' ''send'' (JInt 42) None None None
       None (Some ''eu'') (sample_svc empty_db) = (Inl f, sample_svc empty_db)" by blast
qed

end
