(* ===== verification/Run_Props.thy ===== *)
theory Run_Props
  imports Engine_Props
begin

text \<open>
  The properties of building, running and stopping an engine.
\<close>

section \<open>Building\<close>

text \<open>C30: A built engine is well-formed: its worker configuration passes every bound of the
  validation, an audited engine never has unlogged tables, a pool was given, its queue is a valid
  name (the one asked for), and when the migrations are left to the caller the tasks table is
  unlogged exactly if the configuration says so.\<close>

theorem build_well_formed:
  assumes "engine_build migrate ce repo tx_repo b sv = (Inr en, sv')"
  shows "worker_config_ok (en_worker_config en) \<and> \<not> (en_unlogged_tables en \<and> en_audit_log en)
    \<and> bd_pool b \<and> queue_valid (queue_str (en_queue en))
    \<and> (\<forall>name. bd_queue b = Some name \<longrightarrow> queue_str (en_queue en) = name)
    \<and> (bd_skip_migrations b \<and> cat_tasks (sv_repo sv) \<noteq> None \<longrightarrow>
        (cat_tasks (sv_repo sv') = Some ''u'') = en_unlogged_tables en)"
  using engine_build_Inr [OF assms] engine_build_persistence [OF assms] by auto

definition quiet_catalog :: catalog_env where
  "quiet_catalog = \<lparr>ce_fault = (\<lambda>_. None), ce_refused = (\<lambda>_. OtherSqlx ''refused''), ce_text = (\<lambda>_. ''sqlx'')\<rparr>"

definition sample_catalog :: "catalog svc" where
  "sample_catalog = \<lparr>sv_repo = \<lparr>cat_tasks = Some ''p'', cat_has_audit = True, cat_fk = Some ''task_fk'',
     cat_db = empty_db\<rparr>, sv_obs = []\<rparr>"

definition sample_builder :: "world builder" where
  "sample_builder = set_skip_migrations True (set_queue ''mail'' (set_pool builder_default))"

lemma build_sample:
  "\<exists>en sv'. engine_build (\<lambda>c. (Inr (), c)) quiet_catalog (\<lambda>_. postgres) (\<lambda>_. postgres_tx (quiet_env 1) True)
     sample_builder sample_catalog = (Inr en, sv')"
proof -
  have "worker_validate worker_config_default = Inr ()"
    by (simp add: worker_validate_Inr worker_config_default_ok)
  then show ?thesis
    by (simp add: engine_build_def sample_builder_def set_skip_migrations_def set_queue_def set_pool_def
        builder_default_def andthen_def lift_apply database_validate_def database_config_default_def
        return_apply reconcile_table_persistence_def query_catalog_def statement_def quiet_catalog_def
        sample_catalog_def persistence_try_from_def tell_def parse_queue_def)
qed

theorem build_well_formed_witness:
  "\<exists>en sv'. engine_build (\<lambda>c. (Inr (), c)) quiet_catalog (\<lambda>_. postgres) (\<lambda>_. postgres_tx (quiet_env 1) True)
     sample_builder sample_catalog = (Inr en, sv') \<and> worker_config_ok (en_worker_config en)
     \<and> queue_str (en_queue en) = ''mail''"
proof -
  obtain en sv' where run: "engine_build (\<lambda>c. (Inr (), c)) quiet_catalog (\<lambda>_. postgres)
    (\<lambda>_. postgres_tx (quiet_env 1) True) sample_builder sample_catalog = (Inr en, sv')"
    using build_sample by blast
  from build_well_formed [OF run] run show ?thesis
    by (auto simp: sample_builder_def set_skip_migrations_def set_queue_def set_pool_def)
qed

text \<open>The foreign key of the audit log does not survive a change of mode and back: starting from
  a permanent tasks table that the audit log references, building with unlogged tables and then
  building with logged ones succeeds, makes the table permanent again, and leaves no foreign key.\<close>

theorem persistence_loses_foreign_key:
  assumes "ce_fault ce = (\<lambda>_. None)" and "cat_tasks (sv_repo sv) = Some ''p''"
    and "cat_has_audit (sv_repo sv)" and "cat_fk (sv_repo sv) = Some fk"
  shows "\<exists>sv1 sv2. reconcile_table_persistence ce True sv = (Inr (), sv1)
    \<and> reconcile_table_persistence ce False sv1 = (Inr (), sv2)
    \<and> cat_tasks (sv_repo sv2) = Some ''p'' \<and> cat_fk (sv_repo sv2) = None"
  using assms
  by (simp add: reconcile_table_persistence_def set_table_persistence_def andthen_def lift_apply
      return_apply query_catalog_def alter_catalog_def statement_def persistence_try_from_def tell_def)

theorem persistence_loses_foreign_key_witness:
  "\<exists>sv1 sv2. reconcile_table_persistence quiet_catalog True sample_catalog = (Inr (), sv1)
    \<and> reconcile_table_persistence quiet_catalog False sv1 = (Inr (), sv2)
    \<and> cat_tasks (sv_repo sv2) = Some ''p'' \<and> cat_fk (sv_repo sv2) = None"
  by (rule persistence_loses_foreign_key) (simp_all add: quiet_catalog_def sample_catalog_def)

section \<open>Running and stopping\<close>

definition event_lawful :: "'s run_event \<Rightarrow> ('s \<Rightarrow> bool) \<Rightarrow> ('s \<Rightarrow> task_id \<Rightarrow> task_status option) \<Rightarrow> bool" where
  "event_lawful ev ok status = (case ev of
      Elsewhere f \<Rightarrow> (\<forall>s. ok s \<longrightarrow> lawful ok status s (f s))
    | _ \<Rightarrow> True)"

context repository begin

lemma side_event_lawful:
  assumes "wk_repo wk = repo" and "handlers_lawful ok status (wk_registry wk)" and "sw_repo sw = repo"
    and "event_lawful ev ok status"
  shows "pool_lawful ok status p (side_event lib wk sw ev p)"
proof (cases ev)
  case (TaskEnds i d)
  then show ?thesis
    using task_ended_lawful [OF assms(1,2)] by (auto simp: side_event_def intro: pool_lawful_same)
next
  case Sweep
  obtain r q where run: "in_svc (sweep_tick lib sw) p = (r, q)" by fastforce
  have "pool_lawful ok status p q"
    by (rule insideD [OF pool_lawful_in_svc [OF sweep_tick_lawful [OF assms(3)]] run])
  with Sweep run show ?thesis by (simp add: side_event_def)
next
  case (Elsewhere f)
  with assms(4) show ?thesis
    by (auto simp: side_event_def event_lawful_def pool_lawful_def lawful_rel_def)
next
  case (Iterate b inp)
  then show ?thesis by (auto simp: side_event_def intro: pool_lawful_same)
qed

lemma run_events_lawful:
  assumes "wk_repo wk = repo" and "handlers_lawful ok status (wk_registry wk)" and "sw_repo sw = repo"
    and "list_all (\<lambda>ev. event_lawful ev ok status) events"
  shows "inside (pool_lawful ok status) (run_events lib wk sw events)"
  using assms(4)
proof (induction events)
  case Nil
  then show ?case by (simp add: return_lawful)
next
  case (Cons ev events)
  then have IH: "inside (pool_lawful ok status) (run_events lib wk sw events)" by simp
  have side: "inside (pool_lawful ok status) (update (side_event lib wk sw ev))"
    using side_event_lawful [OF assms(1-3)] Cons.prems by (auto simp: inside_def update_def)
  have "inside (pool_lawful ok status) (case fl of Break \<Rightarrow> return Break | Continue \<Rightarrow> run_events lib wk sw events)" for fl
    by (cases fl) (simp_all add: IH return_lawful)
  then show ?case
    by (cases ev) (use andthen_lawful [OF side IH] in \<open>simp_all add: andthen_lawful [OF loop_body_lawful [OF assms(1)]]\<close>)
qed

lemma drain_until_lawful:
  assumes "wk_repo wk = repo" and "handlers_lawful ok status (wk_registry wk)" and "sw_repo sw = repo"
    and "list_all (\<lambda>ev. event_lawful ev ok status) order"
  shows "pool_lawful ok status p (drain_until lib je wk sw order p)"
  using assms(4)
proof (induction order arbitrary: p)
  case Nil
  then show ?case by (auto simp: take_results_def intro: pool_lawful_same)
next
  case (Cons ev order)
  let ?q = "side_event lib wk sw ev (take_results je p)"
  have "pool_lawful ok status p (take_results je p)"
    by (auto simp: take_results_def intro: pool_lawful_same)
  moreover have "pool_lawful ok status (take_results je p) ?q"
    using Cons.prems by (intro side_event_lawful [OF assms(1-3)]) simp
  moreover have "pool_lawful ok status ?q (drain_until lib je wk sw order ?q)"
    using Cons by simp
  ultimately show ?case
    unfolding drain_until.simps using transp_pool_lawful by (meson transpD)
qed

lemma abort_and_release_lawful:
  assumes "wk_repo wk = repo"
  shows "inside (pool_lawful ok status) (abort_and_release lib je wk)"
proof -
  have "sv_repo (pl_svc (abort_all wk n p)) = sv_repo (pl_svc p)" for n p
    by (induction n arbitrary: p) (simp_all add: task_aborted_def)
  with assms show ?thesis unfolding abort_and_release_def Let_def
    by (intro andthen_lawful pool_lawful_update pool_lawful_in_svc service_intros inside_intros)
      (simp_all add: release_worker_lawful)
qed

lemma shutdown_lawful:
  assumes "wk_repo wk = repo" and "handlers_lawful ok status (wk_registry wk)" and "sw_repo sw = repo"
    and "list_all (\<lambda>ev. event_lawful ev ok status) order"
  shows "inside (pool_lawful ok status) (shutdown_pool lib je wk sw order)"
proof -
  have "inside (pool_lawful ok status) (update (drain_until lib je wk sw order))"
    using drain_until_lawful [OF assms] by (auto simp: inside_def update_def)
  then show ?thesis unfolding shutdown_pool_def
    by (intro andthen_lawful inside_intros pool_lawful_in_svc service_intros
        abort_and_release_lawful [OF assms(1)])
qed

end

text \<open>C20: A start that returns has stopped cleanly: no dispatch runs, every permit is free, and from
  the state before the start to the one after it, whatever the events until the drain has ended, every task moved along its
  life cycle in a database that is well-formed.\<close>

theorem start_stops_cleanly:
  assumes "wk_repo wk = postgres_repository al neg sq" and "sw_repo sw = postgres_repository al neg sq"
    and "handlers_lawful world_ok world_status (wk_registry wk)"
    and "list_all (\<lambda>ev. event_lawful ev world_ok world_status) (events @ order)" and "world_ok (sv_repo sv)"
    and "engine_start lib je en False wk sw events order bg sv = (Inr (), started, Some q)"
  shows "started \<and> pl_tasks q = [] \<and> pl_permits q = wc_concurrency (wk_config wk)
    \<and> world_ok (sv_repo (pl_svc q)) \<and> moves (world_status (sv_repo sv) i) (world_status (sv_repo (pl_svc q)) i)"
proof -
  let ?p = "pool_new wk sv"
  have p: "sv_repo (pl_svc ?p) = sv_repo sv" by (simp add: pool_new_def)
  from assms(6) obtain q0 where run: "andthen (run_events lib wk sw events) (\<lambda>_. shutdown_pool lib je wk sw order) ?p = (Inr (), q0)"
    and st: started and q0: "q = told (join_background en bg) q0"
    by (auto simp: engine_start_def poll_loop_start_def split: if_splits prod.splits sum.splits)
  from run obtain fl m where m: "run_events lib wk sw events ?p = (Inr fl, m)"
    "shutdown_pool lib je wk sw order m = (Inr (), q0)" by (rule andthen_InrE)
  have "pool_inv wk m"
    using run_events_inv [of wk lib sw events] m(1) pool_new_inv by (auto simp: establishes_def)
  from shutdown_pool_run [OF m(2) this] have q: "pool_inv wk q" "pl_tasks q = []" by (simp_all add: q0)
  have "inside (pool_lawful world_ok world_status)
      (andthen (run_events lib wk sw events) (\<lambda>_. shutdown_pool lib je wk sw order))"
    using assms(4)
    by (intro andthen_lawful pg.run_events_lawful [OF assms(1,3,2)] pg.shutdown_lawful [OF assms(1,3,2)]) simp_all
  from insideD [OF this run] assms(5) p
  have "lawful world_ok world_status (sv_repo sv) (sv_repo (pl_svc q))"
    by (simp add: pool_lawful_def lawful_rel_def q0)
  with q st show ?thesis by (simp add: pool_inv_def lawful_def)
qed

text \<open>A start that claims the sample task, is stopped, and waits for the dispatch to end.\<close>

definition sample_events :: "world run_event list" where
  "sample_events = [Iterate BackoffElapsed (Some quiet_tick), Iterate BackoffElapsed None]"

definition quiet_background :: background where
  "quiet_background = \<lparr>bg_sweeper = None, bg_refresh = None\<rparr>"

lemma start_sample:
  "\<exists>q. engine_start sample_lib (\<lambda>_. ''panic'') (sample_engine []) False sample_worker (sweeper_new postgres)
     sample_events [TaskEnds 0 5] quiet_background (sample_svc submitted_db) = (Inr (), True, Some q)"
proof -
  let ?p = "pool_new sample_worker (sample_svc submitted_db)"
  obtain q where q: "poll_tick sample_lib sample_worker quiet_tick ?p = (Inr Continue, q)"
    "length (pl_tasks q) = 1" using tick_sample by blast
  have idle: "pl_backoff ?p = None" by (simp add: pool_new_def)
  have "length (pl_tasks (drain_until sample_lib (\<lambda>_. ''panic'') sample_worker (sweeper_new postgres) [TaskEnds 0 5] p)) = 0"
    if "length (pl_tasks p) = 1" for p
    using that task_ended_length [of 0 "take_results (\<lambda>_. ''panic'') p" sample_lib sample_worker 5]
    by (simp add: side_event_def)
  then have ended: "pl_tasks (drain_until sample_lib (\<lambda>_. ''panic'') sample_worker (sweeper_new postgres) [TaskEnds 0 5] p) = []"
    if "length (pl_tasks p) = 1" for p using that by blast
  from q idle ended show ?thesis
    by (auto simp: engine_start_def sample_start sample_events_def andthen_def loop_body_def
        backoff_phase_def update_def return_def shutdown_pool_def reading_def in_svc_def observe_def
        told_def split: option.splits simp del: drain_until.simps)
qed

theorem start_stops_cleanly_witness:
  "\<exists>q. engine_start sample_lib (\<lambda>_. ''panic'') (sample_engine []) False sample_worker (sweeper_new postgres)
     sample_events [TaskEnds 0 5] quiet_background (sample_svc submitted_db) = (Inr (), True, Some q)
     \<and> pl_tasks q = [] \<and> pl_permits q = 4 \<and> world_ok (sv_repo (pl_svc q))"
proof -
  obtain q where run: "engine_start sample_lib (\<lambda>_. ''panic'') (sample_engine []) False sample_worker (sweeper_new postgres)
     sample_events [TaskEnds 0 5] quiet_background (sample_svc submitted_db) = (Inr (), True, Some q)"
    using start_sample by blast
  have "sw_repo (sweeper_new postgres) = postgres_repository True PoolClosed (\<lambda>_. ''sqlx'')"
    by (simp add: sweeper_new_def postgres_def)
  moreover have "handlers_lawful world_ok world_status (wk_registry sample_worker)"
    using ready_handlers_lawful by (simp add: sample_worker_def)
  moreover have "world_ok (sv_repo (sample_svc submitted_db))"
    by (simp add: sample_svc_def world_ok_sample [OF reachable_submitted])
  moreover have "list_all (\<lambda>ev. event_lawful ev world_ok world_status) (sample_events @ [TaskEnds 0 5])"
    by (simp add: sample_events_def event_lawful_def)
  ultimately have "pl_tasks q = [] \<and> pl_permits q = wc_concurrency (wk_config sample_worker) \<and> world_ok (sv_repo (pl_svc q))"
    using start_stops_cleanly [OF sample_repo _ _ _ _ run] by blast
  with run show ?thesis by (auto simp: sample_worker_def worker_config_default_def)
qed

text \<open>C24: A shutdown that had to abort leaves no lease of its worker: when the timeout has expired and
  the database has released the leases, no dispatch runs, and no task in the database is running
  under this worker.\<close>

theorem abort_releases_leases:
  assumes "wk_repo wk = postgres_repository al neg sq" and "world_ok (sv_repo (pl_svc p))" and "pool_inv wk p"
    and "abort_and_release lib je wk p = (Inr u, q)"
    and "port_release_worker (wk_repo wk) (wk_worker_id wk) (sv_repo (pl_svc p)) = (Inr released, s)"
  shows "pl_tasks q = [] \<and> pl_permits q = wc_concurrency (wk_config wk)
    \<and> \<not> (\<exists>i. world_status (sv_repo (pl_svc q)) i = Some Running
          \<and> world_owner (sv_repo (pl_svc q)) i = Some (wk_worker_id wk))"
proof -
  from abort_and_release_run [OF assms(4,3)] assms(5)
  have q: "pool_inv wk q" "pl_tasks q = []" "sv_repo (pl_svc q) = s" by auto
  from pgl.release_worker_clears [OF assms(2) assms(5) [unfolded assms(1)]] q show ?thesis
    by (auto simp: pool_inv_def)
qed

definition stuck_pool :: "world pool" where
  "stuck_pool = (pool_new sample_worker (sample_svc claimed_db))\<lparr>pl_tasks := [claimed_sample],
     pl_permits := 3, pl_active := 1\<rparr>"

lemma release_sample:
  "\<exists>rs s. port_release_worker postgres worker_seven (sample_world claimed_db) = (Inr rs, s)"
  by (simp add: run_services run_statements run_operations run_results claimed_tasks sample_row_def
      insert_values_def sample_def mail_def worker_seven_def)

theorem abort_releases_leases_witness:
  "\<exists>q. abort_and_release sample_lib (\<lambda>_. ''panic'') sample_worker stuck_pool = (Inr (), q)
     \<and> pl_tasks q = [] \<and> pl_permits q = 4"
proof -
  have p: "sv_repo (pl_svc stuck_pool) = sample_world claimed_db"
    by (simp add: stuck_pool_def pool_new_def sample_svc_def)
  have wk: "wk_repo sample_worker = postgres" "wk_worker_id sample_worker = worker_seven"
    by (simp_all add: sample_worker_def)
  have inv: "pool_inv sample_worker stuck_pool"
    by (simp add: pool_inv_def stuck_pool_def sample_worker_def worker_config_default_def)
  obtain rs s where rel: "port_release_worker postgres worker_seven (sample_world claimed_db) = (Inr rs, s)"
    using release_sample by blast
  have "sv_repo (pl_svc (abort_all sample_worker n x)) = sv_repo (pl_svc x)" for n and x :: "world pool"
    by (induction n arbitrary: x) (simp_all add: task_aborted_def)
  then obtain q where run: "abort_and_release sample_lib (\<lambda>_. ''panic'') sample_worker stuck_pool = (Inr (), q)"
    using rel p wk
    by (simp add: abort_and_release_def Let_def andthen_told andthen_update andthen_def [of "in_svc (attempt _)"]
        in_svc_def attempt_def observe_def)
  have ok: "world_ok (sv_repo (pl_svc stuck_pool))" using world_ok_sample [OF reachable_claimed] p by simp
  have "port_release_worker (wk_repo sample_worker) (wk_worker_id sample_worker) (sv_repo (pl_svc stuck_pool)) = (Inr rs, s)"
    using rel p wk by simp
  from abort_releases_leases [OF sample_repo ok inv run this] run
  show ?thesis by (auto simp: sample_worker_def worker_config_default_def)
qed

end
