(* ===== verification/Http.thy ===== *)
theory Http
  imports Engine
begin

text \<open>
  The HTTP interface (\<open>crates/api/src/http/\<close>): the error envelope, the extractors, the handlers
  and the routes. What axum hands to a handler, parameters and bodies already parsed or
  rejected, is its argument; a rejection is the status and the text the library gives it. A
  response is a status and a body, which keeps its type until it is serialized.
\<close>

section \<open>Errors\<close>

datatype status_code =
    OK
  | CREATED
  | BAD_REQUEST
  | NOT_FOUND
  | CONFLICT
  | PAYLOAD_TOO_LARGE
  | UNPROCESSABLE_ENTITY
  | INTERNAL_SERVER_ERROR
  | SERVICE_UNAVAILABLE
  | OTHER_STATUS nat

record error_detail =
  ed_code :: string
  ed_message :: message

record app_error =
  ae_status :: status_code
  ae_code :: string
  ae_message :: message

definition app_error_new :: "status_code \<Rightarrow> string \<Rightarrow> message \<Rightarrow> app_error" where
  "app_error_new st code m = \<lparr>ae_status = st, ae_code = code, ae_message = m\<rparr>"

definition not_found :: "message \<Rightarrow> app_error" where
  "not_found = app_error_new NOT_FOUND ''TASK_NOT_FOUND''"

definition already_claimed :: "message \<Rightarrow> app_error" where
  "already_claimed = app_error_new CONFLICT ''TASK_ALREADY_CLAIMED''"

definition invalid_query_parameter :: "message \<Rightarrow> app_error" where
  "invalid_query_parameter = app_error_new UNPROCESSABLE_ENTITY ''INVALID_QUERY_PARAMETER''"

definition internal :: "message \<Rightarrow> app_error" where
  "internal = app_error_new INTERNAL_SERVER_ERROR ''INTERNAL_ERROR''"

definition terminal_state :: "message \<Rightarrow> app_error" where
  "terminal_state = app_error_new CONFLICT ''TASK_IN_TERMINAL_STATE''"

definition task_suspended :: "message \<Rightarrow> app_error" where
  "task_suspended = app_error_new CONFLICT ''TASK_SUSPENDED''"

text \<open>\<open>From<TaskError> for AppError\<close>: what is behind an internal error goes to the log only.\<close>

fun app_error_of :: "lib \<Rightarrow> task_error \<Rightarrow> app_error" where
  "app_error_of lib (NotFound i) =
     app_error_new NOT_FOUND ''TASK_NOT_FOUND'' (display_task_error (lib_sqlx lib) (NotFound i))"
| "app_error_of lib (InvalidPayload k) =
     app_error_new UNPROCESSABLE_ENTITY ''INVALID_PAYLOAD''
       (display_task_error (lib_sqlx lib) (InvalidPayload k))"
| "app_error_of lib (AlreadyClaimed i w) =
     app_error_new CONFLICT ''TASK_ALREADY_CLAIMED''
       (display_task_error (lib_sqlx lib) (AlreadyClaimed i w))"
| "app_error_of lib (NotInExpectedState i expected) =
     app_error_new CONFLICT ''TASK_NOT_IN_EXPECTED_STATE''
       [Lit ''task '', Id (task_uuid i), Lit '' is not in '', Str expected, Lit '' status'']"
| "app_error_of lib SuspendRequested =
     app_error_new CONFLICT ''TASK_NOT_IN_EXPECTED_STATE'' [Lit ''task suspend requested'']"
| "app_error_of lib _ = app_error_new INTERNAL_SERVER_ERROR ''INTERNAL_ERROR'' [Lit ''internal server error'']"

fun internal_error_log :: "lib \<Rightarrow> task_error \<Rightarrow> observation list" where
  "internal_error_log lib (NotFound i) = []"
| "internal_error_log lib (InvalidPayload k) = []"
| "internal_error_log lib (AlreadyClaimed i w) = []"
| "internal_error_log lib (NotInExpectedState i x) = []"
| "internal_error_log lib SuspendRequested = []"
| "internal_error_log lib e = [log_of LevelError None [(''error'', VText (error_text lib e))]
     ''internal error processing request'']"

definition display_app_error :: "app_error \<Rightarrow> message" where
  "display_app_error e = ae_message e @ [Lit '' ('', Str (ae_code e), Lit '')'']"

definition error_response :: "app_error \<Rightarrow> status_code \<times> error_detail" where
  "error_response e = (ae_status e, \<lparr>ed_code = ae_code e, ed_message = ae_message e\<rparr>)"

section \<open>Extractors\<close>

record rejection =
  rj_status :: status_code
  rj_text :: string

definition json_body_rejection :: "rejection \<Rightarrow> status_code \<times> error_detail" where
  "json_body_rejection r =
     (rj_status r, \<lparr>ed_code = (case rj_status r of
          UNPROCESSABLE_ENTITY \<Rightarrow> ''INVALID_PAYLOAD''
        | PAYLOAD_TOO_LARGE \<Rightarrow> ''PAYLOAD_TOO_LARGE''
        | _ \<Rightarrow> ''BAD_REQUEST''),
      ed_message = [Str (rj_text r)]\<rparr>)"

definition path_param_rejection :: "rejection \<Rightarrow> status_code \<times> error_detail" where
  "path_param_rejection r =
     (BAD_REQUEST, \<lparr>ed_code = ''INVALID_PATH_PARAMETER'', ed_message = [Str (rj_text r)]\<rparr>)"

section \<open>Requests and responses\<close>

record create_task_request =
  cr_queue :: "string option"
  cr_kind :: string
  cr_payload :: json
  cr_scheduled_at :: "time option"
  cr_priority :: "int option"
  cr_max_attempts :: "int option"
  cr_idempotency_key :: "string option"
  cr_region :: "string option"

record task_response =
  tr_id :: uuid
  tr_queue :: string
  tr_kind :: string
  tr_payload :: json
  tr_status :: string
  tr_priority :: int
  tr_attempts :: int
  tr_max_attempts :: int
  tr_last_error :: "string option"
  tr_scheduled_at :: time
  tr_claimed_by :: "uuid option"
  tr_claimed_until :: "time option"
  tr_created_at :: time
  tr_updated_at :: time
  tr_idempotency_key :: "string option"
  tr_idempotency_expires_at :: "time option"
  tr_trace_id :: "string option"
  tr_last_checkpoint :: "json option"
  tr_suspended_at :: "time option"
  tr_signal_payload :: "json option"
  tr_region :: "string option"

fun http_status_to_str :: "task_status \<Rightarrow> string" where
  "http_status_to_str Pending = ''pending''"
| "http_status_to_str Running = ''running''"
| "http_status_to_str Completed = ''completed''"
| "http_status_to_str Failed = ''failed''"
| "http_status_to_str Cancelled = ''cancelled''"
| "http_status_to_str Suspended = ''suspended''"

definition task_response_of :: "task_record \<Rightarrow> task_response" where
  "task_response_of r =
     (let (last_checkpoint, r1) = take_checkpoint r;
          (signal_payload, r2) = take_signal_payload r1;
          (payload, r3) = take_payload r2 in
      \<lparr>tr_id = task_uuid (rec_id r), tr_queue = queue_str (rec_queue r), tr_kind = kind_str (rec_kind r),
       tr_payload = payload, tr_status = http_status_to_str (rec_status r),
       tr_priority = priority_get (rec_priority r), tr_attempts = attempt_get (rec_attempts r),
       tr_max_attempts = max_get (rec_max_attempts r), tr_last_error = rec_last_error r,
       tr_scheduled_at = rec_scheduled_at r, tr_claimed_by = map_option worker_uuid (rec_claimed_by r),
       tr_claimed_until = rec_claimed_until r, tr_created_at = rec_created_at r,
       tr_updated_at = rec_updated_at r, tr_idempotency_key = rec_idempotency_key r,
       tr_idempotency_expires_at = rec_idempotency_expires_at r, tr_trace_id = rec_trace_id r,
       tr_last_checkpoint = last_checkpoint, tr_suspended_at = rec_suspended_at r,
       tr_signal_payload = signal_payload, tr_region = rec_region r\<rparr>)"

record audit_log_response =
  ar_id :: int
  ar_task_id :: uuid
  ar_from_status :: "string option"
  ar_to_status :: string
  ar_timestamp :: time
  ar_worker_id :: "uuid option"
  ar_trace_id :: "string option"
  ar_metadata :: "json option"

definition audit_log_response_of :: "audit_log_entry \<Rightarrow> audit_log_response" where
  "audit_log_response_of e = \<lparr>ar_id = ent_id e, ar_task_id = task_uuid (ent_task_id e),
     ar_from_status = map_option as_str (ent_from_status e), ar_to_status = as_str (ent_to_status e),
     ar_timestamp = ent_timestamp e, ar_worker_id = map_option worker_uuid (ent_worker_id e),
     ar_trace_id = ent_trace_id e, ar_metadata = ent_metadata e\<rparr>"

record audit_log_list_response =
  alr_entries :: "audit_log_response list"
  alr_total :: nat
  alr_limit :: int
  alr_offset :: int

text \<open>Query parameters are optional; the two of the audit log have defaults.\<close>

record audit_log_params =
  ap_limit :: "int option"
  ap_offset :: "int option"

definition default_audit_limit :: int where
  "default_audit_limit = 100"

record list_tasks_query =
  lq_queue :: "string option"
  lq_status :: "string option"
  lq_limit :: "nat option"
  lq_offset :: "nat option"

record list_tasks_response =
  ltr_tasks :: "task_response list"
  ltr_total :: nat
  ltr_limit :: nat
  ltr_offset :: nat

record queue_stats_response =
  qr_queue :: string
  qr_region :: "string option"
  qr_pending :: nat
  qr_running :: nat
  qr_suspended :: nat
  qr_active_workers :: nat

definition queue_stats_response_of :: "queue_stats \<Rightarrow> queue_stats_response" where
  "queue_stats_response_of s = \<lparr>qr_queue = queue_str (qs_queue s), qr_region = qs_region s,
     qr_pending = qs_pending s, qr_running = qs_running s, qr_suspended = qs_suspended s,
     qr_active_workers = qs_active_workers s\<rparr>"

record readiness_response =
  rr_status :: string
  rr_db :: string

datatype body =
    ErrorBody error_detail
  | PlainBody string
  | TaskBody task_response
  | TasksBody list_tasks_response
  | AuditBody audit_log_list_response
  | QueuesBody "queue_stats_response list"
  | ReadyBody readiness_response
  | EmptyObject
  | MetricsBody string
  | OpenApiBody

record response =
  rs_status :: status_code
  rs_body :: body

end
