(* ===== verification/Handlers.thy ===== *)
theory Handlers
  imports Http
begin

text \<open>
  The handlers of the HTTP interface and its routes (\<open>crates/api/src/http/handlers/\<close>,
  \<open>router.rs\<close>). A handler ends in its result, in a refusal that becomes an error response, or
  unwinds.
\<close>

datatype refusal =
    Refused app_error
  | Rejected status_code body
  | Unwound message

type_synonym ('s, 'a) handler = "('s svc, refusal, 'a) act"

definition refuse :: "app_error \<Rightarrow> ('s, 'a) handler" where
  "refuse e = raise (Refused e)"

text \<open>An error on its way out: \<open>From<TaskError>\<close> logs an internal one.\<close>

definition refuse_task_error :: "lib \<Rightarrow> task_error \<Rightarrow> ('s, 'a) handler" where
  "refuse_task_error lib e sv =
     (Inl (Refused (app_error_of lib e)), sv\<lparr>sv_obs := sv_obs sv @ internal_error_log lib e\<rparr>)"

text \<open>Calling the engine with \<open>?\<close>.\<close>

definition ask :: "lib \<Rightarrow> ('s, 'a) api \<Rightarrow> ('s, 'a) handler" where
  "ask lib m sv = (case m sv of
      (Inl (Error e), sv') \<Rightarrow> refuse_task_error lib e sv'
    | (Inl (Panic p), sv') \<Rightarrow> (Inl (Unwound p), sv')
    | (Inr x, sv') \<Rightarrow> (Inr x, sv'))"

definition note_obs :: "observation list \<Rightarrow> ('s, unit) handler" where
  "note_obs obs sv = (Inr (), sv\<lparr>sv_obs := sv_obs sv @ obs\<rparr>)"

section \<open>Tasks\<close>

text \<open>\<open>get\<close> and \<open>to_str\<close> of the header map: the value of a header when there is one and it is
  text.\<close>

type_synonym header_map = "string \<Rightarrow> string option"

fun split_on :: "char \<Rightarrow> string \<Rightarrow> string list" where
  "split_on sep [] = [[]]"
| "split_on sep (c # cs) = (if c = sep then [] # split_on sep cs
     else (case split_on sep cs of part # parts \<Rightarrow> (c # part) # parts | [] \<Rightarrow> [[c]]))"

definition hex_field :: "nat \<Rightarrow> string \<Rightarrow> bool" where
  "hex_field n s \<longleftrightarrow> length s = n \<and> list_all is_ascii_hexdigit s"

definition extract_trace_id :: "header_map \<Rightarrow> string option" where
  "extract_trace_id headers = (case headers ''traceparent'' of
      None \<Rightarrow> None
    | Some v \<Rightarrow> (case split_on CHR ''-'' v of
        version # trace_id # span_id # flags # rest \<Rightarrow>
          if version = ''00'' \<and> hex_field 32 trace_id \<and> hex_field 16 span_id
             \<and> hex_field 2 flags \<and> rest = [] then Some trace_id else None
      | _ \<Rightarrow> None))"

definition create_task ::
  "lib \<Rightarrow> ('s, 'tx) engine \<Rightarrow> ambient \<Rightarrow> header_map \<Rightarrow> create_task_request
     \<Rightarrow> ('s, status_code \<times> task_response) handler" where
  "create_task lib en am headers body =
     (let queue = (case cr_queue body of Some q \<Rightarrow> q | None \<Rightarrow> ''default'');
          trace_id = extract_trace_id headers; region = cr_region body in
      case cr_idempotency_key body of
        Some key \<Rightarrow>
          andthen (ask lib (engine_enqueue_raw_idempotent en am queue (cr_kind body) (cr_payload body)
            (cr_scheduled_at body) (cr_priority body) (cr_max_attempts body) key trace_id region))
          (\<lambda>(record, created). return (if created then CREATED else OK, task_response_of record))
      | None \<Rightarrow>
          andthen (ask lib (engine_enqueue_raw en am queue (cr_kind body) (cr_payload body)
            (cr_scheduled_at body) (cr_priority body) (cr_max_attempts body) trace_id region))
          (\<lambda>record. return (CREATED, task_response_of record)))"

definition get_task :: "lib \<Rightarrow> ('s, 'tx) engine \<Rightarrow> uuid \<Rightarrow> ('s, task_response) handler" where
  "get_task lib en i =
     andthen (ask lib (engine_find en (TaskId i))) (\<lambda>found. case found of
        None \<Rightarrow> refuse_task_error lib (NotFound (TaskId i))
      | Some record \<Rightarrow> return (task_response_of record))"

definition cancelled_event :: "task_record \<Rightarrow> state_transition_event" where
  "cancelled_event r = (transition_event (rec_id r) Pending Cancelled)
     \<lparr>ste_queue := Some (rec_queue r), ste_kind := Some (rec_kind r),
      ste_trace_id_hex := rec_trace_id r, ste_attempt := attempt_get (rec_attempts r)\<rparr>"

fun not_cancellable :: "uuid \<Rightarrow> task_status \<Rightarrow> app_error" where
  "not_cancellable i Pending = terminal_state
     [Lit ''task '', Id i, Lit '' was concurrently modified and is no longer cancellable'']"
| "not_cancellable i Running = already_claimed
     [Lit ''task '', Id i, Lit '' is currently running and cannot be cancelled'']"
| "not_cancellable i Suspended = task_suspended [Lit ''task '', Id i, Lit '' is suspended'']"
| "not_cancellable i st = terminal_state
     [Lit ''task '', Id i, Lit ('' is in terminal state '' @ quote), Str (http_status_to_str st), Lit quote]"

definition delete_task :: "lib \<Rightarrow> ('s, 'tx) engine \<Rightarrow> uuid \<Rightarrow> ('s, task_response) handler" where
  "delete_task lib en i =
     andthen (ask lib (engine_cancel en (TaskId i))) (\<lambda>result. case result of
        CancelledTask r \<Rightarrow> andthen (note_obs (emit_transition lib (cancelled_event r)))
          (\<lambda>_. return (task_response_of r))
      | CancelNotFound \<Rightarrow> refuse_task_error lib (NotFound (TaskId i))
      | NotCancellable st \<Rightarrow> refuse (not_cancellable i st))"

definition signal_task ::
  "lib \<Rightarrow> ('s, 'tx) engine \<Rightarrow> ambient \<Rightarrow> uuid \<Rightarrow> json option \<Rightarrow> ('s, task_response) handler" where
  "signal_task lib en am i payload =
     andthen (ask lib (engine_signal en am (TaskId i) payload)) (\<lambda>r. return (task_response_of r))"

definition get_audit_log ::
  "lib \<Rightarrow> ('s, 'tx) engine \<Rightarrow> uuid \<Rightarrow> audit_log_params \<Rightarrow> ('s, audit_log_list_response) handler" where
  "get_audit_log lib en i params =
     (let limit = max 1 (min (case ap_limit params of Some n \<Rightarrow> n | None \<Rightarrow> default_audit_limit) 1000);
          offset = max (case ap_offset params of Some n \<Rightarrow> n | None \<Rightarrow> 0) 0 in
      andthen (ask lib (engine_find en (TaskId i))) (\<lambda>found.
      if found = None then refuse_task_error lib (NotFound (TaskId i))
      else andthen (ask lib (engine_audit_log en (TaskId i) limit offset)) (\<lambda>res.
        return \<lparr>alr_entries = map audit_log_response_of (al_entries res), alr_total = al_total res,
          alr_limit = limit, alr_offset = offset\<rparr>)))"

section \<open>Listing\<close>

definition DEFAULT_LIST_LIMIT :: nat where
  "DEFAULT_LIST_LIMIT = 50"

definition MAX_LIST_LIMIT :: nat where
  "MAX_LIST_LIMIT = 100"

definition MAX_OFFSET :: nat where
  "MAX_OFFSET = 10000"

text \<open>\<open>str::trim\<close>: the characters of a string, without white space at either end.\<close>

function char_chunks :: "string \<Rightarrow> (nat \<times> string) list" where
  "char_chunks s = (if s = [] then [] else (case utf8_next s of
      None \<Rightarrow> [(0, s)]
    | Some (c, k) \<Rightarrow> (c, take k s) # char_chunks (drop k s)))"
  by pat_completeness auto
termination
  by (relation "measure length") (auto dest: utf8_next_bounds)

declare char_chunks.simps [simp del]

definition trim :: "string \<Rightarrow> string" where
  "trim s = (let ws = (\<lambda>(c, _). is_whitespace c) in
     concat (map snd (rev (dropWhile ws (rev (dropWhile ws (char_chunks s)))))))"

definition parse_status_filter :: "string \<Rightarrow> app_error + task_status" where
  "parse_status_filter text =
     (let s = to_ascii_lowercase (trim text) in
      if s = ''pending'' then Inr Pending
      else if s = ''running'' then Inr Running
      else if s = ''completed'' then Inr Completed
      else if s = ''failed'' then Inr Failed
      else if s = ''cancelled'' then Inr Cancelled
      else if s = ''suspended'' then Inr Suspended
      else Inl (invalid_query_parameter [Lit (''invalid status filter: '' @ quote), Str s,
        Lit (quote @ ''; expected one of: pending, running, completed, failed, cancelled, suspended'')]))"

definition parse_queue_filter :: "string \<Rightarrow> app_error + queue_name" where
  "parse_queue_filter s = map_err (\<lambda>e. invalid_query_parameter
     (Lit ''invalid queue name: '' # display_validation_error e)) (queue_try_from s)"

text \<open>\<open>Option::map\<close> and \<open>transpose\<close>.\<close>

definition optional :: "('a \<Rightarrow> 'e + 'b) \<Rightarrow> 'a option \<Rightarrow> 'e + 'b option" where
  "optional f v = (case v of None \<Rightarrow> Inr None | Some x \<Rightarrow> (case f x of
      Inl e \<Rightarrow> Inl e | Inr y \<Rightarrow> Inr (Some y)))"

definition http_list_tasks ::
  "lib \<Rightarrow> ('s, 'tx) engine \<Rightarrow> list_tasks_query \<Rightarrow> ('s, list_tasks_response) handler" where
  "http_list_tasks lib en params =
     andthen (lift (map_err Refused (optional parse_status_filter (lq_status params)))) (\<lambda>status.
     andthen (lift (map_err Refused (optional parse_queue_filter (lq_queue params)))) (\<lambda>queue.
     if queue = None \<and> status = None then
       refuse (invalid_query_parameter [Lit (''unfiltered task list is disabled for performance; please provide a ''
         @ quote @ ''queue'' @ quote @ '' or '' @ quote @ ''status'' @ quote @ '' filter'')])
     else
       (let limit = max 1 (min (case lq_limit params of Some n \<Rightarrow> n | None \<Rightarrow> DEFAULT_LIST_LIMIT) MAX_LIST_LIMIT);
            provided_offset = (case lq_offset params of Some n \<Rightarrow> n | None \<Rightarrow> 0);
            offset = min provided_offset MAX_OFFSET in
        andthen (note_obs (if MAX_OFFSET < provided_offset then
            [log_of LevelWarn (Some ''offset_capped'')
              [(''provided_offset'', VInt (int provided_offset)), (''capped_offset'', VInt (int MAX_OFFSET))]
              ''Request offset exceeded maximum allowed; capping to 10,000''] else [])) (\<lambda>_.
        andthen (ask lib (engine_list_tasks en \<lparr>flt_queue = queue, flt_status = status,
            flt_limit = limit, flt_offset = offset\<rparr>)) (\<lambda>res.
        return \<lparr>ltr_tasks = map task_response_of (lr_tasks res), ltr_total = lr_total res,
          ltr_limit = limit, ltr_offset = offset\<rparr>)))))"

section \<open>Queues, health and metrics\<close>

definition list_queues ::
  "lib \<Rightarrow> ('s, 'tx) engine \<Rightarrow> bool \<Rightarrow> ('s, queue_stats_response list) handler" where
  "list_queues lib en by_region =
     andthen (ask lib (engine_queue_statistics en by_region)) (\<lambda>stats.
     return (map queue_stats_response_of stats))"

text \<open>What becomes of \<open>SELECT 1\<close> within the timeout.\<close>

datatype probe = ProbeOk | ProbeFailed | ProbeTimedOut

definition readiness :: "('s, 'tx) engine \<Rightarrow> (duration \<Rightarrow> probe) \<Rightarrow> status_code \<times> readiness_response" where
  "readiness en query =
     (let timeout = (if en_readiness_timeout en = 0 then from_millis 100 else en_readiness_timeout en) in
      case query timeout of
        ProbeOk \<Rightarrow> (OK, \<lparr>rr_status = ''ready'', rr_db = ''ok''\<rparr>)
      | ProbeFailed \<Rightarrow> (SERVICE_UNAVAILABLE, \<lparr>rr_status = ''degraded'', rr_db = ''unavailable''\<rparr>)
      | ProbeTimedOut \<Rightarrow> (SERVICE_UNAVAILABLE, \<lparr>rr_status = ''degraded'', rr_db = ''timeout''\<rparr>))"

text \<open>The Prometheus registry is a library's: here it is what encoding it gives, if there is one.\<close>

definition metrics_error :: "status_code \<Rightarrow> string \<Rightarrow> string \<Rightarrow> ('s, 'a) handler" where
  "metrics_error status code text = refuse (app_error_new status code [Lit text])"

definition prometheus_metrics ::
  "(string + string) option \<Rightarrow> ('s, string) handler" where
  "prometheus_metrics encoded = (case encoded of
      None \<Rightarrow> metrics_error NOT_FOUND ''METRICS_UNAVAILABLE'' ''metrics not configured''
    | Some (Inr text) \<Rightarrow> return text
    | Some (Inl e) \<Rightarrow> andthen (note_obs [log_of LevelError None [(''error'', VText e)]
          ''failed to encode Prometheus metrics''])
        (\<lambda>_. metrics_error INTERNAL_SERVER_ERROR ''METRICS_ENCODE_ERROR'' ''failed to encode metrics''))"

end
