(* ===== verification/Telemetry.thy ===== *)
theory Telemetry
  imports Handlers
begin

text \<open>
  What the process sets up and keeps for its observers
  (\<open>crates/infrastructure/src/observability/\<close>): the subscriber of the logs, the providers of
  traces and metrics, and the gauges of the connection pool and of the tasks, whose snapshot a
  background loop refreshes. An exporter, a reader or a subscriber is what the library is asked
  for; that asking fails is the library's choice.
\<close>

section \<open>The interval of the refresh\<close>

definition DEFAULT_TASK_COUNT_REFRESH_INTERVAL :: duration where
  "DEFAULT_TASK_COUNT_REFRESH_INTERVAL = from_secs 15"

text \<open>\<open>str::parse::<u64>\<close>: an optional plus sign, then digits, within 64 bits.\<close>

fun digits_value :: "nat \<Rightarrow> string \<Rightarrow> nat" where
  "digits_value acc [] = acc"
| "digits_value acc (c # s) = digits_value (acc * 10 + (byte c - 48)) s"

definition parse_u64 :: "string \<Rightarrow> nat option" where
  "parse_u64 s =
     (let ds = (case s of [] \<Rightarrow> [] | c # r \<Rightarrow> if c = CHR ''+'' then r else s) in
      if ds \<noteq> [] \<and> list_all is_ascii_digit ds \<and> digits_value 0 ds \<le> u64_max
      then Some (digits_value 0 ds) else None)"

definition parse_refresh_interval :: "string option \<Rightarrow> duration" where
  "parse_refresh_interval raw = (case raw of
      Some s \<Rightarrow> (case parse_u64 (trim s) of
          Some ms \<Rightarrow> if 0 < ms then from_millis ms else DEFAULT_TASK_COUNT_REFRESH_INTERVAL
        | None \<Rightarrow> DEFAULT_TASK_COUNT_REFRESH_INTERVAL)
    | None \<Rightarrow> DEFAULT_TASK_COUNT_REFRESH_INTERVAL)"

text \<open>The variable \<open>IRON_DEFER_TASK_COUNT_REFRESH_MS\<close> of the environment, if it is set.\<close>

definition REFRESH_INTERVAL_ENV :: string where
  "REFRESH_INTERVAL_ENV = ''IRON_DEFER_TASK_COUNT_REFRESH_MS''"

definition task_count_refresh_interval :: "(string \<Rightarrow> string option) \<Rightarrow> duration" where
  "task_count_refresh_interval vars = parse_refresh_interval (vars REFRESH_INTERVAL_ENV)"

section \<open>The snapshot of the task counts\<close>

record task_count_snapshot =
  sn_pending :: "(string \<times> nat) list"
  sn_running :: "(string \<times> nat) list"

definition snapshot_default :: task_count_snapshot where
  "snapshot_default = \<lparr>sn_pending = [], sn_running = []\<rparr>"

text \<open>\<open>SELECT queue, status, count(*) ... GROUP BY queue, status\<close>. The database may fail, and gives
  the groups in an order of its own.\<close>

type_synonym count_row = "string \<times> string \<times> int"

record count_query =
  cq_fault :: "sqlx_error option"
  cq_arrange :: "count_row list \<Rightarrow> count_row list"

definition counted_rows :: "db \<Rightarrow> task_row list" where
  "counted_rows d = filter (\<lambda>r. row_status r \<in> {''pending'', ''running''}) (db_tasks d)"

definition count_key :: "task_row \<Rightarrow> string \<times> string" where
  "count_key r = (row_queue r, row_status r)"

definition count_groups :: "db \<Rightarrow> count_row list" where
  "count_groups d = map (\<lambda>k. (fst k, snd k, int (length (filter (\<lambda>r. count_key r = k) (counted_rows d)))))
     (remdups (map count_key (counted_rows d)))"

definition query_counts :: "count_query \<Rightarrow> db \<Rightarrow> sqlx_error + count_row list" where
  "query_counts q d = (case cq_fault q of
      Some e \<Rightarrow> Inl e
    | None \<Rightarrow> Inr (cq_arrange q (count_groups d)))"

fun collect_counts :: "count_row list \<Rightarrow> task_count_snapshot \<Rightarrow> task_count_snapshot" where
  "collect_counts [] sn = sn"
| "collect_counts ((queue, status, count) # rows) sn =
     (let count_u64 = (if 0 \<le> count then nat count else 0) in
      collect_counts rows
        (if status = ''pending'' then sn\<lparr>sn_pending := sn_pending sn @ [(queue, count_u64)]\<rparr>
         else if status = ''running'' then sn\<lparr>sn_running := sn_running sn @ [(queue, count_u64)]\<rparr>
         else sn))"

text \<open>The snapshot sits behind a lock; a poisoned lock holds no snapshot any more.\<close>

type_synonym guarded = "task_count_snapshot option"

definition stale_warning :: "lib \<Rightarrow> sqlx_error \<Rightarrow> observation" where
  "stale_warning lib e = log_of LevelWarn None [(''error'', VText (lib_sqlx lib e))]
     ''failed to refresh task-count snapshot; gauges may be stale''"

definition refresh_once :: "lib \<Rightarrow> count_query \<Rightarrow> db \<Rightarrow> guarded \<Rightarrow> guarded \<times> observation list" where
  "refresh_once lib q d g = (case query_counts q d of
      Inr rows \<Rightarrow> (map_option (\<lambda>_. collect_counts rows snapshot_default) g, [])
    | Inl e \<Rightarrow> (g, [stale_warning lib e]))"

text \<open>The loop: a refresh at once, then one per tick until the token is seen. Each tick comes with
  the database as it is then.\<close>

datatype refresh_event = RefreshCancelled | RefreshTick count_query db

fun refresh_ticks :: "lib \<Rightarrow> refresh_event list \<Rightarrow> guarded \<Rightarrow> guarded \<times> observation list" where
  "refresh_ticks lib [] g = (g, [])"
| "refresh_ticks lib (RefreshCancelled # _) g = (g, [])"
| "refresh_ticks lib (RefreshTick q d # events) g =
     (let (g1, obs) = refresh_once lib q d g; (g2, more) = refresh_ticks lib events g1 in
      (g2, obs @ more))"

definition refresh_task_counts_loop ::
  "lib \<Rightarrow> count_query \<Rightarrow> db \<Rightarrow> refresh_event list \<Rightarrow> guarded \<Rightarrow> guarded \<times> observation list" where
  "refresh_task_counts_loop lib q d events g =
     (let (g1, obs) = refresh_once lib q d g; (g2, more) = refresh_ticks lib events g1 in
      (g2, obs @ more))"

section \<open>The observable gauges\<close>

text \<open>What the callbacks read: the connection pool and the snapshot. A reading is a value with
  its labels.\<close>

record gauge_source =
  gs_pool_size :: nat
  gs_pool_idle :: nat
  gs_snapshot :: guarded

type_synonym reading = "nat \<times> fields"

definition queue_readings :: "(task_count_snapshot \<Rightarrow> (string \<times> nat) list) \<Rightarrow> gauge_source \<Rightarrow> reading list" where
  "queue_readings counts gs = (case gs_snapshot gs of
      None \<Rightarrow> []
    | Some snap \<Rightarrow> map (\<lambda>(queue, count). (count, [(''queue'', VText queue)])) (counts snap))"

definition register_pool_gauges :: "(instrument \<times> (gauge_source \<Rightarrow> reading list)) list" where
  "register_pool_gauges =
     [(instrument U64ObservableGauge POOL_CONNECTIONS_TOTAL ''Total pool size'' None,
       \<lambda>gs. [(gs_pool_size gs, [])]),
      (instrument U64ObservableGauge POOL_CONNECTIONS_IDLE ''Idle pool connections'' None,
       \<lambda>gs. [(gs_pool_idle gs, [])]),
      (instrument U64ObservableGauge POOL_CONNECTIONS_ACTIVE ''Active (in-use) pool connections'' None,
       \<lambda>gs. [(gs_pool_size gs - gs_pool_idle gs, [])]),
      (instrument U64ObservableGauge TASKS_PENDING ''Current pending task count'' None,
       queue_readings sn_pending),
      (instrument U64ObservableGauge TASKS_RUNNING ''Current running task count'' None,
       queue_readings sn_running)]"

text \<open>A scrape runs every callback.\<close>

definition scrape :: "gauge_source \<Rightarrow> (string \<times> reading) list" where
  "scrape gs = concat (map (\<lambda>(i, callback). map (Pair (ins_name i)) (callback gs)) register_pool_gauges)"

section \<open>Providers and the subscriber\<close>

text \<open>The JSON layer of the logs: current span, span list and target shown, events flattened,
  written to the standard output.\<close>

record fmt_layer =
  fl_json :: bool
  fl_current_span :: bool
  fl_span_list :: bool
  fl_target :: bool
  fl_flatten_event :: bool
  fl_stdout :: bool

definition build_fmt_layer :: fmt_layer where
  "build_fmt_layer = \<lparr>fl_json = True, fl_current_span = True, fl_span_list = True, fl_target = True,
     fl_flatten_event = True, fl_stdout = True\<rparr>"

record subscriber =
  sb_filter :: string
  sb_layer :: fmt_layer
  sb_console :: bool

datatype tracer_provider = NoExporter | BatchExporter string

datatype metric_reader = PrometheusReader | PeriodicOtlp string

text \<open>What is global in the process.\<close>

record process =
  pc_subscriber :: "subscriber option"
  pc_tracer :: "tracer_provider option"

text \<open>The library: the filter of the environment as it displays, if there is a valid one; the
  error of a second subscriber; and what building an exporter comes to.\<close>

record telemetry_lib =
  tl_env_filter :: "string option"
  tl_already_set :: string
  tl_span_exporter :: "string \<Rightarrow> string + unit"
  tl_prometheus :: "string + unit"
  tl_metric_exporter :: "string \<Rightarrow> string + unit"
  tl_console :: bool

definition storage_error :: "string + 'a \<Rightarrow> 'a res" where
  "storage_error = map_err (\<lambda>e. Error (Storage (Foreign e)))"

definition try_init :: "telemetry_lib \<Rightarrow> subscriber \<Rightarrow> (process, unit) api" where
  "try_init kit sb sv = (case pc_subscriber (sv_repo sv) of
      Some _ \<Rightarrow> (storage_error (Inl (tl_already_set kit)), sv)
    | None \<Rightarrow> (Inr (), sv\<lparr>sv_repo := (sv_repo sv)\<lparr>pc_subscriber := Some sb\<rparr>\<rparr>))"

definition set_tracer_provider :: "tracer_provider \<Rightarrow> (process, unit) api" where
  "set_tracer_provider tp = writing (\<lambda>sv. ((), sv\<lparr>sv_repo := (sv_repo sv)\<lparr>pc_tracer := Some tp\<rparr>\<rparr>))"

definition init_tracing :: "telemetry_lib \<Rightarrow> observability_config \<Rightarrow> (process, tracer_provider) api" where
  "init_tracing kit c =
     (let filter_directive = (case tl_env_filter kit of Some f \<Rightarrow> f | None \<Rightarrow> ''info'');
          endpoint = oc_otlp_endpoint c in
      andthen (try_init kit \<lparr>sb_filter = filter_directive, sb_layer = build_fmt_layer,
        sb_console = tl_console kit\<rparr>) (\<lambda>_.
      andthen (if endpoint = [] then return NoExporter
        else andthen (lift (storage_error (tl_span_exporter kit endpoint))) (\<lambda>_.
          return (BatchExporter endpoint))) (\<lambda>tracer_provider.
      andthen (set_tracer_provider tracer_provider) (\<lambda>_.
      andthen (tell [log_of LevelInfo None
        [(''filter'', VText filter_directive), (''json'', VBool True),
         (''tokio_console'', VBool (tl_console kit)),
         (''otlp_traces'', VBool (endpoint \<noteq> []))]
        ''tracing subscriber initialized'']) (\<lambda>_.
      return tracer_provider)))))"

text \<open>The provider of the metrics is the list of its readers, the registry of Prometheus is the
  one its first reader feeds.\<close>

definition init_metrics :: "telemetry_lib \<Rightarrow> observability_config \<Rightarrow> (process, metric_reader list) api" where
  "init_metrics kit c =
     andthen (lift (storage_error (tl_prometheus kit))) (\<lambda>_.
     if oc_otlp_endpoint c \<noteq> [] then
       andthen (lift (storage_error (tl_metric_exporter kit (oc_otlp_endpoint c)))) (\<lambda>_.
       return [PrometheusReader, PeriodicOtlp (oc_otlp_endpoint c)])
     else return [PrometheusReader])"

end
