(* ===== verification/Telemetry_Props.thy ===== *)
theory Telemetry_Props
  imports Telemetry Service_Props "HOL-Library.Multiset"
begin

text \<open>
  What the observers of the process can rely on: every measurement of the services fits a declared
  instrument, the gauges of the tasks show the counts of the last refresh that succeeded, and the
  interval of the refresh is never zero.
\<close>

section \<open>Counting\<close>

definition tasks_in :: "task_status \<Rightarrow> string \<Rightarrow> db \<Rightarrow> nat" where
  "tasks_in st queue d =
     length (filter (\<lambda>r. row_queue r = queue \<and> row_status r = as_str st) (db_tasks d))"

lemma collect_counts_fields:
  "sn_pending (collect_counts rows sn) = sn_pending sn
     @ map (\<lambda>(q, s, c). (q, nat c)) (filter (\<lambda>(q, s, c). s = ''pending'') rows)"
  "sn_running (collect_counts rows sn) = sn_running sn
     @ map (\<lambda>(q, s, c). (q, nat c)) (filter (\<lambda>(q, s, c). s = ''running'') rows)"
  by (induction rows sn rule: collect_counts.induct) (simp_all add: Let_def)

lemma group_count:
  assumes "s = ''pending'' \<or> s = ''running''"
  shows "length (filter (\<lambda>r. count_key r = (q, s)) (counted_rows d))
    = length (filter (\<lambda>r. row_queue r = q \<and> row_status r = s) (db_tasks d))"
proof -
  have "(\<lambda>r. row_status r \<in> {''pending'', ''running''} \<and> count_key r = (q, s))
      = (\<lambda>r. row_queue r = q \<and> row_status r = s)"
    using assms by (auto simp: count_key_def)
  then show ?thesis by (simp add: counted_rows_def)
qed

lemma keyed_image: "(q, s, c) \<in> (\<lambda>k. (fst k, snd k, h k)) ` A \<longleftrightarrow> (q, s) \<in> A \<and> c = h (q, s)"
  by force

lemma count_groups_iff:
  assumes "s = ''pending'' \<or> s = ''running''"
  shows "(q, s, c) \<in> set (count_groups d) \<longleftrightarrow>
    0 < c \<and> c = int (length (filter (\<lambda>r. row_queue r = q \<and> row_status r = s) (db_tasks d)))"
proof -
  let ?n = "length (filter (\<lambda>r. count_key r = (q, s)) (counted_rows d))"
  have "(q, s) \<in> count_key ` set (counted_rows d) \<longleftrightarrow> 0 < ?n"
    by (auto simp: length_greater_0_conv filter_empty_conv intro: rev_image_eqI)
  moreover have "(q, s, c) \<in> set (count_groups d) \<longleftrightarrow> (q, s) \<in> count_key ` set (counted_rows d) \<and> c = int ?n"
    by (simp add: count_groups_def keyed_image)
  ultimately show ?thesis by (auto simp: group_count [OF assms])
qed

lemma status_texts: "as_str Pending = ''pending''" "as_str Running = ''running''"
  by simp_all

text \<open>After a successful refresh of an intact lock, each list of the snapshot is the table of the
  positive counts.\<close>

lemma refresh_once_ok:
  assumes "cq_fault q = None" and "mset (cq_arrange q (count_groups d)) = mset (count_groups d)"
  obtains sn where "refresh_once lib q d (Some old) = (Some sn, [])"
    and "\<And>k n. (k, n) \<in> set (sn_pending sn) \<longleftrightarrow> 0 < n \<and> n = tasks_in Pending k d"
    and "\<And>k n. (k, n) \<in> set (sn_running sn) \<longleftrightarrow> 0 < n \<and> n = tasks_in Running k d"
proof
  let ?rows = "cq_arrange q (count_groups d)"
  let ?sn = "collect_counts ?rows snapshot_default"
  show "refresh_once lib q d (Some old) = (Some ?sn, [])"
    by (simp add: refresh_once_def query_counts_def assms(1))
  have rows: "set ?rows = set (count_groups d)" using assms(2) by (rule mset_eq_setD)
  have table: "(k, n) \<in> (\<lambda>(q, s, c). (q, nat c)) ` {x \<in> set (count_groups d). case x of (q, s, c) \<Rightarrow> s = t}
      \<longleftrightarrow> 0 < n \<and> n = length (filter (\<lambda>r. row_queue r = k \<and> row_status r = t) (db_tasks d))"
    if "t = ''pending'' \<or> t = ''running''" for k n t
    using count_groups_iff [OF that] by (force simp: image_iff)
  show "(k, n) \<in> set (sn_pending ?sn) \<longleftrightarrow> 0 < n \<and> n = tasks_in Pending k d" for k n
    using table [of "''pending''" k n]
    by (simp add: collect_counts_fields snapshot_default_def rows tasks_in_def)
  show "(k, n) \<in> set (sn_running ?sn) \<longleftrightarrow> 0 < n \<and> n = tasks_in Running k d" for k n
    using table [of "''running''" k n]
    by (simp add: collect_counts_fields snapshot_default_def rows tasks_in_def)
qed

section \<open>The gauges\<close>

text \<open>The refreshes a run of the loop makes, and the ones that the database answered.\<close>

fun refreshes :: "refresh_event list \<Rightarrow> (count_query \<times> db) list" where
  "refreshes (RefreshTick q d # events) = (q, d) # refreshes events"
| "refreshes _ = []"

definition answered :: "count_query \<times> db \<Rightarrow> bool" where
  "answered x \<longleftrightarrow> cq_fault (fst x) = None"

definition arranged :: "count_query \<times> db \<Rightarrow> bool" where
  "arranged x \<longleftrightarrow> mset (cq_arrange (fst x) (count_groups (snd x))) = mset (count_groups (snd x))"

definition shows_tasks :: "guarded \<Rightarrow> db \<Rightarrow> bool" where
  "shows_tasks g d \<longleftrightarrow> (\<forall>sz idle q n.
     let gauges = set (scrape \<lparr>gs_pool_size = sz, gs_pool_idle = idle, gs_snapshot = g\<rparr>) in
     ((TASKS_PENDING, n, [(''queue'', VText q)]) \<in> gauges \<longleftrightarrow> 0 < n \<and> n = tasks_in Pending q d)
     \<and> ((TASKS_RUNNING, n, [(''queue'', VText q)]) \<in> gauges \<longleftrightarrow> 0 < n \<and> n = tasks_in Running q d))"

lemma scrape_tasks:
  "(TASKS_PENDING, n, [(''queue'', VText q)]) \<in> set (scrape gs)
     \<longleftrightarrow> (\<exists>sn. gs_snapshot gs = Some sn \<and> (q, n) \<in> set (sn_pending sn))"
  "(TASKS_RUNNING, n, [(''queue'', VText q)]) \<in> set (scrape gs)
     \<longleftrightarrow> (\<exists>sn. gs_snapshot gs = Some sn \<and> (q, n) \<in> set (sn_running sn))"
  by (force simp: scrape_def register_pool_gauges_def instrument_def queue_readings_def metric_names
      split: option.splits)+

lemma shows_tasks_iff:
  "shows_tasks (Some sn) d \<longleftrightarrow>
     (\<forall>k n. ((k, n) \<in> set (sn_pending sn) \<longleftrightarrow> 0 < n \<and> n = tasks_in Pending k d)
        \<and> ((k, n) \<in> set (sn_running sn) \<longleftrightarrow> 0 < n \<and> n = tasks_in Running k d))"
  by (auto simp: shows_tasks_def scrape_tasks Let_def)

text \<open>What a run of refreshes leaves: the counts of the last one answered, or what was there.\<close>

definition refreshed :: "(count_query \<times> db) list \<Rightarrow> task_count_snapshot \<Rightarrow> task_count_snapshot \<Rightarrow> bool" where
  "refreshed xs old sn \<longleftrightarrow>
     (if filter answered xs = [] then sn = old
      else shows_tasks (Some sn) (snd (last (filter answered xs))))"

lemma refreshed_append:
  "refreshed xs a b \<Longrightarrow> refreshed ys b c \<Longrightarrow> refreshed (xs @ ys) a c"
  by (auto simp: refreshed_def split: if_splits)

lemma refresh_once_refreshed:
  assumes "arranged (q, d)"
  shows "\<exists>sn obs. refresh_once lib q d (Some old) = (Some sn, obs) \<and> refreshed [(q, d)] old sn
    \<and> length obs = length (filter (\<lambda>x. \<not> answered x) [(q, d)])"
proof (cases "cq_fault q")
  case None
  from assms have "mset (cq_arrange q (count_groups d)) = mset (count_groups d)"
    by (simp add: arranged_def)
  from refresh_once_ok [OF None this, of lib old] obtain sn
    where "refresh_once lib q d (Some old) = (Some sn, [])" "shows_tasks (Some sn) d"
    unfolding shows_tasks_iff by metis
  with None show ?thesis by (simp add: refreshed_def answered_def)
next
  case (Some e)
  then show ?thesis
    by (simp add: refresh_once_def query_counts_def refreshed_def answered_def)
qed

lemma refresh_ticks_refreshed:
  "list_all arranged (refreshes events) \<Longrightarrow>
     \<exists>sn obs. refresh_ticks lib events (Some old) = (Some sn, obs) \<and> refreshed (refreshes events) old sn
       \<and> length obs = length (filter (\<lambda>x. \<not> answered x) (refreshes events))"
proof (induction events arbitrary: old)
  case Nil
  then show ?case by (simp add: refreshed_def)
next
  case (Cons ev events)
  show ?case
  proof (cases ev)
    case RefreshCancelled
    then show ?thesis by (simp add: refreshed_def)
  next
    case (RefreshTick q d)
    with Cons.prems have "arranged (q, d)" and rest: "list_all arranged (refreshes events)" by simp_all
    from refresh_once_refreshed [OF this(1)] obtain s1 o1
      where 1: "refresh_once lib q d (Some old) = (Some s1, o1)" "refreshed [(q, d)] old s1"
        "length o1 = length (filter (\<lambda>x. \<not> answered x) [(q, d)])" by blast
    from Cons.IH [OF rest] obtain s2 o2
      where 2: "refresh_ticks lib events (Some s1) = (Some s2, o2)" "refreshed (refreshes events) s1 s2"
        "length o2 = length (filter (\<lambda>x. \<not> answered x) (refreshes events))" by blast
    from refreshed_append [OF 1(2) 2(2)] 1 2 RefreshTick show ?thesis by simp
  qed
qed

section \<open>Properties\<close>

text \<open>C27: The gauges of the pending and the running tasks show, per queue, exactly the positive
  counts of the tasks table at the last refresh the database answered; as long as it answered
  none, they show nothing. Every refresh it did not answer leaves one warning.\<close>

theorem task_gauges_show_counts:
  assumes "refresh_task_counts_loop lib q d events (Some snapshot_default) = (g, obs)"
    and "list_all arranged ((q, d) # refreshes events)"
  shows "(let done = filter answered ((q, d) # refreshes events) in
      if done = [] then g = Some snapshot_default else shows_tasks g (snd (last done)))
    \<and> length obs = length (filter (\<lambda>x. \<not> answered x) ((q, d) # refreshes events))"
proof -
  let ?all = "(q, d) # refreshes events"
  have loop: "refresh_task_counts_loop lib q d events = refresh_ticks lib (RefreshTick q d # events)"
    by (simp add: fun_eq_iff refresh_task_counts_loop_def)
  obtain sn where "g = Some sn" "refreshed ?all snapshot_default sn"
    "length obs = length (filter (\<lambda>x. \<not> answered x) ?all)"
    using refresh_ticks_refreshed [of "RefreshTick q d # events" lib snapshot_default] assms
    unfolding loop by (simp del: refresh_ticks.simps) metis
  then show ?thesis unfolding refreshed_def Let_def
    by (auto simp del: filter.simps split: if_splits)
qed

definition quiet_query :: count_query where
  "quiet_query = \<lparr>cq_fault = None, cq_arrange = rev\<rparr>"

definition failing_query :: count_query where
  "failing_query = \<lparr>cq_fault = Some PoolTimedOut, cq_arrange = (\<lambda>rows. rows)\<rparr>"

theorem task_gauges_show_counts_witness:
  "\<exists>g obs. refresh_task_counts_loop sample_lib failing_query empty_db
       [RefreshTick quiet_query submitted_db, RefreshTick failing_query empty_db, RefreshCancelled]
       (Some snapshot_default) = (g, obs)
     \<and> shows_tasks g submitted_db \<and> length obs = 2"
proof -
  let ?events = "[RefreshTick quiet_query submitted_db, RefreshTick failing_query empty_db, RefreshCancelled]"
  obtain g obs where run: "refresh_task_counts_loop sample_lib failing_query empty_db ?events
      (Some snapshot_default) = (g, obs)" by fastforce
  have "list_all arranged ((failing_query, empty_db) # refreshes ?events)"
    by (simp add: arranged_def failing_query_def quiet_query_def)
  from task_gauges_show_counts [OF run this] run show ?thesis
    by (simp add: answered_def failing_query_def quiet_query_def Let_def)
qed





text \<open>The label \<open>region\<close> is one that the comments of the struct do not give the duration: the
  measurement of a completion has it, while those of a failure have not.\<close>

lemma region_label_undocumented:
  assumes "dx_metrics ctx" and "attempt (port_complete (dx_repo ctx) (rec_id t)) sv = (Inr (Inr u), sv1)"
    and "handler_succeeded lib ctx t elapsed sv = (r, sv')"
  shows "\<exists>a fs. last (sv_obs sv') = Metric TASK_DURATION_SECONDS a fs
    \<and> map fst fs = [''queue'', ''kind'', ''status'', ''region'']
    \<and> \<not> documented TASK_DURATION_SECONDS a (map fst fs)"
  using assms by (auto simp: handler_succeeded_def Let_def andthen_def metric_def queue_kind_def observe_def)

section \<open>The interval of the refresh\<close>

lemma char_chunks_ascii: "list_all (\<lambda>c. byte c < 128) s \<Longrightarrow> char_chunks s = map (\<lambda>c. (byte c, [c])) s"
proof (induction s)
  case (Cons c s)
  then have "utf8_next (c # s) = Some (byte c, 1)" by (simp add: utf8_next_def utf8_width_def)
  with Cons show ?case by (simp add: char_chunks.simps [of "c # s"])
qed (simp add: char_chunks.simps)

lemma trim_ascii:
  assumes "list_all (\<lambda>c. byte c < 128 \<and> is_whitespace (byte c)) (ws @ vs)"
    and "list_all (\<lambda>c. byte c < 128 \<and> \<not> is_whitespace (byte c)) s" and "s \<noteq> []"
  shows "trim (ws @ s @ vs) = s"
proof -
  let ?p = "\<lambda>(c :: nat, _ :: string). is_whitespace c"
  define f :: "char \<Rightarrow> nat \<times> string" where "f c = (byte c, [c])" for c
  have "char_chunks (ws @ s @ vs) = map f ws @ map f s @ map f vs"
    using assms(1,2) by (subst char_chunks_ascii) (auto simp: list_all_iff f_def)
  moreover have "dropWhile ?p (map f ws @ xs) = dropWhile ?p xs" for xs
    using assms(1) by (intro dropWhile_append2) (auto simp: f_def list_all_iff)
  moreover have "dropWhile ?p (rev (map f vs) @ xs) = dropWhile ?p xs" for xs
    using assms(1) by (intro dropWhile_append2) (auto simp: f_def list_all_iff)
  moreover have "dropWhile ?p (map f s @ xs) = map f s @ xs" for xs
    using assms(2,3) by (cases s) (auto simp: f_def)
  moreover have "dropWhile ?p (rev (map f s)) = rev (map f s)"
    using assms(2,3) by (cases s rule: rev_cases) (auto simp: f_def)
  moreover have "concat (map snd (map f s)) = s" by (induction s) (auto simp: f_def)
  ultimately show ?thesis by (simp add: trim_def Let_def del: map_map)
qed

lemma digits_value_append: "digits_value acc (s @ t) = digits_value (digits_value acc s) t"
  by (induction s arbitrary: acc) simp_all

lemma digit_char: "n < 10 \<Longrightarrow> byte (char_of (48 + n :: nat)) = 48 + n"
  by (simp add: byte_char_of)

lemma dec_nat_digits: "list_all is_ascii_digit (dec_nat n) \<and> dec_nat n \<noteq> [] \<and> digits_value 0 (dec_nat n) = n"
proof (induction n rule: dec_nat.induct)
  case (1 n)
  have d: "byte (char_of (48 + n mod 10)) = 48 + n mod 10" by (rule digit_char) simp
  show ?case
  proof (cases "n < 10")
    case True
    then show ?thesis using digit_char [OF True]
      by (simp add: dec_nat.simps [of n] is_ascii_digit_def)
  next
    case False
    with 1 d show ?thesis
      by (simp add: dec_nat.simps [of n] is_ascii_digit_def digits_value_append)
  qed
qed

lemma digit_facts: "is_ascii_digit c \<Longrightarrow> byte c < 128 \<and> \<not> is_whitespace (byte c) \<and> c \<noteq> CHR ''+''"
  by (auto simp: is_ascii_digit_def is_whitespace_def byte_def)

lemma parse_u64_dec_nat: "n \<le> u64_max \<Longrightarrow> parse_u64 (dec_nat n) = Some n"
  using dec_nat_digits [of n] digit_facts [of "hd (dec_nat n)"]
  by (cases "dec_nat n") (auto simp: parse_u64_def)

text \<open>The interval of the refresh is never zero, whatever the variable of the environment holds
  (a ticker of period zero panics), and a positive number of milliseconds written in decimal is
  taken as it is, also with ASCII white space around it.\<close>

theorem refresh_interval_sound:
  "0 < task_count_refresh_interval vars
   \<and> (vars REFRESH_INTERVAL_ENV = Some (ws @ dec_nat n @ vs) \<and> 0 < n \<and> n \<le> u64_max
        \<and> list_all (\<lambda>c. byte c < 128 \<and> is_whitespace (byte c)) (ws @ vs)
      \<longrightarrow> task_count_refresh_interval vars = from_millis n)"
proof (intro conjI impI)
  show "0 < task_count_refresh_interval vars"
    by (simp add: task_count_refresh_interval_def parse_refresh_interval_def from_millis_def from_secs_def
        DEFAULT_TASK_COUNT_REFRESH_INTERVAL_def nanos_per_milli_def nanos_per_sec_def split: option.splits)
next
  assume *: "vars REFRESH_INTERVAL_ENV = Some (ws @ dec_nat n @ vs) \<and> 0 < n \<and> n \<le> u64_max
        \<and> list_all (\<lambda>c. byte c < 128 \<and> is_whitespace (byte c)) (ws @ vs)"
  have "trim (ws @ dec_nat n @ vs) = dec_nat n"
    using * dec_nat_digits [of n] digit_facts by (intro trim_ascii) (auto simp: list_all_iff)
  with * show "task_count_refresh_interval vars = from_millis n"
    by (simp add: task_count_refresh_interval_def parse_refresh_interval_def parse_u64_dec_nat)
qed

theorem refresh_interval_sound_witness:
  "task_count_refresh_interval (\<lambda>_. Some '' 200 '') = from_millis 200"
proof -
  have "'' 200 '' = '' '' @ dec_nat 200 @ '' ''" by code_simp
  moreover have "list_all (\<lambda>c. byte c < 128 \<and> is_whitespace (byte c)) ('' '' @ '' '')"
    by (simp add: byte_def is_whitespace_def)
  ultimately show ?thesis
    using refresh_interval_sound [of "\<lambda>_. Some '' 200 ''" "'' ''" 200 "'' ''"]
    by (simp only: u64_max_def) simp
qed

end
