(* ===== verification/Cli.thy ===== *)
theory Cli
  imports Builder Http
begin

text \<open>
  The command line (\<open>crates/api/src/cli/\<close>, \<open>config.rs\<close>, \<open>main.rs\<close>): what each subcommand asks of
  the scheduler, what it prints and the exit code it ends with. The parser of the arguments, the
  runtime and the printing itself are libraries; what is printed is part of the state. The
  database is the one the URL names, reached through the port without an audit log.
\<close>

section \<open>Loading the configuration\<close>

text \<open>
  \<open>figment\<close> merges layers, each over the ones before, and extracts the configuration from the
  whole: what the code decides is which layers there are and in which order.
\<close>

datatype layer =
    Defaults app_config
  | TomlFile string
  | EnvPrefixed string string
  | Setting string json

record serve_args =
  srv_port :: "nat option"
  srv_concurrency :: "nat option"
  srv_otlp_endpoint :: "string option"

definition app_config_default :: app_config where
  "app_config_default = \<lparr>ac_database = database_config_default, ac_worker = worker_config_default,
     ac_server = server_config_default,
     ac_observability = \<lparr>oc_otlp_endpoint = [], oc_prometheus_path = []\<rparr>,
     ac_producer = producer_config_default\<rparr>"

definition setting :: "string \<Rightarrow> ('a \<Rightarrow> json) \<Rightarrow> 'a option \<Rightarrow> layer list" where
  "setting key f v = (case v of None \<Rightarrow> [] | Some x \<Rightarrow> [Setting key (f x)])"

definition apply_serve_overrides :: "layer list \<Rightarrow> serve_args \<Rightarrow> layer list" where
  "apply_serve_overrides figment s = figment
     @ setting ''server.port'' (\<lambda>n. JInt (int n)) (srv_port s)
     @ setting ''worker.concurrency'' (\<lambda>n. JInt (int n)) (srv_concurrency s)
     @ setting ''observability.otlp_endpoint'' JStr (srv_otlp_endpoint s)"

definition config_layers :: "string \<Rightarrow> string option \<Rightarrow> string option \<Rightarrow> layer list" where
  "config_layers profile config_path database_url =
     [Defaults app_config_default,
      TomlFile (case config_path of Some p \<Rightarrow> p | None \<Rightarrow> ''config.toml'')]
     @ (if profile = [] then [] else [TomlFile (''config.'' @ profile @ ''.toml'')])
     @ [EnvPrefixed ''IRON_DEFER__'' ''__'']
     @ setting ''database.url'' JStr database_url"

definition load_layers ::
  "string \<Rightarrow> string option \<Rightarrow> string option \<Rightarrow> serve_args option \<Rightarrow> layer list" where
  "load_layers profile config_path database_url serve =
     (case serve of None \<Rightarrow> config_layers profile config_path database_url
      | Some s \<Rightarrow> apply_serve_overrides (config_layers profile config_path database_url) s)"

section \<open>What the commands use\<close>

record cli_lib =
  cl_lib :: lib
  cl_connect :: "string \<Rightarrow> string + unit"
  cl_parse_json :: "string \<Rightarrow> string + json"
  cl_parse_time :: "string \<Rightarrow> string + time"
  cl_rfc3339 :: "time \<Rightarrow> string"
  cl_record_json :: "task_record \<Rightarrow> string + string"
  cl_table_json :: "task_record list \<Rightarrow> nat \<Rightarrow> nat \<Rightarrow> nat \<Rightarrow> string + string"
  cl_workers_json :: "worker_status list \<Rightarrow> string + string"
  cl_pretty :: "json \<Rightarrow> string + string"
  cl_extract :: "layer list \<Rightarrow> string + app_config"

section \<open>Output\<close>

datatype printed = Stdout string | Stderr string

record 's console =
  co_repo :: 's
  co_out :: "printed list"

datatype abort = ExitCode int | Unwind message

type_synonym ('s, 'a) command = "('s console, abort, 'a) act"

definition print_lines :: "printed list \<Rightarrow> ('s, unit) command" where
  "print_lines ls c = (Inr (), c\<lparr>co_out := co_out c @ ls\<rparr>)"

text \<open>The text of a \<open>Uuid\<close> is ASCII, so cutting it after eight bytes is cutting it after eight
  characters.\<close>

definition short_uuid :: "lib \<Rightarrow> uuid \<Rightarrow> string" where
  "short_uuid lib u =
     (let s = fmt_uuid (lib_formats lib) u in if 12 < length s then take 8 s @ ''...'' else s)"

text \<open>\<open>{:<n}\<close>: padded on the right to a number of characters.\<close>

definition pad :: "nat \<Rightarrow> string \<Rightarrow> string" where
  "pad n s = s @ replicate (n - length (chars s)) CHR '' ''"

fun format_status :: "task_status \<Rightarrow> string" where
  "format_status Pending = ''pending''"
| "format_status Running = ''running''"
| "format_status Completed = ''completed''"
| "format_status Failed = ''failed''"
| "format_status Cancelled = ''cancelled''"
| "format_status Suspended = ''suspended''"

definition pretty_or :: "string \<Rightarrow> string + string \<Rightarrow> printed list" where
  "pretty_or what r = (case r of
      Inr s \<Rightarrow> [Stdout s]
    | Inl e \<Rightarrow> [Stderr (''error: failed to serialize '' @ what @ '': '' @ e)])"

definition attempts_of :: "task_record \<Rightarrow> string" where
  "attempts_of t = dec_int (attempt_get (rec_attempts t)) @ ''/'' @ dec_int (max_get (rec_max_attempts t))"

definition print_task_record :: "cli_lib \<Rightarrow> task_record \<Rightarrow> bool \<Rightarrow> printed list" where
  "print_task_record cl t json =
     (if json then pretty_or ''task record'' (cl_record_json cl t)
      else map Stdout
        [''Task submitted successfully:'',
         ''  ID:           '' @ fmt_uuid (lib_formats (cl_lib cl)) (task_uuid (rec_id t)),
         ''  Queue:        '' @ queue_str (rec_queue t),
         ''  Kind:         '' @ kind_str (rec_kind t),
         ''  Status:       '' @ format_status (rec_status t),
         ''  Priority:     '' @ dec_int (priority_get (rec_priority t)),
         ''  Attempts:     '' @ attempts_of t,
         ''  Scheduled At: '' @ cl_rfc3339 cl (rec_scheduled_at t),
         ''  Created At:   '' @ cl_rfc3339 cl (rec_created_at t)])"

definition table_line :: "cli_lib \<Rightarrow> task_record \<Rightarrow> string" where
  "table_line cl t = pad 12 (short_uuid (cl_lib cl) (task_uuid (rec_id t))) @ '' ''
     @ pad 20 (kind_str (rec_kind t)) @ '' '' @ pad 12 (format_status (rec_status t)) @ '' ''
     @ pad 10 (attempts_of t) @ '' '' @ cl_rfc3339 cl (rec_created_at t)"

text \<open>The two \<open>saturating_add\<close> are on \<open>u64\<close>.\<close>

definition showing :: "nat \<Rightarrow> nat \<Rightarrow> nat \<Rightarrow> string" where
  "showing present n_total offset =
     (if present = 0 then ''Showing 0 of '' @ dec_nat n_total @ '' tasks''
      else (let start = min (min (offset + 1) u64_max) n_total;
                stop = min (min (offset + present) u64_max) n_total in
        ''Showing '' @ dec_nat start @ ''-'' @ dec_nat stop @ '' of '' @ dec_nat n_total @ '' tasks''))"

definition print_task_table ::
  "cli_lib \<Rightarrow> task_record list \<Rightarrow> nat \<Rightarrow> nat \<Rightarrow> nat \<Rightarrow> bool \<Rightarrow> printed list" where
  "print_task_table cl tasks n_total limit offset json =
     (if json then pretty_or ''task list'' (cl_table_json cl tasks n_total limit offset)
      else if tasks = [] then [Stdout (''No tasks found. (total: '' @ dec_nat n_total @ '')'')]
      else map Stdout
        ([pad 12 ''ID'' @ '' '' @ pad 20 ''KIND'' @ '' '' @ pad 12 ''STATUS'' @ '' ''
            @ pad 10 ''ATTEMPTS'' @ '' CREATED_AT'', replicate 78 CHR ''-'']
         @ map (table_line cl) tasks @ ['''', showing (length tasks) n_total offset]))"

definition worker_line :: "cli_lib \<Rightarrow> worker_status \<Rightarrow> string" where
  "worker_line cl w = pad 12 (short_uuid (cl_lib cl) (worker_uuid (ws_worker_id w))) @ '' ''
     @ pad 20 (queue_str (ws_queue w)) @ '' '' @ dec_nat (ws_tasks_in_flight w)"

definition print_worker_table :: "cli_lib \<Rightarrow> worker_status list \<Rightarrow> bool \<Rightarrow> printed list" where
  "print_worker_table cl workers json =
     (if json then pretty_or ''worker status'' (cl_workers_json cl workers)
      else if workers = [] then [Stdout ''No active workers.'']
      else map Stdout
        ([pad 12 ''WORKER_ID'' @ '' '' @ pad 20 ''QUEUE'' @ '' TASKS_IN_FLIGHT'', replicate 50 CHR ''-'']
         @ map (worker_line cl) workers))"

definition mask_database_url :: "string \<Rightarrow> string" where
  "mask_database_url url =
     (if url = [] then ''(not set)''
      else (case rfind_byte CHR ''@'' url of
          Some at_pos \<Rightarrow>
            (let scheme_end = (case find_str ''://'' url of None \<Rightarrow> 0 | Some p \<Rightarrow> p + 3) in
             take (min scheme_end at_pos) url @ ''***@***'')
        | None \<Rightarrow> ''***''))"

definition show_bool :: "bool \<Rightarrow> string" where
  "show_bool b = (if b then ''true'' else ''false'')"

definition otlp_text :: "app_config \<Rightarrow> string" where
  "otlp_text c = (let e = oc_otlp_endpoint (ac_observability c) in if e = [] then ''(disabled)'' else e)"

definition print_config_summary :: "cli_lib \<Rightarrow> app_config \<Rightarrow> bool \<Rightarrow> printed list" where
  "print_config_summary cl c json =
     (let url = mask_database_url (dc_url (ac_database c));
          conns = dc_max_connections (ac_database c); port = sc_port (ac_server c);
          conc = wc_concurrency (ac_worker c); log = wc_log_payload (ac_worker c) in
      if json then pretty_or ''config summary'' (cl_pretty cl (JObj
        [(''database'', JObj [(''url'', JStr url), (''max_connections'', JInt (int conns))]),
         (''server'', JObj [(''port'', JInt (int port))]),
         (''worker'', JObj [(''concurrency'', JInt (int conc)), (''log_payload'', JBool log)]),
         (''observability'', JObj [(''otlp_endpoint'', JStr (otlp_text c))]),
         (''status'', JStr ''valid'')]))
      else map Stdout
        [''Configuration valid:'', ''  Database URL:     '' @ url,
         ''  Max Connections:  '' @ dec_nat conns, ''  Server Port:      '' @ dec_nat port,
         ''  Concurrency:      '' @ dec_nat conc, ''  Log Payload:      '' @ show_bool log,
         ''  OTLP Endpoint:    '' @ otlp_text c])"

definition print_error :: "cli_lib \<Rightarrow> string \<Rightarrow> bool \<Rightarrow> printed list" where
  "print_error cl msg json =
     (if json then (case cl_pretty cl (JObj [(''error'', JStr msg)]) of
          Inr s \<Rightarrow> [Stderr s] | Inl _ \<Rightarrow> [Stderr (''error: '' @ msg)])
      else [Stderr (''error: '' @ msg)])"

section \<open>Ending a command\<close>

definition exit_with :: "cli_lib \<Rightarrow> bool \<Rightarrow> int \<Rightarrow> message \<Rightarrow> ('s, 'a) command" where
  "exit_with cl json code m =
     andthen (print_lines (print_error cl (to_text (cl_lib cl) m) json)) (\<lambda>_. raise (ExitCode code))"

text \<open>\<open>.map_err(|e| { print_error(..); code })?\<close> on a result and on a call of the port.\<close>

definition or_exit :: "cli_lib \<Rightarrow> bool \<Rightarrow> int \<Rightarrow> ('e \<Rightarrow> message) \<Rightarrow> 'e + 'a \<Rightarrow> ('s, 'a) command" where
  "or_exit cl json code m r = (case r of Inl e \<Rightarrow> exit_with cl json code (m e) | Inr x \<Rightarrow> return x)"

definition call_or_exit ::
  "cli_lib \<Rightarrow> bool \<Rightarrow> string \<Rightarrow> ('s, 'a) op \<Rightarrow> ('s, 'a) command" where
  "call_or_exit cl json what m c = (case m (co_repo c) of
      (Inl (Error e), s) \<Rightarrow>
        exit_with cl json 1 (Lit what # display_task_error (lib_sqlx (cl_lib cl)) e) (c\<lparr>co_repo := s\<rparr>)
    | (Inl (Panic p), s) \<Rightarrow> (Inl (Unwind p), c\<lparr>co_repo := s\<rparr>)
    | (Inr x, s) \<Rightarrow> (Inr x, c\<lparr>co_repo := s\<rparr>))"

definition url_required :: string where
  "url_required = ''DATABASE_URL is required; set via --database-url flag or DATABASE_URL env var''"

text \<open>The connection and the migrations are one library call here.\<close>

definition cli_pool :: "cli_lib \<Rightarrow> string \<Rightarrow> task_error + unit" where
  "cli_pool cl database_url =
     (if database_url = [] then Inl (Storage (Text [Lit url_required]))
      else map_err (\<lambda>e. Storage (Foreign e)) (cl_connect cl database_url))"

definition connect_or_exit :: "cli_lib \<Rightarrow> string \<Rightarrow> bool \<Rightarrow> ('s, unit) command" where
  "connect_or_exit cl database_url json =
     or_exit cl json 1 (\<lambda>e. Lit ''database connection failed: '' # display_task_error (lib_sqlx (cl_lib cl)) e)
       (cli_pool cl database_url)"

section \<open>The subcommands\<close>

record submit_args =
  sa_queue :: string
  sa_kind :: string
  sa_payload :: string
  sa_scheduled_at :: "string option"
  sa_priority :: int
  sa_max_attempts :: "int option"
  sa_idempotency_key :: "string option"

definition option_or_exit ::
  "cli_lib \<Rightarrow> bool \<Rightarrow> int \<Rightarrow> ('e \<Rightarrow> message) \<Rightarrow> ('b \<Rightarrow> 'e + 'a) \<Rightarrow> 'b option \<Rightarrow> ('s, 'a option) command" where
  "option_or_exit cl json code m f v = or_exit cl json code m (transpose (map_option f v))"

definition invalid_queue :: "validation_error \<Rightarrow> message" where
  "invalid_queue e = Lit ''invalid queue name: '' # display_validation_error e"

text \<open>The submission itself, once the arguments are parsed.\<close>

definition submit_task ::
  "cli_lib \<Rightarrow> 's task_repository \<Rightarrow> ambient \<Rightarrow> submit_args \<Rightarrow> bool \<Rightarrow> queue_name \<Rightarrow> json \<Rightarrow> time option
     \<Rightarrow> int option \<Rightarrow> ('s, unit) command" where
  "submit_task cl repo am args json queue payload scheduled_at max_attempts =
     andthen (case sa_idempotency_key args of
         Some key \<Rightarrow>
           andthen (call_or_exit cl json ''submit failed: '' (enqueue_raw_idempotent repo am queue
             (sa_kind args) payload scheduled_at (Some (sa_priority args)) max_attempts key
             (from_secs (24 * 60 * 60)) None None)) (\<lambda>(rec, created).
           if created then return rec
           else andthen (print_lines ((if json then [] else
                 [Stderr (''duplicate idempotency key '' @ dash @ '' returning existing task'')])
               @ print_task_record cl rec json)) (\<lambda>_. raise (ExitCode 2)))
       | None \<Rightarrow> call_or_exit cl json ''submit failed: '' (enqueue_raw repo am queue (sa_kind args)
             payload scheduled_at (Some (sa_priority args)) max_attempts None None))
       (\<lambda>record. print_lines (print_task_record cl record json))"

definition submit_run ::
  "cli_lib \<Rightarrow> (bool \<Rightarrow> 's task_repository) \<Rightarrow> ambient \<Rightarrow> submit_args \<Rightarrow> string \<Rightarrow> bool
     \<Rightarrow> ('s, unit) command" where
  "submit_run cl repo am args database_url json =
     andthen (connect_or_exit cl database_url json) (\<lambda>_.
     andthen (or_exit cl json 1 (\<lambda>e. [Lit ''invalid JSON payload: '', Str e])
       (cl_parse_json cl (sa_payload args))) (\<lambda>payload.
     andthen (or_exit cl json 1 invalid_queue (queue_try_from (sa_queue args))) (\<lambda>queue.
     andthen (option_or_exit cl json 1 (\<lambda>e. [Lit ''invalid --scheduled-at (expected ISO 8601): '', Str e])
       (cl_parse_time cl) (sa_scheduled_at args)) (\<lambda>scheduled_at.
     andthen (case sa_max_attempts args of
         Some ma \<Rightarrow> if ma < 1 then exit_with cl json 1 [Lit ''--max-attempts must be >= 1''] else return (Some ma)
       | None \<Rightarrow> return None) (\<lambda>max_attempts.
     submit_task cl (repo False) am args json queue payload scheduled_at max_attempts)))))"

record tasks_args =
  ta_queue :: "string option"
  ta_status :: "string option"
  ta_limit :: nat
  ta_offset :: nat

definition cli_parse_status :: "string \<Rightarrow> message + task_status" where
  "cli_parse_status text =
     (let s = to_ascii_lowercase text in
      if s = ''pending'' then Inr Pending
      else if s = ''running'' then Inr Running
      else if s = ''completed'' then Inr Completed
      else if s = ''failed'' then Inr Failed
      else if s = ''cancelled'' then Inr Cancelled
      else if s = ''suspended'' then Inr Suspended
      else Inl [Lit (''invalid status '' @ quote), Str s,
        Lit (quote @ ''; expected one of: pending, running, completed, failed, cancelled, suspended'')])"

definition tasks_run ::
  "cli_lib \<Rightarrow> (bool \<Rightarrow> 's task_repository) \<Rightarrow> tasks_args \<Rightarrow> string \<Rightarrow> bool \<Rightarrow> ('s, unit) command" where
  "tasks_run cl repo args database_url json =
     andthen (connect_or_exit cl database_url json) (\<lambda>_.
     andthen (option_or_exit cl json 1 invalid_queue queue_try_from (ta_queue args)) (\<lambda>queue.
     andthen (option_or_exit cl json 1 (\<lambda>m. m) cli_parse_status (ta_status args)) (\<lambda>status.
     let limit = max 1 (min (ta_limit args) 100) in
     andthen (call_or_exit cl json ''query failed: '' (port_list_tasks (repo False) \<lparr>flt_queue = queue,
       flt_status = status, flt_limit = limit, flt_offset = ta_offset args\<rparr>)) (\<lambda>res.
     print_lines (print_task_table cl (lr_tasks res) (lr_total res) limit (ta_offset args) json)))))"

definition workers_run :: "cli_lib \<Rightarrow> (bool \<Rightarrow> 's task_repository) \<Rightarrow> string \<Rightarrow> bool \<Rightarrow> ('s, unit) command" where
  "workers_run cl repo database_url json =
     andthen (connect_or_exit cl database_url json) (\<lambda>_.
     andthen (call_or_exit cl json ''query failed: '' (port_worker_status (repo False))) (\<lambda>workers.
     print_lines (print_worker_table cl workers json)))"

definition load_config :: "cli_lib \<Rightarrow> string \<Rightarrow> string option \<Rightarrow> string option \<Rightarrow> string + app_config" where
  "load_config cl profile config_path database_url =
     cl_extract cl (config_layers profile config_path database_url)"

definition run_validate ::
  "cli_lib \<Rightarrow> string \<Rightarrow> string option \<Rightarrow> string option \<Rightarrow> bool \<Rightarrow> ('s, unit) command" where
  "run_validate cl profile config_path database_url json =
     andthen (or_exit cl json 2 (\<lambda>e. [Lit ''configuration load failed: '', Str e])
       (load_config cl profile config_path database_url)) (\<lambda>app_config.
     andthen (or_exit cl json 2 (\<lambda>e. Lit ''worker config invalid: '' # e)
       (worker_validate (ac_worker app_config))) (\<lambda>_.
     print_lines (print_config_summary cl app_config json)))"

end
