(* ===== verification/Binary.thy ===== *)
theory Binary
  imports Cli
begin

text \<open>
  The executable (\<open>crates/api/src/main.rs\<close>) and the connection pool it opens
  (\<open>crates/infrastructure/src/db.rs\<close>): the dispatch of the subcommands, and how \<open>serve\<close> turns a
  configuration into an engine. Serving HTTP, waiting for a signal and the runtime are libraries.
\<close>

section \<open>The connection pool\<close>

definition DEFAULT_MAX_CONNECTIONS :: nat where
  "DEFAULT_MAX_CONNECTIONS = 10"

definition MAX_POOL_CONNECTIONS :: nat where
  "MAX_POOL_CONNECTIONS = 100"

record pool_options =
  po_max_connections :: nat
  po_min_connections :: nat
  po_acquire_timeout :: duration
  po_idle_timeout :: "duration option"
  po_max_lifetime :: "duration option"
  po_test_before_acquire :: bool

definition recommended_pool_options :: pool_options where
  "recommended_pool_options = \<lparr>po_max_connections = DEFAULT_MAX_CONNECTIONS, po_min_connections = 0,
     po_acquire_timeout = from_secs 5, po_idle_timeout = Some (from_secs (5 * 60)),
     po_max_lifetime = Some (from_secs (30 * 60)), po_test_before_acquire = True\<rparr>"

text \<open>Opening a pool with some options at some URL is the library's.\<close>

definition create_pool ::
  "(pool_options \<Rightarrow> string \<Rightarrow> sqlx_error + unit) \<Rightarrow> (string \<Rightarrow> string) \<Rightarrow> database_config \<Rightarrow> unit res" where
  "create_pool connect lower c =
     (let n = (if dc_max_connections c = 0 then DEFAULT_MAX_CONNECTIONS else dc_max_connections c) in
      if MAX_POOL_CONNECTIONS < n then
        Inl (Error (Storage (Text [Lit ''configured pool size ('', Num (int n), Lit '') exceeds ceiling ('',
          Num (int MAX_POOL_CONNECTIONS), Lit '')''])))
      else map_err (sqlx_failure lower)
        (connect (recommended_pool_options\<lparr>po_max_connections := n,
          po_test_before_acquire := dc_test_before_acquire c\<rparr>) (dc_url c)))"

section \<open>The server\<close>

text \<open>The configuration of the producer is not handed over, and no task type is registered.\<close>

definition serve_builder :: "app_config \<Rightarrow> 's builder" where
  "serve_builder c = set_readiness_timeout (from_secs (sc_readiness_timeout_secs (ac_server c)))
     (set_metrics (set_database_config (ac_database c) (set_worker_config (ac_worker c)
       (set_pool builder_default))))"

definition serve_engine ::
  "(pool_options \<Rightarrow> string \<Rightarrow> sqlx_error + unit) \<Rightarrow> (string \<Rightarrow> string)
     \<Rightarrow> (catalog \<Rightarrow> (string + unit) \<times> catalog) \<Rightarrow> catalog_env \<Rightarrow> (bool \<Rightarrow> 's task_repository)
     \<Rightarrow> (bool \<Rightarrow> 'tx tx_repository) \<Rightarrow> app_config \<Rightarrow> (catalog, ('s, 'tx) engine) api" where
  "serve_engine connect lower migrate ce repo tx_repo c =
     andthen (lift (create_pool connect lower (ac_database c))) (\<lambda>_.
     engine_build migrate ce repo tx_repo (serve_builder c))"

definition bind_address :: "app_config \<Rightarrow> string" where
  "bind_address c =
     (if sc_bind_address (ac_server c) = [] then ''0.0.0.0'' else sc_bind_address (ac_server c))
     @ '':'' @ dec_nat (sc_port (ac_server c))"

text \<open>\<open>config::load\<close> for the server.\<close>

definition serve_config ::
  "cli_lib \<Rightarrow> string \<Rightarrow> string option \<Rightarrow> string option \<Rightarrow> serve_args \<Rightarrow> string + app_config" where
  "serve_config cl profile config_path database_url serve =
     cl_extract cl (load_layers profile config_path database_url (Some serve))"

section \<open>Dispatch\<close>

datatype cli_command =
    Serve serve_args
  | Submit submit_args
  | Tasks tasks_args
  | Workers
  | ConfigValidate

record cli_args =
  ca_config :: "string option"
  ca_database_url :: "string option"
  ca_json :: bool
  ca_command :: "cli_command option"

text \<open>What the process environment gives: \<open>IRON_DEFER_PROFILE\<close>, or nothing, and \<open>DATABASE_URL\<close>.\<close>

record process_env =
  pe_profile :: string
  pe_database_url :: "string option"

definition serve_default :: serve_args where
  "serve_default = \<lparr>srv_port = None, srv_concurrency = None, srv_otlp_endpoint = None\<rparr>"

definition require_database_url :: "cli_lib \<Rightarrow> process_env \<Rightarrow> cli_args \<Rightarrow> ('s, string) command" where
  "require_database_url cl pe args = (case ca_database_url args of
      Some url \<Rightarrow> return url
    | None \<Rightarrow> (case pe_database_url pe of
          Some url \<Rightarrow> if url \<noteq> [] then return url else exit_with cl (ca_json args) 1 [Lit url_required]
        | None \<Rightarrow> exit_with cl (ca_json args) 1 [Lit url_required]))"

text \<open>\<open>main\<close>; the run of the server is given as an action of its own.\<close>

definition main_run ::
  "cli_lib \<Rightarrow> (bool \<Rightarrow> 's task_repository) \<Rightarrow> ambient \<Rightarrow> (serve_args \<Rightarrow> ('s, unit) command)
     \<Rightarrow> process_env \<Rightarrow> cli_args \<Rightarrow> ('s, unit) command" where
  "main_run cl repo am run_serve pe args =
     (let json = ca_json args;
          with_url = (\<lambda>k. andthen (require_database_url cl pe args) k) in
      case ca_command args of
        None \<Rightarrow> run_serve serve_default
      | Some (Serve s) \<Rightarrow> run_serve s
      | Some (Submit a) \<Rightarrow> with_url (\<lambda>url. submit_run cl repo am a url json)
      | Some (Tasks a) \<Rightarrow> with_url (\<lambda>url. tasks_run cl repo a url json)
      | Some Workers \<Rightarrow> with_url (\<lambda>url. workers_run cl repo url json)
      | Some ConfigValidate \<Rightarrow>
          run_validate cl (pe_profile pe) (ca_config args) (ca_database_url args) json)"

text \<open>The exit code of the process; a panic is Rust's 101.\<close>

fun exit_status :: "abort + unit \<Rightarrow> int" where
  "exit_status (Inr u) = 0"
| "exit_status (Inl (ExitCode n)) = n"
| "exit_status (Inl (Unwind m)) = 101"

end
