(* ===== verification/Serve.thy ===== *)
theory Serve
  imports Binary Engine_Run Telemetry
begin

text \<open>
  The life of the server process: waiting for a signal and flushing the providers
  (\<open>crates/api/src/shutdown.rs\<close>), and \<open>run_serve\<close> of \<open>crates/api/src/main.rs\<close>, from the
  configuration over the engine, its worker pool and the listening socket to the exit. Sockets,
  signals and the runtime are libraries: what they come to is an input. The log of the main task
  is kept apart from that of the worker pool, which runs beside it.
\<close>

section \<open>Waiting for a signal\<close>

datatype signal = CtrlC | Terminate

text \<open>The error of either handler that could not be installed, and the arm the \<open>select!\<close> polls
  first. An arm without a handler is never ready.\<close>

record signal_lib =
  sg_ctrl_c :: "string option"
  sg_terminate :: "string option"
  sg_ctrl_c_first :: bool

definition handler_missing :: "string option \<Rightarrow> string \<Rightarrow> observation list" where
  "handler_missing err text = (case err of
      None \<Rightarrow> []
    | Some e \<Rightarrow> [log_of LevelError None [(''error'', VText e)] text])"

definition handled :: "signal_lib \<Rightarrow> signal \<Rightarrow> bool" where
  "handled sg s = (case s of CtrlC \<Rightarrow> sg_ctrl_c sg = None | Terminate \<Rightarrow> sg_terminate sg = None)"

fun signal_log :: "signal \<Rightarrow> observation list" where
  "signal_log CtrlC = plain_log LevelInfo ''received ctrl_c signal, initiating shutdown''"
| "signal_log Terminate = plain_log LevelInfo ''received SIGTERM signal, initiating shutdown''"

text \<open>No answer means that the future never becomes ready.\<close>

definition shutdown_signal :: "signal_lib \<Rightarrow> signal list \<Rightarrow> observation list \<times> signal option" where
  "shutdown_signal sg arrivals =
     (let c = handler_missing (sg_ctrl_c sg) ''failed to listen for ctrl_c signal'';
          t = handler_missing (sg_terminate sg) ''failed to install SIGTERM handler'';
          received = List.find (handled sg) arrivals in
      ((if sg_ctrl_c_first sg then c @ t else t @ c)
         @ (case received of None \<Rightarrow> [] | Some s \<Rightarrow> signal_log s),
       received))"

definition shutdown_observability :: "string + unit \<Rightarrow> observation list" where
  "shutdown_observability outcome = (case outcome of
      Inr _ \<Rightarrow> plain_log LevelInfo ''observability provider flushed''
    | Inl e \<Rightarrow> [log_of LevelError None [(''error'', VText e)] ''observability provider shutdown failed''])"

text \<open>\<open>IronDefer::serve\<close>: bind, then serve the routes until the token fires and the server drains.\<close>

definition engine_serve :: "(string \<Rightarrow> string + unit) \<Rightarrow> string + unit \<Rightarrow> string \<Rightarrow> unit res" where
  "engine_serve bind_tcp served bind =
     and_then (storage_error (bind_tcp bind)) (\<lambda>_. storage_error served)"

section \<open>The drain within the outer time limit\<close>

text \<open>
  Times from the cancellation of the token on: until the worker starts its drain, how long the
  drain takes when the dispatches end by themselves, how long aborting and releasing takes when
  they do not, joining the other tasks of the engine, and the graceful shutdown of the HTTP
  server. \<open>tm_took_effect\<close> says whether a release that is under way at the exit reached the
  database.
\<close>

record timing =
  tm_seen :: duration
  tm_drain :: duration
  tm_release :: duration
  tm_join :: duration
  tm_server :: duration
  tm_took_effect :: bool

text \<open>\<open>limit\<close> is the \<open>shutdown_timeout\<close>: it bounds the drain of the worker and, counted from the
  cancellation, the whole shutdown.\<close>

definition worker_done :: "duration \<Rightarrow> timing \<Rightarrow> bool \<Rightarrow> duration" where
  "worker_done limit tm drained = tm_seen tm + (if drained then tm_drain tm else limit + tm_release tm)"

definition in_time :: "duration \<Rightarrow> timing \<Rightarrow> bool \<Rightarrow> bool" where
  "in_time limit tm drained \<longleftrightarrow> max (worker_done limit tm drained + tm_join tm) (tm_server tm) \<le> limit"

definition exit_warning :: "duration \<Rightarrow> observation list" where
  "exit_warning limit = [log_of LevelWarn None [(''timeout_ms'', VInt (int (as_millis limit)))]
     ''Graceful shutdown timed out; process exiting abruptly'']"

text \<open>What the worker pool gets to do before the process exits. The drain runs in any case; what
  follows it is reached when there is time, or is under way when the drain itself was started at
  once and its release may still take effect.\<close>

definition pool_until_exit ::
  "lib \<Rightarrow> (message \<Rightarrow> string) \<Rightarrow> 's worker_service \<Rightarrow> 's sweeper_service \<Rightarrow> timing
     \<Rightarrow> 's run_event list \<Rightarrow> ('s, unit) pooled" where
  "pool_until_exit lib je wk sw tm order p =
     (let limit = wc_shutdown_timeout (wk_config wk);
          drained = (pl_tasks (drain_until lib je wk sw order p) = []) in
      if worker_done limit tm drained \<le> limit \<or> tm_seen tm = 0 \<and> tm_took_effect tm
      then shutdown_pool lib je wk sw order p
      else (Inr (), drain_until lib je wk sw order p))"

definition shutdown_log ::
  "lib \<Rightarrow> (message \<Rightarrow> string) \<Rightarrow> 's worker_service \<Rightarrow> 's sweeper_service \<Rightarrow> timing
     \<Rightarrow> 's run_event list \<Rightarrow> 's pool \<Rightarrow> observation list" where
  "shutdown_log lib je wk sw tm order p =
     (let limit = wc_shutdown_timeout (wk_config wk);
          drained = (pl_tasks (drain_until lib je wk sw order p) = []) in
      if in_time limit tm drained then [] else exit_warning limit)"

section \<open>The run of the server\<close>

text \<open>Every error of \<open>run_serve\<close> is a \<open>Box<dyn Error>\<close>; this says which one is boxed.\<close>

datatype serve_error =
    ConfigFailed string
  | EngineFailed task_error
  | IoFailed string
  | ServePanic message

record 's host =
  ho_process :: process
  ho_catalog :: catalog
  ho_backend :: 's
  ho_log :: "observation list"
  ho_pool :: "'s pool option"

type_synonym ('s, 'a) hosted = "('s host, serve_error, 'a) act"

fun serve_error_of :: "failure \<Rightarrow> serve_error" where
  "serve_error_of (Error e) = EngineFailed e"
| "serve_error_of (Panic m) = ServePanic m"

text \<open>An action of the interface on one part of the host, with the log of the main task.\<close>

definition on_process :: "(process, 'a) api \<Rightarrow> ('s, 'a) hosted" where
  "on_process m h = (case m \<lparr>sv_repo = ho_process h, sv_obs = ho_log h\<rparr> of
      (r, sv) \<Rightarrow> (map_err serve_error_of r, h\<lparr>ho_process := sv_repo sv, ho_log := sv_obs sv\<rparr>))"

definition on_catalog :: "(catalog, 'a) api \<Rightarrow> ('s, 'a) hosted" where
  "on_catalog m h = (case m \<lparr>sv_repo = ho_catalog h, sv_obs = ho_log h\<rparr> of
      (r, sv) \<Rightarrow> (map_err serve_error_of r, h\<lparr>ho_catalog := sv_repo sv, ho_log := sv_obs sv\<rparr>))"

definition host_log :: "observation list \<Rightarrow> ('s, unit) hosted" where
  "host_log obs h = (Inr (), h\<lparr>ho_log := ho_log h @ obs\<rparr>)"

text \<open>Everything outside the repository that a run of the server meets.\<close>

record ('s, 'tx) surroundings =
  su_cli :: cli_lib
  su_profile :: string
  su_telemetry :: telemetry_lib
  su_runtime :: "string + unit"
  su_connect :: "pool_options \<Rightarrow> string \<Rightarrow> sqlx_error + unit"
  su_lower :: "string \<Rightarrow> string"
  su_migrate :: "catalog \<Rightarrow> (string + unit) \<times> catalog"
  su_catalog :: catalog_env
  su_repo :: "bool \<Rightarrow> 's task_repository"
  su_tx_repo :: "bool \<Rightarrow> 'tx tx_repository"
  su_bind :: "string \<Rightarrow> string + unit"
  su_worker_id :: worker_id
  su_writer :: "'s checkpoint_writer"
  su_join_error :: "message \<Rightarrow> string"
  su_signals :: signal_lib
  su_arrivals :: "signal list"
  su_events :: "'s run_event list"
  su_order :: "'s run_event list"
  su_timing :: timing
  su_meter_flush :: "string + unit"
  su_tracer_flush :: "string + unit"

definition starting_log :: "app_config \<Rightarrow> observation list" where
  "starting_log c = [log_of LevelInfo None
     [(''version'', VText ''0.1.0''), (''concurrency'', VInt (int (wc_concurrency (ac_worker c)))),
      (''port'', VInt (int (sc_port (ac_server c))))] ''iron-defer starting'']"

text \<open>From the configuration to the listening socket. The worker is spawned before the socket is bound;
  with a bind address that needs no resolution it has not run by then.\<close>

definition serve_setup ::
  "('s, 'tx) surroundings \<Rightarrow> cli_args \<Rightarrow> serve_args \<Rightarrow> ('s, app_config \<times> ('s, 'tx) engine) hosted" where
  "serve_setup su args serve =
     andthen (lift (map_err ConfigFailed (serve_config (su_cli su) (su_profile su) (ca_config args)
       (ca_database_url args) serve))) (\<lambda>c.
     andthen (on_process (init_tracing (su_telemetry su) (ac_observability c))) (\<lambda>_.
     andthen (on_process (init_metrics (su_telemetry su) (ac_observability c))) (\<lambda>_.
     andthen (host_log (starting_log c)) (\<lambda>_.
     andthen (lift (map_err IoFailed (su_runtime su))) (\<lambda>_.
     andthen (on_catalog (serve_engine (su_connect su) (su_lower su) (su_migrate su) (su_catalog su)
       (su_repo su) (su_tx_repo su) c)) (\<lambda>en.
     andthen (lift (map_err IoFailed (su_bind su (bind_address c)))) (\<lambda>_.
     andthen (host_log [log_of LevelInfo None [(''bind'', VText (bind_address c))] ''HTTP server listening''])
       (\<lambda>_. return (c, en)))))))))"

text \<open>The worker pool up to its cancellation. An error or a panic of \<open>start\<close> is dropped by the task
  it runs in: the server goes on without a pool.\<close>

definition serve_pool ::
  "('s, 'tx) surroundings \<Rightarrow> ('s, 'tx) engine \<Rightarrow> 's \<Rightarrow> 's pool option \<times> 's" where
  "serve_pool su en s =
     (let wk = worker_of en (su_worker_id su) (su_writer su) is_pool_timeout;
          sw = sweeper_of en is_pool_timeout in
      case poll_loop_start wk \<lparr>sv_repo = s, sv_obs = []\<rparr> of
        Inl e \<Rightarrow> (None, s)
      | Inr p \<Rightarrow> (case run_events (cl_lib (su_cli su)) wk sw (su_events su) p of
            (Inl m, q) \<Rightarrow> (None, sv_repo (pl_svc q))
          | (Inr _, q) \<Rightarrow> (Some q, sv_repo (pl_svc q))))"

definition serve_shutdown ::
  "('s, 'tx) surroundings \<Rightarrow> ('s, 'tx) engine \<Rightarrow> 's pool option \<Rightarrow> ('s, unit) hosted" where
  "serve_shutdown su en pool h =
     (let lib = cl_lib (su_cli su); je = su_join_error su; tm = su_timing su; order = su_order su;
          wk = worker_of en (su_worker_id su) (su_writer su) is_pool_timeout;
          sw = sweeper_of en is_pool_timeout;
          limit = wc_shutdown_timeout (en_worker_config en) in
      case pool of
        None \<Rightarrow> (Inr (), h\<lparr>ho_log := ho_log h @ (if tm_server tm \<le> limit then [] else exit_warning limit)\<rparr>)
      | Some p \<Rightarrow> (let q = snd (pool_until_exit lib je wk sw tm order p) in
          (Inr (), h\<lparr>ho_pool := Some q, ho_backend := sv_repo (pl_svc q),
             ho_log := ho_log h @ shutdown_log lib je wk sw tm order p\<rparr>)))"

text \<open>\<open>run_serve\<close>: the answer says whether a signal ended the run; without one it goes on. The
  providers are flushed only on the way out that has no error.\<close>

definition run_serve ::
  "('s, 'tx) surroundings \<Rightarrow> cli_args \<Rightarrow> serve_args \<Rightarrow> ('s, bool) hosted" where
  "run_serve su args serve =
     andthen (serve_setup su args serve) (\<lambda>(c, en). reading (\<lambda>h.
       (let (pool, s) = serve_pool su en (ho_backend h);
            (signal_obs, received) = shutdown_signal (su_signals su) (su_arrivals su) in
        andthen (writing (\<lambda>h. ((), h\<lparr>ho_backend := s, ho_pool := pool\<rparr>))) (\<lambda>_.
        andthen (host_log signal_obs) (\<lambda>_.
        if received = None then return False
        else
          andthen (host_log (plain_log LevelInfo ''shutdown signal received, draining...'')) (\<lambda>_.
          andthen (serve_shutdown su en pool) (\<lambda>_.
          andthen (host_log (shutdown_observability (su_meter_flush su)
            @ shutdown_observability (su_tracer_flush su))) (\<lambda>_. return True))))))))"

end
