(* ===== verification/Router.thy ===== *)
theory Router
  imports Handlers
begin

text \<open>
  The routes (\<open>crates/api/src/http/router.rs\<close>) and a request from its extraction to its
  response. Matching a path against the table is axum's; a request is one of the endpoints with
  what the extractors made of its parts, each a value or a rejection.
\<close>

definition MAX_BODY_SIZE :: nat where
  "MAX_BODY_SIZE = 1048576"

datatype http_method = GET | POST | DELETE

datatype endpoint =
    CreateTask | ListTasks | GetTask | DeleteTask | GetAuditLog | SignalTask | ListQueues
  | Liveness | Readiness | PrometheusMetrics | OpenApiSpec

definition routes :: "(string \<times> (http_method \<times> endpoint) list) list" where
  "routes =
     [(''/tasks'', [(POST, CreateTask), (GET, ListTasks)]),
      (''/tasks/{id}'', [(GET, GetTask), (DELETE, DeleteTask)]),
      (''/tasks/{id}/audit'', [(GET, GetAuditLog)]),
      (''/tasks/{id}/signal'', [(POST, SignalTask)]),
      (''/queues'', [(GET, ListQueues)]),
      (''/health'', [(GET, Liveness)]),
      (''/health/ready'', [(GET, Readiness)]),
      (''/metrics'', [(GET, PrometheusMetrics)]),
      (''/openapi.json'', [(GET, OpenApiSpec)])]"

text \<open>\<open>ApiDoc\<close>: the operations of the OpenAPI document, each with the statuses its annotation names.\<close>

definition documented_operations :: "(endpoint \<times> (http_method \<times> string) \<times> status_code list) list" where
  "documented_operations =
     [(CreateTask, (POST, ''/tasks''), [CREATED, OK, UNPROCESSABLE_ENTITY]),
      (GetTask, (GET, ''/tasks/{id}''), [OK, NOT_FOUND]),
      (GetAuditLog, (GET, ''/tasks/{id}/audit''), [OK, NOT_FOUND]),
      (DeleteTask, (DELETE, ''/tasks/{id}''), [OK, NOT_FOUND, CONFLICT]),
      (SignalTask, (POST, ''/tasks/{id}/signal''), [OK, NOT_FOUND, CONFLICT]),
      (ListTasks, (GET, ''/tasks''), [OK, UNPROCESSABLE_ENTITY]),
      (ListQueues, (GET, ''/queues''), [OK]),
      (Liveness, (GET, ''/health''), [OK]),
      (Readiness, (GET, ''/health/ready''), [OK, SERVICE_UNAVAILABLE]),
      (PrometheusMetrics, (GET, ''/metrics''), [OK, NOT_FOUND]),
      (OpenApiSpec, (GET, ''/openapi.json''), [OK])]"

datatype request =
    ReqCreateTask header_map "rejection + create_task_request"
  | ReqListTasks "rejection + list_tasks_query"
  | ReqGetTask "rejection + uuid"
  | ReqDeleteTask "rejection + uuid"
  | ReqGetAuditLog "rejection + uuid" "rejection + audit_log_params"
  | ReqSignalTask "rejection + uuid" "rejection + json option"
  | ReqListQueues "rejection + bool"
  | ReqLiveness
  | ReqReadiness "duration \<Rightarrow> probe"
  | ReqMetrics "(string + string) option"
  | ReqOpenApi

text \<open>The extractors: the two of the repository refuse with the error envelope, \<open>Query\<close> is
  axum's and answers in plain text.\<close>

definition enveloped :: "status_code \<times> error_detail \<Rightarrow> refusal" where
  "enveloped r = Rejected (fst r) (ErrorBody (snd r))"

definition path_param :: "rejection + 'a \<Rightarrow> ('s, 'a) handler" where
  "path_param p = lift (map_err (\<lambda>r. enveloped (path_param_rejection r)) p)"

definition json_body :: "rejection + 'a \<Rightarrow> ('s, 'a) handler" where
  "json_body b = lift (map_err (\<lambda>r. enveloped (json_body_rejection r)) b)"

definition query_params :: "rejection + 'a \<Rightarrow> ('s, 'a) handler" where
  "query_params q = lift (map_err (\<lambda>r. Rejected (rj_status r) (PlainBody (rj_text r))) q)"

definition ok_with :: "('a \<Rightarrow> body) \<Rightarrow> ('s, 'a) handler \<Rightarrow> ('s, response) handler" where
  "ok_with f h = andthen h (\<lambda>x. return \<lparr>rs_status = OK, rs_body = f x\<rparr>)"

definition endpoint_handler ::
  "lib \<Rightarrow> ('s, 'tx) engine \<Rightarrow> ambient \<Rightarrow> request \<Rightarrow> ('s, response) handler" where
  "endpoint_handler lib en am req = (case req of
      ReqCreateTask headers b \<Rightarrow>
        andthen (json_body b) (\<lambda>body. andthen (create_task lib en am headers body) (\<lambda>(st, t).
          return \<lparr>rs_status = st, rs_body = TaskBody t\<rparr>))
    | ReqListTasks q \<Rightarrow> ok_with TasksBody (andthen (query_params q) (http_list_tasks lib en))
    | ReqGetTask p \<Rightarrow> ok_with TaskBody (andthen (path_param p) (get_task lib en))
    | ReqDeleteTask p \<Rightarrow> ok_with TaskBody (andthen (path_param p) (delete_task lib en))
    | ReqGetAuditLog p q \<Rightarrow> ok_with AuditBody (andthen (path_param p) (\<lambda>i.
        andthen (query_params q) (get_audit_log lib en i)))
    | ReqSignalTask p b \<Rightarrow> ok_with TaskBody (andthen (path_param p) (\<lambda>i.
        andthen (json_body b) (signal_task lib en am i)))
    | ReqListQueues q \<Rightarrow> ok_with QueuesBody (andthen (query_params q) (list_queues lib en))
    | ReqLiveness \<Rightarrow> return \<lparr>rs_status = OK, rs_body = EmptyObject\<rparr>
    | ReqReadiness query \<Rightarrow>
        (case readiness en query of (st, r) \<Rightarrow> return \<lparr>rs_status = st, rs_body = ReadyBody r\<rparr>)
    | ReqMetrics encoded \<Rightarrow> ok_with MetricsBody (prometheus_metrics encoded)
    | ReqOpenApi \<Rightarrow> return \<lparr>rs_status = OK, rs_body = OpenApiBody\<rparr>)"

text \<open>Every refusal is a response; only a panic leaves the request without one.\<close>

definition respond ::
  "lib \<Rightarrow> ('s, 'tx) engine \<Rightarrow> ambient \<Rightarrow> request \<Rightarrow> ('s, response) service" where
  "respond lib en am req sv = (case endpoint_handler lib en am req sv of
      (Inr r, sv') \<Rightarrow> (Inr r, sv')
    | (Inl (Refused e), sv') \<Rightarrow>
        (Inr \<lparr>rs_status = fst (error_response e), rs_body = ErrorBody (snd (error_response e))\<rparr>, sv')
    | (Inl (Rejected st b), sv') \<Rightarrow> (Inr \<lparr>rs_status = st, rs_body = b\<rparr>, sv')
    | (Inl (Unwound m), sv') \<Rightarrow> (Inl m, sv'))"

end
