(* ===== verification/Reads.thy ===== *)
theory Reads
  imports Scheduler
begin

text \<open>
  The operations of the port that only read. A repository with a view (what a reader can see of
  the backend) promises that a read leaves the view as it was, and that the view determines the
  invariant and the status of every task; the view of the Postgres adapter is the database.
\<close>

section \<open>Reads leave the database alone\<close>

lemma inside_eq_pure: "inside (=) (return x)" "inside (=) (raise e)" "inside (=) (lift r)"
  by (simp_all add: inside_pure)

lemma inside_eq_andthen: "inside (=) m \<Longrightarrow> (\<And>x. inside (=) (k x)) \<Longrightarrow> inside (=) (andthen m k)"
  by (rule inside_andthen) (simp_all add: transp_def)

lemma inside_eq_sql: "(\<And>d. snd (stm d) = d) \<Longrightarrow> inside (=) (sql e pt stm)"
  unfolding inside_def sql_def
  by (auto split: option.splits prod.splits sum.splits) (metis snd_conv)+

lemma inside_eq_transact:
  assumes "inside (=) body"
  shows "inside (=) (transact e body)"
  using transact_reading [of body e] insideD [OF assms] unfolding inside_def by blast

lemma select_where_same: "snd (select_where p d) = d"
  by (simp add: select_where_def)

lemma select_audit_same: "snd (select_audit neg i lm off d) = d"
  by (simp add: select_audit_def Let_def)

lemmas read_intros = inside_eq_pure inside_eq_andthen inside_eq_transact inside_eq_sql
  select_where_same select_audit_same inside_case_option inside_if

lemma reads_only:
  "inside (=) (find_by_id e i)" "inside (=) (list_by_queue e q)" "inside (=) (list_tasks e f)"
  "inside (=) (queue_statistics e b)" "inside (=) (worker_statuses e)"
  "inside (=) (audit_log e neg sq al i lm off)"
  unfolding find_by_id_def list_by_queue_def list_tasks_def queue_statistics_def worker_statuses_def
    audit_log_def on_pool_def Let_def
  by (intro read_intros | simp only: case_prod_beta)+

section \<open>What a listing returns\<close>

lemma row_of_counted_extend [simp]: "row_of_counted (task_row.extend r x) = r"
  by (simp add: row_of_counted_def task_row.defs)

lemma total_of_extend [simp]: "total_count (task_row.extend r (task_row_with_count.fields n)) = n"
  by (simp add: task_row.defs task_row_with_count.defs)

lemma case_first_row [simp]:
  "(case first_row xs of None \<Rightarrow> a | Some _ \<Rightarrow> b) = (if xs = [] then a else b)"
  by (cases xs) simp_all

lemma case_first_row_map [simp]:
  "(case first_row (map g xs) of None \<Rightarrow> a | Some x \<Rightarrow> h x)
     = (case first_row xs of None \<Rightarrow> a | Some x \<Rightarrow> h (g x))"
  by (cases xs) simp_all

lemma set_page: "set (page n k xs) \<subseteq> set xs"
  unfolding page_def by (meson in_set_dropD in_set_takeD subsetI)

lemma page_map: "page n k (map f xs) = map f (page n k xs)"
  by (simp add: page_def take_map drop_map)

lemma records_collected:
  "map record_res rs = map Inr ts \<longleftrightarrow> map record_of_row rs = map Inr ts"
  by (induction rs arbitrary: ts) (auto simp: Cons_eq_map_conv record_res_Inr)

text \<open>The total is the number of tasks that match, whether it comes with the page or, when the
  page is empty, from a second query.\<close>

lemma list_tasks_Inr:
  assumes "list_tasks e f d = (Inr res, d')" and "1 \<le> flt_limit f"
  defines "found \<equiv> filter (where_sql f) (db_tasks d)"
  shows "map record_of_row (page (flt_limit f) (min (flt_offset f) MAX_PAGINATION_OFFSET)
      (sort_key by_creation found)) = map Inr (lr_tasks res)"
    and "lr_total res = length found" and "d' = d"
proof -
  let ?rows = "page (flt_limit f) (min (flt_offset f) MAX_PAGINATION_OFFSET) (sort_key by_creation found)"
  show "d' = d" using insideD [OF reads_only(3) assms(1)] by simp
  have res: "collect_results (map record_res ?rows) = Inr (lr_tasks res)
      \<and> lr_total res = (if ?rows = [] \<and> flt_offset f = 0 then 0 else length found)"
    using assms(1) unfolding list_tasks_def Let_def andthen_Inr_iff lift_apply return_apply
    by (auto simp: found_def page_map comp_def return_apply andthen_Inr_iff sql_def select_where_def
        dest!: on_pool_select_Inr split: option.splits if_splits)
  then have "map record_res ?rows = map Inr (lr_tasks res)" by (simp only: collect_results_Inr)
  then show "map record_of_row ?rows = map Inr (lr_tasks res)"
    by (simp only: records_collected)
  have "found = []" if "?rows = []" "flt_offset f = 0"
  proof -
    from that assms(2) have "sort_key by_creation found = []" by (auto simp: page_def)
    then show ?thesis by (metis length_0_conv length_sort)
  qed
  with res show "lr_total res = length found" by auto
qed

section \<open>Repositories with a view\<close>

definition same_view :: "('s \<Rightarrow> 'v) \<Rightarrow> 's \<Rightarrow> 's \<Rightarrow> bool" where
  "same_view view s s' \<longleftrightarrow> view s' = view s"

locale readable_repository = repository repo ok status
  for repo :: "'s task_repository" and ok status +
  fixes view :: "'s \<Rightarrow> 'v"
  assumes find_reads: "inside (same_view view) (port_find_by_id repo i)"
    and list_queue_reads: "inside (same_view view) (port_list_by_queue repo q)"
    and list_tasks_reads: "inside (same_view view) (port_list_tasks repo f)"
    and statistics_read: "inside (same_view view) (port_queue_statistics repo b)"
    and workers_read: "inside (same_view view) (port_worker_status repo)"
    and audit_reads: "inside (same_view view) (port_audit_log repo i lm off)"
    and view_determines: "view s' = view s \<Longrightarrow> ok s \<Longrightarrow> ok s' \<and> status s' = status s"
begin

lemma reads_lawful: "inside (same_view view) m \<Longrightarrow> lawful_op ok status m"
  by (simp add: lawful_op_def lawful_def inside_def same_view_def)
    (metis moves.stay view_determines)

end

lemma in_world_reads: "(\<And>e. inside (=) (f e)) \<Longrightarrow> inside (same_view w_db) (in_world f)"
  by (auto simp: inside_def in_world_def same_view_def split: prod.splits)

interpretation pgr: readable_repository "postgres_repository al neg sq" world_ok world_status w_db
  for al :: bool and neg :: sqlx_error and sq :: "sqlx_error \<Rightarrow> string"
  by unfold_locales
    (simp_all add: postgres_repository_def in_world_reads reads_only world_ok_def world_status_def fun_eq_iff)

end
