(* ===== verification/Api_Frames.thy ===== *)
theory Api_Frames
  imports Router Reads
begin

text \<open>
  What the operations of the engine and the requests of the HTTP interface do to the backend:
  each is built from calls of the port, so it stays within every relation those calls stay
  within. The relation is lawfulness, for the operations that change tasks, or sameness of the
  view, for those that only read.
\<close>

section \<open>Relations on the backend\<close>

definition backed :: "('s \<Rightarrow> 's \<Rightarrow> bool) \<Rightarrow> 's svc \<Rightarrow> 's svc \<Rightarrow> bool" where
  "backed R a b \<longleftrightarrow> R (sv_repo a) (sv_repo b)"

definition preorder_rel :: "('s \<Rightarrow> 's \<Rightarrow> bool) \<Rightarrow> bool" where
  "preorder_rel R \<longleftrightarrow> reflp R \<and> transp R"

lemma preorder_lawful: "preorder_rel (lawful_rel ok status (\<lambda>s. s))"
  by (simp add: preorder_rel_def reflp_lawful_rel transp_lawful_rel)

lemma preorder_same_view: "preorder_rel (same_view view)"
  by (simp add: preorder_rel_def same_view_def reflp_def transp_def)

named_theorems backed_intros \<open>what the building blocks of the interface preserve\<close>

lemma backed_reflp: "preorder_rel R \<Longrightarrow> reflp (backed R)"
  by (simp add: preorder_rel_def reflp_def backed_def)

lemma backed_andthen [backed_intros]:
  assumes "preorder_rel R" and "inside (backed R) m" and "\<And>x. inside (backed R) (k x)"
  shows "inside (backed R) (andthen m k)"
  using assms(2,3)
proof (rule inside_andthen [rotated])
  show "transp (backed R)"
    using assms(1) unfolding preorder_rel_def transp_def backed_def by blast
qed

lemma backed_pure [backed_intros]:
  assumes "preorder_rel R"
  shows "inside (backed R) (return x)" and "inside (backed R) (raise e)" and "inside (backed R) (lift r)"
    and "inside (backed R) (refuse a)" and "inside (backed R) (refuse_task_error lib te)"
    and "inside (backed R) (tell obs)" and "inside (backed R) (note_obs obs)"
  using backed_reflp [OF assms] assms
  by (auto simp: effect_simps refuse_def refuse_task_error_def tell_def note_obs_def inside_def
      backed_def preorder_rel_def dest: reflpD)

text \<open>What was checked may be used.\<close>

lemma backed_checked:
  assumes "preorder_rel R" and "\<And>x. r = Inr x \<Longrightarrow> inside (backed R) (k x)"
  shows "inside (backed R) (andthen (lift r) k)"
proof (cases r)
  case (Inl e)
  then show ?thesis using backed_reflp [OF assms(1)] by (auto simp: inside_def andthen_def lift_apply dest: reflpD)
next
  case (Inr x)
  with assms(2) show ?thesis by (simp add: inside_def andthen_def lift_apply)
qed

lemma backed_from_port [backed_intros]: "inside R m \<Longrightarrow> inside (backed R) (from_port m)"
  by (fastforce simp: inside_def backed_def from_port_def split: prod.splits)

lemma backed_ask [backed_intros]: "inside (backed R) m \<Longrightarrow> inside (backed R) (ask lib m)"
  by (fastforce simp: inside_def backed_def ask_def refuse_task_error_def
      split: prod.splits sum.splits failure.splits)

lemma backed_announce [backed_intros]:
  "preorder_rel R \<Longrightarrow> inside (backed R) m \<Longrightarrow> inside (backed R) (announce en m)"
  "preorder_rel R \<Longrightarrow> inside (backed R) m' \<Longrightarrow> inside (backed R) (announce_keyed en m')"
  unfolding announce_def announce_keyed_def
  by (auto intro!: backed_intros simp: case_prod_beta)

lemma backed_case_option [backed_intros]:
  "inside (backed R) f \<Longrightarrow> (\<And>y. inside (backed R) (g y)) \<Longrightarrow>
     inside (backed R) (case r of None \<Rightarrow> f | Some y \<Rightarrow> g y)"
  by (rule inside_case_option)

lemma backed_if [backed_intros]:
  "inside (backed R) m \<Longrightarrow> inside (backed R) n \<Longrightarrow> inside (backed R) (if b then m else n)"
  by simp

lemma backed_ok_with [backed_intros]:
  "preorder_rel R \<Longrightarrow> inside (backed R) h \<Longrightarrow> inside (backed R) (ok_with f h)"
  unfolding ok_with_def by (intro backed_intros)

lemma backed_extractors [backed_intros]:
  "preorder_rel R \<Longrightarrow> inside (backed R) (path_param p)"
  "preorder_rel R \<Longrightarrow> inside (backed R) (json_body b)"
  "preorder_rel R \<Longrightarrow> inside (backed R) (query_params q)"
  unfolding path_param_def json_body_def query_params_def by (rule backed_pure; assumption)+

lemma backed_respond:
  "inside (backed R) (endpoint_handler lib en am req) \<Longrightarrow> inside (backed R) (respond lib en am req)"
  unfolding inside_def respond_def backed_def
  by (force split: prod.splits sum.splits refusal.splits)

lemma parse_queue_valid: "parse_queue queue = Inr q \<Longrightarrow> queue_valid (queue_str q)"
  by (cases "queue_try_from queue") (auto simp: parse_queue_def queue_try_from_Inr)

section \<open>The engine\<close>

lemma engine_reads:
  assumes "preorder_rel R"
  shows "inside R (port_find_by_id (en_repo en) i) \<Longrightarrow> inside (backed R) (engine_find en i)"
    and "inside R (port_find_by_id (en_repo en) i) \<Longrightarrow> inside (backed R) (engine_get en tt i)"
    and "(\<And>q. inside R (port_list_by_queue (en_repo en) q)) \<Longrightarrow> inside (backed R) (engine_list en queue)"
    and "inside R (port_list_tasks (en_repo en) f) \<Longrightarrow> inside (backed R) (engine_list_tasks en f)"
    and "inside R (port_queue_statistics (en_repo en) b) \<Longrightarrow> inside (backed R) (engine_queue_statistics en b)"
    and "inside R (port_worker_status (en_repo en)) \<Longrightarrow> inside (backed R) (engine_worker_status en)"
    and "inside R (port_audit_log (en_repo en) i lm off) \<Longrightarrow> inside (backed R) (engine_audit_log en i lm off)"
  unfolding engine_find_def engine_get_def engine_list_def engine_list_tasks_def
    engine_queue_statistics_def engine_worker_status_def engine_audit_log_def sched_forwards
  by (assumption | rule assms | rule backed_intros)+

context repository begin

abbreviation lawfully :: "('s svc, 'e, 'a) act \<Rightarrow> bool" where
  "lawfully \<equiv> inside (backed (lawful_rel ok status (\<lambda>s. s)))"

lemma lawful_from_port: "lawful_op ok status m \<Longrightarrow> lawfully (from_port m)"
  by (simp add: lawful_op_inside backed_from_port)

lemma submissions_lawful:
  assumes "en_repo en = repo"
  shows "lawfully (engine_enqueue_raw en am queue kind p s prio mx tr g)"
    and "lawfully (engine_enqueue_raw_idempotent en am queue kind p s prio mx key tr g)"
    and "lawfully (enqueue_inner en am tt queue task s)"
    and "lawfully (enqueue_keyed en am tt queue task key g nh)"
  unfolding engine_enqueue_raw_def engine_enqueue_raw_idempotent_def enqueue_inner_def enqueue_keyed_def
    enqueue_def enqueue_idempotent_def assms case_prod_beta
  by (rule backed_checked [OF preorder_lawful];
    auto simp: and_then_Inr_iff dest!: parse_queue_valid
      intro!: backed_announce preorder_lawful lawful_from_port enqueue_raw_lawful
        enqueue_raw_idempotent_lawful)+

lemma cancel_signal_lawful:
  assumes "en_repo en = repo"
  shows "lawfully (engine_cancel en i)" and "lawfully (engine_signal en am i p)"
  unfolding engine_cancel_def engine_signal_def sched_forwards assms
  by (intro backed_intros preorder_lawful lawful_from_port cancel_lawful sched_signal_lawful)+

end

section \<open>Requests\<close>

text \<open>The handlers that only read stay within whatever their reads stay within.\<close>

lemma reading_handlers:
  assumes "preorder_rel R" and "\<And>i. inside R (port_find_by_id (en_repo en) i)"
    and "\<And>f. inside R (port_list_tasks (en_repo en) f)"
    and "\<And>b. inside R (port_queue_statistics (en_repo en) b)"
    and "\<And>i lm off. inside R (port_audit_log (en_repo en) i lm off)"
  shows "inside (backed R) (get_task lib en i)" and "inside (backed R) (get_audit_log lib en i ps)"
    and "inside (backed R) (http_list_tasks lib en q)" and "inside (backed R) (list_queues lib en b)"
    and "inside (backed R) (prometheus_metrics encoded)"
  unfolding get_task_def get_audit_log_def http_list_tasks_def list_queues_def prometheus_metrics_def metrics_error_def Let_def
  by (intro backed_intros engine_reads inside_case_sum assms)+

fun reading_request :: "request \<Rightarrow> bool" where
  "reading_request (ReqCreateTask h b) = False"
| "reading_request (ReqDeleteTask p) = False"
| "reading_request (ReqSignalTask p b) = False"
| "reading_request _ = True"

lemma endpoint_reads:
  assumes "preorder_rel R" and "\<And>i. inside R (port_find_by_id (en_repo en) i)"
    and "\<And>f. inside R (port_list_tasks (en_repo en) f)"
    and "\<And>b. inside R (port_queue_statistics (en_repo en) b)"
    and "\<And>i lm off. inside R (port_audit_log (en_repo en) i lm off)"
    and "reading_request req"
  shows "inside (backed R) (endpoint_handler lib en am req)"
  using assms(6)
  by (cases req)
    (auto simp: endpoint_handler_def case_prod_beta
      intro!: backed_ok_with backed_andthen backed_extractors backed_pure(1) reading_handlers assms(1-5))

context readable_repository begin

lemma request_reads:
  assumes "en_repo en = repo" and "reading_request req"
  shows "inside (backed (same_view view)) (respond lib en am req)"
  by (intro backed_respond endpoint_reads preorder_same_view assms(2))
    (simp_all add: assms(1) find_reads list_tasks_reads statistics_read audit_reads)

lemma request_lawful:
  assumes "en_repo en = repo"
  shows "lawfully (respond lib en am req)"
proof (rule backed_respond, cases "reading_request req")
  case True
  show "lawfully (endpoint_handler lib en am req)"
    by (intro endpoint_reads preorder_lawful True)
      (simp_all add: assms(1) find_reads list_tasks_reads statistics_read audit_reads reads_lawful
        flip: lawful_op_inside)
next
  case False
  then show "lawfully (endpoint_handler lib en am req)"
  proof (cases req)
    case (ReqCreateTask h b)
    then show ?thesis
      by (auto simp: endpoint_handler_def create_task_def Let_def case_prod_beta
          intro!: backed_intros preorder_lawful submissions_lawful assms)
  next
    case (ReqDeleteTask p)
    then show ?thesis
      by (auto simp: endpoint_handler_def delete_task_def
          intro!: backed_intros preorder_lawful cancel_signal_lawful assms split: cancel_result.split)
  next
    case (ReqSignalTask p b)
    then show ?thesis
      by (auto simp: endpoint_handler_def signal_task_def
          intro!: backed_intros preorder_lawful cancel_signal_lawful assms)
  qed simp_all
qed

end

section \<open>How an action may fail\<close>

definition fails_only :: "('e \<Rightarrow> bool) \<Rightarrow> ('s, 'e, 'a) act \<Rightarrow> bool" where
  "fails_only P m \<longleftrightarrow> (\<forall>s e s'. m s = (Inl e, s') \<longrightarrow> P e)"

named_theorems fails_intros \<open>how the combinators fail\<close>

lemma fails_onlyD: "fails_only P m \<Longrightarrow> m s = (Inl e, s') \<Longrightarrow> P e"
  unfolding fails_only_def by blast

lemma map_err_Inl: "map_err f r = Inl e \<longleftrightarrow> (\<exists>x. r = Inl x \<and> e = f x)"
  by (cases r) auto

lemma fails_andthen [fails_intros]:
  "fails_only P m \<Longrightarrow> (\<And>x. fails_only P (k x)) \<Longrightarrow> fails_only P (andthen m k)"
  by (auto simp: fails_only_def andthen_def split: prod.splits sum.splits)

lemma fails_pure [fails_intros]:
  "fails_only P (return x)" "P e \<Longrightarrow> fails_only P (raise e)"
  "(\<And>e. r = Inl e \<Longrightarrow> P e) \<Longrightarrow> fails_only P (lift r)"
  by (simp_all add: fails_only_def effect_simps)

lemma fails_note_obs [fails_intros]: "fails_only P (note_obs obs)"
  by (simp add: fails_only_def note_obs_def)

lemma fails_case_option [fails_intros]:
  "fails_only P f \<Longrightarrow> (\<And>y. fails_only P (g y)) \<Longrightarrow>
     fails_only P (case r of None \<Rightarrow> f | Some y \<Rightarrow> g y)"
  by (cases r) simp_all

lemma fails_if [fails_intros]:
  "fails_only P m \<Longrightarrow> fails_only P n \<Longrightarrow> fails_only P (if b then m else n)"
  by simp

text \<open>What the database and the row mapping can fail with.\<close>

definition storage_failure :: "failure \<Rightarrow> bool" where
  "storage_failure f \<longleftrightarrow> (case f of Error (Storage s) \<Rightarrow> True | Panic m \<Rightarrow> True | _ \<Rightarrow> False)"

lemma storage_failures [simp]: "storage_failure (sqlx_failure lower x)" "storage_failure (adapter_failure a)"
  by (auto simp: storage_failure_def sqlx_failure_def adapter_failure_def task_error_of_adapter_def
      split: adapter_error.splits sum.splits)

lemma fails_sql [fails_intros]: "fails_only storage_failure (sql e pt stm)"
  by (auto simp: fails_only_def sql_def split: option.splits prod.splits sum.splits)

lemma fails_transact [fails_intros]:
  "fails_only storage_failure body \<Longrightarrow> fails_only storage_failure (transact e body)"
  by (auto simp: fails_only_def transact_def split: option.splits prod.splits sum.splits)

lemma fails_record_res [fails_intros]: "fails_only storage_failure (lift (record_res r))"
  by (rule fails_pure(3)) (cases "record_of_row r"; auto simp: record_res_def)

lemma fails_insert_audit_row [fails_intros]: "fails_only storage_failure (insert_audit_row e al i a b w tr md g)"
  unfolding insert_audit_row_def Let_def
  by (intro fails_intros) (cases "cap_trace tr"; auto simp: storage_failure_def)

lemma fails_cancel: "fails_only storage_failure (cancel e al i)"
  unfolding cancel_def
  by (intro fails_intros) (auto intro!: fails_intros simp: map_err_Inl split: cancel_row.split)

end
