(* ===== verification/Http_Props.thy ===== *)
theory Http_Props
  imports Api_Frames Engine_Props
begin

text \<open>
  The properties of the HTTP interface: what a response tells is what happened, reads change
  nothing, errors are well-formed and show nothing internal, and pages are bounded.
\<close>

section \<open>The trace id of a request\<close>








section \<open>Reads and writes\<close>

text \<open>C1: Whatever request is served, and however it ends, the database stays well-formed and every
  task moves only along its life cycle.\<close>

theorem request_lifecycle:
  assumes "en_repo en = postgres_repository al neg sq" and "world_ok (sv_repo sv)"
    and "respond lib en am req sv = (r, sv')"
  shows "world_ok (sv_repo sv') \<and> moves (world_status (sv_repo sv) i) (world_status (sv_repo sv') i)"
  using insideD [OF pgr.request_lawful [OF assms(1)] assms(3)] assms(2)
  by (simp add: backed_def lawful_rel_def lawful_def)

text \<open>C32: A request that only reads, every \<open>GET\<close>, leaves the database exactly as it was, whether it
  succeeds or fails.\<close>

theorem reads_change_nothing:
  assumes "en_repo en = postgres_repository al neg sq" and "reading_request req"
    and "respond lib en am req sv = (r, sv')"
  shows "w_db (sv_repo sv') = w_db (sv_repo sv)"
  using insideD [OF pgr.request_reads [OF assms(1,2)] assms(3)] by (simp add: backed_def same_view_def)

lemmas run_http = respond_def endpoint_handler_def ok_with_def path_param_def ask_def from_port_def
  engine_find_def engine_cancel_def sample_engine_def note_obs_def tell_def
  postgres_def postgres_repository_def task_response_of_def take_checkpoint_def
  take_signal_payload_def take_payload_def

lemma sample_engine_repo: "en_repo (sample_engine rs) = postgres_repository True PoolClosed (\<lambda>_. ''sqlx'')"
  by (simp add: sample_engine_def postgres_def)

lemma delete_sample:
  "\<exists>t sv'. respond sample_lib (sample_engine []) sample_ambient (ReqDeleteTask (Inr 1)) (sample_svc submitted_db)
     = (Inr \<lparr>rs_status = OK, rs_body = TaskBody t\<rparr>, sv') \<and> tr_status t = ''cancelled''
     \<and> world_status (sv_repo sv') (TaskId 1) = Some Cancelled"
  by (simp add: run_http delete_task_def
      run_services run_statements run_operations run_results
      submitted_tasks sample_row_def insert_values_def sample_def mail_def
      world_status_def status_of_def row_at_def)

lemma get_sample:
  "\<exists>t sv'. respond sample_lib (sample_engine []) sample_ambient (ReqGetTask (Inr 1)) (sample_svc submitted_db)
     = (Inr \<lparr>rs_status = OK, rs_body = TaskBody t\<rparr>, sv') \<and> tr_status t = ''pending''"
  by (simp add: run_http get_task_def find_by_id_def
      run_services run_statements run_operations run_results
      submitted_tasks sample_row_def insert_values_def sample_def mail_def)

theorem request_lifecycle_witness:
  "\<exists>r sv'. respond sample_lib (sample_engine []) sample_ambient (ReqDeleteTask (Inr 1)) (sample_svc submitted_db)
     = (Inr r, sv') \<and> rs_status r = OK \<and> world_ok (sv_repo sv')
     \<and> moves (world_status (sample_world submitted_db) (TaskId 1)) (Some Cancelled)"
proof -
  obtain t sv' where run: "respond sample_lib (sample_engine []) sample_ambient (ReqDeleteTask (Inr 1))
      (sample_svc submitted_db) = (Inr \<lparr>rs_status = OK, rs_body = TaskBody t\<rparr>, sv')"
    and st: "world_status (sv_repo sv') (TaskId 1) = Some Cancelled" using delete_sample by blast
  have "world_ok (sv_repo (sample_svc submitted_db))"
    by (simp add: sample_svc_def world_ok_sample [OF reachable_submitted])
  from request_lifecycle [OF sample_engine_repo this run, of "TaskId 1"] run st
  show ?thesis by (auto simp: sample_svc_def)
qed

theorem reads_change_nothing_witness:
  "\<exists>t sv'. respond sample_lib (sample_engine []) sample_ambient (ReqGetTask (Inr 1)) (sample_svc submitted_db)
     = (Inr \<lparr>rs_status = OK, rs_body = TaskBody t\<rparr>, sv') \<and> tr_status t = ''pending''
     \<and> w_db (sv_repo sv') = submitted_db"
proof -
  obtain t sv' where run: "respond sample_lib (sample_engine []) sample_ambient (ReqGetTask (Inr 1))
      (sample_svc submitted_db) = (Inr \<lparr>rs_status = OK, rs_body = TaskBody t\<rparr>, sv')"
    and st: "tr_status t = ''pending''" using get_sample by blast
  have "reading_request (ReqGetTask (Inr 1))" by simp
  from reads_change_nothing [OF sample_engine_repo this run] run st
  show ?thesis by (auto simp: sample_svc_def sample_world_def)
qed

section \<open>Cancelling over HTTP\<close>




section \<open>Error responses\<close>

definition error_body :: "body \<Rightarrow> bool" where
  "error_body b \<longleftrightarrow> (case b of ErrorBody d \<Rightarrow> True | PlainBody t \<Rightarrow> True | _ \<Rightarrow> False)"

definition success_status :: "status_code \<Rightarrow> bool" where
  "success_status st \<longleftrightarrow> st = OK \<or> st = CREATED"

text \<open>The two bodies an internal error can have: constants.\<close>

definition internal_body :: "string \<Rightarrow> message \<Rightarrow> bool" where
  "internal_body code m \<longleftrightarrow> code = ''INTERNAL_ERROR'' \<and> m = [Lit ''internal server error'']
     \<or> code = ''METRICS_ENCODE_ERROR'' \<and> m = [Lit ''failed to encode metrics'']"

definition proper :: "refusal \<Rightarrow> bool" where
  "proper r \<longleftrightarrow> (case r of
      Refused e \<Rightarrow> ae_status e = NOT_FOUND \<or> ae_status e = CONFLICT \<or> ae_status e = UNPROCESSABLE_ENTITY
        \<or> ae_status e = INTERNAL_SERVER_ERROR \<and> internal_body (ae_code e) (ae_message e)
    | Rejected st b \<Rightarrow> \<not> success_status st \<and> st \<noteq> INTERNAL_SERVER_ERROR \<and> st \<noteq> SERVICE_UNAVAILABLE \<and> error_body b
    | Unwound m \<Rightarrow> True)"

lemmas proper_defs = proper_def app_error_new_def internal_body_def success_status_def error_body_def
  not_found_def already_claimed_def invalid_query_parameter_def terminal_state_def task_suspended_def

lemma proper_app_error_of: "proper (Refused (app_error_of lib e))"
  by (cases e) (simp_all add: proper_defs)

lemma proper_refuse [fails_intros]:
  "fails_only proper (refuse_task_error lib e)" "proper (Refused a) \<Longrightarrow> fails_only proper (refuse a)"
  by (auto simp: fails_only_def refuse_task_error_def refuse_def effect_simps proper_app_error_of)

lemma proper_ask [fails_intros]: "fails_only proper (ask lib m)"
  by (auto simp: fails_only_def ask_def refuse_task_error_def proper_app_error_of
      split: prod.splits sum.splits failure.splits) (simp add: proper_def)

lemma proper_not_cancellable: "proper (Refused (not_cancellable i st))"
  by (cases st) (simp_all add: proper_defs)

lemma proper_filters:
  "fails_only proper (lift (map_err Refused (optional parse_status_filter v)))"
  "fails_only proper (lift (map_err Refused (optional parse_queue_filter w)))"
  by (rule fails_pure(3); auto simp: map_err_Inl optional_def parse_status_filter_def parse_queue_filter_def
      Let_def proper_defs split: option.splits sum.splits if_splits)+

lemma proper_handlers:
  "fails_only proper (create_task lib en am headers b)" "fails_only proper (get_task lib en i)"
  "fails_only proper (delete_task lib en i)" "fails_only proper (signal_task lib en am i p)"
  "fails_only proper (get_audit_log lib en i ps)" "fails_only proper (http_list_tasks lib en q)"
  "fails_only proper (list_queues lib en by_region)" "fails_only proper (prometheus_metrics encoded)"
  unfolding create_task_def get_task_def delete_task_def signal_task_def get_audit_log_def
    http_list_tasks_def list_queues_def prometheus_metrics_def metrics_error_def Let_def case_prod_beta
  by (intro fails_intros proper_filters;
    auto intro!: fails_intros proper_not_cancellable simp: proper_defs split: cancel_result.split sum.split)+

text \<open>What axum rejects is the client's fault.\<close>

definition client_status :: "rejection + 'a \<Rightarrow> bool" where
  "client_status r \<longleftrightarrow> (case r of Inr _ \<Rightarrow> True | Inl j \<Rightarrow> \<not> success_status (rj_status j)
     \<and> rj_status j \<noteq> INTERNAL_SERVER_ERROR \<and> rj_status j \<noteq> SERVICE_UNAVAILABLE)"

fun client_rejections :: "request \<Rightarrow> bool" where
  "client_rejections (ReqCreateTask h b) = client_status b"
| "client_rejections (ReqListTasks q) = client_status q"
| "client_rejections (ReqGetAuditLog p q) = client_status q"
| "client_rejections (ReqSignalTask p b) = client_status b"
| "client_rejections (ReqListQueues q) = client_status q"
| "client_rejections _ = True"

lemma proper_extractors [fails_intros]:
  "fails_only proper (path_param p)" "client_status b \<Longrightarrow> fails_only proper (json_body b)"
  "client_status q \<Longrightarrow> fails_only proper (query_params q)"
  unfolding path_param_def json_body_def query_params_def
  by (rule fails_pure(3); auto simp: map_err_Inl enveloped_def path_param_rejection_def
      json_body_rejection_def client_status_def proper_defs)+

lemma proper_ok_with [fails_intros]: "fails_only proper h \<Longrightarrow> fails_only proper (ok_with f h)"
  unfolding ok_with_def by (intro fails_intros)

lemma endpoint_proper: "client_rejections req \<Longrightarrow> fails_only proper (endpoint_handler lib en am req)"
  by (cases req) (auto simp: endpoint_handler_def case_prod_beta intro!: fails_intros proper_handlers)












section \<open>Listing over HTTP\<close>

text \<open>A request that is answered with a success has run its handler to the end.\<close>

lemma respond_success:
  assumes "respond lib en am req sv = (Inr resp, sv')" and "success_status (rs_status resp)"
    and "client_rejections req"
  shows "endpoint_handler lib en am req sv = (Inr resp, sv')"
proof -
  obtain x sv1 where run: "endpoint_handler lib en am req sv = (x, sv1)" by fastforce
  show ?thesis
  proof (cases x)
    case (Inl r)
    then have "proper r" using fails_onlyD [OF endpoint_proper [OF assms(3)]] run by blast
    with assms(1,2) run Inl show ?thesis
      by (cases r) (auto simp: respond_def error_response_def proper_def success_status_def)
  qed (use assms(1) run in \<open>auto simp: respond_def\<close>)
qed

lemma ask_Inr: "ask lib m sv = (Inr x, sv') \<longleftrightarrow> m sv = (Inr x, sv')"
  by (auto simp: ask_def refuse_task_error_def split: prod.splits sum.splits failure.splits)

lemma ok_with_Inr:
  "ok_with f h sv = (Inr r, sv') \<longleftrightarrow> (\<exists>x. h sv = (Inr x, sv') \<and> r = \<lparr>rs_status = OK, rs_body = f x\<rparr>)"
  by (auto simp: ok_with_def andthen_Inr_iff return_apply)

lemma from_port_world_Inr:
  assumes "from_port (in_world f) sv = (Inr x, sv')"
  obtains e where "f e (w_db (sv_repo sv)) = (Inr x, w_db (sv_repo sv'))"
  using assms by (auto simp: from_port_def in_world_def split: prod.splits)

definition asked :: "list_tasks_query \<Rightarrow> string \<Rightarrow> string \<Rightarrow> bool" where
  "asked q queue status \<longleftrightarrow> pred_option ((=) queue) (lq_queue q)
     \<and> pred_option (\<lambda>s. status = to_ascii_lowercase (trim s)) (lq_status q)"

lemma parse_status_filter_Inr:
  "parse_status_filter s = Inr st \<Longrightarrow> as_str st = to_ascii_lowercase (trim s)"
  by (auto simp: parse_status_filter_def Let_def split: if_splits)

lemma parse_queue_filter_Inr: "parse_queue_filter s = Inr q \<Longrightarrow> queue_str q = s"
  by (cases "queue_try_from s") (auto simp: parse_queue_filter_def queue_try_from_Inr)

lemma http_status_as_str: "http_status_to_str st = as_str st"
  by (cases st) simp_all

lemma where_sql_asked:
  assumes "optional parse_status_filter (lq_status q) = Inr st" and "optional parse_queue_filter (lq_queue q) = Inr qn"
  shows "where_sql \<lparr>flt_queue = qn, flt_status = st, flt_limit = n, flt_offset = k\<rparr> r
    \<longleftrightarrow> asked q (row_queue r) (row_status r)"
  using assms
  by (auto simp: where_sql_def asked_def optional_def
      dest!: parse_status_filter_Inr parse_queue_filter_Inr split: option.splits sum.splits)

lemma http_list_tasks_Inr:
  assumes "http_list_tasks lib en q sv = (Inr l, sv')"
  obtains st qn limit offset obs sv2 res where
    "optional parse_status_filter (lq_status q) = Inr st" "optional parse_queue_filter (lq_queue q) = Inr qn"
    "1 \<le> limit" "limit \<le> 100" "offset \<le> 10000"
    "engine_list_tasks en \<lparr>flt_queue = qn, flt_status = st, flt_limit = limit, flt_offset = offset\<rparr>
      (sv\<lparr>sv_obs := sv_obs sv @ obs\<rparr>) = (Inr res, sv2)"
    "l = \<lparr>ltr_tasks = map task_response_of (lr_tasks res), ltr_total = lr_total res,
      ltr_limit = limit, ltr_offset = offset\<rparr>"
proof -
  let ?limit = "max 1 (min (case lq_limit q of Some n \<Rightarrow> n | None \<Rightarrow> DEFAULT_LIST_LIMIT) MAX_LIST_LIMIT)"
  let ?offset = "min (case lq_offset q of Some n \<Rightarrow> n | None \<Rightarrow> 0) MAX_OFFSET"
  let ?obs = "if MAX_OFFSET < (case lq_offset q of Some n \<Rightarrow> n | None \<Rightarrow> 0) then
    [log_of LevelWarn (Some ''offset_capped'')
      [(''provided_offset'', VInt (int (case lq_offset q of Some n \<Rightarrow> n | None \<Rightarrow> 0))),
       (''capped_offset'', VInt (int MAX_OFFSET))]
      ''Request offset exceeded maximum allowed; capping to 10,000''] else []"
  obtain st qn where f: "optional parse_status_filter (lq_status q) = Inr st"
    "optional parse_queue_filter (lq_queue q) = Inr qn" and some: "\<not> (qn = None \<and> st = None)"
    and run: "andthen (ask lib (engine_list_tasks en \<lparr>flt_queue = qn, flt_status = st,
        flt_limit = ?limit, flt_offset = ?offset\<rparr>)) (\<lambda>res.
        return \<lparr>ltr_tasks = map task_response_of (lr_tasks res), ltr_total = lr_total res,
          ltr_limit = ?limit, ltr_offset = ?offset\<rparr>) (sv\<lparr>sv_obs := sv_obs sv @ ?obs\<rparr>) = (Inr l, sv')"
  proof (cases "optional parse_status_filter (lq_status q)")
    case (Inr st)
    show ?thesis
    proof (cases "optional parse_queue_filter (lq_queue q)")
      case (Inr qn)
      with assms \<open>optional parse_status_filter _ = _\<close> show ?thesis
        using that [of st qn]
        by (cases "qn = None \<and> st = None")
          (simp_all add: http_list_tasks_def andthen_def [of "lift _"] andthen_def [of "note_obs _"] lift_apply
            note_obs_def refuse_def raise_apply Let_def del: if_split)
    qed (use assms Inr in \<open>simp add: http_list_tasks_def andthen_def [of "lift _"] lift_apply\<close>)
  qed (use assms in \<open>simp add: http_list_tasks_def andthen_def [of "lift _"] lift_apply\<close>)
  from run obtain res where "engine_list_tasks en \<lparr>flt_queue = qn, flt_status = st, flt_limit = ?limit,
      flt_offset = ?offset\<rparr> (sv\<lparr>sv_obs := sv_obs sv @ ?obs\<rparr>) = (Inr res, sv')"
    "l = \<lparr>ltr_tasks = map task_response_of (lr_tasks res), ltr_total = lr_total res,
      ltr_limit = ?limit, ltr_offset = ?offset\<rparr>"
    unfolding andthen_Inr_iff ask_Inr return_apply by blast
  with that [OF f, of ?limit ?offset ?obs res sv'] show ?thesis
    by (simp add: MAX_LIST_LIMIT_def MAX_OFFSET_def del: if_split)
qed

text \<open>C34: A page of tasks is what was asked for: at most as many as the limit, which is between 1 and
  100, from an offset of at most 10000, each in the queue and with the status of the query, and the
  total is the number of all such tasks in the database.\<close>

theorem list_page:
  assumes "en_repo en = postgres_repository al neg sq" and "world_ok (sv_repo sv)"
    and "respond lib en am (ReqListTasks (Inr q)) sv = (Inr resp, sv')" and "rs_status resp = OK"
  shows "\<exists>l. rs_body resp = TasksBody l \<and> 1 \<le> ltr_limit l \<and> ltr_limit l \<le> 100 \<and> ltr_offset l \<le> 10000
    \<and> length (ltr_tasks l) \<le> ltr_limit l
    \<and> list_all (\<lambda>t. asked q (tr_queue t) (tr_status t)) (ltr_tasks l)
    \<and> ltr_total l = length (filter (\<lambda>r. asked q (row_queue r) (row_status r)) (db_tasks (w_db (sv_repo sv))))"
proof -
  let ?d = "w_db (sv_repo sv)"
  let ?found = "filter (\<lambda>r. asked q (row_queue r) (row_status r)) (db_tasks ?d)"
  have "endpoint_handler lib en am (ReqListTasks (Inr q)) sv = (Inr resp, sv')"
    by (rule respond_success [OF assms(3)]) (simp_all add: assms(4) success_status_def client_status_def)
  then obtain l where l: "http_list_tasks lib en q sv = (Inr l, sv')" "rs_body resp = TasksBody l"
    by (auto simp: endpoint_handler_def ok_with_Inr andthen_Inr_iff query_params_def lift_apply)
  from l(1) obtain st qn limit offset obs sv2 res where
    f: "optional parse_status_filter (lq_status q) = Inr st" "optional parse_queue_filter (lq_queue q) = Inr qn"
    and bounds: "1 \<le> limit" "limit \<le> 100" "offset \<le> 10000"
    and run: "engine_list_tasks en \<lparr>flt_queue = qn, flt_status = st, flt_limit = limit, flt_offset = offset\<rparr>
      (sv\<lparr>sv_obs := sv_obs sv @ obs\<rparr>) = (Inr res, sv2)"
    and l': "l = \<lparr>ltr_tasks = map task_response_of (lr_tasks res), ltr_total = lr_total res,
      ltr_limit = limit, ltr_offset = offset\<rparr>" by (rule http_list_tasks_Inr)
  let ?flt = "\<lparr>flt_queue = qn, flt_status = st, flt_limit = limit, flt_offset = offset\<rparr>"
  let ?page = "page limit (min offset MAX_PAGINATION_OFFSET) (sort_key by_creation ?found)"
  from run obtain e where "list_tasks e ?flt ?d = (Inr res, w_db (sv_repo sv2))"
    by (auto simp: engine_list_tasks_def assms(1) postgres_repository_def elim: from_port_world_Inr)
  note lt = list_tasks_Inr [OF this]
  have wh: "where_sql ?flt = (\<lambda>r. asked q (row_queue r) (row_status r))"
    by (rule ext) (rule where_sql_asked [OF f])
  have rows: "map record_of_row ?page = map Inr (lr_tasks res)" and total: "lr_total res = length ?found"
    using lt(1,2) bounds(1) by (simp_all add: wh)
  have "length (lr_tasks res) = length ?page" using rows by (metis length_map)
  then have len: "length (lr_tasks res) \<le> limit" by (simp add: page_def)
  have "asked q (tr_queue (task_response_of t)) (tr_status (task_response_of t))" if "t \<in> set (lr_tasks res)" for t
  proof -
    from that rows have "Inr t \<in> set (map record_of_row ?page)" by simp
    then obtain r where r: "r \<in> set ?page" "record_of_row r = Inr t" by auto
    then have "r \<in> set ?found" using set_page by fastforce
    then have mem: "r \<in> set (db_tasks ?d)" "asked q (row_queue r) (row_status r)" by simp_all
    obtain x where x: "row_status r = as_str x"
      using row_status_known assms(2) mem(1) by (meson world_ok_def)
    then have "rec_status t = x" by (rule status_of_record [OF r(2)])
    with mem(2) x record_of_row_fields(2) [OF r(2)] show ?thesis
      by (simp add: task_response_of_def take_checkpoint_def take_signal_payload_def take_payload_def
          http_status_as_str)
  qed
  with l(2) l' bounds len total show ?thesis by (auto simp: list_all_iff)
qed

definition pending_query :: list_tasks_query where
  "pending_query = \<lparr>lq_queue = None, lq_status = Some '' Pending'', lq_limit = Some 500, lq_offset = None\<rparr>"

lemma ascii_lower_P: "ascii_lower (CHR ''P'') = CHR ''p''"
  using char_of_char [where 'a = nat, of "CHR ''p''"] by (simp add: ascii_lower_def byte_def)

lemma pending_filter: "parse_status_filter '' Pending'' = Inr Pending"
  by (simp add: parse_status_filter_def trim_def char_chunks.simps utf8_next_def byte_def utf8_width_def
      is_whitespace_def to_ascii_lowercase_def ascii_lower_P Let_def)
    (simp add: ascii_lower_def byte_def)

lemma list_sample:
  "\<exists>resp sv'. respond sample_lib (sample_engine []) sample_ambient (ReqListTasks (Inr pending_query))
     (sample_svc submitted_db) = (Inr resp, sv') \<and> rs_status resp = OK"
proof -
  have "\<exists>res w'. in_world (\<lambda>e. list_tasks e \<lparr>flt_queue = None, flt_status = Some Pending, flt_limit = 100,
      flt_offset = 0\<rparr>) (sample_world submitted_db) = (Inr res, w')"
    by (simp add: list_tasks_def where_sql_def page_def row_of_counted_def
        run_services run_statements run_operations run_results
        submitted_tasks sample_row_def insert_values_def sample_def mail_def task_row.defs)
  then show ?thesis
    by (auto simp: run_http query_params_def http_list_tasks_def pending_query_def optional_def
        pending_filter engine_list_tasks_def DEFAULT_LIST_LIMIT_def MAX_LIST_LIMIT_def MAX_OFFSET_def
        andthen_def lift_apply return_apply sample_svc_def)
qed

theorem list_page_witness:
  "\<exists>resp sv' l. respond sample_lib (sample_engine []) sample_ambient (ReqListTasks (Inr pending_query))
     (sample_svc submitted_db) = (Inr resp, sv') \<and> rs_body resp = TasksBody l \<and> ltr_limit l \<le> 100
     \<and> ltr_total l = 1"
proof -
  obtain resp sv' where run: "respond sample_lib (sample_engine []) sample_ambient (ReqListTasks (Inr pending_query))
     (sample_svc submitted_db) = (Inr resp, sv')" "rs_status resp = OK" using list_sample by blast
  have "world_ok (sv_repo (sample_svc submitted_db))"
    by (simp add: sample_svc_def world_ok_sample [OF reachable_submitted])
  moreover have "to_ascii_lowercase (trim '' Pending'') = ''pending''"
    using parse_status_filter_Inr [OF pending_filter] by simp
  then have "filter (\<lambda>r. asked pending_query (row_queue r) (row_status r))
      (db_tasks (w_db (sv_repo (sample_svc submitted_db)))) = [sample_row 1 3 0]"
    by (simp add: asked_def pending_query_def sample_svc_def sample_world_def submitted_tasks
        sample_row_def insert_values_def sample_def)
  ultimately show ?thesis using list_page [OF sample_engine_repo _ run] run by fastforce
qed

section \<open>Submitting over HTTP\<close>

text \<open>C35: What was posted can be read: after a \<open>POST\<close> without an idempotency key that was answered with
  201, a \<open>GET\<close> of the id in its body is answered with 200 and the very same body, when the database
  does not fail the lookup.\<close>

theorem post_get:
  assumes "en_repo en = postgres_repository al neg sq" and "world_ok (sv_repo sv)"
    and "cr_idempotency_key b = None"
    and "respond lib en am (ReqCreateTask headers (Inr b)) sv = (Inr resp, sv')"
    and "rs_status resp = CREATED" and "\<And>pt. e_fault (w_envs (sv_repo sv') 0) pt = None"
  shows "\<exists>t sv''. rs_body resp = TaskBody t \<and> tr_status t = ''pending''
    \<and> respond lib en am (ReqGetTask (Inr (tr_id t))) sv' = (Inr \<lparr>rs_status = OK, rs_body = TaskBody t\<rparr>, sv'')"
proof -
  let ?q = "case cr_queue b of Some q \<Rightarrow> q | None \<Rightarrow> ''default''"
  have "endpoint_handler lib en am (ReqCreateTask headers (Inr b)) sv = (Inr resp, sv')"
    by (rule respond_success [OF assms(4)]) (simp_all add: assms(5) success_status_def client_status_def)
  then obtain r where run: "engine_enqueue_raw en am ?q (cr_kind b) (cr_payload b) (cr_scheduled_at b)
      (cr_priority b) (cr_max_attempts b) (extract_trace_id headers) (cr_region b) sv = (Inr r, sv')"
    and body: "rs_body resp = TaskBody (task_response_of r)"
    by (auto simp: endpoint_handler_def json_body_def create_task_def Let_def assms(3) andthen_Inr_iff
        lift_apply ask_Inr return_apply)
  from run [unfolded engine_enqueue_raw_Inr announce_Inr] obtain w' where
    sub: "submission_ok en am ?q (cr_kind b) (cr_scheduled_at b) (cr_max_attempts b) (cr_region b)"
    and enq: "enqueue_raw (postgres_repository al neg sq) am (QueueName ?q) (cr_kind b) (cr_payload b)
      (cr_scheduled_at b) (cr_priority b) (cr_max_attempts b) (extract_trace_id headers) (cr_region b)
      (sv_repo sv) = (Inr r, w')" and sv': "sv_repo sv' = w'"
    by (auto simp: assms(1) dest!: from_port_Inr)
  have q: "queue_valid ?q" using sub by (simp add: submission_ok_def)
  from assms(2) enq q obtain e t where t: "prepare_raw am (QueueName ?q) (cr_kind b) (cr_payload b) (cr_scheduled_at b)
      (cr_priority b) (cr_max_attempts b) (extract_trace_id headers) (cr_region b) = Inr t"
    "r = stored e t" "db_tasks (w_db w') = db_tasks (w_db (sv_repo sv)) @ [insert_values e t]"
    "fresh_record t" "world_ok w'" "kind_str (rec_kind t) \<noteq> []"
    "attempt_get (rec_attempts t) \<le> max_get (rec_max_attempts t)" by (rule enqueue_raw_stored)
  have "find_by_id (w_envs w' 0) (rec_id t) (w_db w') = (Inr (Some (stored e t)), w_db w')"
    using find_saved [OF _ t(3,4,6,7)] t(5) assms(6) sv' by (simp add: world_ok_def)
  then have "\<exists>sv''. respond lib en am (ReqGetTask (Inr (task_uuid (rec_id t)))) sv'
      = (Inr \<lparr>rs_status = OK, rs_body = TaskBody (task_response_of r)\<rparr>, sv'')"
    using t(2) sv' by (simp add: respond_def endpoint_handler_def ok_with_def path_param_def get_task_def ask_def
        engine_find_def from_port_def assms(1) postgres_repository_def in_world_def andthen_def effect_simps)
  moreover have "tr_id (task_response_of r) = task_uuid (rec_id t)" "tr_status (task_response_of r) = ''pending''"
    using t(1,2) by (auto simp: prepare_raw_Inr new_record_def stored_def task_response_of_def
        take_checkpoint_def take_signal_payload_def take_payload_def)
  ultimately show ?thesis using body by auto
qed

definition sample_request :: create_task_request where
  "sample_request = \<lparr>cr_queue = Some ''mail'', cr_kind = ''send'', cr_payload = JInt 42, cr_scheduled_at = None,
     cr_priority = Some 5, cr_max_attempts = None, cr_idempotency_key = None, cr_region = None\<rparr>"

lemma post_sample:
  "\<exists>resp sv'. respond sample_lib (sample_engine []) sample_ambient (ReqCreateTask (\<lambda>_. None) (Inr sample_request))
     (sample_svc empty_db) = (Inr resp, sv') \<and> rs_status resp = CREATED \<and> w_envs (sv_repo sv') 0 = quiet_env 51"
proof -
  have "\<exists>r w'. enqueue_raw postgres sample_ambient (QueueName ''mail'') ''send'' (JInt 42) None (Some 5) None None
      None (sample_world empty_db) = (Inr r, w') \<and> w_envs w' 0 = quiet_env 51"
    by (simp add: enqueue_raw_def prepare_raw_def reject_empty_region_def parse_max_attempts_def
        parse_kind_def task_kind_try_from_def sample_ambient_def new_record_def Let_def
        validate_invariants_def debug_assert_def max_attempts_default_def
        attempt_zero_def mail_def run_services run_statements run_operations run_results)
  moreover have "submission_ok (sample_engine []) sample_ambient ''mail'' ''send'' None None None"
    by (simp add: submission_ok_def region_authorized_def sample_engine_def registry_get_def)
  then have "\<exists>r sv'. engine_enqueue_raw (sample_engine []) sample_ambient ''mail'' ''send'' (JInt 42) None (Some 5)
      None None None (sample_svc empty_db) = (Inr r, sv') \<and> w_envs (sv_repo sv') 0 = quiet_env 51"
    unfolding engine_enqueue_raw_Inr announce_Inr
    using calculation by (auto simp: from_port_def sample_engine_def sample_svc_def)
  then show ?thesis
    by (auto simp: respond_def endpoint_handler_def json_body_def create_task_def sample_request_def ask_def
        extract_trace_id_def andthen_def lift_apply return_apply)
qed

theorem post_get_witness:
  "\<exists>resp sv' t sv''. respond sample_lib (sample_engine []) sample_ambient
       (ReqCreateTask (\<lambda>_. None) (Inr sample_request)) (sample_svc empty_db) = (Inr resp, sv')
     \<and> rs_body resp = TaskBody t \<and> tr_status t = ''pending''
     \<and> respond sample_lib (sample_engine []) sample_ambient (ReqGetTask (Inr (tr_id t))) sv'
        = (Inr \<lparr>rs_status = OK, rs_body = TaskBody t\<rparr>, sv'')"
proof -
  obtain resp sv' where run: "respond sample_lib (sample_engine []) sample_ambient
      (ReqCreateTask (\<lambda>_. None) (Inr sample_request)) (sample_svc empty_db) = (Inr resp, sv')"
    "rs_status resp = CREATED" and env: "w_envs (sv_repo sv') 0 = quiet_env 51" using post_sample by blast
  have "world_ok (sv_repo (sample_svc empty_db))"
    by (simp add: sample_svc_def world_ok_sample [OF reachable.start])
  moreover have "cr_idempotency_key sample_request = None" by (simp add: sample_request_def)
  moreover have "e_fault (w_envs (sv_repo sv') 0) pt = None" for pt by (simp add: env quiet_env_def)
  ultimately show ?thesis using post_get [OF sample_engine_repo _ _ run] run(1) by blast
qed

end
