(* ===== verification/Cli_Props.thy ===== *)
theory Cli_Props
  imports Binary Http_Props Run_Props
begin

text \<open>
  The properties of the command line: what \<open>serve\<close> makes of a configuration, which configuration
  it sees, what the exit codes of \<open>submit\<close> mean, and what is shown of a database URL.
\<close>

section \<open>The server\<close>

lemma engine_build_fields:
  assumes "engine_build migrate ce repo tx_repo b cv = (Inr en, cv')"
  shows "en_registry en = bd_registry b" and "en_producer_config en = bd_producer_cfg b"
  using assms unfolding engine_build_def andthen_Inr_iff by (auto simp: return_apply)

lemma serve_engine_fields:
  assumes "serve_engine connect lower migrate ce repo tx_repo c cv = (Inr en, cv')"
  shows "en_registry en = []" and "en_producer_config en = producer_config_default"
proof -
  obtain cv'' where "engine_build migrate ce repo tx_repo (serve_builder c) cv'' = (Inr en, cv')"
    using assms unfolding serve_engine_def andthen_Inr_iff by blast
  from engine_build_fields [OF this] show "en_registry en = []"
    and "en_producer_config en = producer_config_default"
    by (simp_all add: serve_builder_def set_readiness_timeout_def set_metrics_def
        set_database_config_def set_worker_config_def set_pool_def builder_default_def registry_new_def)
qed

text \<open>Without a handler every submission is invalid, keyed or not.\<close>

lemma unhandled_refused:
  assumes "en_registry en = []"
  shows "\<exists>m. engine_enqueue_raw en am queue kind payload s prio mx tr region sv = (Inl (invalid_payload m), sv)"
    and "\<exists>m. engine_enqueue_raw_idempotent en am queue kind payload s prio mx key tr region sv
      = (Inl (invalid_payload m), sv)"
proof -
  have none: "require_handler (en_registry en) kind m = Inl (invalid_payload m)" for m
    by (simp add: assms require_handler_def check_that_def registry_get_def)
  have stop: "invalid r \<Longrightarrow> (\<And>x. r \<noteq> Inr x) \<Longrightarrow> \<exists>m. andthen (lift r) k sv = (Inl (invalid_payload m), sv)" for r k
    by (cases r) (auto simp: invalid_def andthen_def lift_apply)
  have "invalid (validate_idempotency_key key)"
    unfolding validate_idempotency_key_def by (intro invalid_and_then invalid_leaves)
  then show "\<exists>m. engine_enqueue_raw en am queue kind payload s prio mx tr region sv = (Inl (invalid_payload m), sv)"
    and "\<exists>m. engine_enqueue_raw_idempotent en am queue kind payload s prio mx key tr region sv
      = (Inl (invalid_payload m), sv)"
    unfolding engine_enqueue_raw_def engine_enqueue_raw_idempotent_def
    by (rule_tac [!] stop) (auto intro!: invalid_and_then invalid_leaves simp: and_then_Inr_iff none invalid_def [of "Inl x" for x])
qed

text \<open>The server that \<open>serve\<close> builds registers no task type and is not given the configured
  regions: it answers every submission over HTTP with 422 and stores nothing.\<close>

theorem serve_refuses_submissions:
  assumes "serve_engine connect lower migrate ce repo tx_repo c cv = (Inr en, cv')"
  shows "en_producer_config en = producer_config_default
    \<and> (\<exists>resp. respond lib en am (ReqCreateTask headers (Inr b)) sv = (Inr resp, sv)
         \<and> rs_status resp = UNPROCESSABLE_ENTITY)"
proof -
  note fields = serve_engine_fields [OF assms]
  let ?q = "case cr_queue b of Some q \<Rightarrow> q | None \<Rightarrow> ''default''"
  note invalid = unhandled_refused [where queue = ?q and kind = "cr_kind b" and payload = "cr_payload b"
      and s = "cr_scheduled_at b" and prio = "cr_priority b" and mx = "cr_max_attempts b"
      and tr = "extract_trace_id headers" and region = "cr_region b" and am = am and sv = sv,
      OF fields(1)]
  have "\<exists>resp. respond lib en am (ReqCreateTask headers (Inr b)) sv = (Inr resp, sv)
      \<and> rs_status resp = UNPROCESSABLE_ENTITY"
    using invalid(1) invalid(2) [of "case cr_idempotency_key b of Some k \<Rightarrow> k"]
    by (cases "cr_idempotency_key b")
      (auto simp: respond_def endpoint_handler_def json_body_def create_task_def Let_def andthen_def
          lift_apply ask_def refuse_task_error_def invalid_payload_def error_response_def app_error_new_def)
  with fields(2) show ?thesis by simp
qed

definition sample_app_config :: app_config where
  "sample_app_config = app_config_default\<lparr>ac_producer := \<lparr>pc_allowed_regions = [''eu'']\<rparr>\<rparr>"

lemma serve_sample:
  "\<exists>en. \<forall>obs. \<exists>cv'. serve_engine (\<lambda>_ _. Inr ()) (\<lambda>s. s) (\<lambda>c. (Inr (), c)) quiet_catalog repo
     (\<lambda>_. postgres_tx (quiet_env 1) True) sample_app_config (sample_catalog\<lparr>sv_obs := obs\<rparr>) = (Inr en, cv')"
proof -
  have "worker_validate worker_config_default = Inr ()"
    by (simp add: worker_validate_Inr worker_config_default_ok)
  moreover have "queue_try_from ''default'' = Inr (QueueName ''default'')" by (simp add: queue_try_from_Inr)
  ultimately show ?thesis
    by (simp add: serve_engine_def create_pool_def DEFAULT_MAX_CONNECTIONS_def MAX_POOL_CONNECTIONS_def
        sample_app_config_def app_config_default_def serve_builder_def set_readiness_timeout_def
        set_metrics_def set_database_config_def set_worker_config_def set_pool_def
        engine_build_def builder_default_def andthen_def lift_apply database_validate_def
        database_config_default_def return_apply from_port_def reconcile_table_persistence_def
        query_catalog_def statement_def quiet_catalog_def sample_catalog_def persistence_try_from_def tell_def)
qed

theorem serve_refuses_submissions_witness:
  "\<exists>en cv' resp. serve_engine (\<lambda>_ _. Inr ()) (\<lambda>s. s) (\<lambda>c. (Inr (), c)) quiet_catalog (\<lambda>_. postgres)
       (\<lambda>_. postgres_tx (quiet_env 1) True) sample_app_config sample_catalog = (Inr en, cv')
     \<and> pc_allowed_regions (en_producer_config en) = []
     \<and> respond sample_lib en sample_ambient (ReqCreateTask (\<lambda>_. None) (Inr sample_request)) (sample_svc empty_db)
        = (Inr resp, sample_svc empty_db) \<and> rs_status resp = UNPROCESSABLE_ENTITY"
proof -
  obtain en cv' where "serve_engine (\<lambda>_ _. Inr ()) (\<lambda>s. s) (\<lambda>c. (Inr (), c)) quiet_catalog (\<lambda>_. postgres)
       (\<lambda>_. postgres_tx (quiet_env 1) True) sample_app_config (sample_catalog\<lparr>sv_obs := sv_obs sample_catalog\<rparr>) = (Inr en, cv')"
    using serve_sample by blast
  then have run: "serve_engine (\<lambda>_ _. Inr ()) (\<lambda>s. s) (\<lambda>c. (Inr (), c)) quiet_catalog (\<lambda>_. postgres)
       (\<lambda>_. postgres_tx (quiet_env 1) True) sample_app_config sample_catalog = (Inr en, cv')" by simp
  from serve_refuses_submissions [OF run] run show ?thesis by (fastforce simp: producer_config_default_def)
qed

section \<open>Layers of configuration\<close>

text \<open>What the flags set, in the form of the layers, and what \<open>figment\<close> documents: a value merged at a
  key replaces what was there, and merging at another key leaves it.\<close>

definition config_field :: "string \<Rightarrow> app_config \<Rightarrow> json option" where
  "config_field key c =
     (if key = ''database.url'' then Some (JStr (dc_url (ac_database c)))
      else if key = ''server.port'' then Some (JInt (int (sc_port (ac_server c))))
      else if key = ''worker.concurrency'' then Some (JInt (int (wc_concurrency (ac_worker c))))
      else if key = ''observability.otlp_endpoint'' then Some (JStr (oc_otlp_endpoint (ac_observability c)))
      else None)"

definition sets_other :: "string \<Rightarrow> layer \<Rightarrow> bool" where
  "sets_other key l \<longleftrightarrow> (\<exists>key' v. l = Setting key' v \<and> key' \<noteq> key)"

definition last_wins :: "(layer list \<Rightarrow> string + app_config) \<Rightarrow> bool" where
  "last_wins extract \<longleftrightarrow> (\<forall>ls key v rest c x. extract (ls @ Setting key v # rest) = Inr c
     \<longrightarrow> list_all (sets_other key) rest \<longrightarrow> config_field key c = Some x \<longrightarrow> x = v)"

lemma last_winsD:
  "last_wins extract \<Longrightarrow> extract (ls @ Setting key v # rest) = Inr c \<Longrightarrow>
     list_all (sets_other key) rest \<Longrightarrow> config_field key c = Some x \<Longrightarrow> x = v"
  unfolding last_wins_def by blast

lemma setting_other [simp]: "key' \<noteq> key \<Longrightarrow> list_all (sets_other key) (setting key' f v)"
  by (cases v) (simp_all add: setting_def sets_other_def)

text \<open>What is given on the command line of \<open>serve\<close> decides, whatever the files and the environment
  say: the database URL, the port, the concurrency and the OTLP endpoint.\<close>

theorem flags_win:
  assumes "last_wins (cl_extract cl)" and "serve_config cl profile file url s = Inr c"
  shows "(case url of None \<Rightarrow> True | Some u \<Rightarrow> dc_url (ac_database c) = u)
    \<and> (case srv_port s of None \<Rightarrow> True | Some n \<Rightarrow> sc_port (ac_server c) = n)
    \<and> (case srv_concurrency s of None \<Rightarrow> True | Some n \<Rightarrow> wc_concurrency (ac_worker c) = n)
    \<and> (case srv_otlp_endpoint s of None \<Rightarrow> True | Some e \<Rightarrow> oc_otlp_endpoint (ac_observability c) = e)"
proof (intro conjI)
  let ?base = "config_layers profile file None"
  let ?port = "setting ''server.port'' (\<lambda>n. JInt (int n)) (srv_port s)"
  let ?conc = "setting ''worker.concurrency'' (\<lambda>n. JInt (int n)) (srv_concurrency s)"
  let ?otlp = "setting ''observability.otlp_endpoint'' JStr (srv_otlp_endpoint s)"
  let ?url = "setting ''database.url'' JStr url"
  have run: "cl_extract cl (?base @ ?url @ ?port @ ?conc @ ?otlp) = Inr c"
    using assms(2) by (simp add: serve_config_def load_layers_def apply_serve_overrides_def
        config_layers_def setting_def)
  note wins = last_winsD [OF assms(1)]
  show "case url of None \<Rightarrow> True | Some u \<Rightarrow> dc_url (ac_database c) = u"
    using run wins [of ?base "''database.url''" "JStr (the url)" "?port @ ?conc @ ?otlp" c]
    by (cases url) (simp_all add: config_field_def setting_def [of _ _ "Some _"])
  show "case srv_port s of None \<Rightarrow> True | Some n \<Rightarrow> sc_port (ac_server c) = n"
    using run wins [of "?base @ ?url" "''server.port''" "JInt (int (the (srv_port s)))" "?conc @ ?otlp" c]
    by (cases "srv_port s") (simp_all add: config_field_def setting_def [of _ _ "Some _"])
  show "case srv_concurrency s of None \<Rightarrow> True | Some n \<Rightarrow> wc_concurrency (ac_worker c) = n"
    using run wins [of "?base @ ?url @ ?port" "''worker.concurrency''"
        "JInt (int (the (srv_concurrency s)))" ?otlp c]
    by (cases "srv_concurrency s") (simp_all add: config_field_def setting_def [of _ _ "Some _"])
  show "case srv_otlp_endpoint s of None \<Rightarrow> True | Some e \<Rightarrow> oc_otlp_endpoint (ac_observability c) = e"
    using run wins [of "?base @ ?url @ ?port @ ?conc" "''observability.otlp_endpoint''"
        "JStr (the (srv_otlp_endpoint s))" "[]" c]
    by (cases "srv_otlp_endpoint s") (simp_all add: config_field_def setting_def [of _ _ "Some _"])
qed

text \<open>A merge of the four settings, on the defaults and nothing else.\<close>

definition put_field :: "string \<Rightarrow> json \<Rightarrow> app_config \<Rightarrow> string + app_config" where
  "put_field key v c = (case v of
      JStr u \<Rightarrow> if key = ''database.url'' then Inr (c\<lparr>ac_database := (ac_database c)\<lparr>dc_url := u\<rparr>\<rparr>)
        else if key = ''observability.otlp_endpoint''
        then Inr (c\<lparr>ac_observability := (ac_observability c)\<lparr>oc_otlp_endpoint := u\<rparr>\<rparr>)
        else Inl ''unknown field''
    | JInt n \<Rightarrow> if n < 0 then Inl ''invalid value''
        else if key = ''server.port'' then Inr (c\<lparr>ac_server := (ac_server c)\<lparr>sc_port := nat n\<rparr>\<rparr>)
        else if key = ''worker.concurrency''
        then Inr (c\<lparr>ac_worker := (ac_worker c)\<lparr>wc_concurrency := nat n\<rparr>\<rparr>)
        else Inl ''unknown field''
    | _ \<Rightarrow> Inl ''invalid type'')"

fun merge_layer :: "layer \<Rightarrow> string + app_config \<Rightarrow> string + app_config" where
  "merge_layer (Defaults d) r = Inr d"
| "merge_layer (Setting key v) r = and_then r (put_field key v)"
| "merge_layer l r = r"

definition merged :: "layer list \<Rightarrow> string + app_config" where
  "merged ls = fold merge_layer ls (Inr app_config_default)"

text \<open>The keys are four distinct strings; what the updates do to the fields is computed once for each.\<close>

lemma put_fieldE:
  assumes "put_field key v c = Inr c'"
  obtains (url) u where "key = ''database.url''" "v = JStr u"
      "c' = c\<lparr>ac_database := (ac_database c)\<lparr>dc_url := u\<rparr>\<rparr>"
  | (otlp) u where "key = ''observability.otlp_endpoint''" "v = JStr u"
      "c' = c\<lparr>ac_observability := (ac_observability c)\<lparr>oc_otlp_endpoint := u\<rparr>\<rparr>"
  | (port) n where "key = ''server.port''" "v = JInt (int n)"
      "c' = c\<lparr>ac_server := (ac_server c)\<lparr>sc_port := n\<rparr>\<rparr>"
  | (conc) n where "key = ''worker.concurrency''" "v = JInt (int n)"
      "c' = c\<lparr>ac_worker := (ac_worker c)\<lparr>wc_concurrency := n\<rparr>\<rparr>"
proof (cases v)
  case (JStr u)
  with assms show thesis by (cases "key = ''database.url''"; cases "key = ''observability.otlp_endpoint''")
      (simp_all add: put_field_def url otlp)
next
  case (JInt i)
  then have "\<not> i < 0" using assms by (auto simp: put_field_def)
  then obtain n where "i = int n" by (metis nat_0_le not_less)
  with assms JInt show thesis by (cases "key = ''server.port''"; cases "key = ''worker.concurrency''")
      (simp_all add: put_field_def port conc)
qed (use assms in \<open>simp_all add: put_field_def\<close>)

lemma put_field_same: "put_field key v c = Inr c' \<Longrightarrow> config_field key c' = Some v"
  by (erule put_fieldE) (simp_all add: config_field_def)

lemma put_field_other:
  assumes "put_field key v c = Inr c'" and "key' \<noteq> key"
  shows "config_field key' c' = config_field key' c"
  using assms(1) by (cases rule: put_fieldE) (use assms(2) in \<open>simp_all add: config_field_def\<close>)

lemma merged_others:
  "fold merge_layer rest r = Inr c \<Longrightarrow> list_all (sets_other key) rest \<Longrightarrow>
     \<exists>c0. r = Inr c0 \<and> config_field key c0 = config_field key c"
proof (induction rest arbitrary: r)
  case (Cons l rest)
  from Cons.prems obtain key' v where l: "l = Setting key' v" "key' \<noteq> key" by (auto simp: sets_other_def)
  from Cons obtain c1 where c1: "merge_layer l r = Inr c1" "config_field key c1 = config_field key c" by auto
  with l obtain c0 where "r = Inr c0" "put_field key' v c0 = Inr c1" by (auto simp: and_then_Inr_iff)
  with c1 l(2) show ?case using put_field_other [of key' v c0 c1 key] by auto
qed simp

lemma last_wins_merged: "last_wins merged"
  unfolding last_wins_def merged_def
proof (intro allI impI)
  fix ls key v rest c x
  assume run: "fold merge_layer (ls @ Setting key v # rest) (Inr app_config_default) = Inr c"
    and rest: "list_all (sets_other key) rest" and x: "config_field key c = Some x"
  from run have "fold merge_layer rest (and_then (fold merge_layer ls (Inr app_config_default)) (put_field key v)) = Inr c"
    by simp
  from merged_others [OF this rest] obtain c0 where
    "and_then (fold merge_layer ls (Inr app_config_default)) (put_field key v) = Inr c0"
    "config_field key c0 = config_field key c" by blast
  with x show "x = v" by (auto simp: and_then_Inr_iff dest!: put_field_same)
qed

definition sample_cli :: cli_lib where
  "sample_cli = \<lparr>cl_lib = sample_lib, cl_connect = (\<lambda>_. Inr ()), cl_parse_json = (\<lambda>_. Inr JNull),
     cl_parse_time = (\<lambda>_. Inr 0), cl_rfc3339 = (\<lambda>_. ''time''), cl_record_json = (\<lambda>_. Inr ''{}''),
     cl_table_json = (\<lambda>_ _ _ _. Inr ''{}''), cl_workers_json = (\<lambda>_. Inr ''[]''),
     cl_pretty = (\<lambda>_. Inr ''{}''), cl_extract = merged\<rparr>"

theorem flags_win_witness:
  "\<exists>c. serve_config sample_cli ''prod'' None (Some ''postgres://db/x'')
       \<lparr>srv_port = Some 9999, srv_concurrency = Some 16, srv_otlp_endpoint = None\<rparr> = Inr c
     \<and> dc_url (ac_database c) = ''postgres://db/x'' \<and> sc_port (ac_server c) = 9999
     \<and> wc_concurrency (ac_worker c) = 16"
proof -
  have "last_wins (cl_extract sample_cli)" by (simp add: sample_cli_def last_wins_merged)
  moreover obtain c where run: "serve_config sample_cli ''prod'' None (Some ''postgres://db/x'')
       \<lparr>srv_port = Some 9999, srv_concurrency = Some 16, srv_otlp_endpoint = None\<rparr> = Inr c"
    by (simp add: serve_config_def sample_cli_def merged_def load_layers_def apply_serve_overrides_def
        config_layers_def setting_def put_field_def)
  ultimately show ?thesis using flags_win [of sample_cli] run by fastforce
qed

section \<open>Submitting from the command line\<close>

text \<open>What a run of a command does to the database: nothing that the audit log would have told.\<close>

definition unaudited :: "world console \<Rightarrow> world console \<Rightarrow> bool" where
  "unaudited a b \<longleftrightarrow> (world_ok (co_repo a) \<longrightarrow>
     world_ok (co_repo b) \<and> good False (w_db (co_repo a)) (w_db (co_repo b)))"

lemma unaudited_same: "co_repo b = co_repo a \<Longrightarrow> unaudited a b"
  by (simp add: unaudited_def world_ok_def good_refl)

lemma transp_unaudited: "transp unaudited"
  unfolding transp_def unaudited_def by (blast intro: good_trans)

lemma inside_unaudited:
  "inside unaudited (print_lines ls)" "inside unaudited (return x)" "inside unaudited (raise e)"
  "inside unaudited (exit_with cl json code m)" "inside unaudited (or_exit cl json code mf r)"
  by (auto simp: inside_def print_lines_def effect_simps exit_with_def or_exit_def andthen_def
      intro!: unaudited_same split: sum.splits prod.splits)

lemma console_andthen:
  "inside unaudited m \<Longrightarrow> (\<And>x. inside unaudited (k x)) \<Longrightarrow> inside unaudited (andthen m k)"
  by (rule inside_andthen [OF transp_unaudited])

lemma call_unaudited:
  assumes "\<And>w r w'. world_ok w \<Longrightarrow> m w = (r, w') \<Longrightarrow> good False (w_db w) (w_db w')"
  shows "inside unaudited (call_or_exit cl json what m)"
proof (rule insideI)
  fix s r s'
  assume run: "call_or_exit cl json what m s = (r, s')"
  then have "co_repo s' = snd (m (co_repo s))"
    by (auto simp: call_or_exit_def exit_with_def print_lines_def andthen_def raise_apply
        split: prod.splits sum.splits failure.splits)
  then show "unaudited s s'"
    using assms [of "co_repo s"] by (auto simp: unaudited_def world_ok_def good_def) (metis prod.collapse)+
qed

lemma checked_good:
  assumes "world_ok w" and "andthen (lift x) (\<lambda>t. in_world (f t)) w = (r, w')"
    and "\<And>e t. x = Inr t \<Longrightarrow> keeps al (f t e)"
  shows "good al (w_db w) (w_db w')"
proof -
  have inv: "db_inv (w_db w)" using assms(1) by (simp add: world_ok_def)
  show ?thesis
  proof (cases x)
    case (Inl e)
    with assms(2) show ?thesis using good_refl [OF inv] by (simp add: andthen_def lift_apply)
  next
    case (Inr t)
    with assms(2) show ?thesis using keepsD [OF assms(3) [OF Inr] inv]
      by (auto simp: andthen_def lift_apply in_world_def split: prod.splits)
  qed
qed

lemma enqueue_raw_good:
  assumes "queue_valid (queue_str q)" and "world_ok w"
    and "enqueue_raw (postgres_repository al neg sq) am q kind p s prio mx tr g w = (r, w')"
  shows "good al (w_db w) (w_db w')"
  using assms(3) unfolding enqueue_raw_def postgres_repository_def task_repository.simps
  by (rule checked_good [OF assms(2)]) (simp add: save_keeps prepare_raw_fresh assms(1))

lemma enqueue_raw_idempotent_good:
  assumes "queue_valid (queue_str q)" and "world_ok w"
    and "enqueue_raw_idempotent (postgres_repository al neg sq) am q kind p s prio mx key ret tr g w = (r, w')"
  shows "good al (w_db w) (w_db w')"
  using assms(3) unfolding enqueue_raw_idempotent_def postgres_repository_def task_repository.simps
  by (rule checked_good [OF assms(2)]) (simp add: save_idempotent_keeps prepare_idempotent_fresh assms(1))

text \<open>A run of \<open>submit\<close> as far as the submission itself.\<close>

lemma or_exit_checked:
  assumes "\<And>x. r = Inr x \<Longrightarrow> inside unaudited (k x)"
  shows "inside unaudited (andthen (or_exit cl json code m r) k)"
proof (cases r)
  case (Inl e)
  then show ?thesis
    by (auto simp: inside_def or_exit_def exit_with_def print_lines_def andthen_def raise_apply
        intro!: unaudited_same)
next
  case (Inr x)
  with assms show ?thesis by (simp add: or_exit_def inside_def andthen_def return_apply)
qed

lemma queue_try_valid: "queue_try_from v = Inr q \<Longrightarrow> queue_valid (queue_str q)"
  by (simp add: queue_try_from_Inr)

lemma inside_case_prod: "(\<And>a b. inside R (f a b)) \<Longrightarrow> inside R (case p of (a, b) \<Rightarrow> f a b)"
  by (cases p) simp

lemma submit_unaudited:
  "inside unaudited (submit_run cl (\<lambda>al. postgres_repository al neg sq) am args url json)"
  unfolding submit_run_def submit_task_def connect_or_exit_def option_or_exit_def
  by (rule or_exit_checked console_andthen inside_unaudited inside_case_option inside_if
      call_unaudited inside_case_prod | erule enqueue_raw_good [rotated 2] enqueue_raw_idempotent_good [rotated 2]
      | erule queue_try_valid | assumption)+

lemma exit_with_apply:
  "exit_with cl json code m c = (Inl (ExitCode code),
     c\<lparr>co_out := co_out c @ print_error cl (to_text (cl_lib cl) m) json\<rparr>)"
  by (simp add: exit_with_def print_lines_def andthen_def raise_apply)

lemma or_exit_run:
  "andthen (or_exit cl json code m r) k c = (res, c') \<Longrightarrow>
     (\<exists>x. r = Inr x \<and> k x c = (res, c')) \<or> res = Inl (ExitCode code)"
  by (cases r) (auto simp: or_exit_def andthen_def exit_with_apply return_apply)

lemma call_run:
  "andthen (call_or_exit cl json what m) k c = (res, c') \<Longrightarrow>
     (\<exists>x w. m (co_repo c) = (Inr x, w) \<and> k x (c\<lparr>co_repo := w\<rparr>) = (res, c'))
     \<or> res = Inl (ExitCode 1) \<or> (\<exists>p. res = Inl (Unwind p))"
  by (auto simp: call_or_exit_def andthen_def exit_with_apply split: prod.splits sum.splits failure.splits)

text \<open>The two results of \<open>submit\<close> that speak of a task.\<close>

lemma submit_run_checked:
  assumes "submit_run cl repo am args url json c = (res, c')"
  shows "res = Inl (ExitCode 1) \<or> queue_valid (sa_queue args)
    \<and> (\<exists>payload s mx. submit_task cl (repo False) am args json (QueueName (sa_queue args)) payload s mx c = (res, c'))"
  using assms unfolding submit_run_def connect_or_exit_def option_or_exit_def
  by (elim or_exit_run [THEN disjE] exE conjE; simp add: queue_try_from_Inr)
    (auto simp: andthen_def exit_with_apply return_apply split: option.splits if_splits)

text \<open>The two results of \<open>submit\<close> that speak of a task.\<close>

lemma submit_task_cases:
  assumes "submit_task cl repo am args json queue payload s mx c = (res, c')"
  obtains (failed) "res = Inl (ExitCode 1)" | (panicked) p where "res = Inl (Unwind p)"
  | (plain) t where "res = Inr ()" "sa_idempotency_key args = None"
      "enqueue_raw repo am queue (sa_kind args) payload s (Some (sa_priority args)) mx None None (co_repo c)
         = (Inr t, co_repo c')" "co_out c' = co_out c @ print_task_record cl t json"
  | (keyed) key t created pre where "sa_idempotency_key args = Some key"
      "enqueue_raw_idempotent repo am queue (sa_kind args) payload s (Some (sa_priority args)) mx key
         (from_secs (24 * 60 * 60)) None None (co_repo c) = (Inr (t, created), co_repo c')"
      "res = (if created then Inr () else Inl (ExitCode 2))"
      "co_out c' = co_out c @ pre @ print_task_record cl t json"
proof (cases "sa_idempotency_key args")
  case None
  with assms have "andthen (call_or_exit cl json ''submit failed: '' (enqueue_raw repo am queue
      (sa_kind args) payload s (Some (sa_priority args)) mx None None))
      (\<lambda>record. print_lines (print_task_record cl record json)) c = (res, c')"
    by (simp add: submit_task_def)
  from call_run [OF this] None show thesis
    by (auto simp: print_lines_def intro: failed plain panicked)
next
  case (Some key)
  let ?note = "if json then [] else
    [Stderr (''duplicate idempotency key '' @ dash @ '' returning existing task'')]"
  have "andthen (call_or_exit cl json ''submit failed: '' (enqueue_raw_idempotent repo am queue
      (sa_kind args) payload s (Some (sa_priority args)) mx key (from_secs (24 * 60 * 60)) None None))
      (\<lambda>(rec, created). if created then print_lines (print_task_record cl rec json)
        else andthen (print_lines (?note @ print_task_record cl rec json)) (\<lambda>_. raise (ExitCode 2))) c = (res, c')"
    using assms Some by (auto simp: submit_task_def andthen_def return_apply raise_apply print_lines_def
        split: prod.splits sum.splits if_splits)
  from call_run [OF this] Some show thesis
    by (auto simp: print_lines_def andthen_def raise_apply split: if_splits
        intro: failed panicked keyed [of _ _ True "[]"] keyed [of _ _ False ?note])
qed

text \<open>A task that was stored is new and pending.\<close>

lemma stored_new:
  assumes "world_ok w'" and "db_tasks (w_db w') = db_tasks (w_db w) @ [insert_values e t]" and "fresh_record t"
  shows "world_status w' (rec_id t) = Some Pending" and "world_status w (rec_id t) = None"
proof -
  show "world_status w' (rec_id t) = Some Pending" by (rule stored_status [OF assms])
  have "distinct (map row_id (db_tasks (w_db w')))"
    using assms(1) by (simp add: world_ok_def db_inv_rows)
  then have "task_uuid (rec_id t) \<notin> set (map row_id (db_tasks (w_db w)))"
    using assms(2) by (auto simp: insert_values_def)
  then show "world_status w (rec_id t) = None"
    by (simp add: world_status_def status_of_def row_at_None [THEN iffD2])
qed

lemma keyed_stored:
  assumes "world_ok w" and "queue_valid (queue_str q)"
    and "enqueue_raw_idempotent (postgres_repository al neg sq) am q kind p s prio mx key ret tr g w
      = (Inr (t, created), w')"
  shows "if created
    then world_status w (rec_id t) = None \<and> world_status w' (rec_id t) = Some Pending
    else w_db w' = w_db w \<and> (\<exists>r. r \<in> set (db_tasks (w_db w)) \<and> row_id r = task_uuid (rec_id t)
      \<and> row_queue r = queue_str q \<and> row_idempotency_key r = Some key \<and> \<not> terminal_str (row_status r))"
proof -
  from assms(3) obtain u where u: "prepare_idempotent am q kind p s prio mx key ret tr g = Inr u"
    and run: "port_save_idempotent (postgres_repository al neg sq) u w = (Inr (t, created), w')"
    unfolding enqueue_raw_idempotent_def andthen_Inr_iff lift_apply by auto
  have fresh: "fresh_record u" by (rule prepare_idempotent_fresh [OF u assms(2)])
  have ok: "world_ok w'"
    using lawful_opD [OF pg.save_idempotent_lawful [OF fresh] assms(1) run] by (simp add: lawful_def)
  have key: "rec_idempotency_key u = Some key" "rec_queue u = q"
    using u by (auto simp: prepare_idempotent_Inr new_record_def)
  from run have "in_world (\<lambda>e. save_idempotent e al u) w = (Inr (t, created), w')"
    by (simp add: postgres_repository_def)
  then obtain e where "save_idempotent e al u (w_db w) = (Inr (t, created), w_db w')" by (rule in_world_Inr)
  then show ?thesis
  proof (cases rule: save_idempotent_Inr)
    case fresh
    have "rec_id t = rec_id u"
      using record_of_row_fields(1) [OF fresh(3)] by (simp add: insert_values_def)
    then show ?thesis using stored_new [OF ok fresh(4)] \<open>fresh_record u\<close> fresh(1) by simp
  next
    case (existing r)
    then show ?thesis using key record_of_row_fields(1) [OF existing(5)] by (auto simp: holds_key_def)
  qed
qed

text \<open>C37: The exit code of \<open>submit\<close> tells what happened. With 0 the task printed last is new and
  pending; with 2 the task printed is one already there, of the queue, not ended and with the key, and
  the database is as it was; every other failure is 1. In no case is anything entered in the audit log.\<close>

theorem submit_exit_codes:
  assumes "world_ok (co_repo c)"
    and "submit_run cl (\<lambda>al. postgres_repository al neg sq) am args url json c = (res, c')"
  shows "world_ok (co_repo c') \<and> db_audit (w_db (co_repo c')) = db_audit (w_db (co_repo c))
    \<and> (case res of
        Inr _ \<Rightarrow> \<exists>t pre. co_out c' = co_out c @ pre @ print_task_record cl t json
          \<and> world_status (co_repo c) (rec_id t) = None \<and> world_status (co_repo c') (rec_id t) = Some Pending
      | Inl (ExitCode n) \<Rightarrow> n = 1 \<or> n = 2 \<and> w_db (co_repo c') = w_db (co_repo c)
          \<and> (\<exists>t pre key r. co_out c' = co_out c @ pre @ print_task_record cl t json
               \<and> sa_idempotency_key args = Some key \<and> r \<in> set (db_tasks (w_db (co_repo c)))
               \<and> row_id r = task_uuid (rec_id t) \<and> row_queue r = sa_queue args
               \<and> row_idempotency_key r = Some key \<and> \<not> terminal_str (row_status r))
      | Inl (Unwind p) \<Rightarrow> True)"
proof -
  have "unaudited c c'" by (rule insideD [OF submit_unaudited assms(2)])
  then have ok: "world_ok (co_repo c')" and audit: "db_audit (w_db (co_repo c')) = db_audit (w_db (co_repo c))"
    using assms(1) by (auto simp: unaudited_def good_def logged_def)
  show ?thesis
  proof (cases "res = Inl (ExitCode 1)")
    case True
    then show ?thesis using ok audit by simp
  next
    case False
    with submit_run_checked [OF assms(2)] obtain payload s mx where q: "queue_valid (sa_queue args)"
      and run: "submit_task cl (postgres_repository False neg sq) am args json (QueueName (sa_queue args))
        payload s mx c = (res, c')" by blast
    from run show ?thesis
    proof (cases rule: submit_task_cases)
      case (plain t)
      from assms(1) plain(3) q obtain e u where u: "t = stored e u"
        "db_tasks (w_db (co_repo c')) = db_tasks (w_db (co_repo c)) @ [insert_values e u]" "fresh_record u"
        by (rule enqueue_raw_stored)
      then have "rec_id t = rec_id u" by (simp add: stored_def)
      then have "world_status (co_repo c) (rec_id t) = None \<and> world_status (co_repo c') (rec_id t) = Some Pending"
        using stored_new [OF ok u(2,3)] by simp
      with plain(1,4) ok audit show ?thesis by (auto intro: exI [of _ "[]"])
    next
      case (keyed key t created pre)
      have "queue_valid (queue_str (QueueName (sa_queue args)))" using q by simp
      from keyed_stored [OF assms(1) this keyed(2)] keyed(1,3,4) ok audit show ?thesis
        by (cases created) auto
    qed (use ok audit in simp_all)
  qed
qed

definition sample_args :: submit_args where
  "sample_args = \<lparr>sa_queue = ''mail'', sa_kind = ''send'', sa_payload = ''null'', sa_scheduled_at = None,
     sa_priority = 0, sa_max_attempts = None, sa_idempotency_key = Some ''k1''\<rparr>"

definition postgres_for :: "bool \<Rightarrow> world task_repository" where
  "postgres_for al = postgres_repository al PoolClosed (\<lambda>_. ''sqlx'')"

definition sample_console :: "world console" where
  "sample_console = \<lparr>co_repo = sample_world empty_db, co_out = []\<rparr>"

lemma submit_sample:
  "\<exists>c1 c2. submit_run sample_cli postgres_for sample_ambient sample_args ''db'' True sample_console = (Inr (), c1)
     \<and> submit_run sample_cli postgres_for (sample_ambient\<lparr>am_fresh_id := 10\<rparr>) sample_args ''db'' True c1
        = (Inl (ExitCode 2), c2)"
  by (simp add: submit_run_def submit_task_def connect_or_exit_def cli_pool_def or_exit_def option_or_exit_def
      call_or_exit_def print_lines_def print_task_record_def pretty_or_def
      sample_cli_def postgres_for_def sample_ambient_def sample_args_def sample_console_def
      enqueue_raw_idempotent_def prepare_idempotent_def idempotency_expires_at_def reject_empty_region_def
      parse_max_attempts_def parse_kind_def task_kind_try_from_def new_record_def Let_def
      validate_invariants_def debug_assert_def max_attempts_default_def attempt_zero_def mail_def
      IDEMPOTENCY_KEY_MAX_LEN_def
      postgres_repository_def run_services run_statements run_operations run_results)

theorem submit_exit_codes_witness:
  "\<exists>c1 c2. submit_run sample_cli postgres_for sample_ambient sample_args ''db'' True sample_console = (Inr (), c1)
     \<and> (\<exists>i. world_status (co_repo c1) i = Some Pending) \<and> db_audit (w_db (co_repo c1)) = []
     \<and> submit_run sample_cli postgres_for (sample_ambient\<lparr>am_fresh_id := 10\<rparr>) sample_args ''db'' True c1
        = (Inl (ExitCode 2), c2) \<and> w_db (co_repo c2) = w_db (co_repo c1)"
proof -
  obtain c1 c2 where run:
    "submit_run sample_cli postgres_for sample_ambient sample_args ''db'' True sample_console = (Inr (), c1)"
    "submit_run sample_cli postgres_for (sample_ambient\<lparr>am_fresh_id := 10\<rparr>) sample_args ''db'' True c1
        = (Inl (ExitCode 2), c2)" using submit_sample by blast
  have "world_ok (co_repo sample_console)"
    by (simp add: sample_console_def world_ok_sample [OF reachable.start])
  note first = submit_exit_codes [OF this run(1) [unfolded postgres_for_def [abs_def]]]
  then have "world_ok (co_repo c1)" by blast
  note second = submit_exit_codes [OF this run(2) [unfolded postgres_for_def [abs_def]]]
  have "db_audit (w_db (co_repo sample_console)) = []" by (simp add: sample_console_def sample_world_def empty_db_def)
  with first second run show ?thesis by auto
qed

section \<open>What is shown of a database URL\<close>

lemma find_scheme_end: "CHR '':'' \<notin> set scheme \<Longrightarrow> find_str ''://'' (scheme @ ''://'' @ rest) = Some (length scheme)"
  by (induction scheme) auto

lemma rfind_byte_mem: "c \<in> set s \<Longrightarrow> \<exists>i. rfind_byte c s = Some i"
  by (induction s) (auto split: option.splits)

lemma rfind_byte_skip: "rfind_byte c s = Some i \<Longrightarrow> rfind_byte c (p @ s) = Some (length p + i)"
  by (induction p) auto

text \<open>C1: What is printed of a database URL is its scheme, whatever user, password, host and database
  follow it.\<close>

theorem mask_hides:
  assumes "CHR '':'' \<notin> set scheme"
  shows "mask_database_url (scheme @ ''://'' @ secret @ ''@'' @ host) = scheme @ ''://***@***''"
proof -
  obtain i where "rfind_byte CHR ''@'' (secret @ ''@'' @ host) = Some i"
    using rfind_byte_mem [of "CHR ''@''" "secret @ ''@'' @ host"] by auto
  from rfind_byte_skip [OF this, of "scheme @ ''://''"]
  have "rfind_byte CHR ''@'' (scheme @ ''://'' @ secret @ ''@'' @ host) = Some (length scheme + 3 + i)"
    by simp
  then show ?thesis using find_scheme_end [OF assms, of "secret @ ''@'' @ host"]
    by (simp add: mask_database_url_def)
qed

theorem mask_hides_witness:
  "mask_database_url (''postgres'' @ ''://'' @ ''user:p@ss'' @ ''@'' @ ''db/x'') = ''postgres'' @ ''://***@***''"
  by (rule mask_hides) simp

end
