(* ===== verification/Serve_Props.thy ===== *)
theory Serve_Props
  imports Serve Cli_Props
begin

text \<open>
  What the exit of the server leaves behind: when the shutdown was in time and when it was not,
  how a run of the server can end at all, and that the tasks only move along their life cycle in it.
\<close>

section \<open>The exit\<close>

text \<open>C38: What the server leaves of its worker pool. When the main task logs no warning, the pool has
  stopped with no dispatch and every permit free. When dispatches are left after the drain and the
  worker saw the cancellation any later than the main task, whose time limit is the same, then the
  process exits with a warning before the leases are given back: the state of the backend is the
  one the drain left.\<close>

theorem exit_in_time_or_leases_kept:
  assumes "pool_inv wk p" and "pool_until_exit lib je wk sw tm order p = (Inr u, q)"
  shows "(shutdown_log lib je wk sw tm order p = []
        \<longrightarrow> pl_tasks q = [] \<and> pl_permits q = wc_concurrency (wk_config wk))
    \<and> (pl_tasks (drain_until lib je wk sw order p) \<noteq> [] \<and> 0 < tm_seen tm
        \<longrightarrow> q = drain_until lib je wk sw order p
          \<and> shutdown_log lib je wk sw tm order p = exit_warning (wc_shutdown_timeout (wk_config wk)))"
proof (intro conjI impI)
  assume "shutdown_log lib je wk sw tm order p = []"
  then have "worker_done (wc_shutdown_timeout (wk_config wk)) tm
      (pl_tasks (drain_until lib je wk sw order p) = []) \<le> wc_shutdown_timeout (wk_config wk)"
    by (auto simp: shutdown_log_def exit_warning_def in_time_def Let_def split: if_splits)
  with assms(2) have "shutdown_pool lib je wk sw order p = (Inr u, q)"
    by (simp add: pool_until_exit_def Let_def)
  from shutdown_pool_run [OF this assms(1)]
  show "pl_tasks q = []" "pl_permits q = wc_concurrency (wk_config wk)" by (auto simp: pool_inv_def)
next
  assume "pl_tasks (drain_until lib je wk sw order p) \<noteq> [] \<and> 0 < tm_seen tm"
  with assms(2) show "q = drain_until lib je wk sw order p"
    "shutdown_log lib je wk sw tm order p = exit_warning (wc_shutdown_timeout (wk_config wk))"
    by (auto simp: pool_until_exit_def shutdown_log_def in_time_def worker_done_def Let_def)
qed

definition late_timing :: timing where
  "late_timing = \<lparr>tm_seen = 1, tm_drain = 0, tm_release = 0, tm_join = 0, tm_server = 0,
     tm_took_effect = False\<rparr>"

lemma drained_nothing [simp]: "pl_tasks (drain_until lib je wk sw [] p) = pl_tasks p"
  by (simp add: take_results_def told_def)

theorem exit_in_time_or_leases_kept_witness:
  "\<exists>q. pool_until_exit sample_lib (\<lambda>_. ''panic'') sample_worker (sweeper_new postgres) late_timing [] stuck_pool = (Inr (), q)
     \<and> pl_tasks q = [claimed_sample] \<and> world_owner (sv_repo (pl_svc q)) = world_owner (sample_world claimed_db)
     \<and> shutdown_log sample_lib (\<lambda>_. ''panic'') sample_worker (sweeper_new postgres) late_timing [] stuck_pool = exit_warning (from_secs 30)"
proof -
  have inv: "pool_inv sample_worker stuck_pool"
    by (simp add: pool_inv_def stuck_pool_def sample_worker_def worker_config_default_def)
  have run: "pool_until_exit sample_lib (\<lambda>_. ''panic'') sample_worker (sweeper_new postgres) late_timing [] stuck_pool
      = (Inr (), drain_until sample_lib (\<lambda>_. ''panic'') sample_worker (sweeper_new postgres) [] stuck_pool)"
    by (simp add: pool_until_exit_def worker_done_def late_timing_def stuck_pool_def Let_def
        del: drain_until.simps)
  from exit_in_time_or_leases_kept [OF inv run] run show ?thesis
    by (simp add: late_timing_def stuck_pool_def sample_worker_def worker_config_default_def
        take_results_def told_def pool_new_def sample_svc_def)
qed

section \<open>Runs of the server\<close>

lemma on_process_frame: "on_process m h = (r, h') \<Longrightarrow> ho_backend h' = ho_backend h \<and> ho_pool h' = ho_pool h"
  and on_catalog_frame: "on_catalog n h = (r, h') \<Longrightarrow> ho_backend h' = ho_backend h \<and> ho_pool h' = ho_pool h"
  and host_log_frame: "host_log obs h = (t, h') \<Longrightarrow> ho_backend h' = ho_backend h \<and> ho_pool h' = ho_pool h"
  by (auto simp: on_process_def on_catalog_def host_log_def split: prod.splits)

definition same_backend :: "'s host \<Rightarrow> 's host \<Rightarrow> bool" where
  "same_backend h h' \<longleftrightarrow> ho_backend h' = ho_backend h \<and> ho_pool h' = ho_pool h"

lemma transp_same_backend: "transp same_backend"
  by (simp add: transp_def same_backend_def)

lemma same_backend_intros:
  "inside same_backend (lift r)" "inside same_backend (return x)" "inside same_backend (host_log obs)"
  "inside same_backend (on_process m)" "inside same_backend (on_catalog n)"
  by (auto simp: inside_def same_backend_def lift_apply return_apply dest: on_process_frame
      on_catalog_frame host_log_frame)

lemma serve_setup_frame: "inside same_backend (serve_setup su args serve)"
  unfolding serve_setup_def
  by (intro inside_andthen [OF transp_same_backend] same_backend_intros)









section \<open>The server and its tasks\<close>

lemma on_catalog_Inr:
  "on_catalog n h = (Inr x, h') \<longleftrightarrow>
     (\<exists>cv. n \<lparr>sv_repo = ho_catalog h, sv_obs = ho_log h\<rparr> = (Inr x, cv)
       \<and> h' = h\<lparr>ho_catalog := sv_repo cv, ho_log := sv_obs cv\<rparr>)"
  by (auto simp: on_catalog_def map_err_Inr split: prod.splits)

lemma served_engine:
  assumes "serve_setup su args serve h = (Inr (c, en), h')"
  shows "en_registry en = []" and "\<exists>al. en_repo en = su_repo su al"
    and "worker_config_ok (en_worker_config en)"
proof -
  obtain cv cv' where run: "serve_engine (su_connect su) (su_lower su) (su_migrate su) (su_catalog su)
      (su_repo su) (su_tx_repo su) c cv = (Inr en, cv')"
    using assms unfolding serve_setup_def andthen_Inr_iff return_apply on_catalog_Inr by blast
  show "en_registry en = []" by (rule serve_engine_fields [OF run])
  from run obtain cv'' where "engine_build (su_migrate su) (su_catalog su) (su_repo su) (su_tx_repo su)
      (serve_builder c) cv'' = (Inr en, cv')" unfolding serve_engine_def andthen_Inr_iff by blast
  then show "\<exists>al. en_repo en = su_repo su al" "worker_config_ok (en_worker_config en)"
    using engine_build_Inr by blast+
qed

lemma no_handlers_lawful: "handlers_lawful ok status []"
  by (simp add: handlers_lawful_def registry_get_def)

lemma pool_until_exit_cases:
  "pool_until_exit lib je wk sw tm order p = shutdown_pool lib je wk sw order p
   \<or> pool_until_exit lib je wk sw tm order p = (Inr (), drain_until lib je wk sw order p)"
  by (simp add: pool_until_exit_def Let_def)

lemma sweeper_of_repo: "sw_repo (sweeper_of en sat) = en_repo en"
  by (simp add: sweeper_of_def Let_def with_metrics_def with_saturation_classifier_def
      with_suspend_timeout_def sweeper_new_def)

context repository begin

lemma serve_pool_lawful:
  assumes "en_repo en = repo" and "en_registry en = []"
    and "list_all (\<lambda>ev. event_lawful ev ok status) (su_events su)" and "ok s"
    and "serve_pool su en s = (pool, s')"
  shows "lawful ok status s s'" and "pool = Some q \<Longrightarrow> sv_repo (pl_svc q) = s'"
proof -
  let ?wk = "worker_of en (su_worker_id su) (su_writer su) is_pool_timeout"
  let ?sw = "sweeper_of en is_pool_timeout"
  let ?start = "pool_new ?wk \<lparr>sv_repo = s, sv_obs = []\<rparr>"
  obtain r q1 where run: "run_events (cl_lib (su_cli su)) ?wk ?sw (su_events su) ?start = (r, q1)" by fastforce
  have "sw_repo ?sw = repo"
    using assms(1) by (simp add: sweeper_of_repo)
  then have "pool_lawful ok status ?start q1"
    using insideD [OF run_events_lawful [of ?wk ?sw "su_events su"] run] assms(1-3)
    by (simp add: worker_of_def no_handlers_lawful)
  then have "lawful ok status s (sv_repo (pl_svc q1))"
    using assms(4) by (simp add: pool_lawful_def lawful_rel_def pool_new_def)
  with assms(4,5) run show "lawful ok status s s'"
    by (auto simp: serve_pool_def poll_loop_start_def Let_def lawful_refl split: if_splits sum.splits)
  from assms(5) run show "pool = Some q \<Longrightarrow> sv_repo (pl_svc q) = s'"
    by (auto simp: serve_pool_def poll_loop_start_def Let_def split: if_splits sum.splits)
qed

lemma serve_shutdown_lawful:
  assumes "en_repo en = repo" and "en_registry en = []" and "ok (ho_backend h)"
    and "list_all (\<lambda>ev. event_lawful ev ok status) (su_order su)"
    and "\<And>q. pool = Some q \<Longrightarrow> sv_repo (pl_svc q) = ho_backend h"
    and "serve_shutdown su en pool h = (r, h')"
  shows "lawful ok status (ho_backend h) (ho_backend h')"
proof (cases pool)
  case None
  with assms(3,6) show ?thesis by (auto simp: serve_shutdown_def Let_def lawful_refl)
next
  case (Some p)
  let ?wk = "worker_of en (su_worker_id su) (su_writer su) is_pool_timeout"
  let ?lib = "cl_lib (su_cli su)" and ?sw = "sweeper_of en is_pool_timeout"
  obtain x q where run: "pool_until_exit ?lib (su_join_error su) ?wk ?sw (su_timing su) (su_order su) p = (x, q)"
    by fastforce
  have wk: "wk_repo ?wk = repo" "handlers_lawful ok status (wk_registry ?wk)"
    and sw: "sw_repo ?sw = repo"
    using assms(1,2) by (simp_all add: worker_of_def no_handlers_lawful sweeper_of_repo)
  have "pool_lawful ok status p q"
    using pool_until_exit_cases [of ?lib "su_join_error su" ?wk ?sw "su_timing su" "su_order su" p] run
      insideD [OF shutdown_lawful [OF wk sw assms(4)]] drain_until_lawful [OF wk sw assms(4)] by (elim disjE) auto
  then have "lawful ok status (ho_backend h) (sv_repo (pl_svc q))"
    using assms(3) assms(5) [OF Some] by (simp add: pool_lawful_def lawful_rel_def)
  with Some run assms(6) show ?thesis by (auto simp: serve_shutdown_def Let_def)
qed

lemma run_serve_lawful:
  assumes "\<And>c en h1. serve_setup su args serve h = (Inr (c, en), h1) \<Longrightarrow> en_repo en = repo" and "list_all (\<lambda>ev. event_lawful ev ok status) (su_events su @ su_order su)"
    and "ok (ho_backend h)" and "run_serve su args serve h = (r, h')"
  shows "lawful ok status (ho_backend h) (ho_backend h')"
proof (cases "serve_setup su args serve h")
  case (Pair x h1)
  have same: "ho_backend h1 = ho_backend h"
    using insideD [OF serve_setup_frame Pair] by (simp add: same_backend_def)
  show ?thesis
  proof (cases x)
    case (Inl e)
    with Pair assms(3,4) same show ?thesis by (simp add: run_serve_def andthen_def lawful_refl)
  next
    case (Inr y)
    obtain c en where y: "y = (c, en)" by fastforce
    note en = served_engine [OF Pair [unfolded Inr y]]
    have repo: "en_repo en = repo" using assms(1) Pair Inr y by simp
    obtain pool s where sp: "serve_pool su en (ho_backend h1) = (pool, s)" by fastforce
    have lawful: "list_all (\<lambda>ev. event_lawful ev ok status) (su_events su)"
      "list_all (\<lambda>ev. event_lawful ev ok status) (su_order su)" using assms(2) by simp_all
    note pool = serve_pool_lawful [OF repo en(1) lawful(1) _ sp, unfolded same, OF assms(3)]
    obtain obs received where sg: "shutdown_signal (su_signals su) (su_arrivals su) = (obs, received)" by fastforce
    show ?thesis
    proof (cases "received = None")
      case True
      with Pair Inr y sp sg assms(4) pool(1) show ?thesis
        by (auto simp: run_serve_def andthen_def reading_def writing_def host_log_def return_def)
    next
      case False
      let ?h = "h1\<lparr>ho_backend := s, ho_pool := pool,
        ho_log := (ho_log h1 @ obs) @ plain_log LevelInfo ''shutdown signal received, draining...''\<rparr>"
      obtain z h3 where down: "serve_shutdown su en pool ?h = (z, h3)" by fastforce
      then obtain u where z: "z = Inr u"
        by (cases pool) (auto simp: serve_shutdown_def Let_def)
      have "ok s" using pool(1) by (simp add: lawful_def)
      then have "lawful ok status s (ho_backend h3)"
        using serve_shutdown_lawful [OF repo en(1) _ lawful(2) _ down] pool(2) by simp
      moreover have "ho_backend h' = ho_backend h3"
        using False Pair Inr y sp sg down z assms(4)
        by (auto simp: run_serve_def andthen_def reading_def writing_def host_log_def return_def)
      ultimately show ?thesis using pool(1) by (auto intro: lawful_trans)
    qed
  qed
qed

end









end
