(* ===== verification/Schema.thy ===== *)
theory Schema
  imports Pg_Db "HOL-Library.AList"
begin

text \<open>
  The schema of the database (\<open>migrations/*.sql\<close>): tables with typed columns, check constraints,
  foreign keys, indexes and triggers; the statements of the migrations as data, in the order of
  the files; and what each does to the schema and to the rows that are already there. The sort
  direction of an index column is left out. Theory
  \<open>Pg_Db\<close> has the tables as the repository uses them; theory \<open>Schema_Props\<close> shows that the
  migrations bring about exactly that.
\<close>

section \<open>Columns and cells\<close>

datatype sql_type =
    UUID_T | TEXT_T | JSONB_T | SMALLINT_T | INTEGER_T | BIGSERIAL_T | TIMESTAMPTZ_T
  | VARCHAR_T "nat option"

datatype cell = CNull | CUuid uuid | CText string | CJson json | CInt int | CTime time

type_synonym cells = "string \<Rightarrow> cell"

definition i64_range :: "int \<Rightarrow> bool" where
  "i64_range i \<longleftrightarrow> - (2 ^ 63) \<le> i \<and> i < 2 ^ 63"

fun fits :: "sql_type \<Rightarrow> cell \<Rightarrow> bool" where
  "fits UUID_T v = (case v of CNull \<Rightarrow> True | CUuid _ \<Rightarrow> True | _ \<Rightarrow> False)"
| "fits TEXT_T v = (case v of CNull \<Rightarrow> True | CText _ \<Rightarrow> True | _ \<Rightarrow> False)"
| "fits JSONB_T v = (case v of CNull \<Rightarrow> True | CJson _ \<Rightarrow> True | _ \<Rightarrow> False)"
| "fits SMALLINT_T v = (case v of CNull \<Rightarrow> True | CInt i \<Rightarrow> i16_range i | _ \<Rightarrow> False)"
| "fits INTEGER_T v = (case v of CNull \<Rightarrow> True | CInt i \<Rightarrow> i32_range i | _ \<Rightarrow> False)"
| "fits BIGSERIAL_T v = (case v of CNull \<Rightarrow> True | CInt i \<Rightarrow> i64_range i | _ \<Rightarrow> False)"
| "fits TIMESTAMPTZ_T v = (case v of CNull \<Rightarrow> True | CTime _ \<Rightarrow> True | _ \<Rightarrow> False)"
| "fits (VARCHAR_T limit) v = (case v of CNull \<Rightarrow> True
    | CText s \<Rightarrow> (case limit of None \<Rightarrow> True | Some n \<Rightarrow> length (chars s) \<le> n) | _ \<Rightarrow> False)"

text \<open>\<open>Generated\<close> are \<open>gen_random_uuid()\<close> and the sequence of a \<open>BIGSERIAL\<close>.\<close>

datatype default_value = Constant cell | Now | Generated

record column =
  col_name :: string
  col_type :: sql_type
  col_not_null :: bool
  col_default :: "default_value option"

definition nullable :: "string \<Rightarrow> sql_type \<Rightarrow> column" where
  "nullable c ty = \<lparr>col_name = c, col_type = ty, col_not_null = False, col_default = None\<rparr>"

definition required :: "string \<Rightarrow> sql_type \<Rightarrow> column" where
  "required c ty = (nullable c ty)\<lparr>col_not_null := True\<rparr>"

definition defaulting :: "default_value \<Rightarrow> column \<Rightarrow> column" where
  "defaulting v c = c\<lparr>col_default := Some v\<rparr>"

section \<open>Conditions\<close>

text \<open>The conditions of checks and partial indexes, in three-valued logic. A check is violated by
  false; a row is in a partial index only for true.\<close>

datatype condition =
    InList string "string list"
  | NotInList string "string list"
  | LengthPositive string
  | NullTogether string string
  | NotNull string
  | Both condition condition

fun eval :: "condition \<Rightarrow> cells \<Rightarrow> bool option" where
  "eval (InList c xs) r = (case r c of CText s \<Rightarrow> Some (s \<in> set xs) | _ \<Rightarrow> None)"
| "eval (NotInList c xs) r = (case r c of CText s \<Rightarrow> Some (s \<notin> set xs) | _ \<Rightarrow> None)"
| "eval (LengthPositive c) r = (case r c of CText s \<Rightarrow> Some (s \<noteq> []) | _ \<Rightarrow> None)"
| "eval (NullTogether a b) r = Some ((r a = CNull) = (r b = CNull))"
| "eval (NotNull c) r = Some (r c \<noteq> CNull)"
| "eval (Both p q) r =
     (if eval p r = Some False \<or> eval q r = Some False then Some False
      else if eval p r = Some True \<and> eval q r = Some True then Some True else None)"

section \<open>Tables, indexes, triggers\<close>

record table_def =
  tb_columns :: "column list"
  tb_primary :: string
  tb_checks :: "(string \<times> condition) list"
  tb_references :: "(string \<times> string \<times> string) list"

record index_def =
  ix_name :: string
  ix_table :: string
  ix_unique :: bool
  ix_columns :: "string list"
  ix_where :: "condition option"

datatype change = Inserting | Updating | Deleting

datatype routine = RaiseAppendOnly | AuditStatusChange

record trigger_def =
  tg_name :: string
  tg_table :: string
  tg_changes :: "change list"
  tg_routine :: string

record schema =
  sc_tables :: "(string \<times> table_def) list"
  sc_indexes :: "index_def list"
  sc_routines :: "(string \<times> routine) list"
  sc_triggers :: "trigger_def list"

definition empty_schema :: schema where
  "empty_schema = \<lparr>sc_tables = [], sc_indexes = [], sc_routines = [], sc_triggers = []\<rparr>"

section \<open>Statements\<close>

datatype ddl =
    CreateExtension string
  | CreateTable string table_def
  | CreateIndex bool index_def
  | AddColumn string column
  | AddCheck string string condition
  | DropCheck string string
  | AlterType string string sql_type
  | CreateRoutine string routine
  | CreateTrigger trigger_def
  | DropTrigger string string
  | DropRoutine string

datatype ddl_error =
    NoSuchRelation string | NoSuchConstraint string | AlreadyThere string | StillNeeded string
  | RowsViolate string

definition alter_table :: "string \<Rightarrow> (table_def \<Rightarrow> ddl_error + table_def) \<Rightarrow> schema \<Rightarrow> ddl_error + schema" where
  "alter_table t f s = (case map_of (sc_tables s) t of
      None \<Rightarrow> Inl (NoSuchRelation t)
    | Some tb \<Rightarrow> and_then (f tb) (\<lambda>tb'. Inr (s\<lparr>sc_tables := AList.update t tb' (sc_tables s)\<rparr>)))"

definition column_names :: "table_def \<Rightarrow> string list" where
  "column_names tb = map col_name (tb_columns tb)"

text \<open>What a statement makes of the schema. The first component of \<open>CreateIndex\<close> is
  \<open>IF NOT EXISTS\<close>; the two drops are \<open>IF EXISTS\<close>.\<close>

fun alter :: "ddl \<Rightarrow> schema \<Rightarrow> ddl_error + schema" where
  "alter (CreateExtension e) s = Inr s"
| "alter (CreateTable t tb) s =
     (if map_of (sc_tables s) t \<noteq> None then Inl (AlreadyThere t)
      else Inr (s\<lparr>sc_tables := sc_tables s @ [(t, tb)]\<rparr>))"
| "alter (CreateIndex lenient ix) s =
     (if map_of (sc_tables s) (ix_table ix) = None then Inl (NoSuchRelation (ix_table ix))
      else if ix_name ix \<in> set (map ix_name (sc_indexes s))
        then (if lenient then Inr s else Inl (AlreadyThere (ix_name ix)))
      else Inr (s\<lparr>sc_indexes := sc_indexes s @ [ix]\<rparr>))"
| "alter (AddColumn t c) s = alter_table t (\<lambda>tb.
     if col_name c \<in> set (column_names tb) then Inl (AlreadyThere (col_name c))
     else Inr (tb\<lparr>tb_columns := tb_columns tb @ [c]\<rparr>)) s"
| "alter (AddCheck t name p) s = alter_table t (\<lambda>tb.
     if map_of (tb_checks tb) name \<noteq> None then Inl (AlreadyThere name)
     else Inr (tb\<lparr>tb_checks := tb_checks tb @ [(name, p)]\<rparr>)) s"
| "alter (DropCheck t name) s = alter_table t (\<lambda>tb.
     if map_of (tb_checks tb) name = None then Inl (NoSuchConstraint name)
     else Inr (tb\<lparr>tb_checks := AList.delete name (tb_checks tb)\<rparr>)) s"
| "alter (AlterType t c ty) s = alter_table t (\<lambda>tb.
     if c \<notin> set (column_names tb) then Inl (NoSuchRelation c)
     else Inr (tb\<lparr>tb_columns := map (\<lambda>k. if col_name k = c then k\<lparr>col_type := ty\<rparr> else k)
       (tb_columns tb)\<rparr>)) s"
| "alter (CreateRoutine f b) s = Inr (s\<lparr>sc_routines := AList.update f b (sc_routines s)\<rparr>)"
| "alter (CreateTrigger tg) s =
     (if map_of (sc_tables s) (tg_table tg) = None then Inl (NoSuchRelation (tg_table tg))
      else if map_of (sc_routines s) (tg_routine tg) = None then Inl (NoSuchRelation (tg_routine tg))
      else if (tg_name tg, tg_table tg) \<in> set (map (\<lambda>x. (tg_name x, tg_table x)) (sc_triggers s))
        then Inl (AlreadyThere (tg_name tg))
      else Inr (s\<lparr>sc_triggers := sc_triggers s @ [tg]\<rparr>))"
| "alter (DropTrigger name t) s =
     Inr (s\<lparr>sc_triggers := filter (\<lambda>tg. (tg_name tg, tg_table tg) \<noteq> (name, t)) (sc_triggers s)\<rparr>)"
| "alter (DropRoutine f) s =
     (if f \<in> set (map tg_routine (sc_triggers s)) then Inl (StillNeeded f)
      else Inr (s\<lparr>sc_routines := AList.delete f (sc_routines s)\<rparr>))"

section \<open>Rows already there\<close>

type_synonym contents = "string \<Rightarrow> cells list"

text \<open>The default of a new column is computed once for all rows.\<close>

fun default_cell :: "time \<Rightarrow> default_value option \<Rightarrow> cell" where
  "default_cell now (Some (Constant v)) = v"
| "default_cell now (Some Now) = CTime now"
| "default_cell now _ = CNull"

fun index_key :: "index_def \<Rightarrow> cells \<Rightarrow> cell list option" where
  "index_key ix r =
     (if (case ix_where ix of None \<Rightarrow> True | Some p \<Rightarrow> eval p r = Some True)
        \<and> list_all (\<lambda>c. r c \<noteq> CNull) (ix_columns ix)
      then Some (map r (ix_columns ix)) else None)"

definition unique_ok :: "index_def \<Rightarrow> cells list \<Rightarrow> bool" where
  "unique_ok ix rows \<longleftrightarrow> ix_unique ix \<longrightarrow> distinct (List.map_filter (index_key ix) rows)"

fun accepts_rows :: "ddl \<Rightarrow> contents \<Rightarrow> bool" where
  "accepts_rows (AddCheck t name p) d = list_all (\<lambda>r. eval p r \<noteq> Some False) (d t)"
| "accepts_rows (AddColumn t c) d = (col_not_null c \<and> col_default c = None \<longrightarrow> d t = [])"
| "accepts_rows (AlterType t c ty) d = list_all (\<lambda>r. fits ty (r c)) (d t)"
| "accepts_rows (CreateIndex _ ix) d = unique_ok ix (d (ix_table ix))"
| "accepts_rows _ d = True"

fun rewrite_rows :: "time \<Rightarrow> ddl \<Rightarrow> contents \<Rightarrow> contents" where
  "rewrite_rows now (CreateTable t tb) d = d(t := [])"
| "rewrite_rows now (AddColumn t c) d =
     d(t := map (\<lambda>r. r(col_name c := default_cell now (col_default c))) (d t))"
| "rewrite_rows now _ d = d"

definition exec :: "time \<Rightarrow> ddl \<Rightarrow> schema \<times> contents \<Rightarrow> ddl_error + schema \<times> contents" where
  "exec now st = (\<lambda>(s, d). and_then (alter st s) (\<lambda>s'.
     if accepts_rows st d then Inr (s', rewrite_rows now st d)
     else Inl (RowsViolate (case st of AddCheck t _ _ \<Rightarrow> t | AddColumn t _ \<Rightarrow> t | AlterType t _ _ \<Rightarrow> t
       | CreateIndex _ ix \<Rightarrow> ix_table ix | _ \<Rightarrow> []))))"

fun exec_all :: "time \<Rightarrow> ddl list \<Rightarrow> schema \<times> contents \<Rightarrow> ddl_error + schema \<times> contents" where
  "exec_all now [] x = Inr x"
| "exec_all now (st # sts) x = and_then (exec now st x) (exec_all now sts)"

section \<open>Admitted contents\<close>

definition column_ok :: "cells \<Rightarrow> column \<Rightarrow> bool" where
  "column_ok r c \<longleftrightarrow> fits (col_type c) (r (col_name c)) \<and> (col_not_null c \<longrightarrow> r (col_name c) \<noteq> CNull)"

definition table_admits :: "contents \<Rightarrow> index_def list \<Rightarrow> string \<Rightarrow> table_def \<Rightarrow> bool" where
  "table_admits d ixs t tb \<longleftrightarrow>
     list_all (\<lambda>r. list_all (column_ok r) (tb_columns tb)
       \<and> list_all (\<lambda>(_, p). eval p r \<noteq> Some False) (tb_checks tb)
       \<and> list_all (\<lambda>(c, t', c'). r c = CNull \<or> r c \<in> set (map (\<lambda>q. q c') (d t'))) (tb_references tb)) (d t)
     \<and> distinct (map (\<lambda>r. r (tb_primary tb)) (d t))
     \<and> list_all (\<lambda>ix. ix_table ix = t \<longrightarrow> unique_ok ix (d t)) ixs"

definition admits :: "schema \<Rightarrow> contents \<Rightarrow> bool" where
  "admits s d \<longleftrightarrow> list_all (\<lambda>(t, tb). table_admits d (sc_indexes s) t tb) (sc_tables s)"

section \<open>Direct changes\<close>

text \<open>A statement that some other program issues: the row triggers of the table run, and the contents
  it leaves have to be admitted. What the routine that audits a status change writes is
  \<open>status_change\<close>, with the next value of the sequence of the log.\<close>

datatype dml_error = AppendOnly change | NotAdmitted

definition fired :: "schema \<Rightarrow> string \<Rightarrow> change \<Rightarrow> routine list" where
  "fired s t ch = List.map_filter (\<lambda>tg. if tg_table tg = t \<and> ch \<in> set (tg_changes tg)
     then map_of (sc_routines s) (tg_routine tg) else None) (sc_triggers s)"

definition status_change :: "time \<Rightarrow> int \<Rightarrow> cells \<Rightarrow> cells \<Rightarrow> cells" where
  "status_change now serial old new = (\<lambda>_. CNull)(''id'' := CInt serial, ''task_id'' := new ''id'',
     ''from_status'' := old ''status'', ''to_status'' := new ''status'', ''timestamp'' := CTime now,
     ''worker_id'' := old ''claimed_by'', ''trace_id'' := new ''trace_id'',
     ''metadata'' := CJson (JObj [(''trigger'', JStr ''database_after_update'')]))"

definition settle :: "schema \<Rightarrow> contents \<Rightarrow> dml_error + contents" where
  "settle s d = (if admits s d then Inr d else Inl NotAdmitted)"

definition direct_update ::
  "time \<Rightarrow> int \<Rightarrow> schema \<Rightarrow> string \<Rightarrow> (cells \<Rightarrow> bool) \<Rightarrow> (cells \<Rightarrow> cells) \<Rightarrow> contents \<Rightarrow> dml_error + contents" where
  "direct_update now serial s t p f d =
     (let hit = filter p (d t); routines = fired s t Updating;
          d' = d(t := map (\<lambda>r. if p r then f r else r) (d t));
          moved = filter (\<lambda>r. f r ''status'' \<noteq> r ''status'') hit in
      if hit \<noteq> [] \<and> RaiseAppendOnly \<in> set routines then Inl (AppendOnly Updating)
      else settle s (if AuditStatusChange \<in> set routines
        then d'(''task_audit_log'' := d' ''task_audit_log''
          @ map (\<lambda>(k, r). status_change now (serial + int k) r (f r)) (List.enumerate 0 moved))
        else d'))"

definition direct_delete :: "schema \<Rightarrow> string \<Rightarrow> (cells \<Rightarrow> bool) \<Rightarrow> contents \<Rightarrow> dml_error + contents" where
  "direct_delete s t p d =
     (if filter p (d t) \<noteq> [] \<and> RaiseAppendOnly \<in> set (fired s t Deleting)
      then Inl (AppendOnly Deleting)
      else settle s (d(t := filter (\<lambda>r. \<not> p r) (d t))))"

text \<open>\<open>TRUNCATE\<close> runs no row trigger; it is refused for a table that another one references.\<close>

definition truncate_table :: "schema \<Rightarrow> string \<Rightarrow> contents \<Rightarrow> dml_error + contents" where
  "truncate_table s t d =
     (if list_ex (\<lambda>(t', tb). t' \<noteq> t \<and> list_ex (\<lambda>(_, u, _). u = t) (tb_references tb)) (sc_tables s)
      then Inl NotAdmitted else Inr (d(t := [])))"

section \<open>The migrations\<close>

text \<open>One list of statements per file, with the number and name of the file.\<close>

definition terminal_statuses :: "string list" where
  "terminal_statuses = [''completed'', ''failed'', ''cancelled'']"

definition is_pending :: condition where
  "is_pending = InList ''status'' [''pending'']"

definition index_on :: "string \<Rightarrow> string \<Rightarrow> string list \<Rightarrow> condition option \<Rightarrow> index_def" where
  "index_on name t cs p =
     \<lparr>ix_name = name, ix_table = t, ix_unique = False, ix_columns = cs, ix_where = p\<rparr>"

definition create_tasks_table :: "ddl list" where
  "create_tasks_table =
     [CreateExtension ''pgcrypto'',
      CreateTable ''tasks''
        \<lparr>tb_columns =
           [defaulting Generated (required ''id'' UUID_T),
            defaulting (Constant (CText ''default'')) (required ''queue'' TEXT_T),
            required ''kind'' TEXT_T,
            defaulting (Constant (CJson (JObj []))) (required ''payload'' JSONB_T),
            defaulting (Constant (CText ''pending'')) (required ''status'' TEXT_T),
            defaulting (Constant (CInt 0)) (required ''priority'' SMALLINT_T),
            defaulting (Constant (CInt 0)) (required ''attempts'' INTEGER_T),
            defaulting (Constant (CInt 3)) (required ''max_attempts'' INTEGER_T),
            nullable ''last_error'' TEXT_T,
            defaulting Now (required ''scheduled_at'' TIMESTAMPTZ_T),
            nullable ''claimed_by'' UUID_T,
            nullable ''claimed_until'' TIMESTAMPTZ_T,
            defaulting Now (required ''created_at'' TIMESTAMPTZ_T),
            defaulting Now (required ''updated_at'' TIMESTAMPTZ_T)],
         tb_primary = ''id'',
         tb_checks =
           [(''tasks_status_check'', InList ''status''
               [''pending'', ''running'', ''completed'', ''failed'', ''cancelled'']),
            (''tasks_kind_nonempty_check'', LengthPositive ''kind'')],
         tb_references = []\<rparr>,
      CreateIndex False (index_on ''idx_tasks_claiming'' ''tasks''
        [''queue'', ''status'', ''priority'', ''scheduled_at''] (Some is_pending)),
      CreateIndex False (index_on ''idx_tasks_zombie'' ''tasks'' [''status'', ''claimed_until'']
        (Some (InList ''status'' [''running''])))]"

definition add_claim_check :: "ddl list" where
  "add_claim_check =
     [AddCheck ''tasks'' ''tasks_claim_fields_check'' (NullTogether ''claimed_by'' ''claimed_until'')]"

definition add_pagination_index :: "ddl list" where
  "add_pagination_index =
     [CreateIndex True (index_on ''idx_tasks_pagination'' ''tasks'' [''created_at'', ''id''] None)]"

definition add_idempotency_columns :: "ddl list" where
  "add_idempotency_columns =
     [AddColumn ''tasks'' (nullable ''idempotency_key'' (VARCHAR_T None)),
      AddColumn ''tasks'' (nullable ''idempotency_expires_at'' TIMESTAMPTZ_T),
      CreateIndex False ((index_on ''idx_tasks_idempotency'' ''tasks'' [''queue'', ''idempotency_key'']
        (Some (Both (NotNull ''idempotency_key'') (NotInList ''status'' terminal_statuses))))
        \<lparr>ix_unique := True\<rparr>)]"

definition add_trace_id_column :: "ddl list" where
  "add_trace_id_column = [AddColumn ''tasks'' (nullable ''trace_id'' (VARCHAR_T None))]"

definition add_trace_id_index :: "ddl list" where
  "add_trace_id_index =
     [CreateIndex True (index_on ''idx_tasks_trace_id'' ''tasks'' [''trace_id'']
        (Some (NotNull ''trace_id'')))]"

definition create_audit_log_table :: "ddl list" where
  "create_audit_log_table =
     [CreateTable ''task_audit_log''
        \<lparr>tb_columns =
           [defaulting Generated (required ''id'' BIGSERIAL_T),
            required ''task_id'' UUID_T,
            nullable ''from_status'' TEXT_T,
            required ''to_status'' TEXT_T,
            defaulting Now (required ''timestamp'' TIMESTAMPTZ_T),
            nullable ''worker_id'' UUID_T,
            nullable ''trace_id'' (VARCHAR_T None),
            nullable ''metadata'' JSONB_T],
         tb_primary = ''id'', tb_checks = [],
         tb_references = [(''task_id'', ''tasks'', ''id'')]\<rparr>,
      CreateIndex False (index_on ''idx_audit_log_task_time'' ''task_audit_log''
        [''task_id'', ''timestamp''] None),
      CreateRoutine ''audit_log_immutable'' RaiseAppendOnly,
      CreateTrigger \<lparr>tg_name = ''trg_audit_log_immutable'', tg_table = ''task_audit_log'',
        tg_changes = [Updating, Deleting], tg_routine = ''audit_log_immutable''\<rparr>,
      CreateRoutine ''audit_task_status_change'' AuditStatusChange,
      CreateTrigger \<lparr>tg_name = ''trg_audit_task_status_change'', tg_table = ''tasks'',
        tg_changes = [Updating], tg_routine = ''audit_task_status_change''\<rparr>]"

definition remove_redundant_trigger :: "ddl list" where
  "remove_redundant_trigger =
     [DropTrigger ''trg_audit_task_status_change'' ''tasks'', DropRoutine ''audit_task_status_change'']"

definition add_checkpoint_column :: "ddl list" where
  "add_checkpoint_column = [AddColumn ''tasks'' (nullable ''checkpoint'' JSONB_T)]"

definition harden_audit_log_schema :: "ddl list" where
  "harden_audit_log_schema = [AlterType ''task_audit_log'' ''trace_id'' (VARCHAR_T (Some 255))]"

definition add_suspend_columns :: "ddl list" where
  "add_suspend_columns =
     [DropCheck ''tasks'' ''tasks_status_check'',
      AddCheck ''tasks'' ''tasks_status_check'' (InList ''status''
        [''pending'', ''running'', ''completed'', ''failed'', ''cancelled'', ''suspended'']),
      AddColumn ''tasks'' (defaulting Now (nullable ''suspended_at'' TIMESTAMPTZ_T)),
      AddColumn ''tasks'' (nullable ''signal_payload'' JSONB_T)]"

definition add_region_column :: "ddl list" where
  "add_region_column =
     [AddColumn ''tasks'' (nullable ''region'' (VARCHAR_T None)),
      AddColumn ''task_audit_log'' (nullable ''region'' (VARCHAR_T None)),
      CreateIndex False (index_on ''idx_tasks_region_claiming'' ''tasks''
        [''queue'', ''region'', ''status'', ''priority'', ''scheduled_at''] (Some is_pending))]"

definition migrations :: "ddl list list" where
  "migrations = [create_tasks_table, add_claim_check, add_pagination_index, add_idempotency_columns,
     add_trace_id_column, add_trace_id_index, create_audit_log_table, remove_redundant_trigger,
     add_checkpoint_column, harden_audit_log_schema, add_suspend_columns, add_region_column]"

text \<open>The pending migrations as the library runs them: one after the other, each in a transaction of
  its own, and the first that fails ends the run. The times are those of the transactions.\<close>

fun migrate :: "(time \<times> ddl list) list \<Rightarrow> schema \<times> contents \<Rightarrow> ddl_error option \<times> schema \<times> contents" where
  "migrate [] x = (None, x)"
| "migrate ((now, m) # ms) x = (case exec_all now m x of
      Inl e \<Rightarrow> (Some e, x)
    | Inr y \<Rightarrow> migrate ms y)"

end
