(* ===== verification/Schema_Props.thy ===== *)
theory Schema_Props
  imports Schema Repo_Ops
begin

text \<open>
  What the migrations bring about: the tables with exactly the constraints that \<open>Pg_Db\<close> gives
  them, an audit log no direct update or delete can change, and what becomes of the rows of a
  database that was in use before the columns of suspension were added.
\<close>

section \<open>Rows as the repository sees them\<close>

definition TASK_COLUMNS :: "string list" where
  "TASK_COLUMNS = [''id'', ''queue'', ''kind'', ''payload'', ''status'', ''priority'', ''attempts'',
     ''max_attempts'', ''last_error'', ''scheduled_at'', ''claimed_by'', ''claimed_until'', ''created_at'',
     ''updated_at'', ''idempotency_key'', ''idempotency_expires_at'', ''trace_id'', ''checkpoint'',
     ''suspended_at'', ''signal_payload'', ''region'']"

definition opt :: "('a \<Rightarrow> cell) \<Rightarrow> 'a option \<Rightarrow> cell" where
  "opt f x = (case x of None \<Rightarrow> CNull | Some v \<Rightarrow> f v)"

lemma opt_simps [simp]: "opt f None = CNull" "opt f (Some v) = f v"
  by (simp_all add: opt_def)

definition task_cells :: "task_row \<Rightarrow> cells" where
  "task_cells r c = (case map_of (zip TASK_COLUMNS
     [CUuid (row_id r), CText (row_queue r), CText (row_kind r), CJson (row_payload r), CText (row_status r),
      CInt (row_priority r), CInt (row_attempts r), CInt (row_max_attempts r), opt CText (row_last_error r),
      CTime (row_scheduled_at r), opt CUuid (row_claimed_by r), opt CTime (row_claimed_until r),
      CTime (row_created_at r), CTime (row_updated_at r), opt CText (row_idempotency_key r),
      opt CTime (row_idempotency_expires_at r), opt CText (row_trace_id r), opt CJson (row_checkpoint r),
      opt CTime (row_suspended_at r), opt CJson (row_signal_payload r), opt CText (row_region r)]) c of
     None \<Rightarrow> CNull | Some v \<Rightarrow> v)"

definition audit_cells :: "audit_row \<Rightarrow> cells" where
  "audit_cells a c = (case map_of
     [(''id'', CInt (aud_id a)), (''task_id'', CUuid (aud_task_id a)), (''from_status'', opt CText (aud_from a)),
      (''to_status'', CText (aud_to a)), (''timestamp'', CTime (aud_timestamp a)),
      (''worker_id'', opt CUuid (aud_worker a)), (''trace_id'', opt CText (aud_trace_id a)),
      (''metadata'', opt CJson (aud_metadata a)), (''region'', opt CText (aud_region a))] c of
     None \<Rightarrow> CNull | Some v \<Rightarrow> v)"

definition contents_of :: "db \<Rightarrow> contents" where
  "contents_of d = (\<lambda>_. [])(''tasks'' := map task_cells (db_tasks d),
     ''task_audit_log'' := map audit_cells (db_audit d))"

lemma task_cells_at [simp]:
  "task_cells r ''id'' = CUuid (row_id r)" "task_cells r ''queue'' = CText (row_queue r)"
  "task_cells r ''kind'' = CText (row_kind r)" "task_cells r ''payload'' = CJson (row_payload r)"
  "task_cells r ''status'' = CText (row_status r)" "task_cells r ''priority'' = CInt (row_priority r)"
  "task_cells r ''attempts'' = CInt (row_attempts r)"
  "task_cells r ''max_attempts'' = CInt (row_max_attempts r)"
  "task_cells r ''last_error'' = opt CText (row_last_error r)"
  "task_cells r ''scheduled_at'' = CTime (row_scheduled_at r)"
  "task_cells r ''claimed_by'' = opt CUuid (row_claimed_by r)"
  "task_cells r ''claimed_until'' = opt CTime (row_claimed_until r)"
  "task_cells r ''created_at'' = CTime (row_created_at r)"
  "task_cells r ''updated_at'' = CTime (row_updated_at r)"
  "task_cells r ''idempotency_key'' = opt CText (row_idempotency_key r)"
  "task_cells r ''idempotency_expires_at'' = opt CTime (row_idempotency_expires_at r)"
  "task_cells r ''trace_id'' = opt CText (row_trace_id r)"
  "task_cells r ''checkpoint'' = opt CJson (row_checkpoint r)"
  "task_cells r ''suspended_at'' = opt CTime (row_suspended_at r)"
  "task_cells r ''signal_payload'' = opt CJson (row_signal_payload r)"
  "task_cells r ''region'' = opt CText (row_region r)"
  by (simp_all add: task_cells_def TASK_COLUMNS_def)

lemma audit_cells_at [simp]:
  "audit_cells a ''id'' = CInt (aud_id a)" "audit_cells a ''task_id'' = CUuid (aud_task_id a)"
  "audit_cells a ''from_status'' = opt CText (aud_from a)" "audit_cells a ''to_status'' = CText (aud_to a)"
  "audit_cells a ''timestamp'' = CTime (aud_timestamp a)"
  "audit_cells a ''worker_id'' = opt CUuid (aud_worker a)"
  "audit_cells a ''trace_id'' = opt CText (aud_trace_id a)"
  "audit_cells a ''metadata'' = opt CJson (aud_metadata a)"
  "audit_cells a ''region'' = opt CText (aud_region a)"
  by (simp_all add: audit_cells_def)

section \<open>Schema and rows apart\<close>

fun alter_all :: "ddl list \<Rightarrow> schema \<Rightarrow> ddl_error + schema" where
  "alter_all [] s = Inr s"
| "alter_all (st # sts) s = and_then (alter st s) (alter_all sts)"

fun accepts_all :: "time \<Rightarrow> ddl list \<Rightarrow> contents \<Rightarrow> bool" where
  "accepts_all now [] d \<longleftrightarrow> True"
| "accepts_all now (st # sts) d \<longleftrightarrow> accepts_rows st d \<and> accepts_all now sts (rewrite_rows now st d)"

fun rewrite_all :: "time \<Rightarrow> ddl list \<Rightarrow> contents \<Rightarrow> contents" where
  "rewrite_all now [] d = d"
| "rewrite_all now (st # sts) d = rewrite_all now sts (rewrite_rows now st d)"

lemma exec_all_Inr:
  "exec_all now sts (s, d) = Inr (s', d') \<longleftrightarrow>
     alter_all sts s = Inr s' \<and> accepts_all now sts d \<and> d' = rewrite_all now sts d"
  by (induction sts arbitrary: s d) (auto simp: exec_def and_then_Inr_iff split: if_splits)

lemma empty_rows: "rewrite_rows now st (\<lambda>_. []) = (\<lambda>_. [])" "accepts_rows st (\<lambda>_. [])"
  by (cases st; auto simp: unique_ok_def List.map_filter_def)+

lemma exec_all_empty: "alter_all sts s = Inr s' \<Longrightarrow> exec_all now sts (s, \<lambda>_. []) = Inr (s', \<lambda>_. [])"
  by (induction sts arbitrary: s) (auto simp: exec_def and_then_Inr_iff empty_rows)

lemma alter_all_append: "alter_all (xs @ ys) s = and_then (alter_all xs s) (alter_all ys)"
  by (induction xs arbitrary: s) (auto simp: and_then_def split: sum.splits)

lemma migrate_empty:
  "alter_all (concat (map snd ms)) s = Inr s' \<Longrightarrow> migrate ms (s, \<lambda>_. []) = (None, s', \<lambda>_. [])"
  by (induction ms arbitrary: s) (auto simp: alter_all_append and_then_Inr_iff exec_all_empty)

section \<open>The final schema\<close>

definition tasks_table :: table_def where
  "tasks_table =
     \<lparr>tb_columns =
        [defaulting Generated (required ''id'' UUID_T),
         defaulting (Constant (CText ''default'')) (required ''queue'' TEXT_T),
         required ''kind'' TEXT_T,
         defaulting (Constant (CJson (JObj []))) (required ''payload'' JSONB_T),
         defaulting (Constant (CText ''pending'')) (required ''status'' TEXT_T),
         defaulting (Constant (CInt 0)) (required ''priority'' SMALLINT_T),
         defaulting (Constant (CInt 0)) (required ''attempts'' INTEGER_T),
         defaulting (Constant (CInt 3)) (required ''max_attempts'' INTEGER_T),
         nullable ''last_error'' TEXT_T,
         defaulting Now (required ''scheduled_at'' TIMESTAMPTZ_T),
         nullable ''claimed_by'' UUID_T,
         nullable ''claimed_until'' TIMESTAMPTZ_T,
         defaulting Now (required ''created_at'' TIMESTAMPTZ_T),
         defaulting Now (required ''updated_at'' TIMESTAMPTZ_T),
         nullable ''idempotency_key'' (VARCHAR_T None),
         nullable ''idempotency_expires_at'' TIMESTAMPTZ_T,
         nullable ''trace_id'' (VARCHAR_T None),
         nullable ''checkpoint'' JSONB_T,
         defaulting Now (nullable ''suspended_at'' TIMESTAMPTZ_T),
         nullable ''signal_payload'' JSONB_T,
         nullable ''region'' (VARCHAR_T None)],
      tb_primary = ''id'',
      tb_checks =
        [(''tasks_kind_nonempty_check'', LengthPositive ''kind''),
         (''tasks_claim_fields_check'', NullTogether ''claimed_by'' ''claimed_until''),
         (''tasks_status_check'', InList ''status''
            [''pending'', ''running'', ''completed'', ''failed'', ''cancelled'', ''suspended''])],
      tb_references = []\<rparr>"

definition audit_table :: table_def where
  "audit_table =
     \<lparr>tb_columns =
        [defaulting Generated (required ''id'' BIGSERIAL_T),
         required ''task_id'' UUID_T,
         nullable ''from_status'' TEXT_T,
         required ''to_status'' TEXT_T,
         defaulting Now (required ''timestamp'' TIMESTAMPTZ_T),
         nullable ''worker_id'' UUID_T,
         nullable ''trace_id'' (VARCHAR_T (Some 255)),
         nullable ''metadata'' JSONB_T,
         nullable ''region'' (VARCHAR_T None)],
      tb_primary = ''id'', tb_checks = [],
      tb_references = [(''task_id'', ''tasks'', ''id'')]\<rparr>"

definition schema_after :: "nat \<Rightarrow> schema" where
  "schema_after n = (case alter_all (concat (take n migrations)) empty_schema of
      Inr s \<Rightarrow> s | Inl _ \<Rightarrow> empty_schema)"

definition migrated :: schema where
  "migrated = schema_after 12"

lemma migrations_succeed: "alter_all (concat migrations) empty_schema = Inr migrated"
  by code_simp

lemma migrated_tables: "sc_tables migrated = [(''tasks'', tasks_table), (''task_audit_log'', audit_table)]"
  by code_simp

lemma migrated_unique:
  "filter ix_unique (sc_indexes migrated) =
     [\<lparr>ix_name = ''idx_tasks_idempotency'', ix_table = ''tasks'', ix_unique = True,
       ix_columns = [''queue'', ''idempotency_key''],
       ix_where = Some (Both (NotNull ''idempotency_key'') (NotInList ''status'' terminal_statuses))\<rparr>]"
  by code_simp

lemma migrated_routines: "sc_routines migrated = [(''audit_log_immutable'', RaiseAppendOnly)]"
  by code_simp

lemma migrated_triggers:
  "sc_triggers migrated = [\<lparr>tg_name = ''trg_audit_log_immutable'', tg_table = ''task_audit_log'',
     tg_changes = [Updating, Deleting], tg_routine = ''audit_log_immutable''\<rparr>]"
  by code_simp

section \<open>What the schema admits\<close>

text \<open>The ranges of the numeric columns and the length of \<open>task_audit_log.trace_id\<close>.\<close>

definition row_typed :: "task_row \<Rightarrow> bool" where
  "row_typed r \<longleftrightarrow> i16_range (row_priority r) \<and> i32_range (row_attempts r) \<and> i32_range (row_max_attempts r)"

definition audit_typed :: "audit_row \<Rightarrow> bool" where
  "audit_typed a \<longleftrightarrow> i64_range (aud_id a) \<and> pred_option (\<lambda>t. length (chars t) \<le> 255) (aud_trace_id a)"

lemma opt_null [simp]: "(\<And>v. f v \<noteq> CNull) \<Longrightarrow> opt f x = CNull \<longleftrightarrow> x = None"
  by (cases x) simp_all

lemma opt_cases [simp]:
  "(case opt CText x of CNull \<Rightarrow> True | CText s \<Rightarrow> P s | _ \<Rightarrow> False) \<longleftrightarrow> pred_option P x"
  "(case opt CJson y of CNull \<Rightarrow> True | CJson s \<Rightarrow> True | _ \<Rightarrow> False)"
  "(case opt CUuid z of CNull \<Rightarrow> True | CUuid s \<Rightarrow> True | _ \<Rightarrow> False)"
  "(case opt CTime t of CNull \<Rightarrow> True | CTime s \<Rightarrow> True | _ \<Rightarrow> False)"
  by (simp_all add: opt_def split: option.split)

lemma pred_option_True [simp]: "pred_option (\<lambda>_. True) x"
  by (cases x) simp_all

lemma task_columns_ok: "list_all (column_ok (task_cells r)) (tb_columns tasks_table) \<longleftrightarrow> row_typed r"
  by (simp add: tasks_table_def column_ok_def defaulting_def required_def nullable_def row_typed_def)

lemma audit_columns_ok: "list_all (column_ok (audit_cells a)) (tb_columns audit_table) \<longleftrightarrow> audit_typed a"
  by (simp add: audit_table_def column_ok_def defaulting_def required_def nullable_def audit_typed_def)

lemma task_checks_ok:
  "list_all (\<lambda>(_, p). eval p (task_cells r) \<noteq> Some False) (tb_checks tasks_table) \<longleftrightarrow> row_check r = None"
  by (auto simp: tasks_table_def row_check_def status_strings_def)

lemma tasks_references: "tb_references tasks_table = []"
  and audit_constraints: "tb_checks audit_table = []" "tb_references audit_table = [(''task_id'', ''tasks'', ''id'')]"
  by (simp_all add: tasks_table_def audit_table_def)

lemma map_filter_map_option:
  "(\<And>x. f (g x) = map_option h (k x)) \<Longrightarrow> List.map_filter f (map g xs) = map h (List.map_filter k xs)"
  by (induction xs) (auto simp: List.map_filter_def)

lemma unique_index_ok:
  assumes "ix \<in> set (sc_indexes migrated)"
  shows "ix_table ix = ''tasks'' \<and> unique_ok ix (map task_cells rs) \<longleftrightarrow>
    ix_table ix = ''tasks'' \<and> (ix_unique ix \<longrightarrow> distinct (idem_slots rs))"
proof (cases "ix_unique ix")
  case True
  with assms have "ix \<in> set (filter ix_unique (sc_indexes migrated))" by simp
  then have ix: "ix_columns ix = [''queue'', ''idempotency_key'']"
    "ix_where ix = Some (Both (NotNull ''idempotency_key'') (NotInList ''status'' terminal_statuses))"
    unfolding migrated_unique by simp_all
  let ?h = "\<lambda>(q, k). [CText q, CText k]"
  have "index_key ix (task_cells r) = map_option ?h (idem_slot r)" for r
    by (cases "row_idempotency_key r") (auto simp: ix idem_slot_def terminal_statuses_def terminal_str_def)
  then have "List.map_filter (index_key ix) (map task_cells rs) = map ?h (idem_slots rs)"
    unfolding idem_slots_def by (simp only: map_filter_map_option [where k = idem_slot and h = ?h])
  then show ?thesis using True by (auto simp: unique_ok_def distinct_map intro: inj_onI)
qed (simp add: unique_ok_def)

lemma indexes_ok:
  "list_all (\<lambda>ix. ix_table ix = ''tasks'' \<longrightarrow> unique_ok ix (map task_cells rs)) (sc_indexes migrated)
     \<longleftrightarrow> distinct (idem_slots rs)"
  "list_all (\<lambda>ix. ix_table ix = ''task_audit_log'' \<longrightarrow> unique_ok ix rows) (sc_indexes migrated)"
proof -
  have u: "ix \<in> set (sc_indexes migrated) \<and> ix_unique ix \<longleftrightarrow> ix \<in> set (filter ix_unique (sc_indexes migrated))" for ix
    by simp
  then have "ix \<in> set (sc_indexes migrated) \<and> ix_unique ix \<Longrightarrow> ix_table ix = ''tasks''" for ix
    unfolding migrated_unique by simp
  moreover have "\<exists>ix \<in> set (sc_indexes migrated). ix_unique ix"
    using u unfolding migrated_unique by auto
  ultimately show "list_all (\<lambda>ix. ix_table ix = ''tasks'' \<longrightarrow> unique_ok ix (map task_cells rs)) (sc_indexes migrated)
     \<longleftrightarrow> distinct (idem_slots rs)"
    "list_all (\<lambda>ix. ix_table ix = ''task_audit_log'' \<longrightarrow> unique_ok ix rows) (sc_indexes migrated)"
    using unique_index_ok [of _ rs] by (fastforce simp: list_all_iff unique_ok_def)+
qed

lemma migrated_fired: "fired migrated t ch =
    (if t = ''task_audit_log'' \<and> ch \<noteq> Inserting then [RaiseAppendOnly] else [])"
  by (cases ch) (auto simp: fired_def migrated_triggers migrated_routines List.map_filter_def)

lemma filter_none: "filter p xs = [] \<Longrightarrow> map (\<lambda>x. if p x then f x else x) xs = xs"
  "filter p xs = [] \<Longrightarrow> filter (\<lambda>x. \<not> p x) xs = xs"
  by (induction xs) (auto split: if_splits)

lemma final_admits:
  "admits migrated (contents_of d) \<longleftrightarrow>
     table_ok (db_tasks d) \<and> list_all row_typed (db_tasks d) \<and> distinct (map aud_id (db_audit d))
     \<and> list_all (\<lambda>a. audit_typed a \<and> aud_task_id a \<in> set (map row_id (db_tasks d))) (db_audit d)"
proof -
  have "table_admits (contents_of d) (sc_indexes migrated) ''tasks'' tasks_table \<longleftrightarrow>
      table_ok (db_tasks d) \<and> list_all row_typed (db_tasks d)"
  proof -
    have keys: "distinct (map (\<lambda>r. r (tb_primary tasks_table)) (map task_cells (db_tasks d)))
        \<longleftrightarrow> distinct (map row_id (db_tasks d))"
      by (simp add: tasks_table_def comp_def distinct_map inj_on_def)
    have "table_admits (contents_of d) (sc_indexes migrated) ''tasks'' tasks_table \<longleftrightarrow>
        list_all (\<lambda>r. row_typed r \<and> row_check r = None) (db_tasks d)
        \<and> distinct (map row_id (db_tasks d)) \<and> distinct (idem_slots (db_tasks d))"
      unfolding table_admits_def indexes_ok(1) [symmetric] keys [symmetric]
      by (simp add: contents_of_def list.pred_map comp_def task_columns_ok task_checks_ok tasks_references)
    then show ?thesis by (auto simp: table_ok_def list_all_iff)
  qed
  moreover have "table_admits (contents_of d) (sc_indexes migrated) ''task_audit_log'' audit_table \<longleftrightarrow>
      distinct (map aud_id (db_audit d))
      \<and> list_all (\<lambda>a. audit_typed a \<and> aud_task_id a \<in> set (map row_id (db_tasks d))) (db_audit d)"
  proof -
    have keys: "distinct (map (\<lambda>r. r (tb_primary audit_table)) (map audit_cells (db_audit d)))
        \<longleftrightarrow> distinct (map aud_id (db_audit d))"
      by (simp add: audit_table_def comp_def distinct_map inj_on_def)
    have tasks: "CUuid i \<in> (\<lambda>r. CUuid (row_id r)) ` set (db_tasks d) \<longleftrightarrow> i \<in> row_id ` set (db_tasks d)" for i
      by auto
    show ?thesis
      unfolding table_admits_def keys [symmetric]
      by (simp add: contents_of_def list.pred_map comp_def audit_columns_ok audit_constraints indexes_ok(2)
          image_image tasks conj_commute)
  qed
  ultimately show ?thesis by (simp add: admits_def migrated_tables)
qed

section \<open>Properties\<close>

text \<open>C14: The migrations of an empty database succeed, and the schema they leave is the one of the
  model: its tasks table has the columns the repository selects, and what it admits is exactly what
  \<open>table_ok\<close> admits for the tasks, with the ranges of the numeric columns, and unique, well-typed
  audit rows that refer to existing tasks.\<close>

theorem migrations_enforce_model:
  assumes "map snd ms = migrations"
  shows "migrate ms (empty_schema, \<lambda>_. []) = (None, migrated, \<lambda>_. [])
    \<and> map_option column_names (map_of (sc_tables migrated) ''tasks'') = Some TASK_COLUMNS
    \<and> (admits migrated (contents_of d) \<longleftrightarrow>
         table_ok (db_tasks d) \<and> list_all row_typed (db_tasks d) \<and> distinct (map aud_id (db_audit d))
         \<and> list_all (\<lambda>a. audit_typed a \<and> aud_task_id a \<in> set (map row_id (db_tasks d))) (db_audit d))"
proof (intro conjI)
  show "migrate ms (empty_schema, \<lambda>_. []) = (None, migrated, \<lambda>_. [])"
    by (rule migrate_empty) (simp add: assms migrations_succeed)
  show "map_option column_names (map_of (sc_tables migrated) ''tasks'') = Some TASK_COLUMNS"
    by (simp add: migrated_tables tasks_table_def column_names_def defaulting_def required_def
        nullable_def TASK_COLUMNS_def)
  show "admits migrated (contents_of d) \<longleftrightarrow>
      table_ok (db_tasks d) \<and> list_all row_typed (db_tasks d) \<and> distinct (map aud_id (db_audit d))
      \<and> list_all (\<lambda>a. audit_typed a \<and> aud_task_id a \<in> set (map row_id (db_tasks d))) (db_audit d)"
    by (rule final_admits)
qed

theorem migrations_enforce_model_witness:
  "migrate (map (Pair 0) migrations) (empty_schema, \<lambda>_. []) = (None, migrated, \<lambda>_. [])
   \<and> admits migrated (contents_of submitted_db)"
proof -
  have m: "map snd (map (Pair (0 :: time)) migrations) = migrations" by (simp add: comp_def)
  have "table_ok (db_tasks submitted_db)"
    using reachable_inv [OF reachable_submitted] by (simp add: db_inv_def)
  moreover have "list_all row_typed (db_tasks submitted_db)"
    by (simp add: submitted_tasks sample_row_def insert_values_def sample_def row_typed_def
        i16_range_def i32_range_def)
  moreover have "distinct (map aud_id (db_audit submitted_db))"
    "list_all (\<lambda>a. audit_typed a \<and> aud_task_id a \<in> set (map row_id (db_tasks submitted_db)))
      (db_audit submitted_db)"
    by (simp_all add: submitted_db_def submit_ops_def run_statements run_operations sample_def mail_def
        audit_typed_def i64_range_def)
  ultimately show ?thesis
    using migrations_enforce_model [OF m, of submitted_db] by simp
qed

text \<open>With the ranges of the columns, the final schema admits every database the repository reaches.\<close>

lemma reachable_admitted:
  assumes "reachable al d" and "list_all row_typed (db_tasks d)" and "list_all audit_typed (db_audit d)"
  shows "admits migrated (contents_of d)"
proof -
  have inv: "db_inv d" using assms(1) by (rule reachable_inv)
  then have "aud_task_id a \<in> set (map row_id (db_tasks d))" if "a \<in> set (db_audit d)" for a
    using that row_at_Some [of d "aud_task_id a"] by (force simp: db_inv_def)
  moreover have "distinct (map aud_id (db_audit d))"
    using inv by (simp add: db_inv_def strict_sorted_iff)
  ultimately show ?thesis
    using inv assms(2,3) unfolding final_admits by (auto simp: db_inv_def list_all_iff)
qed

text \<open>The audit log is append-only for direct statements: no update or delete of rows, of whatever
  table, changes what it holds, for it is either refused or touches no audit row. \<open>TRUNCATE\<close> is the
  exception: it runs no row trigger.\<close>

theorem audit_log_append_only:
  "(case direct_update now serial migrated t p f c of
      Inl _ \<Rightarrow> True | Inr c' \<Rightarrow> c' ''task_audit_log'' = c ''task_audit_log'')
   \<and> (case direct_delete migrated t p c of
      Inl _ \<Rightarrow> True | Inr c' \<Rightarrow> c' ''task_audit_log'' = c ''task_audit_log'')
   \<and> truncate_table migrated ''task_audit_log'' c = Inr (c(''task_audit_log'' := []))"
  by (auto simp: direct_update_def direct_delete_def truncate_table_def migrated_fired Let_def settle_def
      filter_none migrated_tables tasks_table_def audit_table_def)

section \<open>Upgrading a database in use\<close>

text \<open>A database of the version before the columns of suspension: those columns have no value, and no
  task is suspended.\<close>

definition unsuspended :: "db \<Rightarrow> bool" where
  "unsuspended d \<longleftrightarrow> list_all (\<lambda>r. row_suspended_at r = None \<and> row_signal_payload r = None
     \<and> row_region r = None \<and> row_status r \<noteq> ''suspended'') (db_tasks d)
     \<and> list_all (\<lambda>a. aud_region a = None) (db_audit d)"

definition upgraded :: "time \<Rightarrow> db \<Rightarrow> db" where
  "upgraded now d = d\<lparr>db_tasks := map (\<lambda>r. r\<lparr>row_suspended_at := Some now\<rparr>) (db_tasks d)\<rparr>"

lemma task_cells_suspended:
  "task_cells (r\<lparr>row_suspended_at := x\<rparr>) = (task_cells r)(''suspended_at'' := opt CTime x)"
  by (rule ext) (simp add: task_cells_def TASK_COLUMNS_def)

lemma alter_last: "alter_all (add_suspend_columns @ add_region_column) (schema_after 10) = Inr migrated"
  by code_simp

lemma upgrade_contents:
  assumes "unsuspended d"
  shows "rewrite_all u add_region_column (rewrite_all now add_suspend_columns (contents_of d))
    = contents_of (upgraded now d)"
proof
  fix t
  have task: "((task_cells r)(''suspended_at'' := CTime now, ''signal_payload'' := CNull))(''region'' := CNull)
      = task_cells (r\<lparr>row_suspended_at := Some now\<rparr>)" if "r \<in> set (db_tasks d)" for r
  proof -
    have "row_signal_payload r = None" "row_region r = None"
      using that assms by (auto simp: unsuspended_def list_all_iff)
    then show ?thesis by (auto simp: task_cells_suspended fun_eq_iff)
  qed
  have audit: "(audit_cells a)(''region'' := CNull) = audit_cells a" if "a \<in> set (db_audit d)" for a
  proof -
    have "aud_region a = None" using that assms by (auto simp: unsuspended_def list_all_iff)
    then show ?thesis by (auto simp: fun_eq_iff)
  qed
  show "rewrite_all u add_region_column (rewrite_all now add_suspend_columns (contents_of d)) t
      = contents_of (upgraded now d) t"
    using task audit
    by (auto simp: add_region_column_def add_suspend_columns_def contents_of_def upgraded_def
        nullable_def defaulting_def index_on_def)
qed

lemma upgrade_accepted:
  assumes "table_ok (db_tasks d)"
  shows "accepts_all now add_suspend_columns (contents_of d)" and "accepts_all u add_region_column c"
proof -
  have "row_status r \<in> set status_strings" if "r \<in> set (db_tasks d)" for r
    using table_ok_row [OF assms that] by (auto simp: row_check_def split: if_splits)
  then show "accepts_all now add_suspend_columns (contents_of d)"
    by (auto simp: add_suspend_columns_def contents_of_def nullable_def defaulting_def list_all_iff
        status_strings_def)
  show "accepts_all u add_region_column c"
    by (simp add: add_region_column_def nullable_def index_on_def unique_ok_def)
qed

lemma upgraded_status: "status_of (upgraded now d) = status_of d"
proof
  fix j
  have "row_at (upgraded now d) j = map_option (\<lambda>r. r\<lparr>row_suspended_at := Some now\<rparr>) (row_at d j)"
    by (rule row_at_update) (simp_all add: upgraded_def)
  then show "status_of (upgraded now d) j = status_of d j"
    by (cases "row_at d j") (simp_all add: status_of_def)
qed

text \<open>The audit entry of a cancellation, in any database.\<close>

lemma cancel_audited:
  assumes "cancel e True i d = (Inr res, d2)" and "r \<in> set (db_tasks d)" and "cancellable (task_uuid i) r"
  obtains r' where "r' \<in> set (db_tasks d)" "cancellable (task_uuid i) r'"
    "trail j (db_audit d2) = trail j (db_audit d)
       @ (if j = task_uuid i then [(Some (cancel_origin r'), ''cancelled'')] else [])"
proof -
  from assms(1) obtain row d1 where st: "cancel_stmt e (task_uuid i) d = (Inr row, d1)"
    and au: "(case row of CancelHit r \<Rightarrow> andthen (insert_audit_row e True (row_id r)
         (Some (cancel_origin r)) ''cancelled'' None (row_trace_id r) None (row_region r)) (\<lambda>_. return row)
       | _ \<Rightarrow> return row) d1 = (Inr row, d2)"
    by (rule cancel_committed)
  from cancel_stmt_miss(2) [OF st] assms(2,3) obtain r1 where hit: "row = CancelHit r1"
    by (cases row) auto
  with st obtain r' where r': "r' \<in> set (db_tasks d)" "cancellable (task_uuid i) r'" "r1 = cancel_update e r'"
    and frame: "db_audit d1 = db_audit d"
    by (auto simp: cancel_stmt_def update_where_Inr split: prod.splits sum.splits option.splits
        dest!: first_row_in)
  from au hit obtain u where "insert_audit_row e True (row_id r1) (Some (cancel_origin r1)) ''cancelled''
      None (row_trace_id r1) None (row_region r1) d1 = (Inr u, d2)"
    by (auto simp: andthen_Inr_iff return_apply)
  then have "appends True [(row_id r1, Some (cancel_origin r1), ''cancelled'')] d1 d2"
    by (rule insert_audit_row_Inr)
  with r' frame show thesis
    by (intro that [OF r'(1,2)])
      (auto simp: appends_def trail_def cancellable_def cancel_update_def cancel_origin_def)
qed

text \<open>C15: An upgrade over the migrations of suspension gives every task there is a time of suspension,
  whatever its status, since the new column has a default. From then on a cancellation of such a
  pending task is audited as the cancellation of a suspended one.\<close>

theorem upgrade_mislabels_cancellation:
  assumes "unsuspended d" and "table_ok (db_tasks d)" and "status_of d (task_uuid i) = Some ''pending''"
    and "cancel e True i (upgraded now d) = (Inr res, d2)"
  shows "migrate [(now, add_suspend_columns), (u, add_region_column)] (schema_after 10, contents_of d)
      = (None, migrated, contents_of (upgraded now d))
    \<and> status_of (upgraded now d) (task_uuid i) = Some ''pending''
    \<and> trail (task_uuid i) (db_audit d2) = trail (task_uuid i) (db_audit d) @ [(Some ''suspended'', ''cancelled'')]"
proof (intro conjI)
  obtain s1 where s1: "alter_all add_suspend_columns (schema_after 10) = Inr s1"
    "alter_all add_region_column s1 = Inr migrated"
    using alter_last by (auto simp: alter_all_append and_then_Inr_iff)
  from exec_all_Inr [THEN iffD2, OF conjI, OF s1(1) conjI, OF upgrade_accepted(1) [OF assms(2)] refl]
    exec_all_Inr [THEN iffD2, OF conjI, OF s1(2) conjI, OF upgrade_accepted(2) [OF assms(2)] refl]
  show "migrate [(now, add_suspend_columns), (u, add_region_column)] (schema_after 10, contents_of d)
      = (None, migrated, contents_of (upgraded now d))"
    by (simp add: upgrade_contents [OF assms(1)])
  show "status_of (upgraded now d) (task_uuid i) = Some ''pending''"
    by (simp add: upgraded_status assms(3))
  obtain r0 where "row_at d (task_uuid i) = Some r0" "row_status r0 = ''pending''"
    using assms(3) by (auto simp: status_of_def)
  then have "r0\<lparr>row_suspended_at := Some now\<rparr> \<in> set (db_tasks (upgraded now d))"
    and "cancellable (task_uuid i) (r0\<lparr>row_suspended_at := Some now\<rparr>)"
    using row_at_Some [of d] by (auto simp: upgraded_def cancellable_def)
  from cancel_audited [OF assms(4) this, of "task_uuid i"] obtain r where
    "r \<in> set (db_tasks (upgraded now d))"
    "trail (task_uuid i) (db_audit d2) = trail (task_uuid i) (db_audit (upgraded now d))
      @ [(Some (cancel_origin r), ''cancelled'')]" by (simp only: if_True simp_thms) blast
  then show "trail (task_uuid i) (db_audit d2) = trail (task_uuid i) (db_audit d) @ [(Some ''suspended'', ''cancelled'')]"
    by (auto simp: upgraded_def cancel_origin_def)
qed

lemma cancel_upgraded_sample:
  "\<exists>res d2. cancel (quiet_env 20) True (TaskId 1) (upgraded 10 submitted_db) = (Inr res, d2)"
  by (simp add: upgraded_def submitted_db_def submit_ops_def run_statements run_operations run_results
      sample_def mail_def)

theorem upgrade_mislabels_cancellation_witness:
  "\<exists>res d2. cancel (quiet_env 20) True (TaskId 1) (upgraded 10 submitted_db) = (Inr res, d2)
    \<and> trail 1 (db_audit d2) = [(None, ''pending''), (Some ''suspended'', ''cancelled'')]"
proof -
  obtain res d2 where run: "cancel (quiet_env 20) True (TaskId 1) (upgraded 10 submitted_db) = (Inr res, d2)"
    using cancel_upgraded_sample by blast
  have audit: "trail 1 (db_audit submitted_db) = [(None, ''pending'')]"
    "list_all (\<lambda>a. aud_region a = None) (db_audit submitted_db)"
    by (simp_all add: submitted_db_def submit_ops_def run_statements run_operations sample_def mail_def
        trail_def shape_def)
  have "unsuspended submitted_db"
    using audit(2) by (simp add: unsuspended_def submitted_tasks sample_row_def insert_values_def sample_def)
  moreover have "table_ok (db_tasks submitted_db)"
    using reachable_inv [OF reachable_submitted] by (simp add: db_inv_def)
  moreover have "status_of submitted_db (task_uuid (TaskId 1)) = Some ''pending''"
    by (simp add: status_of_def row_at_def submitted_tasks sample_row_def insert_values_def sample_def)
  ultimately have "trail (task_uuid (TaskId 1)) (db_audit d2)
      = trail (task_uuid (TaskId 1)) (db_audit submitted_db) @ [(Some ''suspended'', ''cancelled'')]"
    using upgrade_mislabels_cancellation [OF _ _ _ run] by blast
  with run audit(1) show ?thesis by auto
qed

end
