(* ===== verification/Newtypes.thy ===== *)
theory Newtypes
  imports Domain_Model
begin

text \<open>
  The conversions of the domain's newtypes (\<open>crates/domain/src/model/\<close>): order, \<open>Display\<close>,
  comparison with text, and the form \<open>serde\<close> gives them, which goes through the same checks as
  the constructors. What a JSON value is not of the expected type is \<open>serde\<close>'s own error.
\<close>

section \<open>Order\<close>

text \<open>The derived \<open>PartialOrd\<close> and \<open>Ord\<close> compare the wrapped number.\<close>

instantiation attempt_count :: linorder
begin

definition less_eq_attempt_count :: "attempt_count \<Rightarrow> attempt_count \<Rightarrow> bool" where
  "less_eq_attempt_count a b \<longleftrightarrow> attempt_get a \<le> attempt_get b"

definition less_attempt_count :: "attempt_count \<Rightarrow> attempt_count \<Rightarrow> bool" where
  "less_attempt_count a b \<longleftrightarrow> attempt_get a < attempt_get b"

instance
  by standard (auto simp: less_eq_attempt_count_def less_attempt_count_def intro: attempt_count.expand)

end

instantiation max_attempts :: linorder
begin

definition less_eq_max_attempts :: "max_attempts \<Rightarrow> max_attempts \<Rightarrow> bool" where
  "less_eq_max_attempts a b \<longleftrightarrow> max_get a \<le> max_get b"

definition less_max_attempts :: "max_attempts \<Rightarrow> max_attempts \<Rightarrow> bool" where
  "less_max_attempts a b \<longleftrightarrow> max_get a < max_get b"

instance
  by standard (auto simp: less_eq_max_attempts_def less_max_attempts_def intro: max_attempts.expand)

end

instantiation priority :: linorder
begin

definition less_eq_priority :: "priority \<Rightarrow> priority \<Rightarrow> bool" where
  "less_eq_priority a b \<longleftrightarrow> priority_get a \<le> priority_get b"

definition less_priority :: "priority \<Rightarrow> priority \<Rightarrow> bool" where
  "less_priority a b \<longleftrightarrow> priority_get a < priority_get b"

instance
  by standard (auto simp: less_eq_priority_def less_priority_def intro: priority.expand)

end

section \<open>Constructors and text\<close>

definition attempt_default :: attempt_count where
  "attempt_default = attempt_zero"



definition display_attempt :: "attempt_count \<Rightarrow> string" where
  "display_attempt a = dec_int (attempt_get a)"

definition max_default :: max_attempts where
  "max_default = max_attempts_default"



definition display_max :: "max_attempts \<Rightarrow> string" where
  "display_max m = dec_int (max_get m)"

definition priority_new :: "int \<Rightarrow> priority" where
  "priority_new v = Priority v"

definition priority_into :: "priority \<Rightarrow> int" where
  "priority_into p = priority_get p"

definition display_priority :: "priority \<Rightarrow> string" where
  "display_priority p = dec_int (priority_get p)"



definition display_kind :: "task_kind \<Rightarrow> string" where
  "display_kind k = kind_str k"

definition kind_eq_str :: "task_kind \<Rightarrow> string \<Rightarrow> bool" where
  "kind_eq_str k other \<longleftrightarrow> kind_str k = other"


definition display_queue :: "queue_name \<Rightarrow> string" where
  "display_queue q = queue_str q"

definition display_task_id :: "formats \<Rightarrow> task_id \<Rightarrow> string" where
  "display_task_id f i = fmt_uuid f (task_uuid i)"

definition display_worker_id :: "formats \<Rightarrow> worker_id \<Rightarrow> string" where
  "display_worker_id f w = fmt_uuid f (worker_uuid w)"

section \<open>Serialization\<close>



















end
