(* ===== verification/System.thy ===== *)
theory System
  imports Http_Props Cli_Props
begin

text \<open>
  The system: the worker pool, the sweeper, the HTTP interface, submissions of the embedding
  program and other processes, interleaved step by step over one database. It refines the life
  cycle of the tasks, and with an audit log the entries of every task lead to its status.
\<close>

section \<open>A database that was audited throughout\<close>

definition audited_world :: "world \<Rightarrow> bool" where
  "audited_world w \<longleftrightarrow> world_ok w \<and> audited (w_db w)"

lemma in_world_audited:
  assumes "\<And>e. keeps True (f e)"
  shows "lawful_op audited_world world_status (in_world f)"
  unfolding lawful_op_def
proof (intro allI impI)
  fix w r w'
  assume ok: "audited_world w" and run: "in_world f w = (r, w')"
  have "lawful world_ok world_status w w'"
    using lawful_opD [OF in_world_lawful [OF assms] _ run] ok by (simp add: audited_world_def)
  moreover have "good True (w_db w) (w_db w')"
    using keepsD [OF assms, of "w_db w" "w_envs w 0"] ok run
    by (auto simp: in_world_def audited_world_def world_ok_def split: prod.splits)
  then have "audited (w_db w')" using ok by (auto simp: audited_world_def intro: audited_good)
  ultimately show "lawful audited_world world_status w w'" by (simp add: lawful_def audited_world_def)
qed

text \<open>The adapter with its audit log on also keeps the log complete: the laws of the port hold for
  the stronger invariant.\<close>

lemma audited_world_ok: "audited_world w \<Longrightarrow> world_ok w"
  by (simp add: audited_world_def)

lemma audited_repository: "repository (postgres_repository True neg sq) audited_world world_status"
  by (unfold_locales;
    (rule pg.claim_next_law [OF audited_world_ok] pg.claim_none_law [OF audited_world_ok]
      pg.complete_law [OF audited_world_ok] pg.fail_law [OF audited_world_ok]
      pg.suspend_law [OF audited_world_ok] pg.release_task_law [OF audited_world_ok]
      pg.recover_law [OF audited_world_ok] pg.expire_law [OF audited_world_ok]; assumption)?)
    (simp_all add: postgres_repository_def operation_keeps in_world_audited)

interpretation pga: readable_repository "postgres_repository True neg sq" audited_world world_status w_db
  for neg :: sqlx_error and sq :: "sqlx_error \<Rightarrow> string"
proof (rule readable_repository.intro [OF audited_repository])
  show "readable_repository_axioms (postgres_repository True neg sq) audited_world world_status w_db"
    by unfold_locales
      (simp_all add: pgr.find_reads pgr.list_queue_reads pgr.list_tasks_reads pgr.statistics_read
        pgr.workers_read pgr.audit_reads audited_world_def world_ok_def world_status_def fun_eq_iff)
qed

section \<open>The steps of the system\<close>

text \<open>The services of one process share an engine; what they say goes to one stream.\<close>

record ('s, 'tx) deployment =
  dp_lib :: lib
  dp_worker :: "'s worker_service"
  dp_sweeper :: "'s sweeper_service"
  dp_engine :: "('s, 'tx) engine"

inductive system_step ::
  "('s \<Rightarrow> 's \<Rightarrow> bool) \<Rightarrow> ('s, 'tx) deployment \<Rightarrow> 's pool \<Rightarrow> 's pool \<Rightarrow> bool" for others dp where
  pool: "pool_step others (dp_lib dp) (dp_worker dp) p p' \<Longrightarrow> system_step others dp p p'"
| sweep: "sweep_tick (dp_lib dp) (dp_sweeper dp) (pl_svc p) = (r, sv) \<Longrightarrow>
    system_step others dp p (p\<lparr>pl_svc := sv\<rparr>)"
| request: "respond (dp_lib dp) (dp_engine dp) am req (pl_svc p) = (r', sv) \<Longrightarrow>
    system_step others dp p (p\<lparr>pl_svc := sv\<rparr>)"
| submit: "engine_enqueue_raw (dp_engine dp) am queue kind payload s prio mx tr g (pl_svc p) = (r'', sv) \<Longrightarrow>
    system_step others dp p (p\<lparr>pl_svc := sv\<rparr>)"
| submit_keyed: "engine_enqueue_raw_idempotent (dp_engine dp) am queue kind payload s prio mx key tr g (pl_svc p)
      = (r''', sv) \<Longrightarrow> system_step others dp p (p\<lparr>pl_svc := sv\<rparr>)"

inductive system_run ::
  "('s \<Rightarrow> 's \<Rightarrow> bool) \<Rightarrow> ('s, 'tx) deployment \<Rightarrow> 's pool \<Rightarrow> 's pool \<Rightarrow> bool" for others dp where
  idle: "system_run others dp p p"
| more: "system_run others dp p q \<Longrightarrow> system_step others dp q r \<Longrightarrow> system_run others dp p r"

inductive_cases system_step_cases: "system_step others dp p p'"

lemma system_run_invariant:
  assumes "system_run others dp p q" and "P p"
    and "\<And>q r. P q \<Longrightarrow> system_step others dp q r \<Longrightarrow> P r"
  shows "P q"
  using assms(1,2) by (induction rule: system_run.induct) (auto intro: assms(3))

text \<open>Only the pool touches permits, dispatches and the counter.\<close>

lemma system_step_inv: "pool_inv (dp_worker dp) p \<Longrightarrow> system_step others dp p q \<Longrightarrow> pool_inv (dp_worker dp) q"
  by (erule system_step_cases) (auto intro: pool_step_inv)

context readable_repository begin

lemma system_step_lawful:
  assumes "wk_repo (dp_worker dp) = repo" and "sw_repo (dp_sweeper dp) = repo"
    and "en_repo (dp_engine dp) = repo" and "handlers_lawful ok status (wk_registry (dp_worker dp))"
    and "system_step (lawful ok status) dp p q"
  shows "pool_lawful ok status p q"
proof -
  have svc: "pool_lawful ok status p (p\<lparr>pl_svc := sv\<rparr>)"
    if "lawful_rel ok status (\<lambda>s. s) (sv_repo (pl_svc p)) (sv_repo sv)" for sv
    using that by (simp add: pool_lawful_def lawful_rel_def)
  show ?thesis
    using assms(5)
  proof (cases rule: system_step.cases)
    case pool
    then show ?thesis by (rule pool_step_lawful [OF assms(1,4)])
  next
    case (sweep r sv)
    then show ?thesis
      using insideD [OF sweep_tick_lawful [OF assms(2), unfolded lawful_service_def] sweep(2)]
      by (auto intro!: svc simp: lawful_rel_def)
  next
    case (request am req r sv)
    show ?thesis unfolding request(1) by (rule svc)
        (use insideD [OF request_lawful [OF assms(3)] request(2)] in \<open>simp add: backed_def\<close>)
  next
    case (submit am queue kind payload s prio mx tr g r sv)
    show ?thesis unfolding submit(1) by (rule svc)
        (use insideD [OF submissions_lawful(1) [OF assms(3)] submit(2)] in \<open>simp add: backed_def\<close>)
  next
    case (submit_keyed am queue kind payload s prio mx key tr g r sv)
    show ?thesis unfolding submit_keyed(1) by (rule svc)
        (use insideD [OF submissions_lawful(2) [OF assms(3)] submit_keyed(2)] in \<open>simp add: backed_def\<close>)
  qed
qed

lemma system_run_lawful:
  assumes "wk_repo (dp_worker dp) = repo" and "sw_repo (dp_sweeper dp) = repo"
    and "en_repo (dp_engine dp) = repo" and "handlers_lawful ok status (wk_registry (dp_worker dp))"
    and "system_run (lawful ok status) dp p q" and "ok (sv_repo (pl_svc p))"
  shows "lawful ok status (sv_repo (pl_svc p)) (sv_repo (pl_svc q))"
proof -
  have "pool_lawful ok status p q"
  proof (rule system_run_invariant [OF assms(5), where P = "pool_lawful ok status p"])
    show "pool_lawful ok status p p" by (rule pool_lawful_same) simp
    fix q r
    assume "pool_lawful ok status p q" and "system_step (lawful ok status) dp q r"
    with system_step_lawful [OF assms(1-4)] show "pool_lawful ok status p r"
      using transp_pool_lawful by (meson transpD)
  qed
  with assms(6) show ?thesis by (simp add: pool_lawful_def lawful_rel_def)
qed

end

end
