(* ===== verification/Spec2Isabelle.thy ===== *)
theory Spec2Isabelle
  imports Repo_Props Repo_Ops Task_Machine Service_Props Run_Props Telemetry_Props Serve_Props Schema_Props Newtypes Unit_Tests System
begin

text \<open>
  iron-defer is a durable background task engine: producers store tasks in a Postgres table,
  workers claim them under a lease and run the handler registered for their kind, a sweeper
  recovers what crashed workers left, and an HTTP interface and a command line submit and
  inspect tasks. This development models the Rust crates under \<open>src/crates/\<close> and the schema
  under \<open>src/migrations/\<close>, and proves what a task can rely on from its submission to its end.

  \<^bold>\<open>How the code is modelled.\<close> A struct is a record or a one-constructor datatype, an enum a
  datatype, a \<open>String\<close> its UTF-8 bytes. A fallible function returns \<open>error + value\<close>; the error
  type \<open>failure\<close> has a branch for panics, so a debug assertion or an \<open>expect\<close> is a branch of
  the model. Code that changes state is an action \<open>'s \<Rightarrow> (error + value) \<times> 's\<close>, composed with
  \<open>andthen\<close>, which is the question mark operator. What the code takes from outside (the clock, random
  numbers, fresh ids, whether rows are locked, where the database fails) is an argument: the
  record \<open>env\<close> for one database operation, \<open>ambient\<close> for one call of the engine, \<open>tick_input\<close>
  for one turn of the poll loop. Every statement of every transaction has a point at which the
  environment may make it fail, and so has the commit, before or after it took effect.

  \<^bold>\<open>The theories\<close>, from the bottom up:

  \<^item> \<open>Prelude\<close>: actions, results, UTF-8, Rust's \<open>Duration\<close>, and the relation \<open>inside\<close> by which
    an action is shown to stay within a relation on states.
  \<^item> \<open>Errors\<close>, \<open>Domain_Model\<close>: \<open>domain/src/error.rs\<close> and \<open>domain/src/model/\<close>: statuses,
    validated newtypes, the task record with its assertions, the task context.
  \<^item> \<open>Pg_Error\<close>, \<open>Pg_Row\<close>, \<open>Pg_Db\<close>, \<open>Repo_Write\<close>, \<open>Repo_Query\<close>:
    \<open>infrastructure/src/error.rs\<close> with the scrubbing of secrets, and
    \<open>postgres_task_repository.rs\<close>. A database (\<open>db\<close>) is the rows of \<open>tasks\<close> and
    \<open>task_audit_log\<close> with the check constraints and the partial unique index of the
    migrations; each SQL statement is a function on it, each repository method an action named
    as in the source.
  \<^item> \<open>Schema\<close>: \<open>migrations/*.sql\<close>: tables, checks, indexes and triggers as data, the statements of
    the twelve files, and what each does to the schema and to the rows that are already there.
  \<^item> \<open>Lifecycle\<close>, \<open>Repo_Frames\<close>, \<open>Repo_Contract\<close>, \<open>Repo_System\<close>, \<open>Repo_Outcomes\<close>: the abstract
    life cycle of a task, the invariant \<open>db_inv\<close>, and the contract \<open>good\<close> that every method
    keeps on every path, failing ones included: the invariant holds again, no task is lost or
    rewritten, and the audit rows it appended are a path of the life cycle. \<open>reachable\<close> are the
    databases any sequence of methods produces.
  \<^item> \<open>Task_Machine\<close>: an abstract machine with only the phase of a task (waiting, held under a
    lease, parked, ended) and its attempts, one step per operation, which the repository refines.
  \<^item> \<open>Newtypes\<close>: the conversions, order, text and JSON form of the validated newtypes.
  \<^item> \<open>Port\<close>, \<open>Lease\<close>, \<open>Reads\<close>: the trait \<open>TaskRepository\<close> is the record \<open>task_repository\<close> of
    operations; the locales \<open>repository\<close>, \<open>lease_repository\<close> and \<open>readable_repository\<close> state the
    laws the services use, and the Postgres adapter interprets them.
  \<^item> \<open>Config\<close>, \<open>Registry\<close>, \<open>Instruments\<close>, \<open>Observe\<close>, \<open>Scheduler\<close>, \<open>Dispatch\<close>, \<open>Worker\<close>,
    \<open>Sweeper\<close>: the crate \<open>application\<close>. What is logged, traced and counted is part of the state, so
    that properties can speak of it; the locale \<open>emission_policy\<close> carries any condition on what
    may be emitted from the log lines to the pool and the sweeper, and is interpreted for the
    privacy of payloads and for the declared instruments. The worker pool is a step relation (\<open>pool_step\<close>): a turn of the
    loop, the end or abort of a dispatch, or a step of someone else.
  \<^item> \<open>Engine\<close>, \<open>Builder\<close>, \<open>Engine_Run\<close>: \<open>api/src/lib.rs\<close>: submissions and their checks, the
    builder with the switch between logged and unlogged tables, start, drain and abort.
  \<^item> \<open>Http\<close>, \<open>Handlers\<close>, \<open>Router\<close>: \<open>api/src/http/\<close>: a request is an endpoint with what the
    extractors made of its parts; a response is a status and a typed body.
  \<^item> \<open>Cli\<close>, \<open>Binary\<close>: \<open>api/src/cli/\<close>, \<open>config.rs\<close>, \<open>main.rs\<close>: what a subcommand asks of the
    database, what it prints and its exit code; the layers of the configuration.
  \<^item> \<open>Telemetry\<close>, \<open>Serve\<close>: \<open>observability/\<close>, \<open>shutdown.rs\<close> and \<open>run_serve\<close> of \<open>main.rs\<close>: the
    instruments and gauges and the refresh of their counts, the installation of the subscriber and
    the providers, and a whole run of the server from its configuration to its exit, with the
    order of signals and the race of the shutdown against its time limit as inputs.
  \<^item> \<open>Unit_Tests\<close>: the pure functions of the model on the inputs of the unit tests of the crates.
  \<^item> \<open>System\<close> and this theory put the parts together.

  \<^bold>\<open>What is shown.\<close> For the repository (\<open>Repo_Props\<close>, \<open>Repo_Ops\<close>): complete audit trails, terminal
  states for ever, which task a claim takes, exclusiveness and progress of claims, the outcome
  of failure, recovery, cancellation, signals and keyed submissions; in \<open>Task_Machine\<close>, that every
  sequence of operations is a run of the machine and that a lease protects its task. For the schema
  (\<open>Schema_Props\<close>): that the migrations leave exactly the constraints of the model and admit
  what the repository reaches, that direct updates
  and deletes cannot touch the audit log, and what an upgrade does to the tasks of a database in use:
  it marks them as suspended before, so that \<open>reachable\<close> and \<open>db_inv\<close> speak of databases that were
  created with the present schema. For the services
  (\<open>Service_Props\<close>): capacity, privacy of payloads, truth of the logs, bounds of the backoff,
  release of late claims, isolation of the three calls of a sweep. For the engine
  (\<open>Engine_Props\<close>, \<open>Run_Props\<close>): what submissions check, round trips, clean stops and released
  leases. For the interfaces (\<open>Http_Props\<close>, \<open>Cli_Props\<close>): answers that tell the truth,
  well-formed errors, reads that change nothing, exit codes. For the observers
  (\<open>Telemetry_Props\<close>): measurements that fit their instruments, gauges that show the counts of the
  table, a refresh interval that is never zero. For the server (\<open>Serve_Props\<close>): how a run ends, that it
  refines the life cycle of the tasks, and what the exit leaves of the pool when it is in time and when it is not. Here: every interleaving
  of all of them refines the life cycle.

  \<^bold>\<open>Bounds and fuel.\<close> Recursion follows the data (lists of events, rows, bytes); where it does not
  it has a measure, and no function needs fuel. A run of the engine is a list of
  events of any length. Columns of \<open>smallint\<close>, \<open>integer\<close> and \<open>bigint\<close> are integers; the places
  where the code leaves their range are written out. The counter of active tasks is a
  32-bit word.

  \<^bold>\<open>Not modelled.\<close> What indexes do for speed, and the sort direction of their columns. The tables are read and written by one transaction at a time; rows held
  by others are the predicate \<open>e_locked\<close>. Serialization of request
  and response bodies, parsing of requests and arguments, merging of configuration files, time
  zones, UUIDs and random numbers are libraries, taken as arguments. What OpenTelemetry,
  Prometheus and tracing do with an instrument, an exporter or a log line is theirs; the model
  has what the code hands to them and the errors they may answer with. So are the sockets; the
  arrival of signals is an input of a run. The log lines that \<open>#[instrument(err)]\<close> adds on the way
  out of a failing call are not modelled, nor is how the lines of concurrent tasks interleave in
  the output: the pool has a log of its own.
\<close>

section \<open>The whole system\<close>

text \<open>One process on one audited database.\<close>

definition deployed :: "sqlx_error \<Rightarrow> (sqlx_error \<Rightarrow> string) \<Rightarrow> (world, 'tx) deployment \<Rightarrow> bool" where
  "deployed neg sq dp \<longleftrightarrow> wk_repo (dp_worker dp) = postgres_repository True neg sq
     \<and> sw_repo (dp_sweeper dp) = postgres_repository True neg sq
     \<and> en_repo (dp_engine dp) = postgres_repository True neg sq
     \<and> handlers_lawful audited_world world_status (wk_registry (dp_worker dp))"

text \<open>C1: The system refines the life cycle of its tasks: in every interleaving of the worker pool, the
  sweeper, HTTP requests, submissions and other audited processes, with failures anywhere, the
  database stays well-formed, every task moves along its life cycle, the audit entries of every task
  remain a path from its submission to its present status, and the permits of the pool add up.\<close>

theorem system_refines_lifecycle:
  assumes "deployed neg sq dp" and "system_run (lawful audited_world world_status) dp p q"
    and "audited_world (sv_repo (pl_svc p))" and "pool_inv (dp_worker dp) p"
  shows "world_ok (sv_repo (pl_svc q))
    \<and> (\<forall>i. moves (world_status (sv_repo (pl_svc p)) i) (world_status (sv_repo (pl_svc q)) i))
    \<and> (\<forall>u. path None (trail u (db_audit (w_db (sv_repo (pl_svc q))))) (status_of (w_db (sv_repo (pl_svc q))) u))
    \<and> pool_inv (dp_worker dp) q"
proof -
  have "lawful audited_world world_status (sv_repo (pl_svc p)) (sv_repo (pl_svc q))"
    using pga.system_run_lawful [OF _ _ _ _ assms(2,3)] assms(1) by (simp add: deployed_def)
  moreover have "pool_inv (dp_worker dp) q"
    by (rule system_run_invariant [where P = "pool_inv (dp_worker dp)", OF assms(2,4)])
      (rule system_step_inv)
  ultimately show ?thesis by (simp add: lawful_def audited_world_def audited_def)
qed

definition sample_deployment :: "(world, db) deployment" where
  "sample_deployment = \<lparr>dp_lib = sample_lib, dp_worker = sample_worker,
     dp_sweeper = sweeper_new postgres, dp_engine = sample_engine []\<rparr>"

lemma sample_deployed: "deployed PoolClosed (\<lambda>_. ''sqlx'') sample_deployment"
proof -
  have "handlers_lawful audited_world world_status [(''send'', ready_handler)]"
    by (simp add: handlers_lawful_def ready_handler_def registry_get_def lawful_refl)
  then show ?thesis
    by (simp add: deployed_def sample_deployment_def sample_worker_def sweeper_new_def sample_engine_def
        postgres_def)
qed

lemma delete_started:
  "\<exists>resp sv. respond sample_lib (sample_engine []) sample_ambient (ReqDeleteTask (Inr 1))
       (sample_svc submitted_db\<lparr>sv_obs := obs\<rparr>) = (Inr resp, sv)
     \<and> status_of (w_db (sv_repo sv)) 1 = Some ''cancelled''"
  by (simp add: run_http delete_task_def
      run_services run_statements run_operations run_results
      submitted_tasks sample_row_def insert_values_def sample_def mail_def status_of_def row_at_def)

theorem system_refines_lifecycle_witness:
  "\<exists>q. system_run (lawful audited_world world_status) sample_deployment
       (pool_new sample_worker (sample_svc submitted_db)) q
     \<and> status_of (w_db (sv_repo (pl_svc q))) 1 = Some ''cancelled''
     \<and> path None (trail 1 (db_audit (w_db (sv_repo (pl_svc q))))) (Some ''cancelled'')"
proof -
  let ?p = "pool_new sample_worker (sample_svc submitted_db)"
  let ?run = "system_run (lawful audited_world world_status) sample_deployment"
  obtain resp sv where del: "respond sample_lib (sample_engine []) sample_ambient (ReqDeleteTask (Inr 1))
      (pl_svc ?p) = (Inr resp, sv)" and st: "status_of (w_db (sv_repo sv)) 1 = Some ''cancelled''"
    by (simp add: pool_new_def) (use delete_started in blast)
  have run: "?run ?p (?p\<lparr>pl_svc := sv\<rparr>)"
    by (rule system_run.more [OF system_run.idle], rule system_step.request)
      (use del in \<open>simp add: sample_deployment_def\<close>)
  have start: "audited_world (sv_repo (pl_svc ?p))"
    using reachable_audited [OF reachable_submitted] world_ok_sample [OF reachable_submitted]
    by (simp add: audited_world_def pool_new_def sample_svc_def sample_world_def)
  have "pool_inv (dp_worker sample_deployment) ?p" by (simp add: sample_deployment_def pool_new_inv)
  from system_refines_lifecycle [OF sample_deployed run start this] st
  have "path None (trail 1 (db_audit (w_db (sv_repo sv)))) (Some ''cancelled'')" by (simp, metis)
  with run st show ?thesis by (intro exI [of _ "?p\<lparr>pl_svc := sv\<rparr>"]) simp
qed

end
